(* ===== verification/Go_Strings.thy ===== *)
theory Go_Strings
  imports Main "HOL-Library.Char_ord" "HOL-Library.List_Lexorder"
begin

text \<open>
  The parts of Go's standard library that the program uses on strings: \<open>strings\<close>,
  \<open>strconv\<close>, \<open>encoding/hex\<close> and the line scanner of \<open>bufio\<close>.  A Go string is a
  sequence of bytes, modelled as a list of characters (each \<^typ>\<open>char\<close> is one byte).

  White space is Unicode white space in UTF-8, as \<open>strings.TrimSpace\<close> and
  \<open>strings.Fields\<close> use it.  Case conversion is the ASCII one: \<open>strings.ToLower\<close>,
  \<open>strings.ToUpper\<close> and \<open>strings.EqualFold\<close> agree with it on ASCII text, which is
  what the program passes to them (MAC and PCI addresses, keywords of configuration
  files and of tool output).
\<close>

named_theorems go_simps \<open>characteristic equations of the string operations\<close>

section \<open>Bytes and case\<close>

definition byte :: "char \<Rightarrow> nat" where
  "byte c = of_char c"

definition lower_char :: "char \<Rightarrow> char" where
  "lower_char c = (if 65 \<le> byte c \<and> byte c \<le> 90 then char_of (byte c + 32) else c)"

definition upper_char :: "char \<Rightarrow> char" where
  "upper_char c = (if 97 \<le> byte c \<and> byte c \<le> 122 then char_of (byte c - 32) else c)"

definition ToLower :: "string \<Rightarrow> string" where
  "ToLower s = map lower_char s"

definition ToUpper :: "string \<Rightarrow> string" where
  "ToUpper s = map upper_char s"

definition EqualFold :: "string \<Rightarrow> string \<Rightarrow> bool" where
  "EqualFold a b \<longleftrightarrow> ToLower a = ToLower b"

lemma byte_less: "byte c < 256"
  by (simp add: byte_def)

lemma byte_char_of [simp]: "n < 256 \<Longrightarrow> byte (char_of n) = n"
  by (simp add: byte_def)

lemma char_of_byte [simp]: "char_of (byte c) = c"
  by (simp add: byte_def)

lemma lower_char_idem [simp]: "lower_char (lower_char c) = lower_char c"
  by (auto simp: lower_char_def)

lemma ToLower_idem [simp]: "ToLower (ToLower s) = ToLower s"
  by (simp add: ToLower_def)

lemma length_ToLower [simp]: "length (ToLower s) = length s"
  by (simp add: ToLower_def)

lemma ToLower_append [simp]: "ToLower (a @ b) = ToLower a @ ToLower b"
  by (simp add: ToLower_def)

lemma ToLower_Nil [simp]: "ToLower [] = []" "ToLower s = [] \<longleftrightarrow> s = []"
  by (simp_all add: ToLower_def)

section \<open>Prefixes, searching, splitting and joining\<close>

definition HasPrefix :: "string \<Rightarrow> string \<Rightarrow> bool" where
  "HasPrefix s p \<longleftrightarrow> take (length p) s = p"

definition HasSuffix :: "string \<Rightarrow> string \<Rightarrow> bool" where
  "HasSuffix s p \<longleftrightarrow> length p \<le> length s \<and> drop (length s - length p) s = p"

definition TrimSuffix :: "string \<Rightarrow> string \<Rightarrow> string" where
  "TrimSuffix s p = (if HasSuffix s p then take (length s - length p) s else s)"

definition TrimPrefix :: "string \<Rightarrow> string \<Rightarrow> string" where
  "TrimPrefix s p = (if HasPrefix s p then drop (length p) s else s)"

fun Contains :: "string \<Rightarrow> string \<Rightarrow> bool" where
  "Contains [] p = HasPrefix [] p"
| "Contains (c # s) p = (HasPrefix (c # s) p \<or> Contains s p)"

fun IndexByte :: "string \<Rightarrow> char \<Rightarrow> nat option" where
  "IndexByte [] c = None"
| "IndexByte (x # s) c = (if x = c then Some 0 else map_option Suc (IndexByte s c))"

fun LastIndexByte :: "string \<Rightarrow> char \<Rightarrow> nat option" where
  "LastIndexByte [] c = None"
| "LastIndexByte (x # s) c =
     (case LastIndexByte s c of
        Some i \<Rightarrow> Some (Suc i)
      | None \<Rightarrow> if x = c then Some 0 else None)"

fun Join :: "string list \<Rightarrow> string \<Rightarrow> string" where
  "Join [] sep = []"
| "Join [x] sep = x"
| "Join (x # y # xs) sep = x @ sep @ Join (y # xs) sep"

text \<open>\<open>strings.Split\<close> with a one-byte separator.\<close>

fun SplitByte :: "string \<Rightarrow> char \<Rightarrow> string list" where
  "SplitByte [] c = [[]]"
| "SplitByte (x # s) c =
     (if x = c then [] # SplitByte s c
      else (case SplitByte s c of [] \<Rightarrow> [[x]] | p # ps \<Rightarrow> (x # p) # ps))"

lemma HasPrefix_append [simp]: "HasPrefix (p @ s) p"
  by (simp add: HasPrefix_def)

lemma HasPrefix_Cons: "HasPrefix (c # s) [d] \<longleftrightarrow> c = d"
  by (simp add: HasPrefix_def)

lemma HasPrefix_single: "HasPrefix s [d] \<longleftrightarrow> (\<exists>t. s = d # t)"
  by (cases s) (auto simp: HasPrefix_def)

lemma HasSuffix_append [simp]: "HasSuffix (s @ p) p"
  by (simp add: HasSuffix_def)

lemma HasSuffix_snoc: "HasSuffix (s @ [c]) [d] \<longleftrightarrow> c = d"
  by (auto simp: HasSuffix_def)

lemma IndexByte_None [simp]: "IndexByte s c = None \<longleftrightarrow> c \<notin> set s"
  by (induction s) auto

lemma IndexByte_sep [go_simps]: "c \<notin> set s \<Longrightarrow> IndexByte (s @ c # t) c = Some (length s)"
  by (induction s) auto

lemma LastIndexByte_None [simp]: "LastIndexByte s c = None \<longleftrightarrow> c \<notin> set s"
  by (induction s) (auto split: option.splits)

lemma LastIndexByte_sep [go_simps]:
  "c \<notin> set t \<Longrightarrow> LastIndexByte (s @ c # t) c = Some (length s)"
  by (induction s) (auto split: option.splits)

lemma SplitByte_nonempty [simp]: "SplitByte s c \<noteq> []"
  by (induction s) (auto split: list.splits)

lemma SplitByte_no_sep: "c \<notin> set s \<Longrightarrow> SplitByte s c = [s]"
  by (induction s) auto

lemma SplitByte_sep: "c \<notin> set s \<Longrightarrow> SplitByte (s @ c # t) c = s # SplitByte t c"
  by (induction s) auto

lemma SplitByte_Join:
  assumes "xs \<noteq> []" and "\<forall>x \<in> set xs. c \<notin> set x"
  shows "SplitByte (Join xs [c]) c = xs"
  using assms by (induction xs "[c]" rule: Join.induct) (auto simp: SplitByte_no_sep SplitByte_sep)

section \<open>White space\<close>

text \<open>
  Length in bytes of the white-space rune a string starts with, or 0 when it starts with
  none: the ASCII blanks, U+0085, U+00A0, U+1680, U+2000 to U+200A, U+2028, U+2029,
  U+202F, U+205F and U+3000.
\<close>

definition ws3 :: "nat \<Rightarrow> nat \<Rightarrow> nat \<Rightarrow> bool" where
  "ws3 a b c \<longleftrightarrow>
     (a = 225 \<and> b = 154 \<and> c = 128) \<or>
     (a = 226 \<and> b = 128 \<and> (128 \<le> c \<and> c \<le> 138 \<or> c = 168 \<or> c = 169 \<or> c = 175)) \<or>
     (a = 226 \<and> b = 129 \<and> c = 159) \<or>
     (a = 227 \<and> b = 128 \<and> c = 128)"

fun ws_len :: "nat list \<Rightarrow> nat" where
  "ws_len [] = 0"
| "ws_len (a # s) =
     (if 9 \<le> a \<and> a \<le> 13 \<or> a = 32 then 1
      else (case s of
          [] \<Rightarrow> 0
        | b # t \<Rightarrow>
            if a = 194 \<and> (b = 133 \<or> b = 160) then 2
            else (case t of [] \<Rightarrow> 0 | c # _ \<Rightarrow> if ws3 a b c then 3 else 0)))"

text \<open>The same at the end of a string, which is passed reversed.\<close>

fun ws_len_rev :: "nat list \<Rightarrow> nat" where
  "ws_len_rev [] = 0"
| "ws_len_rev (a # s) =
     (if 9 \<le> a \<and> a \<le> 13 \<or> a = 32 then 1
      else (case s of
          [] \<Rightarrow> 0
        | b # t \<Rightarrow>
            if b = 194 \<and> (a = 133 \<or> a = 160) then 2
            else (case t of [] \<Rightarrow> 0 | c # _ \<Rightarrow> if ws3 c b a then 3 else 0)))"

definition lead_ws :: "string \<Rightarrow> nat" where
  "lead_ws s = ws_len (map byte (take 3 s))"

definition trail_ws :: "string \<Rightarrow> nat" where
  "trail_ws s = ws_len_rev (map byte (take 3 (rev s)))"

function TrimLeft :: "string \<Rightarrow> string" where
  "TrimLeft s = (if s = [] \<or> lead_ws s = 0 then s else TrimLeft (drop (lead_ws s) s))"
  by pat_completeness auto
termination
  by (relation "measure length") auto

function TrimRight :: "string \<Rightarrow> string" where
  "TrimRight s =
     (if s = [] \<or> trail_ws s = 0 then s else TrimRight (take (length s - trail_ws s) s))"
  by pat_completeness auto
termination
  by (relation "measure length") auto

declare TrimLeft.simps [simp del] TrimRight.simps [simp del]

definition TrimSpace :: "string \<Rightarrow> string" where
  "TrimSpace s = TrimRight (TrimLeft s)"

text \<open>\<open>strings.Fields\<close>: \<open>cur\<close> is the field read so far, reversed.\<close>

definition flush :: "string \<Rightarrow> string list" where
  "flush cur = (if cur = [] then [] else [rev cur])"

function fields_from :: "string \<Rightarrow> string \<Rightarrow> string list" where
  "fields_from cur s =
     (case s of
        [] \<Rightarrow> flush cur
      | c # t \<Rightarrow>
          if lead_ws s = 0 then fields_from (c # cur) t
          else flush cur @ fields_from [] (drop (lead_ws s) s))"
  by pat_completeness auto
termination
  by (relation "measure (\<lambda>(cur, s). length s)") auto

declare fields_from.simps [simp del]

definition Fields :: "string \<Rightarrow> string list" where
  "Fields s = fields_from [] s"

definition trimmed :: "string \<Rightarrow> bool" where
  "trimmed s \<longleftrightarrow> lead_ws s = 0 \<and> trail_ws s = 0"

lemma lead_ws_Nil [simp]: "lead_ws [] = 0"
  by (simp add: lead_ws_def)

lemma trail_ws_Nil [simp]: "trail_ws [] = 0"
  by (simp add: trail_ws_def)

lemma TrimLeft_id: "lead_ws s = 0 \<Longrightarrow> TrimLeft s = s"
  by (subst TrimLeft.simps) simp

lemma TrimRight_id: "trail_ws s = 0 \<Longrightarrow> TrimRight s = s"
  by (subst TrimRight.simps) simp

lemma TrimSpace_id [go_simps]: "trimmed s \<Longrightarrow> TrimSpace s = s"
  by (simp add: TrimSpace_def trimmed_def TrimLeft_id TrimRight_id)

lemma TrimSpace_Nil [simp]: "TrimSpace [] = []"
  by (simp add: TrimSpace_def TrimLeft_id TrimRight_id)

text \<open>A first byte that begins no white-space rune, or a last byte that ends none.\<close>

definition solid :: "char \<Rightarrow> bool" where
  "solid c \<longleftrightarrow> 32 < byte c \<and> byte c < 128"

lemma lead_ws_solid [go_simps]: "solid c \<Longrightarrow> lead_ws (c # s) = 0"
  by (auto simp: lead_ws_def solid_def ws3_def split: list.splits)

lemma trail_ws_solid [go_simps]: "solid c \<Longrightarrow> trail_ws (s @ [c]) = 0"
  by (auto simp: trail_ws_def solid_def ws3_def split: list.splits)

lemma trimmed_solid:
  assumes "s \<noteq> []" and "solid (hd s)" and "solid (last s)"
  shows "trimmed s"
proof -
  have "lead_ws s = 0" using assms(1,2) by (cases s) (auto simp: go_simps)
  moreover have "trail_ws s = 0"
    using assms(1,3) trail_ws_solid [of "last s" "butlast s"] by simp
  ultimately show ?thesis by (simp add: trimmed_def)
qed

lemma lead_ws_le: "lead_ws s \<le> length s"
proof (cases s)
  case (Cons a t)
  then show ?thesis
    by (cases t; cases "tl t") (auto simp: lead_ws_def split: list.splits)
qed simp

lemma fields_from_solid:
  "lead_ws s = 0 \<Longrightarrow> s \<noteq> [] \<Longrightarrow> fields_from cur s = fields_from (hd s # cur) (tl s)"
  by (cases s; subst fields_from.simps) simp_all

text \<open>Words of solid characters: what \<open>Fields\<close> finds between blanks.\<close>

definition solid_word :: "string \<Rightarrow> bool" where
  "solid_word w \<longleftrightarrow> w \<noteq> [] \<and> (\<forall>c \<in> set w. solid c)"

lemma fields_from_word:
  "\<forall>c \<in> set w. solid c \<Longrightarrow> fields_from cur (w @ s) = fields_from (rev w @ cur) s"
proof (induction w arbitrary: cur)
  case (Cons c w)
  then have "lead_ws (c # w @ s) = 0" by (simp add: lead_ws_solid)
  then have "fields_from cur ((c # w) @ s) = fields_from (c # cur) (w @ s)"
    by (simp add: fields_from_solid)
  with Cons show ?case by simp
qed simp

lemma lead_ws_blank: "lead_ws (CHR '' '' # s) = 1"
  by (simp add: lead_ws_def byte_def)

lemma Fields_words: "\<forall>w \<in> set ws. solid_word w \<Longrightarrow> Fields (Join ws '' '') = ws"
proof (induction ws rule: induct_list012)
  case (2 w)
  then show ?case
    using fields_from_word [of w "[]" "[]"]
    by (simp add: Fields_def solid_word_def) (simp add: fields_from.simps flush_def)
next
  case (3 w v ws)
  then have w: "\<forall>c \<in> set w. solid c" "w \<noteq> []" by (auto simp: solid_word_def)
  have "Fields (Join (w # v # ws) '' '') = fields_from (rev w) (CHR '' '' # Join (v # ws) '' '')"
    using fields_from_word [OF w(1), of "[]"] by (simp add: Fields_def)
  also have "\<dots> = w # Fields (Join (v # ws) '' '')"
    using w(2) by (subst fields_from.simps) (simp add: lead_ws_blank flush_def Fields_def)
  finally show ?case using 3 by simp
qed (simp add: Fields_def fields_from.simps flush_def)

section \<open>Decimal and hexadecimal text\<close>

definition digit_char :: "nat \<Rightarrow> char" where
  "digit_char n = char_of (48 + n)"

fun show_nat :: "nat \<Rightarrow> string" where
  "show_nat n = (if n < 10 then [digit_char n] else show_nat (n div 10) @ [digit_char (n mod 10)])"

declare show_nat.simps [simp del]

text \<open>\<open>%d\<close> of \<open>fmt\<close> and \<open>strconv.Itoa\<close>.\<close>

definition show_int :: "int \<Rightarrow> string" where
  "show_int i = (if i < 0 then ''-'' @ show_nat (nat (- i)) else show_nat (nat i))"

definition is_digit :: "char \<Rightarrow> bool" where
  "is_digit c \<longleftrightarrow> 48 \<le> byte c \<and> byte c \<le> 57"

definition digit_val :: "char \<Rightarrow> nat" where
  "digit_val c = byte c - 48"

definition read_nat :: "string \<Rightarrow> nat option" where
  "read_nat s =
     (if s \<noteq> [] \<and> list_all is_digit s then Some (foldl (\<lambda>n c. 10 * n + digit_val c) 0 s) else None)"

text \<open>
  \<open>strconv.Atoi\<close>: the value and whether the error is nil.  A syntax error gives 0; a value
  out of the 64-bit range gives the nearest bound, with an error.
\<close>

definition max_int64 :: int where "max_int64 = 9223372036854775807"
definition min_int64 :: int where "min_int64 = - 9223372036854775808"

definition clamp_int64 :: "int \<Rightarrow> int \<times> bool" where
  "clamp_int64 i =
     (if i < min_int64 then (min_int64, False)
      else if max_int64 < i then (max_int64, False) else (i, True))"

definition Atoi :: "string \<Rightarrow> int \<times> bool" where
  "Atoi s =
     (case s of
        [] \<Rightarrow> (0, False)
      | c # t \<Rightarrow>
          let neg = (c = CHR ''-''); body = (if c = CHR ''-'' \<or> c = CHR ''+'' then t else s)
          in (case read_nat body of
                None \<Rightarrow> (0, False)
              | Some n \<Rightarrow> clamp_int64 (if neg then - int n else int n)))"

definition hex_char :: "nat \<Rightarrow> char" where
  "hex_char n = (if n < 10 then char_of (48 + n) else char_of (87 + n))"

definition hex_val :: "char \<Rightarrow> nat option" where
  "hex_val c =
     (if 48 \<le> byte c \<and> byte c \<le> 57 then Some (byte c - 48)
      else if 97 \<le> byte c \<and> byte c \<le> 102 then Some (byte c - 87)
      else if 65 \<le> byte c \<and> byte c \<le> 70 then Some (byte c - 55)
      else None)"

fun hex_encode :: "string \<Rightarrow> string" where
  "hex_encode [] = []"
| "hex_encode (c # s) = hex_char (byte c div 16) # hex_char (byte c mod 16) # hex_encode s"

text \<open>\<open>hex.DecodeString\<close>; \<open>None\<close> is its error (odd length or a byte that is no digit).\<close>

fun hex_decode :: "string \<Rightarrow> string option" where
  "hex_decode [] = Some []"
| "hex_decode [c] = None"
| "hex_decode (a # b # s) =
     (case (hex_val a, hex_val b, hex_decode s) of
        (Some x, Some y, Some r) \<Rightarrow> Some (char_of (16 * x + y) # r)
      | _ \<Rightarrow> None)"

lemma hex_val_char [simp]: "n < 16 \<Longrightarrow> hex_val (hex_char n) = Some n"
  by (auto simp: hex_val_def hex_char_def)

lemma hex_decode_encode [simp]: "hex_decode (hex_encode s) = Some s"
proof (induction s)
  case (Cons c s)
  have "byte c div 16 < 16" using byte_less [of c] by simp
  with Cons show ?case by simp
qed simp

lemma byte_hex_char: "n < 16 \<Longrightarrow> byte (hex_char n) \<in> {48..57} \<union> {97..102}"
  by (auto simp: hex_char_def)

lemma set_hex_encode: "c \<in> set (hex_encode s) \<Longrightarrow> byte c \<in> {48..57} \<union> {97..102}"
proof (induction s)
  case (Cons d s)
  have "byte d div 16 < 16" and "byte d mod 16 < 16" using byte_less [of d] by simp_all
  with byte_hex_char have
    "byte (hex_char (byte d div 16)) \<in> {48..57} \<union> {97..102}"
    "byte (hex_char (byte d mod 16)) \<in> {48..57} \<union> {97..102}" by blast+
  with Cons show ?case by (metis hex_encode.simps(2) set_ConsD)
qed simp

lemma is_digit_digit_char [simp]: "n < 10 \<Longrightarrow> is_digit (digit_char n)"
  by (simp add: is_digit_def digit_char_def)

lemma digit_val_digit_char [simp]: "n < 10 \<Longrightarrow> digit_val (digit_char n) = n"
  by (simp add: digit_val_def digit_char_def)

lemma show_nat_props:
  "show_nat n \<noteq> [] \<and> list_all is_digit (show_nat n) \<and>
   foldl (\<lambda>n c. 10 * n + digit_val c) 0 (show_nat n) = n"
proof (induction n rule: show_nat.induct)
  case (1 n)
  show ?case
  proof (cases "n < 10")
    case True
    then show ?thesis by (simp add: show_nat.simps [of n])
  next
    case False
    with "1" have IH: "show_nat (n div 10) \<noteq> [] \<and> list_all is_digit (show_nat (n div 10)) \<and>
      foldl (\<lambda>n c. 10 * n + digit_val c) 0 (show_nat (n div 10)) = n div 10" by simp
    from False have "show_nat n = show_nat (n div 10) @ [digit_char (n mod 10)]"
      by (simp add: show_nat.simps [of n])
    with IH show ?thesis by simp
  qed
qed

lemma read_show_nat [simp]: "read_nat (show_nat n) = Some n"
  using show_nat_props [of n] by (simp add: read_nat_def)

lemma show_nat_inj: "show_nat m = show_nat n \<Longrightarrow> m = n"
  by (metis read_show_nat option.inject)

lemma set_show_nat: "c \<in> set (show_nat n) \<Longrightarrow> is_digit c"
  using show_nat_props [of n] by (simp add: list_all_iff)

section \<open>The line scanner\<close>

text \<open>
  \<open>bufio.Scanner\<close> with \<open>ScanLines\<close>: lines without their newline and one trailing carriage
  return.  A line that does not fit in the buffer of \<open>mx\<close> bytes ends the scan; the program
  never asks the scanner for its error.
\<close>

definition newline :: char where "newline = char_of (10::nat)"
definition creturn :: char where "creturn = char_of (13::nat)"

lemma newline_eq: "newline = c \<longleftrightarrow> byte c = 10" "c = newline \<longleftrightarrow> byte c = 10"
  by (auto simp: newline_def) (metis char_of_byte)+

lemma creturn_eq: "creturn = c \<longleftrightarrow> byte c = 13" "c = creturn \<longleftrightarrow> byte c = 13"
  by (auto simp: creturn_def) (metis char_of_byte)+

lemmas char_eval = newline_eq creturn_eq byte_def

definition dropCR :: "string \<Rightarrow> string" where
  "dropCR s = (if s \<noteq> [] \<and> last s = creturn then butlast s else s)"

function scan_lines :: "nat \<Rightarrow> string \<Rightarrow> string list" where
  "scan_lines mx s =
     (if s = [] then []
      else let l = takeWhile (\<lambda>c. c \<noteq> newline) s
           in if mx \<le> length l then []
              else dropCR l # scan_lines mx (drop (Suc (length l)) s))"
  by pat_completeness auto
termination
  by (relation "measure (\<lambda>(mx, s). length s)") auto

declare scan_lines.simps [simp del]

definition MaxScanTokenSize :: nat where "MaxScanTokenSize = 65536"

lemma scan_lines_Nil [simp]: "scan_lines mx [] = []"
  by (subst scan_lines.simps) simp

lemma scan_lines_step [go_simps]:
  assumes "newline \<notin> set l" and "length l < mx"
  shows "scan_lines mx (l @ newline # s) = dropCR l # scan_lines mx s"
proof -
  have "takeWhile (\<lambda>c. c \<noteq> newline) (l @ newline # s) = l"
    using assms(1) by (simp add: takeWhile_append)
  with assms show ?thesis by (subst scan_lines.simps) (simp add: Let_def)
qed

fun unlines :: "string list \<Rightarrow> string" where
  "unlines [] = []"
| "unlines (l # ls) = l @ newline # unlines ls"

lemma unlines_append [simp]: "unlines (a @ b) = unlines a @ unlines b"
  by (induction a) auto

lemma scan_lines_unlines:
  assumes "\<forall>l \<in> set ls. newline \<notin> set l \<and> length l < mx \<and> dropCR l = l"
  shows "scan_lines mx (unlines ls) = ls"
  using assms by (induction ls) (auto simp: scan_lines_step)

end
