(* ===== verification/Wfm_Prelude.thy ===== *)
theory Wfm_Prelude
  imports Go_Strings "HOL-Library.Word"
begin

text \<open>
  Shared vocabulary of the development: errors as values, operations that pass a state
  and may fail, the loops the program runs over slices, and loops that poll a clock.
\<close>

named_theorems op_simps \<open>unfolding of the operation combinators\<close>

section \<open>Errors\<close>

text \<open>
  Go errors as the server sees them.  \<open>errors.Is\<close> only ever asks for the two sentinels of
  \<open>internal/wnet/backend.go\<close>, so an error is its sentinel (if it wraps one) and a text
  naming the object or the failure; the texts are context for a reader, not the exact
  bytes of the message.  \<open>OutOfFuel\<close> is no error of the program: it marks a polling loop
  that used up the fuel of the model, and theorems show that it does not occur.
\<close>

datatype werr =
    ErrNotFound string
  | ErrUnsupported string
  | ErrOther string
  | OutOfFuel

type_synonym 'a res = "werr + 'a"

text \<open>\<open>fmt.Errorf("prefix: %w", err)\<close> keeps the sentinel.\<close>

fun wrap_err :: "string \<Rightarrow> werr \<Rightarrow> werr" where
  "wrap_err p (ErrNotFound m) = ErrNotFound (p @ '': '' @ m)"
| "wrap_err p (ErrUnsupported m) = ErrUnsupported (p @ '': '' @ m)"
| "wrap_err p (ErrOther m) = ErrOther (p @ '': '' @ m)"
| "wrap_err p OutOfFuel = OutOfFuel"

section \<open>Operations\<close>

text \<open>An operation reads and writes a state and returns a value or an error.\<close>

type_synonym ('s, 'a) op = "'s \<Rightarrow> 'a res \<times> 's"

definition retE :: "'a \<Rightarrow> ('s, 'a) op" where
  "retE a s = (Inr a, s)"

definition failE :: "werr \<Rightarrow> ('s, 'a) op" where
  "failE e s = (Inl e, s)"

text \<open>\<open>x, err := m(); if err != nil { return err }\<close>, then the rest.\<close>

definition bindE :: "('s, 'a) op \<Rightarrow> ('a \<Rightarrow> ('s, 'b) op) \<Rightarrow> ('s, 'b) op" where
  "bindE m f s = (case m s of (Inl e, s') \<Rightarrow> (Inl e, s') | (Inr a, s') \<Rightarrow> f a s')"

text \<open>\<open>x, err := m()\<close> with the error handled by the rest.\<close>

definition tryE :: "('s, 'a) op \<Rightarrow> ('a res \<Rightarrow> ('s, 'b) op) \<Rightarrow> ('s, 'b) op" where
  "tryE m f s = (case m s of (r, s') \<Rightarrow> f r s')"

text \<open>The error of \<open>m\<close> replaced before it is returned.\<close>

definition mapErr :: "(werr \<Rightarrow> werr) \<Rightarrow> ('s, 'a) op \<Rightarrow> ('s, 'a) op" where
  "mapErr g m s = (case m s of (Inl e, s') \<Rightarrow> (Inl (g e), s') | (Inr a, s') \<Rightarrow> (Inr a, s'))"

lemmas op_defs = retE_def failE_def bindE_def tryE_def mapErr_def

declare op_defs [op_simps]

lemma bindE_retE [simp]: "bindE (retE a) f = f a"
  by (simp add: fun_eq_iff op_defs)

lemma bindE_failE [simp]: "bindE (failE e) f = failE e"
  by (simp add: fun_eq_iff op_defs)

lemma retE_apply [simp]: "retE a s = (Inr a, s)"
  by (simp add: retE_def)

lemma failE_apply [simp]: "failE e s = (Inl e, s)"
  by (simp add: failE_def)

lemma bindE_Inr [simp]: "m s = (Inr a, s') \<Longrightarrow> bindE m f s = f a s'"
  by (simp add: bindE_def)

lemma bindE_Inl [simp]: "m s = (Inl e, s') \<Longrightarrow> bindE m f s = (Inl e, s')"
  by (simp add: bindE_def)

lemma tryE_eq [simp]: "m s = (r, s') \<Longrightarrow> tryE m f s = f r s'"
  by (simp add: tryE_def)

lemma bindE_InrE:
  assumes "bindE m f s = (Inr b, s'')"
  obtains a s' where "m s = (Inr a, s')" "f a s' = (Inr b, s'')"
  using assms by (auto simp: bindE_def split: prod.splits sum.splits)

text \<open>An operation that never runs out of fuel, and how operations of that kind compose.\<close>

named_theorems returns_intros \<open>operations that end\<close>

definition returns :: "('s, 'a) op \<Rightarrow> bool" where
  "returns m \<longleftrightarrow> (\<forall>s. fst (m s) \<noteq> Inl OutOfFuel)"

lemma returnsI [intro?]: "(\<And>s s'. m s \<noteq> (Inl OutOfFuel, s')) \<Longrightarrow> returns m"
  unfolding returns_def by (metis prod.collapse)

lemma returns_ret [returns_intros]: "returns (retE a)"
  by (simp add: returns_def)

lemma returns_fail [returns_intros]: "e \<noteq> OutOfFuel \<Longrightarrow> returns (failE e)"
  by (simp add: returns_def)

lemma returns_bind [returns_intros]:
  assumes "returns m" "\<And>a. returns (f a)"
  shows "returns (bindE m f)"
proof
  fix s s'
  obtain r t where m: "m s = (r, t)" by force
  show "bindE m f s \<noteq> (Inl OutOfFuel, s')"
    using assms m unfolding returns_def by (cases r) (auto, (metis fst_conv)+)
qed

lemma returns_mapErr [returns_intros]:
  assumes "\<And>e. g e = OutOfFuel \<Longrightarrow> e = OutOfFuel" and "returns m"
  shows "returns (mapErr g m)"
  using assms unfolding returns_def mapErr_def by (auto split: prod.split sum.split) (metis fst_conv)

lemma returns_read [returns_intros]: "returns (\<lambda>s. (Inr (f s), s))"
  by (simp add: returns_def)

lemma returns_if [returns_intros]: "returns m \<Longrightarrow> returns n \<Longrightarrow> returns (if b then m else n)"
  by simp

lemma returns_bool [returns_intros]: "returns m \<Longrightarrow> returns n \<Longrightarrow> returns (case b of True \<Rightarrow> m | False \<Rightarrow> n)"
  by (cases b) simp_all

lemma returns_option [returns_intros]:
  "returns m \<Longrightarrow> (\<And>a. returns (f a)) \<Longrightarrow> returns (case x of None \<Rightarrow> m | Some a \<Rightarrow> f a)"
  by (cases x) simp_all

lemma returns_prod [returns_intros]: "(\<And>a b. returns (f a b)) \<Longrightarrow> returns (case p of (a, b) \<Rightarrow> f a b)"
  by (cases p) simp

lemma wrap_err_OutOfFuel [simp]: "wrap_err p e = OutOfFuel \<longleftrightarrow> e = OutOfFuel"
  by (cases e) simp_all

section \<open>Loops over slices\<close>

text \<open>\<open>for _, x := range xs { y, err := f(x); if err != nil { continue }; out = append(out, y) }\<close>\<close>

fun collectE :: "('a \<Rightarrow> ('s, 'b) op) \<Rightarrow> 'a list \<Rightarrow> ('s, 'b list) op" where
  "collectE f [] s = (Inr [], s)"
| "collectE f (x # xs) s =
     (case f x s of
        (Inl _, s') \<Rightarrow> collectE f xs s'
      | (Inr y, s') \<Rightarrow>
          (case collectE f xs s' of
             (Inr ys, s'') \<Rightarrow> (Inr (y # ys), s'')
           | (Inl e, s'') \<Rightarrow> (Inl e, s'')))"

text \<open>The same loop where \<open>f\<close> cannot fail but may skip an element.\<close>

fun filter_mapS :: "('a \<Rightarrow> 's \<Rightarrow> 'b option \<times> 's) \<Rightarrow> 'a list \<Rightarrow> 's \<Rightarrow> 'b list \<times> 's" where
  "filter_mapS f [] s = ([], s)"
| "filter_mapS f (x # xs) s =
     (case f x s of
        (r, s') \<Rightarrow>
          (case filter_mapS f xs s' of
             (ys, s'') \<Rightarrow> (case r of None \<Rightarrow> ys | Some y \<Rightarrow> y # ys, s'')))"

text \<open>\<open>for _, x := range xs { if err := f(x); err != nil { return err } }\<close>\<close>

fun eachE :: "('a \<Rightarrow> ('s, unit) op) \<Rightarrow> 'a list \<Rightarrow> ('s, unit) op" where
  "eachE f [] s = (Inr (), s)"
| "eachE f (x # xs) s = bindE (f x) (\<lambda>_. eachE f xs) s"

text \<open>\<open>for _, x := range xs { if p(x) { return x } }\<close> with a test that reads the state.\<close>

fun findS :: "('a \<Rightarrow> 's \<Rightarrow> bool \<times> 's) \<Rightarrow> 'a list \<Rightarrow> 's \<Rightarrow> 'a option \<times> 's" where
  "findS p [] s = (None, s)"
| "findS p (x # xs) s = (case p x s of (b, s') \<Rightarrow> if b then (Some x, s') else findS p xs s')"

lemma collectE_no_error: "\<exists>ys s'. collectE f xs s = (Inr ys, s')"
proof (induction xs arbitrary: s)
  case (Cons x xs)
  obtain r s1 where fx: "f x s = (r, s1)" by force
  obtain ys s2 where "collectE f xs s1 = (Inr ys, s2)" using Cons.IH by blast
  with fx show ?case by (cases r) auto
qed simp

lemma returns_each [returns_intros]:
  assumes "\<And>x. returns (f x)"
  shows "returns (eachE f xs)"
proof (induction xs)
  case (Cons x xs)
  have "eachE f (x # xs) = bindE (f x) (\<lambda>_. eachE f xs)" by (simp add: fun_eq_iff)
  with assms Cons.IH show ?case by (simp add: returns_bind)
qed (simp add: returns_def)

lemma findS_Some_set: "findS p xs s = (Some x, s') \<Longrightarrow> x \<in> set xs"
  by (induction xs arbitrary: s) (auto split: prod.splits if_splits)

section \<open>Polling loops\<close>

text \<open>
  \<open>for time.Now().Before(deadline) { body; select { case <-ctx.Done(): ...; case <-time.After(d): } }\<close>.
  \<open>body\<close> and the wait return \<open>Some r\<close> to leave the loop with \<open>r\<close>; \<open>r0\<close> is the value after
  the loop.  Fuel bounds the iterations of the model.
\<close>

fun poll ::
  "nat \<Rightarrow> ('s \<Rightarrow> int \<times> 's) \<Rightarrow> int \<Rightarrow> ('s \<Rightarrow> 'r option \<times> 's) \<Rightarrow> ('s \<Rightarrow> 'r option \<times> 's) \<Rightarrow> 'r
   \<Rightarrow> ('s, 'r) op" where
  "poll 0 now deadline body wait r0 s = (Inl OutOfFuel, s)"
| "poll (Suc n) now deadline body wait r0 s =
     (case now s of
        (t, s1) \<Rightarrow>
          if t < deadline then
            (case body s1 of
               (Some r, s2) \<Rightarrow> (Inr r, s2)
             | (None, s2) \<Rightarrow>
                 (case wait s2 of
                    (Some r, s3) \<Rightarrow> (Inr r, s3)
                  | (None, s3) \<Rightarrow> poll n now deadline body wait r0 s3))
          else (Inr r0, s1))"

text \<open>
  Enough fuel: with a clock \<open>clk\<close> that no step of the loop turns back and that a completed
  wait advances by at least one tick, the loop returns once the fuel exceeds the ticks left.
\<close>

lemma poll_enough_fuel:
  fixes clk :: "'s \<Rightarrow> int"
  assumes now: "\<And>s t s'. now s = (t, s') \<Longrightarrow> t = clk s \<and> clk s' = clk s"
    and body: "\<And>s r s'. body s = (r, s') \<Longrightarrow> clk s \<le> clk s'"
    and wait: "\<And>s s'. wait s = (None, s') \<Longrightarrow> clk s + d \<le> clk s'"
    and d: "0 < d"
    and fuel: "deadline - clk s \<le> d * (int fuel - 1)"
    and pos: "0 < fuel"
  shows "\<exists>r s'. poll fuel now deadline body wait r0 s = (Inr r, s')"
  using fuel pos
proof (induction fuel arbitrary: s)
  case (Suc n)
  obtain t s1 where n1: "now s = (t, s1)" by force
  obtain r s2 where b: "body s1 = (r, s2)" by force
  obtain q s3 where w: "wait s2 = (q, s3)" by force
  from now [OF n1] have t: "t = clk s" "clk s1 = clk s" by auto
  show ?case
  proof (cases "t < deadline \<and> r = None \<and> q = None")
    case True
    with wait w have "clk s2 + d \<le> clk s3" by simp
    with body [OF b] t have adv: "clk s + d \<le> clk s3" by simp
    from Suc.prems(1) True t have n0: "0 < n" by (cases n) auto
    from Suc.prems(1) adv have "deadline - clk s3 \<le> d * (int n - 1)" by (simp add: algebra_simps)
    from Suc.IH [OF this n0] show ?thesis using True n1 b w by simp
  next
    case False
    then show ?thesis using n1 b w by (auto split: option.splits)
  qed
qed simp

text \<open>What no step of the loop changes, the loop does not change.\<close>

lemma poll_keeps:
  assumes "\<And>s t s'. now s = (t, s') \<Longrightarrow> k s' = k s"
    and "\<And>s r s'. body s = (r, s') \<Longrightarrow> k s' = k s"
    and "\<And>s r s'. wait s = (r, s') \<Longrightarrow> k s' = k s"
  shows "poll n now deadline body wait r0 s = (r, s') \<Longrightarrow> k s' = k s"
proof (induction n arbitrary: s)
  case (Suc n)
  obtain t s1 where 1: "now s = (t, s1)" by force
  obtain b s2 where 2: "body s1 = (b, s2)" by force
  obtain w s3 where 3: "wait s2 = (w, s3)" by force
  from assms 1 2 3 have "k s1 = k s" "k s2 = k s" "k s3 = k s" by metis+
  with Suc 1 2 3 show ?case by (auto split: if_splits option.splits)
qed simp

section \<open>Machine integers\<close>

text \<open>\<open>int32(x)\<close> and 64-bit arithmetic, two's complement.\<close>

definition to_int32 :: "int \<Rightarrow> int" where
  "to_int32 x = signed_take_bit 31 x"

definition wrap64 :: "int \<Rightarrow> int" where
  "wrap64 x = signed_take_bit 63 x"

text \<open>Go's integer division truncates towards zero.\<close>

definition tdiv :: "int \<Rightarrow> int \<Rightarrow> int" where
  "tdiv a b = sgn a * sgn b * (\<bar>a\<bar> div \<bar>b\<bar>)"

lemma to_int32_small: "- 2147483648 \<le> x \<Longrightarrow> x < 2147483648 \<Longrightarrow> to_int32 x = x"
  unfolding to_int32_def by (rule signed_take_bit_int_eq_self) simp_all

end
