(* ===== verification/Wnet.thy ===== *)
theory Wnet
  imports Wfm_Prelude
begin

text \<open>
  \<open>internal/wnet/backend.go\<close>, \<open>id.go\<close> and \<open>localdev.go\<close>: the backend-neutral domain
  types, the \<open>Backend\<close> interface as a record of operations, the derived ids and the PCI
  address of a local interface.
\<close>

section \<open>Domain types\<close>

datatype KeyMgmt = KeyNone | KeyWPAPSK | KeySAE | KeyWPAEAP | KeyOWE

datatype SecurityKind = SecOpen | SecPSK | SecEnterprise

record Security =
  sec_Kind :: SecurityKind
  sec_Passphrase :: string

datatype IPMethod = IPUnspecified | IPAuto | IPManual | IPDisabled

record IPConfig =
  ip_Method :: IPMethod
  ip_Addresses :: "string list"
  ip_Gateway :: string
  ip_DNS :: "string list"
  ip_DNSSearch :: "string list"

record Interface =
  if_Name :: string
  if_Mac :: string
  if_Pci :: string
  if_Powered :: bool
  if_Up :: bool
  if_Desc :: string

record AP =
  ap_SSID :: string
  ap_BSSID :: string
  ap_Signal :: int
  ap_FreqMHz :: "32 word"
  ap_KeyMgmt :: "KeyMgmt list"

record Profile =
  pr_ID :: string
  pr_Name :: string
  pr_SSID :: string
  pr_Hidden :: bool
  pr_Autoconnect :: bool
  pr_Security :: Security
  pr_IPv4 :: IPConfig
  pr_IPv6 :: IPConfig

record ProfileSpec =
  ps_Name :: string
  ps_SSID :: string
  ps_Hidden :: bool
  ps_Autoconnect :: bool
  ps_Security :: Security
  ps_IPv4 :: "IPConfig option"
  ps_IPv6 :: "IPConfig option"

record ProfilePatch =
  pp_Name :: "string option"
  pp_SSID :: "string option"
  pp_Hidden :: "bool option"
  pp_Autoconnect :: "bool option"
  pp_Security :: "Security option"
  pp_IPv4 :: "IPConfig option"
  pp_IPv6 :: "IPConfig option"

record Active =
  ac_ID :: string
  ac_Iface :: string
  ac_ProfileID :: string
  ac_SSID :: string
  ac_BSSID :: string

datatype ConnState =
    StateUnspecified
  | StateIdle
  | StateAssociating
  | StateAuthenticating
  | StateConfiguring
  | StateConnected
  | StateFailed
  | StateDisconnecting

datatype ConnError = ErrCNone | ErrCUnknown | ErrCAuthFailed

record Status =
  st_State :: ConnState
  st_Error :: ConnError
  st_Detail :: string
  st_BSSID :: string
  st_Signal :: int
  st_Addresses :: "string list"
  st_Gateway :: string
  st_DNS :: "string list"

text \<open>The zero values of Go's struct literals.\<close>

definition zero_IPConfig :: IPConfig where
  "zero_IPConfig = \<lparr>ip_Method = IPUnspecified, ip_Addresses = [], ip_Gateway = [], ip_DNS = [],
     ip_DNSSearch = []\<rparr>"

definition zero_Status :: Status where
  "zero_Status = \<lparr>st_State = StateUnspecified, st_Error = ErrCNone, st_Detail = [], st_BSSID = [],
     st_Signal = 0, st_Addresses = [], st_Gateway = [], st_DNS = []\<rparr>"

definition zero_Active :: Active where
  "zero_Active = \<lparr>ac_ID = [], ac_Iface = [], ac_ProfileID = [], ac_SSID = [], ac_BSSID = []\<rparr>"

text \<open>A state that ends a watch.\<close>

definition terminal :: "ConnState \<Rightarrow> bool" where
  "terminal c \<longleftrightarrow> c = StateConnected \<or> c = StateFailed"

section \<open>The Backend interface\<close>

text \<open>
  A backend over a state \<^typ>\<open>'s\<close>.  \<open>Watch\<close> returns the statuses received on its channel
  until the channel is closed.  \<open>Close\<close> releases the transport and is not modelled.
\<close>

record 's Backend =
  b_Interfaces :: "('s, Interface list) op"
  b_Interface :: "string \<Rightarrow> ('s, Interface) op"
  b_SetPower :: "string \<Rightarrow> bool \<Rightarrow> ('s, Interface) op"
  b_Scan :: "string \<Rightarrow> ('s, AP list) op"
  b_Profiles :: "('s, Profile list) op"
  b_Profile :: "string \<Rightarrow> ('s, Profile) op"
  b_AddProfile :: "ProfileSpec \<Rightarrow> ('s, Profile) op"
  b_PatchProfile :: "string \<Rightarrow> ProfilePatch \<Rightarrow> ('s, Profile) op"
  b_DeleteProfile :: "string \<Rightarrow> ('s, unit) op"
  b_Activate :: "string \<Rightarrow> string \<Rightarrow> string \<Rightarrow> ('s, Active) op"
  b_Deactivate :: "string \<Rightarrow> ('s, unit) op"
  b_Connections :: "('s, Active list) op"
  b_Connection :: "string \<Rightarrow> ('s, Active) op"
  b_Status :: "string \<Rightarrow> ('s, Status) op"
  b_Watch :: "string \<Rightarrow> ('s, Status list) op"

section \<open>Derived ids\<close>

definition NUL :: char where "NUL = char_of (0::nat)"

text \<open>
  \<open>sha\<close> stands for \<open>uuid.NewSHA1(idNamespace, key).String()\<close> of \<open>github.com/google/uuid\<close>.
\<close>

definition DeriveID :: "(string \<Rightarrow> string) \<Rightarrow> string list \<Rightarrow> string" where
  "DeriveID sha parts = sha (Join parts [NUL])"

text \<open>The key of an (ssid, type) pair determines the pair when no type holds a NUL byte.\<close>

lemma ssid_type_key_inj:
  assumes "NUL \<notin> set t" and "NUL \<notin> set t'"
    and "Join [s, t] [NUL] = Join [s', t'] [NUL]"
  shows "s = s' \<and> t = t'"
proof -
  from assms(3) have eq: "s @ NUL # t = s' @ NUL # t'" by simp
  have "LastIndexByte (s @ NUL # t) NUL = Some (length s)"
    using assms(1) by (rule LastIndexByte_sep)
  moreover have "LastIndexByte (s' @ NUL # t') NUL = Some (length s')"
    using assms(2) by (rule LastIndexByte_sep)
  ultimately have "length s = length s'" using eq by simp
  with eq show ?thesis by simp
qed

section \<open>PCI address of a local interface\<close>

text \<open>\<open>filepath.Base\<close>.\<close>

definition strip_slashes :: "string \<Rightarrow> string" where
  "strip_slashes s = rev (dropWhile (\<lambda>c. c = CHR ''/'') (rev s))"

definition filepath_Base :: "string \<Rightarrow> string" where
  "filepath_Base p =
     (if p = [] then ''.''
      else
        let q = strip_slashes p
        in if q = [] then ''/''
           else (case LastIndexByte q (CHR ''/'') of None \<Rightarrow> q | Some i \<Rightarrow> drop (Suc i) q))"

text \<open>
  \<open>readlink name\<close> is \<open>os.Readlink\<close> of \<open>/sys/class/net/<name>/device\<close>, \<open>None\<close> on error.
\<close>

definition LocalPCI :: "(string \<Rightarrow> string option) \<Rightarrow> string \<Rightarrow> string" where
  "LocalPCI readlink name =
     (if name = [] then []
      else (case readlink name of None \<Rightarrow> [] | Some target \<Rightarrow> ToLower (filepath_Base target)))"

section \<open>A host to evaluate on\<close>

text \<open>
  A small host in memory: its radios, profiles and connections, and the names of the
  operations called so far.  It stands for no code; the concrete instances of the
  properties are evaluated on it.
\<close>

record host =
  h_ifaces :: "Interface list"
  h_profiles :: "Profile list"
  h_actives :: "Active list"
  h_calls :: "string list"

definition h_log :: "string \<Rightarrow> host \<Rightarrow> host" where
  "h_log c h = h\<lparr>h_calls := h_calls h @ [c]\<rparr>"

definition h_find :: "('a \<Rightarrow> string) \<Rightarrow> 'a list \<Rightarrow> string \<Rightarrow> 'a res" where
  "h_find key xs k = (case find (\<lambda>x. key x = k) xs of None \<Rightarrow> Inl (ErrNotFound k) | Some x \<Rightarrow> Inr x)"

definition h_profile :: "string \<Rightarrow> ProfileSpec \<Rightarrow> Profile" where
  "h_profile i sp = \<lparr>pr_ID = i, pr_Name = ps_Name sp, pr_SSID = ps_SSID sp, pr_Hidden = ps_Hidden sp,
     pr_Autoconnect = ps_Autoconnect sp, pr_Security = ps_Security sp,
     pr_IPv4 = (case ps_IPv4 sp of None \<Rightarrow> zero_IPConfig | Some c \<Rightarrow> c),
     pr_IPv6 = (case ps_IPv6 sp of None \<Rightarrow> zero_IPConfig | Some c \<Rightarrow> c)\<rparr>"

definition h_status :: Status where
  "h_status = zero_Status\<lparr>st_State := StateConnected, st_BSSID := ''02:00:00:00:01:00'',
     st_Signal := -50\<rparr>"

definition host_backend :: "host Backend" where
  "host_backend = \<lparr>
     b_Interfaces = (\<lambda>h. (Inr (h_ifaces h), h_log ''Interfaces'' h)),
     b_Interface = (\<lambda>n h. (h_find if_Name (h_ifaces h) n, h_log ''Interface'' h)),
     b_SetPower = (\<lambda>n on h. (h_find if_Name (h_ifaces h) n, h_log ''SetPower'' h)),
     b_Scan = (\<lambda>n h. (Inr [\<lparr>ap_SSID = ''net'', ap_BSSID = ''02:00:00:00:01:00'', ap_Signal = -50,
                 ap_FreqMHz = 2412, ap_KeyMgmt = [KeyWPAPSK]\<rparr>], h_log ''Scan'' h)),
     b_Profiles = (\<lambda>h. (Inr (h_profiles h), h_log ''Profiles'' h)),
     b_Profile = (\<lambda>i h. (h_find pr_ID (h_profiles h) i, h_log ''Profile'' h)),
     b_AddProfile = (\<lambda>sp h. (Inr (h_profile (ps_SSID sp) sp),
                 h_log ''AddProfile'' (h\<lparr>h_profiles := h_profiles h @ [h_profile (ps_SSID sp) sp]\<rparr>))),
     b_PatchProfile = (\<lambda>i p h. (h_find pr_ID (h_profiles h) i, h_log ''PatchProfile'' h)),
     b_DeleteProfile = (\<lambda>i h. (Inr (), h_log ''DeleteProfile''
                 (h\<lparr>h_profiles := filter (\<lambda>p. pr_ID p \<noteq> i) (h_profiles h)\<rparr>))),
     b_Activate = (\<lambda>n i b h. (h_find ac_ProfileID (h_actives h) i, h_log ''Activate'' h)),
     b_Deactivate = (\<lambda>i h. (Inr (), h_log ''Deactivate'' h)),
     b_Connections = (\<lambda>h. (Inr (h_actives h), h_log ''Connections'' h)),
     b_Connection = (\<lambda>i h. (h_find ac_ID (h_actives h) i, h_log ''Connection'' h)),
     b_Status = (\<lambda>i h. (Inr h_status, h_log ''Status'' h)),
     b_Watch = (\<lambda>i h. (Inr [h_status], h_log ''Watch'' h))\<rparr>"

definition radio :: "string \<Rightarrow> string \<Rightarrow> string \<Rightarrow> Interface" where
  "radio n mac pci = \<lparr>if_Name = n, if_Mac = mac, if_Pci = pci, if_Powered = True, if_Up = True,
     if_Desc = ''radio''\<rparr>"

definition the_host :: host where
  "the_host = \<lparr>
     h_ifaces = [radio ''wlan0'' ''02:AA:00:00:00:01'' ''0000:02:00.0'',
                 radio ''wlan1'' ''02:bb:00:00:00:02'' ''0000:03:00.0''],
     h_profiles = [], h_actives =
       [\<lparr>ac_ID = ''c0'', ac_Iface = ''wlan0'', ac_ProfileID = ''p0'', ac_SSID = ''net'', ac_BSSID = []\<rparr>,
        \<lparr>ac_ID = ''c1'', ac_Iface = ''wlan1'', ac_ProfileID = ''p1'', ac_SSID = ''net'', ac_BSSID = []\<rparr>],
     h_calls = []\<rparr>"

lemmas host_defs = host_backend_def the_host_def radio_def h_find_def h_log_def h_profile_def
  h_status_def

end
