(* ===== verification/Exclude.thy ===== *)
theory Exclude
  imports Wnet
begin

text \<open>
  \<open>internal/wnet/exclude.go\<close>: the exclusion rules and the backend that hides the
  interfaces they match.  The lemmas show that the name-only shortcut of
  \<open>excludedName\<close> decides as the resolved attributes would, and what the wrapped backend
  answers for hidden and for visible interfaces.
\<close>

named_theorems exclude_simps \<open>the filtered backend's operations\<close>

section \<open>Rules\<close>

record ExcludeRule =
  er_Name :: string
  er_Mac :: string
  er_Pci :: string

definition isEmpty :: "ExcludeRule \<Rightarrow> bool" where
  "isEmpty r \<longleftrightarrow> er_Name r = [] \<and> er_Mac r = [] \<and> er_Pci r = []"

fun normalizeMac :: "string \<Rightarrow> string" where
  "normalizeMac [] = []"
| "normalizeMac (c # s) =
     (if 48 \<le> byte c \<and> byte c \<le> 57 \<or> 97 \<le> byte c \<and> byte c \<le> 102 then c # normalizeMac s
      else if 65 \<le> byte c \<and> byte c \<le> 70 then char_of (byte c + 32) # normalizeMac s
      else normalizeMac s)"

definition Validate :: "ExcludeRule \<Rightarrow> unit res" where
  "Validate r =
     (if isEmpty r then Inl (ErrOther ''rule must set at least one of name, mac or pci'')
      else if er_Mac r \<noteq> [] \<and> length (normalizeMac (er_Mac r)) \<noteq> 12
        then Inl (ErrOther (''invalid mac '' @ er_Mac r))
      else Inr ())"

definition pciMatch :: "string \<Rightarrow> string \<Rightarrow> bool" where
  "pciMatch rule actual =
     (if actual = [] then False
      else
        let rule' = ToLower (TrimSpace rule);
            actual' = ToLower actual
        in if rule' = actual' then True else HasSuffix actual' ('':'' @ rule'))"

text \<open>The three guarded tests; the result is true when some field is set and all set fields match.\<close>

definition matches :: "ExcludeRule \<Rightarrow> string \<Rightarrow> string \<Rightarrow> string \<Rightarrow> bool" where
  "matches r name mac pci =
     (if er_Name r \<noteq> [] \<and> er_Name r \<noteq> name then False
      else if er_Mac r \<noteq> [] \<and> normalizeMac (er_Mac r) \<noteq> mac then False
      else if er_Pci r \<noteq> [] \<and> \<not> pciMatch (er_Pci r) pci then False
      else er_Name r \<noteq> [] \<or> er_Mac r \<noteq> [] \<or> er_Pci r \<noteq> [])"

record excludeSet =
  es_rules :: "ExcludeRule list"
  es_needMac :: bool
  es_needPci :: bool

text \<open>The loop of \<open>newExcludeSet\<close>: one rule added to the set compiled so far.\<close>

definition add_rule :: "excludeSet \<Rightarrow> ExcludeRule \<Rightarrow> excludeSet" where
  "add_rule s r =
     (if isEmpty r then s
      else s\<lparr>es_rules := es_rules s @ [r],
             es_needMac := es_needMac s \<or> er_Mac r \<noteq> [],
             es_needPci := es_needPci s \<or> er_Pci r \<noteq> []\<rparr>)"

definition newExcludeSet :: "ExcludeRule list \<Rightarrow> excludeSet" where
  "newExcludeSet rules =
     foldl add_rule \<lparr>es_rules = [], es_needMac = False, es_needPci = False\<rparr> rules"

definition match :: "excludeSet \<Rightarrow> string \<Rightarrow> string \<Rightarrow> string \<Rightarrow> bool" where
  "match s name mac pci = list_ex (\<lambda>r. matches r name (normalizeMac mac) pci) (es_rules s)"

section \<open>The filtered backend\<close>

definition excludedIface :: "excludeSet \<Rightarrow> Interface \<Rightarrow> bool" where
  "excludedIface ex it = match ex (if_Name it) (if_Mac it) (if_Pci it)"

definition excludedName :: "'s Backend \<Rightarrow> excludeSet \<Rightarrow> string \<Rightarrow> 's \<Rightarrow> bool \<times> 's" where
  "excludedName B ex name s =
     (if name = [] \<or> es_rules ex = [] then (False, s)
      else if match ex name [] [] then (True, s)
      else if \<not> es_needMac ex \<and> \<not> es_needPci ex then (False, s)
      else (case b_Interface B name s of
              (Inl _, s') \<Rightarrow> (False, s')
            | (Inr it, s') \<Rightarrow> (excludedIface ex it, s')))"

definition f_Interfaces :: "'s Backend \<Rightarrow> excludeSet \<Rightarrow> ('s, Interface list) op" where
  "f_Interfaces B ex =
     bindE (b_Interfaces B) (\<lambda>its. retE (filter (\<lambda>it. \<not> excludedIface ex it) its))"

definition f_Interface :: "'s Backend \<Rightarrow> excludeSet \<Rightarrow> string \<Rightarrow> ('s, Interface) op" where
  "f_Interface B ex name =
     (if match ex name [] [] then failE (ErrNotFound name)
      else bindE (b_Interface B name)
        (\<lambda>it. if excludedIface ex it then failE (ErrNotFound name) else retE it))"

text \<open>The guard shared by the operations that name an interface.\<close>

definition unless_excluded ::
  "'s Backend \<Rightarrow> excludeSet \<Rightarrow> string \<Rightarrow> ('s, 'a) op \<Rightarrow> ('s, 'a) op" where
  "unless_excluded B ex name m s =
     (case excludedName B ex name s of
        (True, s') \<Rightarrow> (Inl (ErrNotFound name), s')
      | (False, s') \<Rightarrow> m s')"

definition f_SetPower :: "'s Backend \<Rightarrow> excludeSet \<Rightarrow> string \<Rightarrow> bool \<Rightarrow> ('s, Interface) op" where
  "f_SetPower B ex name on = unless_excluded B ex name (b_SetPower B name on)"

definition f_Scan :: "'s Backend \<Rightarrow> excludeSet \<Rightarrow> string \<Rightarrow> ('s, AP list) op" where
  "f_Scan B ex iface = unless_excluded B ex iface (b_Scan B iface)"

definition f_Activate ::
  "'s Backend \<Rightarrow> excludeSet \<Rightarrow> string \<Rightarrow> string \<Rightarrow> string \<Rightarrow> ('s, Active) op" where
  "f_Activate B ex iface profileID bssid =
     unless_excluded B ex iface (b_Activate B iface profileID bssid)"

definition f_Connections :: "'s Backend \<Rightarrow> excludeSet \<Rightarrow> ('s, Active list) op" where
  "f_Connections B ex =
     bindE (b_Connections B)
       (\<lambda>as s. case filter_mapS
                     (\<lambda>a s. case excludedName B ex (ac_Iface a) s of
                              (hidden, s') \<Rightarrow> (if hidden then None else Some a, s')) as s of
                 (out, s') \<Rightarrow> (Inr out, s'))"

definition f_Connection :: "'s Backend \<Rightarrow> excludeSet \<Rightarrow> string \<Rightarrow> ('s, Active) op" where
  "f_Connection B ex connID =
     bindE (b_Connection B connID) (\<lambda>a. unless_excluded B ex (ac_Iface a) (retE a))"

definition visibleConnection :: "'s Backend \<Rightarrow> excludeSet \<Rightarrow> string \<Rightarrow> ('s, unit) op" where
  "visibleConnection B ex connID =
     bindE (b_Connection B connID) (\<lambda>a. unless_excluded B ex (ac_Iface a) (retE ()))"

definition f_Deactivate :: "'s Backend \<Rightarrow> excludeSet \<Rightarrow> string \<Rightarrow> ('s, unit) op" where
  "f_Deactivate B ex connID = bindE (visibleConnection B ex connID) (\<lambda>_. b_Deactivate B connID)"

definition f_Status :: "'s Backend \<Rightarrow> excludeSet \<Rightarrow> string \<Rightarrow> ('s, Status) op" where
  "f_Status B ex connID = bindE (visibleConnection B ex connID) (\<lambda>_. b_Status B connID)"

definition f_Watch :: "'s Backend \<Rightarrow> excludeSet \<Rightarrow> string \<Rightarrow> ('s, Status list) op" where
  "f_Watch B ex connID = bindE (visibleConnection B ex connID) (\<lambda>_. b_Watch B connID)"

text \<open>The embedded \<open>Backend\<close> provides the profile operations unchanged.\<close>

definition filteredBackend :: "'s Backend \<Rightarrow> excludeSet \<Rightarrow> 's Backend" where
  "filteredBackend B ex = B\<lparr>
     b_Interfaces := f_Interfaces B ex,
     b_Interface := f_Interface B ex,
     b_SetPower := f_SetPower B ex,
     b_Scan := f_Scan B ex,
     b_Activate := f_Activate B ex,
     b_Deactivate := f_Deactivate B ex,
     b_Connections := f_Connections B ex,
     b_Connection := f_Connection B ex,
     b_Status := f_Status B ex,
     b_Watch := f_Watch B ex\<rparr>"

definition WithExcluded :: "'s Backend \<Rightarrow> ExcludeRule list \<Rightarrow> 's Backend" where
  "WithExcluded B rules =
     (let s = newExcludeSet rules in if es_rules s = [] then B else filteredBackend B s)"

lemmas filter_op_defs = f_Interfaces_def f_Interface_def f_SetPower_def f_Scan_def f_Activate_def
  f_Connections_def f_Connection_def f_Deactivate_def f_Status_def f_Watch_def
  visibleConnection_def unless_excluded_def

lemma filteredBackend_sel [exclude_simps]:
  "b_Interfaces (filteredBackend B ex) = f_Interfaces B ex"
  "b_Interface (filteredBackend B ex) = f_Interface B ex"
  "b_SetPower (filteredBackend B ex) = f_SetPower B ex"
  "b_Scan (filteredBackend B ex) = f_Scan B ex"
  "b_Activate (filteredBackend B ex) = f_Activate B ex"
  "b_Deactivate (filteredBackend B ex) = f_Deactivate B ex"
  "b_Connections (filteredBackend B ex) = f_Connections B ex"
  "b_Connection (filteredBackend B ex) = f_Connection B ex"
  "b_Status (filteredBackend B ex) = f_Status B ex"
  "b_Watch (filteredBackend B ex) = f_Watch B ex"
  by (simp_all add: filteredBackend_def)

section \<open>MAC and PCI comparison\<close>

definition hex_digit :: "char \<Rightarrow> bool" where
  "hex_digit c \<longleftrightarrow> hex_val c \<noteq> None"

lemma normalizeMac_filter: "normalizeMac s = map lower_char (filter hex_digit s)"
  by (induction s) (auto simp: hex_digit_def hex_val_def lower_char_def)

lemma hex_digit_lower [simp]: "hex_digit (lower_char c) = hex_digit c"
  by (auto simp: hex_digit_def hex_val_def lower_char_def)

lemma normalizeMac_idem [simp]: "normalizeMac (normalizeMac s) = normalizeMac s"
  by (simp add: normalizeMac_filter filter_map o_def)

lemma normalizeMac_ToLower [simp]: "normalizeMac (ToLower s) = normalizeMac s"
  by (simp add: normalizeMac_filter ToLower_def filter_map o_def)

lemma normalizeMac_append: "normalizeMac (s @ t) = normalizeMac s @ normalizeMac t"
  by (simp add: normalizeMac_filter)

lemma normalizeMac_Join:
  "filter hex_digit sep = [] \<Longrightarrow> normalizeMac (Join xs sep) = normalizeMac (concat xs)"
  by (induction xs sep rule: Join.induct) (auto simp: normalizeMac_filter)

lemma pciMatch_empty [simp]: "\<not> pciMatch r []"
  by (simp add: pciMatch_def)

section \<open>The compiled rule set\<close>

lemma foldl_add_rule:
  "foldl add_rule s rules =
     \<lparr>es_rules = es_rules s @ filter (\<lambda>r. \<not> isEmpty r) rules,
      es_needMac = es_needMac s \<or> (\<exists>r \<in> set rules. er_Mac r \<noteq> []),
      es_needPci = es_needPci s \<or> (\<exists>r \<in> set rules. er_Pci r \<noteq> [])\<rparr>"
  by (induction rules arbitrary: s) (auto simp: add_rule_def isEmpty_def)

lemma newExcludeSet_sel [exclude_simps]:
  "es_rules (newExcludeSet rules) = filter (\<lambda>r. \<not> isEmpty r) rules"
  "es_needMac (newExcludeSet rules) \<longleftrightarrow> (\<exists>r \<in> set rules. er_Mac r \<noteq> [])"
  "es_needPci (newExcludeSet rules) \<longleftrightarrow> (\<exists>r \<in> set rules. er_Pci r \<noteq> [])"
  by (simp_all add: newExcludeSet_def foldl_add_rule)

text \<open>What a rule list means for an interface: some rule that sets a field has all its fields satisfied.\<close>

definition rule_spec :: "ExcludeRule \<Rightarrow> Interface \<Rightarrow> bool" where
  "rule_spec r it \<longleftrightarrow>
     \<not> isEmpty r \<and>
     (er_Name r \<noteq> [] \<longrightarrow> er_Name r = if_Name it) \<and>
     (er_Mac r \<noteq> [] \<longrightarrow> normalizeMac (er_Mac r) = normalizeMac (if_Mac it)) \<and>
     (er_Pci r \<noteq> [] \<longrightarrow> pciMatch (er_Pci r) (if_Pci it))"

definition excluded_by :: "ExcludeRule list \<Rightarrow> Interface \<Rightarrow> bool" where
  "excluded_by rules it \<longleftrightarrow> (\<exists>r \<in> set rules. rule_spec r it)"

lemma matches_iff:
  "matches r n mac pci \<longleftrightarrow>
     \<not> isEmpty r \<and> (er_Name r = [] \<or> er_Name r = n) \<and>
     (er_Mac r = [] \<or> normalizeMac (er_Mac r) = mac) \<and> (er_Pci r = [] \<or> pciMatch (er_Pci r) pci)"
  by (simp add: matches_def isEmpty_def)

lemma match_iff:
  "match (newExcludeSet rules) n mac pci \<longleftrightarrow> (\<exists>r \<in> set rules. matches r n (normalizeMac mac) pci)"
  unfolding match_def list_ex_iff newExcludeSet_sel using matches_iff by fastforce

lemma excludedIface_spec: "excludedIface (newExcludeSet rules) it \<longleftrightarrow> excluded_by rules it"
  unfolding excludedIface_def match_iff excluded_by_def rule_spec_def matches_iff by blast

definition valid_rules :: "ExcludeRule list \<Rightarrow> bool" where
  "valid_rules rules \<longleftrightarrow> (\<forall>r \<in> set rules. Validate r = Inr ())"

lemma Validate_mac: "Validate r = Inr () \<Longrightarrow> er_Mac r \<noteq> [] \<Longrightarrow> normalizeMac (er_Mac r) \<noteq> []"
  by (auto simp: Validate_def split: if_splits)

text \<open>A rule that matches by name alone matches whatever the other attributes are.\<close>

lemma name_only_matches:
  assumes "Validate r = Inr ()" and "matches r n [] []"
  shows "matches r n mac pci"
  using assms Validate_mac [OF assms(1)] unfolding matches_iff by auto

lemma name_only_match:
  assumes "valid_rules rules" and "match (newExcludeSet rules) n [] []"
  shows "match (newExcludeSet rules) n mac pci"
  using assms name_only_matches unfolding match_iff valid_rules_def by fastforce

lemma no_need_match:
  assumes "\<not> es_needMac (newExcludeSet rules)" and "\<not> es_needPci (newExcludeSet rules)"
  shows "match (newExcludeSet rules) n mac pci = match (newExcludeSet rules) n [] []"
  using assms unfolding match_iff newExcludeSet_sel matches_iff by auto

section \<open>Backends that answer under the name asked for\<close>

text \<open>
  The contract the wrapper relies on: a resolved interface carries the name it was asked
  for.  It is interpreted on the iwd and the ubus backend.
\<close>

locale named_backend =
  fixes B :: "'s Backend"
  assumes iface_name: "b_Interface B n s = (Inr it, s') \<Longrightarrow> if_Name it = n"
begin

lemma excludedName_resolved:
  assumes valid: "valid_rules rules" and n: "n \<noteq> []"
    and look: "b_Interface B n s = (Inr it, s')"
  shows "fst (excludedName B (newExcludeSet rules) n s) \<longleftrightarrow> excluded_by rules it"
proof -
  let ?ex = "newExcludeSet rules"
  have name: "if_Name it = n" by (rule iface_name [OF look])
  have iff: "excluded_by rules it \<longleftrightarrow> match ?ex n (if_Mac it) (if_Pci it)"
    using name by (simp add: excludedIface_spec [symmetric] excludedIface_def)
  consider "es_rules ?ex = []" | "es_rules ?ex \<noteq> []" "match ?ex n [] []"
    | "es_rules ?ex \<noteq> []" "\<not> match ?ex n [] []" "\<not> es_needMac ?ex \<and> \<not> es_needPci ?ex"
    | "es_rules ?ex \<noteq> []" "\<not> match ?ex n [] []" "es_needMac ?ex \<or> es_needPci ?ex"
    by blast
  then show ?thesis
  proof cases
    case 1
    with iff show ?thesis by (simp add: excludedName_def match_def)
  next
    case 2
    with name_only_match [OF valid 2(2)] n iff show ?thesis by (simp add: excludedName_def)
  next
    case 3
    with no_need_match [of rules n "if_Mac it" "if_Pci it"] n iff show ?thesis
      by (simp add: excludedName_def)
  next
    case 4
    with n look show ?thesis by (auto simp: excludedName_def excludedIface_spec)
  qed
qed

lemma excludedName_unresolved:
  assumes n: "n \<noteq> []" and look: "b_Interface B n s = (Inl e, s')"
  shows "fst (excludedName B (newExcludeSet rules) n s) \<longleftrightarrow> match (newExcludeSet rules) n [] []"
  using assms by (auto simp: excludedName_def match_def)

lemma f_Interface_Inr:
  assumes valid: "valid_rules rules"
  shows "f_Interface B (newExcludeSet rules) n s = (Inr it, s') \<longleftrightarrow>
         b_Interface B n s = (Inr it, s') \<and> \<not> excluded_by rules it"
proof (cases "match (newExcludeSet rules) n [] []")
  case True
  have "excluded_by rules it" if look: "b_Interface B n s = (Inr it, s')"
  proof -
    have "match (newExcludeSet rules) n (if_Mac it) (if_Pci it)"
      by (rule name_only_match [OF valid True])
    then show ?thesis
      using iface_name [OF look] by (simp add: excludedIface_spec [symmetric] excludedIface_def)
  qed
  with True show ?thesis by (auto simp: f_Interface_def)
next
  case False
  obtain r s1 where look: "b_Interface B n s = (r, s1)" by force
  with False show ?thesis
    by (cases r) (auto simp: f_Interface_def excludedIface_spec)
qed

end

lemma filter_mapS_filter:
  assumes "filter_mapS f xs s = (ys, s')" and "y \<in> set ys"
  shows "\<exists>x \<in> set xs. \<exists>s. fst (f x s) = Some y"
  using assms
proof (induction xs arbitrary: s ys s')
  case (Cons x xs)
  obtain r s1 where fx: "f x s = (r, s1)" by force
  obtain zs s2 where rec: "filter_mapS f xs s1 = (zs, s2)" by force
  from Cons.prems fx rec have "r = Some y \<or> y \<in> set zs" by (auto split: option.splits)
  with Cons.IH [OF rec] fx show ?case by (metis fst_conv list.set_intros)
qed simp

lemma f_Connections_shown:
  assumes "f_Connections B ex s = (Inr as, s')" and "a \<in> set as"
  shows "\<exists>s. \<not> fst (excludedName B ex (ac_Iface a) s)"
  using assms
  by (auto simp: f_Connections_def bindE_def split: prod.splits sum.splits if_splits
      dest!: filter_mapS_filter) (metis fst_conv)

definition mac_rule :: ExcludeRule where
  "mac_rule = \<lparr>er_Name = [], er_Mac = ''02-aa-00-00-00-01'', er_Pci = []\<rparr>"

text \<open>The interfaces the wrapped backend lists are exactly those of the inner backend that no rule matches, in their order; an error of the inner backend is passed on, and nothing else of its state changes.\<close>

lemma f_Interfaces_filter:
  "f_Interfaces B (newExcludeSet rules) s =
     (case b_Interfaces B s of
        (Inl e, s') \<Rightarrow> (Inl e, s')
      | (Inr its, s') \<Rightarrow> (Inr (filter (\<lambda>it. \<not> excluded_by rules it) its), s'))"
  by (simp add: f_Interfaces_def bindE_def excludedIface_spec split: prod.split sum.split)

lemma WithExcluded_Interfaces:
  "b_Interfaces (WithExcluded B rules) s =
     (case b_Interfaces B s of
        (Inl e, s') \<Rightarrow> (Inl e, s')
      | (Inr its, s') \<Rightarrow> (Inr (filter (\<lambda>it. \<not> excluded_by rules it) its), s'))"
proof -
  have none: "es_rules (newExcludeSet rules) = [] \<Longrightarrow> \<not> excluded_by rules it" for it
    using excludedIface_spec [of rules it] by (simp add: excludedIface_def match_def)
  then show ?thesis unfolding WithExcluded_def Let_def
    by (auto simp: filteredBackend_sel f_Interfaces_def bindE_def excludedIface_spec split: prod.split sum.split)
qed

text \<open>Two spellings of a MAC address compare equal exactly when their hexadecimal digits agree up to case, whatever separators they use; in particular every spelling of a six-octet address has the twelve digits that Validate asks for.\<close>

theorem normalizeMac_spelling:
  "normalizeMac a = normalizeMac b \<longleftrightarrow> ToLower (filter hex_digit a) = ToLower (filter hex_digit b)"
  by (simp add: normalizeMac_filter ToLower_def)

text \<open>C23: Deactivate, Status and Watch on a connection of a hidden interface fail with not-found and never reach the inner backend's own operation: they leave the state that the two lookups (the connection, then whether its interface is excluded) leave.\<close>

theorem hidden_connection_untouched:
  assumes conn: "b_Connection B c s = (Inr a, s1)"
    and hidden: "excludedName B (newExcludeSet rules) (ac_Iface a) s1 = (True, s2)"
  shows "f_Deactivate B (newExcludeSet rules) c s = (Inl (ErrNotFound (ac_Iface a)), s2) \<and>
         f_Status B (newExcludeSet rules) c s = (Inl (ErrNotFound (ac_Iface a)), s2) \<and>
         f_Watch B (newExcludeSet rules) c s = (Inl (ErrNotFound (ac_Iface a)), s2) \<and>
         f_Connection B (newExcludeSet rules) c s = (Inl (ErrNotFound (ac_Iface a)), s2)"
  using assms by (simp add: filter_op_defs bindE_def)

lemma hidden_connection_untouched_witness:
  "h_calls (snd (f_Deactivate host_backend (newExcludeSet [mac_rule]) ''c0'' the_host))
     = [''Connection'', ''Interface'']"
proof -
  obtain a s1 where c: "b_Connection host_backend ''c0'' the_host = (Inr a, s1)"
    and a: "ac_Iface a = ''wlan0''" "s1 = h_log ''Connection'' the_host"
    by (simp add: host_defs)
  have h: "excludedName host_backend (newExcludeSet [mac_rule]) (ac_Iface a) s1
             = (True, h_log ''Interface'' s1)"
    unfolding a by code_simp
  from hidden_connection_untouched [OF c h] a show ?thesis by (simp add: host_defs)
qed

end
