(* ===== verification/Proto.thy ===== *)
theory Proto
  imports Wnet
begin

text \<open>
  The protobuf messages and enums the server and the clients exchange
  (\<open>proto/wifi\<close>, generated into \<open>internal/wifi\<close>), restricted to the fields the program
  sets or reads.  A message field with presence that the code tests (\<open>HasName\<close>, a nil
  pointer) is an option; a getter on an absent message returns the zero value.
\<close>

datatype KeyManagement =
    KEY_MANAGEMENT_UNSPECIFIED
  | KEY_MANAGEMENT_NONE
  | KEY_MANAGEMENT_WPA_PSK
  | KEY_MANAGEMENT_SAE
  | KEY_MANAGEMENT_WPA_EAP
  | KEY_MANAGEMENT_OWE

record PbAccessPoint =
  pap_Id :: string
  pap_Ssid :: string
  pap_Bssid :: string
  pap_Signal :: int
  pap_Frequency :: "32 word"
  pap_KeyManagement :: "KeyManagement list"

definition zero_PbAccessPoint :: PbAccessPoint where
  "zero_PbAccessPoint = \<lparr>pap_Id = [], pap_Ssid = [], pap_Bssid = [], pap_Signal = 0,
     pap_Frequency = 0, pap_KeyManagement = []\<rparr>"

record PbInterface =
  pif_Id :: string
  pif_Name :: string
  pif_Desc :: string
  pif_Mac :: string
  pif_Powered :: bool
  pif_Up :: bool

datatype PbIpMethod = METHOD_UNSPECIFIED | METHOD_AUTO | METHOD_MANUAL | METHOD_DISABLED

record PbIpConfig =
  pip_Method :: PbIpMethod
  pip_Addresses :: "string list"
  pip_Gateway :: string
  pip_Dns :: "string list"
  pip_DnsSearch :: "string list"

text \<open>The oneof of \<open>Security\<close>; \<open>PskCred\<close> carries the passphrase.\<close>

datatype Credential = CredNotSet | OpenCred | PskCred string | EnterpriseCred

record PbProfile =
  ppr_Id :: string
  ppr_Name :: string
  ppr_Desc :: string
  ppr_Ssid :: string
  ppr_Hidden :: bool
  ppr_Autoconnect :: bool
  ppr_Security :: "Credential option"
  ppr_Ipv4 :: "PbIpConfig option"
  ppr_Ipv6 :: "PbIpConfig option"

record ProfileAddRequest =
  par_Name :: string
  par_Ssid :: string
  par_Hidden :: bool
  par_Autoconnect :: bool
  par_Security :: "Credential option"
  par_Ipv4 :: "PbIpConfig option"
  par_Ipv6 :: "PbIpConfig option"

record ProfilePatchRequest =
  ppa_Ref :: string
  ppa_Name :: "string option"
  ppa_Ssid :: "string option"
  ppa_Hidden :: "bool option"
  ppa_Autoconnect :: "bool option"
  ppa_Security :: "Credential option"
  ppa_Ipv4 :: "PbIpConfig option"
  ppa_Ipv6 :: "PbIpConfig option"

datatype PbConnectionState =
    CONNECTION_STATE_UNSPECIFIED
  | CONNECTION_STATE_IDLE
  | CONNECTION_STATE_ASSOCIATING
  | CONNECTION_STATE_AUTHENTICATING
  | CONNECTION_STATE_CONFIGURING
  | CONNECTION_STATE_CONNECTED
  | CONNECTION_STATE_FAILED
  | CONNECTION_STATE_DISCONNECTING

datatype PbConnectionError =
    CONNECTION_ERROR_UNSPECIFIED
  | CONNECTION_ERROR_NONE
  | CONNECTION_ERROR_AUTH_FAILED
  | CONNECTION_ERROR_NETWORK_NOT_FOUND
  | CONNECTION_ERROR_ASSOC_TIMEOUT
  | CONNECTION_ERROR_IP_CONFIG_FAILED
  | CONNECTION_ERROR_DISCONNECTED
  | CONNECTION_ERROR_UNKNOWN

record PbConnectionStatus =
  pcs_State :: PbConnectionState
  pcs_Error :: PbConnectionError
  pcs_Detail :: "string option"
  pcs_Bssid :: "string option"
  pcs_Signal :: "int option"
  pcs_Addresses :: "string list"
  pcs_Gateway :: string
  pcs_Dns :: "string list"

record PbConnection =
  pcn_Id :: string
  pcn_Interface :: "PbInterface option"
  pcn_Profile :: "PbProfile option"
  pcn_AccessPoint :: "PbAccessPoint option"

record ConnectionAddRequest =
  car_Interface :: string
  car_Profile :: string
  car_AccessPoint :: "string option"

text \<open>A getter of an optional string field.\<close>

definition get_str :: "string option \<Rightarrow> string" where
  "get_str x = (case x of None \<Rightarrow> [] | Some s \<Rightarrow> s)"

definition get_int :: "int option \<Rightarrow> int" where
  "get_int x = (case x of None \<Rightarrow> 0 | Some i \<Rightarrow> i)"

section \<open>Scan cache messages\<close>

text \<open>
  A timestamp is its instant in nanoseconds: \<open>timestamppb.New\<close> and \<open>AsTime\<close> are inverse
  on the instants a clock reads.
\<close>

record InterfaceScan =
  is_InterfaceId :: string
  is_ScannedAt :: "int option"
  is_AccessPoints :: "PbAccessPoint list"

type_synonym ScanCacheMsg = "InterfaceScan list"

section \<open>gRPC status\<close>

datatype code = InvalidArgument | NotFound | Unimplemented | Internal | Unknown

type_synonym rpc_error = "code \<times> string"

text \<open>A handler over the state of the backend.\<close>

type_synonym ('s, 'a) handler = "'s \<Rightarrow> (rpc_error + 'a) \<times> 's"

end
