(* ===== verification/Scan_Cache.thy ===== *)
theory Scan_Cache
  imports Proto
begin

text \<open>
  \<open>internal/server/scan_cache.go\<close>: the per-interface cache of access-point scans, its
  freshness window, and the atomic replacement of the file that persists it.  Every
  exported operation holds the mutex while it touches the data, so an operation is one
  step on the cache.  Times are instants and durations in nanoseconds.
\<close>

named_theorems cache_simps \<open>find and put on the cached scans\<close>

section \<open>State and pure operations\<close>

record ScanCache =
  sc_path :: string
  sc_ttl :: int
  sc_data :: ScanCacheMsg

definition NewScanCache :: "string \<Rightarrow> int \<Rightarrow> ScanCache" where
  "NewScanCache path ttl = \<lparr>sc_path = path, sc_ttl = ttl, sc_data = []\<rparr>"

text \<open>\<open>time.Time.Sub\<close> saturates to the range of a \<open>Duration\<close>.\<close>

definition time_Sub :: "int \<Rightarrow> int \<Rightarrow> int" where
  "time_Sub a b = fst (clamp_int64 (a - b))"

definition fresh :: "ScanCache \<Rightarrow> InterfaceScan \<Rightarrow> int \<Rightarrow> bool" where
  "fresh c e now = (case is_ScannedAt e of None \<Rightarrow> False | Some ts \<Rightarrow> time_Sub now ts \<le> sc_ttl c)"

fun findScan :: "ScanCacheMsg \<Rightarrow> string \<Rightarrow> InterfaceScan option" where
  "findScan [] ifID = None"
| "findScan (e # sc) ifID = (if is_InterfaceId e = ifID then Some e else findScan sc ifID)"

definition scan_entry :: "string \<Rightarrow> int \<Rightarrow> PbAccessPoint list \<Rightarrow> InterfaceScan" where
  "scan_entry ifID at aps = \<lparr>is_InterfaceId = ifID, is_ScannedAt = Some at, is_AccessPoints = aps\<rparr>"

fun replace_or_append :: "ScanCacheMsg \<Rightarrow> InterfaceScan \<Rightarrow> ScanCacheMsg" where
  "replace_or_append [] e = [e]"
| "replace_or_append (x # xs) e =
     (if is_InterfaceId x = is_InterfaceId e then e # xs else x # replace_or_append xs e)"

definition putScan :: "ScanCacheMsg \<Rightarrow> string \<Rightarrow> int \<Rightarrow> PbAccessPoint list \<Rightarrow> ScanCacheMsg" where
  "putScan sc ifID at aps = replace_or_append sc (scan_entry ifID at aps)"

definition cache_Get :: "ScanCache \<Rightarrow> string \<Rightarrow> int \<Rightarrow> PbAccessPoint list option" where
  "cache_Get c ifID now =
     (case findScan (sc_data c) ifID of
        None \<Rightarrow> None
      | Some e \<Rightarrow> if \<not> fresh c e now then None else Some (is_AccessPoints e))"

section \<open>The file\<close>

text \<open>
  The operating system's part: files by path, and which actions fail.  A failing write
  leaves any prefix of the data in the file; a failing rename or removal leaves the files
  as they are.
\<close>

type_synonym files = "string \<rightharpoonup> string"

record os_faults =
  create_fails :: "string option"
  write_fails :: "(nat \<times> string) option"
  close_fails :: "string option"
  rename_fails :: "string option"
  remove_fails :: bool

definition removed :: "os_faults \<Rightarrow> string \<Rightarrow> files \<Rightarrow> files" where
  "removed F p fs = (if remove_fails F then fs else fs(p := None))"

text \<open>
  \<open>writeFileAtomic\<close> with the temporary name \<open>tmp\<close> that \<open>os.CreateTemp\<close> picks: the error, if
  any, and every state of the file system from the first to the last, the states a crash
  can leave behind.  While data is written, the file holds a prefix of it.
\<close>

definition writeFileAtomic ::
  "os_faults \<Rightarrow> string \<Rightarrow> string \<Rightarrow> string \<Rightarrow> files \<Rightarrow> string option \<times> files list" where
  "writeFileAtomic F tmp path data fs =
     (case create_fails F of
        Some e \<Rightarrow> (Some e, [fs])
      | None \<Rightarrow>
          let fs1 = fs(tmp \<mapsto> []) in
          (case write_fails F of
             Some (k, e) \<Rightarrow>
               let ws = map (\<lambda>i. fs1(tmp \<mapsto> take i data)) [0..<Suc (min k (length data))]
               in (Some e, fs # ws @ [removed F tmp (last ws)])
           | None \<Rightarrow>
               let ws = map (\<lambda>i. fs1(tmp \<mapsto> take i data)) [0..<Suc (length data)];
                   fs2 = fs1(tmp \<mapsto> data)
               in (case close_fails F of
                     Some e \<Rightarrow> (Some e, fs # ws @ [removed F tmp fs2])
                   | None \<Rightarrow>
                       (case rename_fails F of
                          Some e \<Rightarrow> (Some e, fs # ws @ [removed F tmp fs2])
                        | None \<Rightarrow> (None, fs # ws @ [fs2(path \<mapsto> data, tmp := None)])))))"

text \<open>
  \<open>proto.Marshal\<close> and \<open>proto.Unmarshal\<close> are parameters: a cache message to bytes, and back.
\<close>

datatype read_result = NoFile | ReadError string | Content string

definition cache_Load ::
  "(string \<Rightarrow> ScanCacheMsg option) \<Rightarrow> read_result \<Rightarrow> int \<Rightarrow> ScanCache \<Rightarrow> string option \<times> ScanCache" where
  "cache_Load unmarshal r now c =
     (case r of
        NoFile \<Rightarrow> (None, c)
      | ReadError e \<Rightarrow> (Some e, c)
      | Content blob \<Rightarrow>
          (case unmarshal blob of
             None \<Rightarrow> (Some ''unmarshal'', c)
           | Some sc \<Rightarrow> (None, c\<lparr>sc_data := filter (\<lambda>e. fresh c e now) sc\<rparr>)))"

definition cache_Put ::
  "(ScanCacheMsg \<Rightarrow> string option) \<Rightarrow> os_faults \<Rightarrow> string \<Rightarrow> string \<Rightarrow> int \<Rightarrow> PbAccessPoint list
   \<Rightarrow> ScanCache \<times> files \<Rightarrow> string option \<times> ScanCache \<times> files" where
  "cache_Put marshal F tmp ifID at aps st =
     (case st of (c, fs) \<Rightarrow>
        let c' = c\<lparr>sc_data := putScan (sc_data c) ifID at aps\<rparr>
        in (case marshal (sc_data c') of
              None \<Rightarrow> (Some ''marshal'', c', fs)
            | Some blob \<Rightarrow>
                (case writeFileAtomic F tmp (sc_path c) blob fs of
                   (e, trace) \<Rightarrow> (e, c', last trace))))"

section \<open>Lemmas\<close>

lemma findScan_id: "findScan sc i = Some e \<Longrightarrow> is_InterfaceId e = i"
  by (induction sc i rule: findScan.induct) (auto split: if_splits)

lemma findScan_set: "findScan sc i = Some e \<Longrightarrow> e \<in> set sc"
  by (induction sc i rule: findScan.induct) (auto split: if_splits)

lemma findScan_None: "findScan sc i = None \<longleftrightarrow> i \<notin> is_InterfaceId ` set sc"
  by (induction sc i rule: findScan.induct) auto

lemma scan_entry_sel [simp]:
  "is_InterfaceId (scan_entry i t aps) = i" "is_ScannedAt (scan_entry i t aps) = Some t"
  "is_AccessPoints (scan_entry i t aps) = aps"
  by (simp_all add: scan_entry_def)

lemma findScan_replace [cache_simps]:
  "findScan (replace_or_append sc e) i = (if i = is_InterfaceId e then Some e else findScan sc i)"
  by (induction sc e rule: replace_or_append.induct) auto

lemma ids_replace [cache_simps]:
  "map is_InterfaceId (replace_or_append sc e) =
     (if is_InterfaceId e \<in> is_InterfaceId ` set sc then map is_InterfaceId sc
      else map is_InterfaceId sc @ [is_InterfaceId e])"
  by (induction sc e rule: replace_or_append.induct) auto

lemma findScan_put [cache_simps]:
  "findScan (putScan sc i t aps) j = (if j = i then Some (scan_entry i t aps) else findScan sc j)"
  by (simp add: putScan_def cache_simps)

definition unique_ids :: "ScanCacheMsg \<Rightarrow> bool" where
  "unique_ids sc \<longleftrightarrow> distinct (map is_InterfaceId sc)"

lemma unique_ids_put: "unique_ids sc \<Longrightarrow> unique_ids (putScan sc i t aps)"
  by (simp add: unique_ids_def putScan_def cache_simps)

lemma unique_ids_filter: "unique_ids sc \<Longrightarrow> unique_ids (filter P sc)"
  by (simp add: unique_ids_def distinct_map_filter)

lemma findScan_filter:
  assumes "unique_ids sc"
  shows "findScan (filter P sc) i =
    (case findScan sc i of None \<Rightarrow> None | Some e \<Rightarrow> if P e then Some e else None)"
  using assms
proof (induction sc)
  case (Cons x xs)
  then have IH: "findScan (filter P xs) i =
      (case findScan xs i of None \<Rightarrow> None | Some e \<Rightarrow> if P e then Some e else None)"
    and new: "is_InterfaceId x \<notin> is_InterfaceId ` set xs"
    by (simp_all add: unique_ids_def)
  show ?case
  proof (cases "is_InterfaceId x = i")
    case True
    with new have "findScan xs i = None" by (simp add: findScan_None)
    with IH True show ?thesis by simp
  qed (use IH in simp)
qed simp

lemma time_Sub_small:
  "- 9223372036854775808 \<le> a - b \<Longrightarrow> a - b \<le> 9223372036854775807 \<Longrightarrow> time_Sub a b = a - b"
  by (simp add: time_Sub_def clamp_int64_def min_int64_def max_int64_def)

lemma time_Sub_mono: "a \<le> b \<Longrightarrow> time_Sub a t \<le> time_Sub b t"
  by (auto simp: time_Sub_def clamp_int64_def min_int64_def max_int64_def)

lemma time_Sub_le_iff:
  assumes "0 \<le> d" and "d < 9223372036854775807"
  shows "time_Sub a t \<le> d \<longleftrightarrow> a - t \<le> d"
  using assms by (auto simp: time_Sub_def clamp_int64_def min_int64_def max_int64_def)

text \<open>A store of values that age: what a client of the cache relies on.\<close>

locale aging_store =
  fixes get :: "'c \<Rightarrow> 'k \<Rightarrow> int \<Rightarrow> 'v option"
    and put :: "'c \<Rightarrow> 'k \<Rightarrow> int \<Rightarrow> 'v \<Rightarrow> 'c"
    and ttl :: "'c \<Rightarrow> int"
    and ok :: "'c \<Rightarrow> bool"
  assumes get_put: "ok c \<Longrightarrow> get (put c k t v) k now = (if now - t \<le> ttl c then Some v else None)"
    and get_put_other: "ok c \<Longrightarrow> k' \<noteq> k \<Longrightarrow> get (put c k t v) k' now = get c k' now"
    and ttl_put: "ttl (put c k t v) = ttl c"
    and ok_put: "ok c \<Longrightarrow> ok (put c k t v)"
begin

lemma last_put_wins: "ok c \<Longrightarrow> get (put (put c k t v) k t' v') k now =
    (if now - t' \<le> ttl c then Some v' else None)"
  by (simp add: get_put ok_put ttl_put)

lemma put_commutes:
  assumes "ok c" and "k \<noteq> k'"
  shows "get (put (put c k t v) k' t' v') j now = get (put (put c k' t' v') k t v) j now"
  using assms by (cases "j = k"; cases "j = k'") (simp_all add: get_put get_put_other ok_put ttl_put)

text \<open>A run of puts: each key holds the last value put under it.\<close>

fun puts :: "'c \<Rightarrow> ('k \<times> int \<times> 'v) list \<Rightarrow> 'c" where
  "puts c [] = c"
| "puts c ((k, t, v) # ps) = puts (put c k t v) ps"

lemma ok_puts: "ok c \<Longrightarrow> ok (puts c ps)"
  by (induction c ps rule: puts.induct) (auto simp: ok_put)

lemma ttl_puts: "ttl (puts c ps) = ttl c"
  by (induction c ps rule: puts.induct) (auto simp: ttl_put)

lemma get_puts_other: "ok c \<Longrightarrow> k \<notin> fst ` set ps \<Longrightarrow> get (puts c ps) k now = get c k now"
  by (induction c ps rule: puts.induct) (auto simp: ok_put get_put_other)

lemma get_puts:
  assumes "ok c" and "k \<notin> fst ` set qs"
  shows "get (puts c (ps @ (k, t, v) # qs)) k now = (if now - t \<le> ttl c then Some v else None)"
proof -
  have "puts c (ps @ (k, t, v) # qs) = puts (put (puts c ps) k t v) qs"
    by (induction c ps rule: puts.induct) auto
  with assms show ?thesis by (simp add: get_puts_other ok_put ok_puts get_put ttl_puts)
qed

end

definition mem_put :: "ScanCache \<Rightarrow> string \<Rightarrow> int \<Rightarrow> PbAccessPoint list \<Rightarrow> ScanCache" where
  "mem_put c k t v = c\<lparr>sc_data := putScan (sc_data c) k t v\<rparr>"

definition ttl_ok :: "ScanCache \<Rightarrow> bool" where
  "ttl_ok c \<longleftrightarrow> 0 \<le> sc_ttl c \<and> sc_ttl c < 9223372036854775807"

lemma fresh_data [simp]: "fresh (c\<lparr>sc_data := d\<rparr>) e now = fresh c e now"
  by (simp add: fresh_def split: option.split)

lemma fresh_entry: "ttl_ok c \<Longrightarrow> fresh c (scan_entry i t v) now \<longleftrightarrow> now - t \<le> sc_ttl c"
  by (simp add: fresh_def ttl_ok_def time_Sub_le_iff)

lemma ttl_ok_mem: "ttl_ok (c\<lparr>sc_data := d\<rparr>) = ttl_ok c"
  by (simp add: ttl_ok_def)

interpretation cache: aging_store cache_Get mem_put sc_ttl ttl_ok
  by unfold_locales
    (auto simp: cache_Get_def mem_put_def cache_simps fresh_entry ttl_ok_mem split: option.split)

lemma cache_Put_mem:
  "cache_Put marshal F tmp i t aps (c, fs) = (e, c', fs') \<Longrightarrow> c' = mem_put c i t aps"
  by (auto simp: cache_Put_def mem_put_def Let_def split: option.splits prod.splits)

lemma writeFileAtomic_states:
  assumes "tmp \<noteq> path" and "writeFileAtomic F tmp path data fs = (e, trace)" and "g \<in> set trace"
  shows "g path = fs path \<or> g path = Some data"
  using assms by (auto simp: writeFileAtomic_def Let_def removed_def split: option.splits prod.splits)

lemma writeFileAtomic_result:
  assumes "tmp \<noteq> path" and "writeFileAtomic F tmp path data fs = (e, trace)"
  shows "last trace path = (if e = None then Some data else fs path)"
  using assms by (auto simp: writeFileAtomic_def Let_def removed_def split: option.splits prod.splits)

lemma writeFileAtomic_no_temp:
  assumes "tmp \<noteq> path" and "fs tmp = None" and "\<not> remove_fails F"
    and "writeFileAtomic F tmp path data fs = (e, trace)"
  shows "last trace tmp = None"
  using assms by (auto simp: writeFileAtomic_def Let_def removed_def split: option.splits prod.splits)

section \<open>Properties\<close>

text \<open>A run of Put calls, each with its own faults, temporary name and time.\<close>

fun put_run ::
  "(ScanCacheMsg \<Rightarrow> string option) \<Rightarrow>
   ((os_faults \<times> string) \<times> string \<times> int \<times> PbAccessPoint list) list \<Rightarrow>
   ScanCache \<times> files \<Rightarrow> ScanCache \<times> files" where
  "put_run marshal [] st = st"
| "put_run marshal (((F, tmp), i, t, aps) # ps) st =
     put_run marshal ps (snd (cache_Put marshal F tmp i t aps st))"

lemma put_run_puts: "fst (put_run marshal ps (c, fs)) = cache.puts c (map snd ps)"
proof (induction ps arbitrary: c fs)
  case (Cons p ps)
  obtain F tmp i t aps where p: "p = ((F, tmp), i, t, aps)" by (metis prod.exhaust)
  obtain e c' fs' where put: "cache_Put marshal F tmp i t aps (c, fs) = (e, c', fs')"
    by (metis prod.exhaust)
  from cache_Put_mem [OF put] Cons.IH [of c' fs'] show ?case by (simp add: p put)
qed simp

text \<open>After any run of Put calls, whatever disk writes fail in it, Get answers for an interface with the access points of the last Put under its id, as long as the clock reads at most the time to live after that Put, and with a miss from then on.\<close>

theorem cache_last_put:
  assumes "ttl_ok c" and "i \<notin> (fst \<circ> snd) ` set qs"
  shows "cache_Get (fst (put_run marshal (ps @ (D, i, t, aps) # qs) (c, fs))) i now =
           (if now - t \<le> sc_ttl c then Some aps else None)"
proof -
  have "i \<notin> fst ` set (map snd qs)" using assms(2) by (simp add: image_comp)
  from cache.get_puts [OF assms(1) this, of "map snd ps" t aps now] show ?thesis
    by (simp add: put_run_puts)
qed

definition full_disk :: os_faults where
  "full_disk = \<lparr>create_fails = None, write_fails = Some (1, ''no space left''), close_fails = None,
     rename_fails = None, remove_fails = False\<rparr>"

definition an_ap :: PbAccessPoint where
  "an_ap = zero_PbAccessPoint\<lparr>pap_Ssid := ''net''\<rparr>"

lemma cache_last_put_witness:
  "cache_Get (fst (put_run (\<lambda>_. Some ''blob'')
     [((full_disk, ''t1''), ''wlan0'', 5, []), ((full_disk, ''t2''), ''wlan0'', 7, [an_ap]),
      ((full_disk, ''t3''), ''wlan1'', 8, [])] (NewScanCache ''cache'' 10, Map.empty))) ''wlan0'' 17
   = Some [an_ap]"
  using cache_last_put [of "NewScanCache ''cache'' 10" "''wlan0''" "[((full_disk, ''t3''), ''wlan1'', 8, [])]"
      "\<lambda>_. Some ''blob''" "[((full_disk, ''t1''), ''wlan0'', 5, [])]" "(full_disk, ''t2'')" 7 "[an_ap]"
      Map.empty 17]
  by (simp add: NewScanCache_def ttl_ok_def)

text \<open>C22: Replacing the cache file is atomic: in every state a crash can leave, the path holds either what it held before or the whole new content; at the end it holds the new content exactly when no error is returned; and unless the removal itself fails, no temporary file is left.\<close>

theorem writeFileAtomic_atomic:
  assumes tmp: "tmp \<noteq> path" and w: "writeFileAtomic F tmp path data fs = (e, trace)"
  shows "(\<forall>g. g \<in> set trace \<longrightarrow> g path = fs path \<or> g path = Some data) \<and>
         last trace path = (if e = None then Some data else fs path) \<and>
         (fs tmp = None \<and> \<not> remove_fails F \<longrightarrow> last trace tmp = None)"
  using writeFileAtomic_states [OF tmp w] writeFileAtomic_result [OF tmp w]
    writeFileAtomic_no_temp [OF tmp _ _ w] by blast

lemma writeFileAtomic_atomic_witness:
  "let (e, trace) = writeFileAtomic full_disk ''.wfm-1'' ''cache'' ''new'' [''cache'' \<mapsto> ''old'']
   in e = Some ''no space left'' \<and> last trace ''cache'' = Some ''old''"
proof -
  obtain e trace where w:
    "writeFileAtomic full_disk ''.wfm-1'' ''cache'' ''new'' [''cache'' \<mapsto> ''old''] = (e, trace)"
    by (metis prod.exhaust)
  then have "e = Some ''no space left''" by (simp add: writeFileAtomic_def full_disk_def Let_def)
  with writeFileAtomic_atomic [OF _ w] w show ?thesis by simp
qed

text \<open>Load followed by Get: over a readable file with one entry per interface, a lookup at the time of the load returns the entry of the file for that interface if it carries a time stamp at most the time to live old, and misses otherwise; a missing file leaves the cache as it is, without an error.\<close>

theorem cache_Load_Get:
  assumes "unmarshal blob = Some sc" and "unique_ids sc"
  shows "cache_Get (snd (cache_Load unmarshal (Content blob) now c)) i now =
           (case findScan sc i of
              None \<Rightarrow> None
            | Some e \<Rightarrow> if fresh c e now then Some (is_AccessPoints e) else None) \<and>
         fst (cache_Load unmarshal (Content blob) now c) = None \<and>
         cache_Load unmarshal NoFile now c = (None, c)"
  using assms by (auto simp: cache_Load_def cache_Get_def findScan_filter split: option.splits)

lemma cache_Load_Get_witness:
  "cache_Get (snd (cache_Load (\<lambda>_. Some [scan_entry ''wlan0'' 0 [an_ap], scan_entry ''wlan1'' 9 [an_ap]])
      (Content ''x'') 12 (NewScanCache ''cache'' 10))) ''wlan0'' 12 = None"
  using cache_Load_Get [of "\<lambda>_. Some [scan_entry ''wlan0'' 0 [an_ap], scan_entry ''wlan1'' 9 [an_ap]]" "''x''"
      "[scan_entry ''wlan0'' 0 [an_ap], scan_entry ''wlan1'' 9 [an_ap]]" 12 "NewScanCache ''cache'' 10" "''wlan0''"]
  by (simp add: unique_ids_def fresh_entry ttl_ok_def NewScanCache_def)

text \<open>An entry stamped later than the clock reads is fresh, so a clock that is set back makes the cache serve an old scan until the clock has caught up with it.\<close>

lemma future_entry_fresh:
  assumes "0 \<le> sc_ttl c" and "now < t"
  shows "fresh c (scan_entry i t aps) now"
proof -
  have "time_Sub now t \<le> time_Sub t t" using assms(2) by (intro time_Sub_mono) simp
  also have "time_Sub t t = 0" by (simp add: time_Sub_small)
  finally show ?thesis using assms(1) by (simp add: fresh_def)
qed

lemma future_entry_fresh_witness: "fresh (NewScanCache ''cache'' 10) (scan_entry ''wlan0'' 1000000 []) 5"
  using future_entry_fresh [of "NewScanCache ''cache'' 10" 5 1000000] by (simp add: NewScanCache_def)

end
