(* ===== verification/Server.thy ===== *)
theory Server
  imports Exclude Scan_Cache
begin

text \<open>
  \<open>internal/server\<close>: the gRPC services over a backend.  Mapping of domain values to
  messages and back, the checks of each request, the status codes, and the scan service
  with its cache.  A handler passes the state of the backend; the scan handler also
  passes the cache and the files.
\<close>

named_theorems handler_simps \<open>unfolding of the handlers\<close>

section \<open>conv.go\<close>

text \<open>
  \<open>github.com/google/uuid\<close> as a parameter; a UUID is its 16 bytes.
\<close>

record uuid_lib =
  uuid_Parse :: "string \<Rightarrow> string option"
  uuid_FromBytes :: "string \<Rightarrow> string option"
  uuid_String :: "string \<Rightarrow> string"

definition uuidToBytes :: "uuid_lib \<Rightarrow> string \<Rightarrow> string" where
  "uuidToBytes U s = (case uuid_Parse U s of None \<Rightarrow> [] | Some u \<Rightarrow> u)"

definition uuidFromBytes :: "uuid_lib \<Rightarrow> string \<Rightarrow> string" where
  "uuidFromBytes U b = (case uuid_FromBytes U b of None \<Rightarrow> [] | Some u \<Rightarrow> uuid_String U u)"

text \<open>The documented behaviour of the library.\<close>

definition uuid_law :: "uuid_lib \<Rightarrow> bool" where
  "uuid_law U \<longleftrightarrow>
     (\<forall>b. uuid_FromBytes U b = (if length b = 16 then Some b else None)) \<and>
     (\<forall>b. length b = 16 \<longrightarrow> uuid_String U b \<noteq> [] \<and> uuid_Parse U (uuid_String U b) = Some b)"

fun err_text :: "werr \<Rightarrow> string" where
  "err_text (ErrNotFound m) = m"
| "err_text (ErrUnsupported m) = m"
| "err_text (ErrOther m) = m"
| "err_text OutOfFuel = ''out of fuel''"

fun errToStatus :: "string \<Rightarrow> werr \<Rightarrow> rpc_error" where
  "errToStatus action (ErrNotFound m) = (NotFound, action @ '': '' @ m)"
| "errToStatus action (ErrUnsupported m) = (Unimplemented, action @ '': '' @ m)"
| "errToStatus action e = (Internal, action @ '': '' @ err_text e)"

definition errToStatusList :: "werr \<Rightarrow> rpc_error" where
  "errToStatusList e = (Internal, err_text e)"

text \<open>\<open>x, err := call; if err != nil { return nil, st(err) }; return conv(x), nil\<close>.\<close>

definition reply :: "(werr \<Rightarrow> rpc_error) \<Rightarrow> ('a \<Rightarrow> 'b) \<Rightarrow> ('s, 'a) op \<Rightarrow> ('s, 'b) handler" where
  "reply st conv m s = (case m s of (Inl e, s') \<Rightarrow> (Inl (st e), s') | (Inr a, s') \<Rightarrow> (Inr (conv a), s'))"

definition invalid :: "string \<Rightarrow> ('s, 'a) handler" where
  "invalid m s = (Inl (InvalidArgument, m), s)"

section \<open>interface.go\<close>

definition pbInterface :: "Interface \<Rightarrow> PbInterface" where
  "pbInterface it = \<lparr>pif_Id = if_Name it, pif_Name = if_Name it, pif_Desc = if_Desc it,
     pif_Mac = if_Mac it, pif_Powered = if_Powered it, pif_Up = if_Up it\<rparr>"

definition Interface_List :: "'s Backend \<Rightarrow> ('s, PbInterface list) handler" where
  "Interface_List B = reply errToStatusList (map pbInterface) (b_Interfaces B)"

definition Interface_Get :: "'s Backend \<Rightarrow> string \<Rightarrow> ('s, PbInterface) handler" where
  "Interface_Get B name =
     (if name = [] then invalid ''interface id required''
      else reply (errToStatus (''interface '' @ name)) pbInterface (b_Interface B name))"

definition Interface_SetPower :: "'s Backend \<Rightarrow> string \<Rightarrow> bool \<Rightarrow> ('s, PbInterface) handler" where
  "Interface_SetPower B name on =
     (if name = [] then invalid ''interface id required''
      else reply (errToStatus ''set power'') pbInterface (b_SetPower B name on))"

section \<open>profile.go\<close>

fun pbMethod :: "IPMethod \<Rightarrow> PbIpMethod" where
  "pbMethod IPAuto = METHOD_AUTO"
| "pbMethod IPManual = METHOD_MANUAL"
| "pbMethod IPDisabled = METHOD_DISABLED"
| "pbMethod IPUnspecified = METHOD_UNSPECIFIED"

definition pbIPConfig :: "IPConfig \<Rightarrow> PbIpConfig" where
  "pbIPConfig c = \<lparr>pip_Method = pbMethod (ip_Method c), pip_Addresses = ip_Addresses c,
     pip_Gateway = ip_Gateway c, pip_Dns = ip_DNS c, pip_DnsSearch = ip_DNSSearch c\<rparr>"

definition pbSecurity :: "Security \<Rightarrow> Credential" where
  "pbSecurity s = (case sec_Kind s of
       SecEnterprise \<Rightarrow> EnterpriseCred
     | SecPSK \<Rightarrow> PskCred []
     | SecOpen \<Rightarrow> OpenCred)"

definition pbProfile :: "uuid_lib \<Rightarrow> Profile \<Rightarrow> PbProfile" where
  "pbProfile U p = \<lparr>ppr_Id = uuidToBytes U (pr_ID p), ppr_Name = pr_Name p, ppr_Desc = [], ppr_Ssid = pr_SSID p,
     ppr_Hidden = pr_Hidden p, ppr_Autoconnect = pr_Autoconnect p,
     ppr_Security = Some (pbSecurity (pr_Security p)),
     ppr_Ipv4 = Some (pbIPConfig (pr_IPv4 p)), ppr_Ipv6 = Some (pbIPConfig (pr_IPv6 p))\<rparr>"

definition reqSecurity :: "Credential option \<Rightarrow> Security" where
  "reqSecurity s = (case s of
       None \<Rightarrow> \<lparr>sec_Kind = SecOpen, sec_Passphrase = []\<rparr>
     | Some (PskCred p) \<Rightarrow> \<lparr>sec_Kind = SecPSK, sec_Passphrase = p\<rparr>
     | Some EnterpriseCred \<Rightarrow> \<lparr>sec_Kind = SecEnterprise, sec_Passphrase = []\<rparr>
     | Some OpenCred \<Rightarrow> \<lparr>sec_Kind = SecOpen, sec_Passphrase = []\<rparr>
     | Some CredNotSet \<Rightarrow> \<lparr>sec_Kind = SecOpen, sec_Passphrase = []\<rparr>)"

fun reqMethod :: "PbIpMethod \<Rightarrow> IPMethod" where
  "reqMethod METHOD_AUTO = IPAuto"
| "reqMethod METHOD_MANUAL = IPManual"
| "reqMethod METHOD_DISABLED = IPDisabled"
| "reqMethod METHOD_UNSPECIFIED = IPUnspecified"

definition reqIPConfig :: "PbIpConfig option \<Rightarrow> IPConfig option" where
  "reqIPConfig c = (case c of None \<Rightarrow> None | Some c \<Rightarrow>
     Some \<lparr>ip_Method = reqMethod (pip_Method c), ip_Addresses = pip_Addresses c,
       ip_Gateway = pip_Gateway c, ip_DNS = pip_Dns c, ip_DNSSearch = pip_DnsSearch c\<rparr>)"

definition Profile_List :: "'s Backend \<Rightarrow> uuid_lib \<Rightarrow> ('s, PbProfile list) handler" where
  "Profile_List B U = reply errToStatusList (map (pbProfile U)) (b_Profiles B)"

definition Profile_Get :: "'s Backend \<Rightarrow> uuid_lib \<Rightarrow> string \<Rightarrow> ('s, PbProfile) handler" where
  "Profile_Get B U ref =
     (let id = uuidFromBytes U ref in
      if id = [] then invalid ''invalid profile ref''
      else reply (errToStatus (''profile '' @ id)) (pbProfile U) (b_Profile B id))"

definition add_spec :: "ProfileAddRequest \<Rightarrow> ProfileSpec" where
  "add_spec req = \<lparr>ps_Name = par_Name req, ps_SSID = par_Ssid req, ps_Hidden = par_Hidden req,
     ps_Autoconnect = par_Autoconnect req, ps_Security = reqSecurity (par_Security req),
     ps_IPv4 = reqIPConfig (par_Ipv4 req), ps_IPv6 = reqIPConfig (par_Ipv6 req)\<rparr>"

definition Profile_Add :: "'s Backend \<Rightarrow> uuid_lib \<Rightarrow> ProfileAddRequest \<Rightarrow> ('s, PbProfile) handler" where
  "Profile_Add B U req =
     (if par_Ssid req = [] then invalid ''ssid is required''
      else reply (errToStatus ''add profile'') (pbProfile U) (b_AddProfile B (add_spec req)))"

definition patch_of :: "ProfilePatchRequest \<Rightarrow> ProfilePatch" where
  "patch_of req = \<lparr>
     pp_Name = ppa_Name req,
     pp_SSID = ppa_Ssid req,
     pp_Hidden = ppa_Hidden req,
     pp_Autoconnect = ppa_Autoconnect req,
     pp_Security = (case ppa_Security req of None \<Rightarrow> None | Some s \<Rightarrow> Some (reqSecurity (Some s))),
     pp_IPv4 = (case ppa_Ipv4 req of None \<Rightarrow> None | Some c \<Rightarrow> reqIPConfig (Some c)),
     pp_IPv6 = (case ppa_Ipv6 req of None \<Rightarrow> None | Some c \<Rightarrow> reqIPConfig (Some c))\<rparr>"

definition Profile_Patch :: "'s Backend \<Rightarrow> uuid_lib \<Rightarrow> ProfilePatchRequest \<Rightarrow> ('s, PbProfile) handler" where
  "Profile_Patch B U req =
     (let id = uuidFromBytes U (ppa_Ref req) in
      if id = [] then invalid ''invalid profile ref''
      else reply (errToStatus ''modify profile'') (pbProfile U) (b_PatchProfile B id (patch_of req)))"

definition Profile_Erase :: "'s Backend \<Rightarrow> uuid_lib \<Rightarrow> string \<Rightarrow> ('s, unit) handler" where
  "Profile_Erase B U ref =
     (let id = uuidFromBytes U ref in
      if id = [] then invalid ''invalid profile ref''
      else reply (errToStatus ''delete profile'') (\<lambda>_. ()) (b_DeleteProfile B id))"

section \<open>access\_point.go\<close>

fun pbKeyMgmt :: "KeyMgmt \<Rightarrow> KeyManagement" where
  "pbKeyMgmt KeyWPAPSK = KEY_MANAGEMENT_WPA_PSK"
| "pbKeyMgmt KeySAE = KEY_MANAGEMENT_SAE"
| "pbKeyMgmt KeyWPAEAP = KEY_MANAGEMENT_WPA_EAP"
| "pbKeyMgmt KeyOWE = KEY_MANAGEMENT_OWE"
| "pbKeyMgmt KeyNone = KEY_MANAGEMENT_NONE"

definition pbKeyMgmts :: "KeyMgmt list \<Rightarrow> KeyManagement list" where
  "pbKeyMgmts ks = map pbKeyMgmt ks"

definition pbAccessPoint :: "AP \<Rightarrow> PbAccessPoint" where
  "pbAccessPoint ap = \<lparr>pap_Id = ap_BSSID ap, pap_Ssid = ap_SSID ap, pap_Bssid = ap_BSSID ap,
     pap_Signal = to_int32 (ap_Signal ap), pap_Frequency = ap_FreqMHz ap,
     pap_KeyManagement = pbKeyMgmts (ap_KeyMgmt ap)\<rparr>"

text \<open>
  The state of the scan service: the backend's, the optional cache shared by all clients,
  and the files.  The environment gives the clock, the faults and the temporary name of
  each cache write, and \<open>proto.Marshal\<close>.
\<close>

record 's scan_state =
  ss_backend :: 's
  ss_cache :: "ScanCache option"
  ss_files :: files

record 's scan_env =
  se_now :: "'s \<Rightarrow> int \<times> 's"
  se_disk :: "'s \<Rightarrow> (os_faults \<times> string) \<times> 's"
  se_marshal :: "ScanCacheMsg \<Rightarrow> string option"

definition cache_hit :: "'s scan_env \<Rightarrow> string \<Rightarrow> 's scan_state \<Rightarrow> PbAccessPoint list option \<times> 's scan_state" where
  "cache_hit E ifname s =
     (case ss_cache s of
        None \<Rightarrow> (None, s)
      | Some c \<Rightarrow>
          (case se_now E (ss_backend s) of
             (t, b) \<Rightarrow> (cache_Get c ifname t, s\<lparr>ss_backend := b\<rparr>)))"

definition cache_store :: "'s scan_env \<Rightarrow> string \<Rightarrow> PbAccessPoint list \<Rightarrow> 's scan_state \<Rightarrow> 's scan_state" where
  "cache_store E ifname items s =
     (case ss_cache s of
        None \<Rightarrow> s
      | Some c \<Rightarrow>
          (case se_now E (ss_backend s) of
             (t, b) \<Rightarrow>
               (case se_disk E b of
                  ((F, tmp), b') \<Rightarrow>
                    (case cache_Put (se_marshal E) F tmp ifname t items (c, ss_files s) of
                       (_, c', fs') \<Rightarrow> s\<lparr>ss_backend := b', ss_cache := Some c', ss_files := fs'\<rparr>))))"

definition AccessPoint_Scan ::
  "'s Backend \<Rightarrow> 's scan_env \<Rightarrow> string \<Rightarrow> ('s scan_state, PbAccessPoint list) handler" where
  "AccessPoint_Scan B E ifname s =
     (if ifname = [] then invalid ''interface id required'' s
      else (case cache_hit E ifname s of
         (Some items, s1) \<Rightarrow> (Inr items, s1)
       | (None, s1) \<Rightarrow>
           (case b_Scan B ifname (ss_backend s1) of
              (Inl e, b) \<Rightarrow> (Inl (errToStatus ''scan'' e), s1\<lparr>ss_backend := b\<rparr>)
            | (Inr aps, b) \<Rightarrow>
                (let items = map pbAccessPoint aps
                 in (Inr items, cache_store E ifname items (s1\<lparr>ss_backend := b\<rparr>))))))"

section \<open>connection.go\<close>

fun pbState :: "ConnState \<Rightarrow> PbConnectionState" where
  "pbState StateIdle = CONNECTION_STATE_IDLE"
| "pbState StateAssociating = CONNECTION_STATE_ASSOCIATING"
| "pbState StateAuthenticating = CONNECTION_STATE_AUTHENTICATING"
| "pbState StateConfiguring = CONNECTION_STATE_CONFIGURING"
| "pbState StateConnected = CONNECTION_STATE_CONNECTED"
| "pbState StateFailed = CONNECTION_STATE_FAILED"
| "pbState StateDisconnecting = CONNECTION_STATE_DISCONNECTING"
| "pbState StateUnspecified = CONNECTION_STATE_UNSPECIFIED"

fun pbConnError :: "ConnError \<Rightarrow> PbConnectionError" where
  "pbConnError ErrCAuthFailed = CONNECTION_ERROR_AUTH_FAILED"
| "pbConnError ErrCUnknown = CONNECTION_ERROR_UNKNOWN"
| "pbConnError ErrCNone = CONNECTION_ERROR_NONE"

definition pbStatus :: "Status \<Rightarrow> PbConnectionStatus" where
  "pbStatus st = \<lparr>
     pcs_State = pbState (st_State st),
     pcs_Error = pbConnError (st_Error st),
     pcs_Detail = (if st_Detail st \<noteq> [] then Some (st_Detail st) else None),
     pcs_Bssid = (if st_BSSID st \<noteq> [] then Some (st_BSSID st) else None),
     pcs_Signal = (if st_BSSID st \<noteq> [] then Some (to_int32 (st_Signal st)) else None),
     pcs_Addresses = st_Addresses st,
     pcs_Gateway = st_Gateway st,
     pcs_Dns = st_DNS st\<rparr>"

text \<open>\<open>if x, err := m(); err == nil { use(x) }\<close>: the value when there was no error.\<close>

definition attempt :: "('s, 'a) op \<Rightarrow> 's \<Rightarrow> 'a option \<times> 's" where
  "attempt m s = (case m s of (Inl _, s') \<Rightarrow> (None, s') | (Inr a, s') \<Rightarrow> (Some a, s'))"

definition pbConnection :: "'s Backend \<Rightarrow> uuid_lib \<Rightarrow> Active \<Rightarrow> 's \<Rightarrow> PbConnection \<times> 's" where
  "pbConnection B U a s =
     (case attempt (b_Interface B (ac_Iface a)) s of
        (it, s1) \<Rightarrow>
          (case attempt (b_Profile B (ac_ProfileID a)) s1 of
             (p, s2) \<Rightarrow>
               (\<lparr>pcn_Id = uuidToBytes U (ac_ID a),
                 pcn_Interface = map_option pbInterface it,
                 pcn_Profile = map_option (pbProfile U) p,
                 pcn_AccessPoint =
                   (if ac_SSID a \<noteq> [] \<or> ac_BSSID a \<noteq> []
                    then Some (zero_PbAccessPoint\<lparr>pap_Id := ac_BSSID a, pap_Ssid := ac_SSID a,
                                 pap_Bssid := ac_BSSID a\<rparr>)
                    else None)\<rparr>, s2)))"

definition Connection_Add :: "'s Backend \<Rightarrow> uuid_lib \<Rightarrow> ConnectionAddRequest \<Rightarrow> ('s, PbConnection) handler" where
  "Connection_Add B U req s =
     (let ifname = car_Interface req;
          prof = uuidFromBytes U (car_Profile req)
      in if ifname = [] \<or> prof = [] then invalid ''interface and profile are required'' s
         else (case b_Activate B ifname prof (get_str (car_AccessPoint req)) s of
                 (Inl e, s') \<Rightarrow> (Inl (errToStatus ''activate'' e), s')
               | (Inr a, s') \<Rightarrow> (case pbConnection B U a s' of (c, s'') \<Rightarrow> (Inr c, s''))))"

definition Connection_Get :: "'s Backend \<Rightarrow> uuid_lib \<Rightarrow> string \<Rightarrow> ('s, PbConnection) handler" where
  "Connection_Get B U ref s =
     (let id = uuidFromBytes U ref in
      if id = [] then invalid ''invalid connection ref'' s
      else (case b_Connection B id s of
              (Inl e, s') \<Rightarrow> (Inl (errToStatus (''connection '' @ id) e), s')
            | (Inr a, s') \<Rightarrow> (case pbConnection B U a s' of (c, s'') \<Rightarrow> (Inr c, s''))))"

definition Connection_List :: "'s Backend \<Rightarrow> uuid_lib \<Rightarrow> string \<Rightarrow> ('s, PbConnection list) handler" where
  "Connection_List B U ifaceFilter s =
     (case b_Connections B s of
        (Inl e, s') \<Rightarrow> (Inl (errToStatusList e), s')
      | (Inr actives, s') \<Rightarrow>
          (case filter_mapS
                  (\<lambda>a s. if ifaceFilter \<noteq> [] \<and> ac_Iface a \<noteq> ifaceFilter then (None, s)
                         else (case pbConnection B U a s of (c, s'') \<Rightarrow> (Some c, s'')))
                  actives s' of
             (items, s'') \<Rightarrow> (Inr items, s'')))"

definition Connection_Erase :: "'s Backend \<Rightarrow> uuid_lib \<Rightarrow> string \<Rightarrow> ('s, unit) handler" where
  "Connection_Erase B U ref =
     (let id = uuidFromBytes U ref in
      if id = [] then invalid ''invalid connection ref''
      else reply (errToStatus ''deactivate'') (\<lambda>_. ()) (b_Deactivate B id))"

definition Connection_GetStatus :: "'s Backend \<Rightarrow> uuid_lib \<Rightarrow> string \<Rightarrow> ('s, PbConnectionStatus) handler" where
  "Connection_GetStatus B U ref =
     (let id = uuidFromBytes U ref in
      if id = [] then invalid ''invalid connection ref''
      else reply (errToStatus ''status'') pbStatus (b_Status B id))"

text \<open>
  \<open>stream.Send\<close> may fail; the messages delivered before the first failure come with the
  result.
\<close>

fun send_all ::
  "(PbConnectionStatus \<Rightarrow> 's \<Rightarrow> rpc_error option \<times> 's) \<Rightarrow> Status list \<Rightarrow> 's
   \<Rightarrow> (rpc_error option \<times> PbConnectionStatus list) \<times> 's" where
  "send_all send [] s = ((None, []), s)"
| "send_all send (st # sts) s =
     (case send (pbStatus st) s of
        (Some e, s') \<Rightarrow> ((Some e, []), s')
      | (None, s') \<Rightarrow>
          (case send_all send sts s' of ((e, ms), s'') \<Rightarrow> ((e, pbStatus st # ms), s'')))"

definition Connection_Watch ::
  "'s Backend \<Rightarrow> uuid_lib \<Rightarrow> (PbConnectionStatus \<Rightarrow> 's \<Rightarrow> rpc_error option \<times> 's) \<Rightarrow> string \<Rightarrow> 's
   \<Rightarrow> (rpc_error option \<times> PbConnectionStatus list) \<times> 's" where
  "Connection_Watch B U send ref s =
     (let id = uuidFromBytes U ref in
      if id = [] then ((Some (InvalidArgument, ''invalid connection ref''), []), s)
      else (case b_Watch B id s of
              (Inl e, s') \<Rightarrow> ((Some (errToStatus ''watch'' e), []), s')
            | (Inr sts, s') \<Rightarrow> send_all send sts s'))"

section \<open>server.go\<close>

type_synonym options = "ScanCache option"

definition WithScanCache :: "ScanCache \<Rightarrow> options \<Rightarrow> options" where
  "WithScanCache c opts = Some c"

text \<open>The options of \<open>Register\<close> applied in order: the cache of the scan service.\<close>

definition Register :: "(options \<Rightarrow> options) list \<Rightarrow> options" where
  "Register opts = foldl (\<lambda>o' f. f o') None opts"

section \<open>Lemmas\<close>

lemma reqMethod_pbMethod [simp]: "reqMethod (pbMethod m) = m"
  by (cases m) simp_all

lemma pbMethod_reqMethod [simp]: "pbMethod (reqMethod m) = m"
  by (cases m) simp_all

lemma reqIPConfig_pbIPConfig [simp]: "reqIPConfig (Some (pbIPConfig c)) = Some c"
  by (simp add: reqIPConfig_def pbIPConfig_def)

lemma reqSecurity_pbSecurity [simp]:
  "reqSecurity (Some (pbSecurity s)) = \<lparr>sec_Kind = sec_Kind s, sec_Passphrase = []\<rparr>"
  by (cases "sec_Kind s") (simp_all add: reqSecurity_def pbSecurity_def)

lemma uuidFromBytes_law: "uuid_law U \<Longrightarrow> uuidFromBytes U b = (if length b = 16 then uuid_String U b else [])"
  by (simp add: uuid_law_def uuidFromBytes_def)

lemma uuidFromBytes_empty: "uuid_law U \<Longrightarrow> uuidFromBytes U b = [] \<longleftrightarrow> length b \<noteq> 16"
  by (simp add: uuid_law_def uuidFromBytes_def)

lemma uuidToBytes_String: "uuid_law U \<Longrightarrow> length b = 16 \<Longrightarrow> uuidToBytes U (uuid_String U b) = b"
  by (simp add: uuid_law_def uuidToBytes_def)

text \<open>The status code of a backend error.\<close>

fun status_code :: "werr \<Rightarrow> code" where
  "status_code (ErrNotFound m) = NotFound"
| "status_code (ErrUnsupported m) = Unimplemented"
| "status_code e = Internal"

lemma errToStatus_code [simp]: "fst (errToStatus a e) = status_code e"
  by (cases e) simp_all

lemma errToStatusList_code [simp]: "fst (errToStatusList e) = Internal"
  by (simp add: errToStatusList_def)

lemma reply_Inl: "fst (reply st f m s) = Inl r \<longleftrightarrow> (\<exists>e. fst (m s) = Inl e \<and> r = st e)"
  by (auto simp: reply_def split: prod.splits sum.splits)

lemma reply_code: "fst (reply (errToStatus a) f m s) = Inl (c, t) \<Longrightarrow> \<exists>e. fst (m s) = Inl e \<and> c = status_code e"
  by (metis errToStatus_code fst_conv reply_Inl)

lemma reply_list_code: "fst (reply errToStatusList f m s) = Inl (c, t) \<Longrightarrow> c = Internal"
  by (metis errToStatusList_code fst_conv reply_Inl)

text \<open>
  The prefix that has been sent is an initial part of the backend's statuses.
\<close>

lemma send_all_prefix:
  "send_all send sts s = ((e, ms), s') \<Longrightarrow>
     ms = map pbStatus (take (length ms) sts) \<and> (e = None \<longleftrightarrow> length ms = length sts)"
proof (induction sts arbitrary: s e ms s')
  case (Cons st sts)
  obtain r s1 where sn: "send (pbStatus st) s = (r, s1)" by force
  obtain e1 ms1 s2 where rec: "send_all send sts s1 = ((e1, ms1), s2)" by (metis prod.exhaust)
  from Cons.IH [OF rec] Cons.prems sn rec show ?case by (cases r) auto
qed simp

lemma cache_store_now:
  assumes c: "ss_cache s = Some c" and now: "se_now E (ss_backend s) = (t, b1)"
    and disk: "se_disk E b1 = (D, b2)"
  shows "ss_cache (cache_store E i items s) = Some (mem_put c i t items)
       \<and> ss_backend (cache_store E i items s) = b2"
proof -
  obtain F tmp where D: "D = (F, tmp)" by force
  obtain e c' fs' where put: "cache_Put (se_marshal E) F tmp i t items (c, ss_files s) = (e, c', fs')"
    by (metis prod.exhaust)
  from cache_Put_mem [OF put] c now disk D put show ?thesis by (simp add: cache_store_def)
qed

section \<open>Properties\<close>

text \<open>A UUID library to evaluate on: the plain hexadecimal form.\<close>

definition hex_uuid :: uuid_lib where
  "hex_uuid = \<lparr>
     uuid_Parse = (\<lambda>s. if length s = 32 then hex_decode s else None),
     uuid_FromBytes = (\<lambda>b. if length b = 16 then Some b else None),
     uuid_String = hex_encode\<rparr>"

lemma length_hex_encode [simp]: "length (hex_encode b) = 2 * length b"
  by (induction b) simp_all

lemma hex_uuid_law: "uuid_law hex_uuid"
proof -
  have "hex_encode b \<noteq> []" if "length b = 16" for b
    using that by (metis length_hex_encode list.size(3) mult_eq_0_iff numeral_neq_zero)
  then show ?thesis by (simp add: uuid_law_def hex_uuid_def)
qed





text \<open>The Add request a client makes from a profile it has read.\<close>

definition readback :: "PbProfile \<Rightarrow> ProfileAddRequest" where
  "readback p = \<lparr>par_Name = ppr_Name p, par_Ssid = ppr_Ssid p, par_Hidden = ppr_Hidden p,
     par_Autoconnect = ppr_Autoconnect p, par_Security = ppr_Security p,
     par_Ipv4 = ppr_Ipv4 p, par_Ipv6 = ppr_Ipv6 p\<rparr>"

text \<open>C17: A profile survives the way to a client and back: the specification that the server builds from an Add request holding the fields of a profile it has served equals that profile, with the passphrase cleared.\<close>

theorem profile_readback:
  "add_spec (readback (pbProfile U p)) =
     \<lparr>ps_Name = pr_Name p, ps_SSID = pr_SSID p, ps_Hidden = pr_Hidden p,
      ps_Autoconnect = pr_Autoconnect p,
      ps_Security = \<lparr>sec_Kind = sec_Kind (pr_Security p), sec_Passphrase = []\<rparr>,
      ps_IPv4 = Some (pr_IPv4 p), ps_IPv6 = Some (pr_IPv6 p)\<rparr>"
  by (simp add: add_spec_def readback_def pbProfile_def)

text \<open>A backend whose answers carry no passphrase.\<close>

definition no_secret :: "Profile \<Rightarrow> Profile" where
  "no_secret p = p\<lparr>pr_Security := (pr_Security p)\<lparr>sec_Passphrase := []\<rparr>\<rparr>"

definition map_op :: "('a \<Rightarrow> 'b) \<Rightarrow> ('s, 'a) op \<Rightarrow> ('s, 'b) op" where
  "map_op f m s = (case m s of (Inl e, s') \<Rightarrow> (Inl e, s') | (Inr a, s') \<Rightarrow> (Inr (f a), s'))"

definition muted :: "'s Backend \<Rightarrow> 's Backend" where
  "muted B = B\<lparr>b_Profiles := map_op (map no_secret) (b_Profiles B),
     b_Profile := (\<lambda>i. map_op no_secret (b_Profile B i)),
     b_AddProfile := (\<lambda>sp. map_op no_secret (b_AddProfile B sp)),
     b_PatchProfile := (\<lambda>i p. map_op no_secret (b_PatchProfile B i p))\<rparr>"

lemma muted_sel [simp]:
  "b_Profiles (muted B) = map_op (map no_secret) (b_Profiles B)"
  "b_Profile (muted B) i = map_op no_secret (b_Profile B i)"
  "b_AddProfile (muted B) sp = map_op no_secret (b_AddProfile B sp)"
  "b_PatchProfile (muted B) i p = map_op no_secret (b_PatchProfile B i p)"
  "b_Interface (muted B) = b_Interface B" "b_Connection (muted B) = b_Connection B"
  "b_Connections (muted B) = b_Connections B" "b_Activate (muted B) = b_Activate B"
  by (simp_all add: muted_def)

lemma pbProfile_no_secret [simp]: "pbProfile U (no_secret p) = pbProfile U p"
  by (simp add: pbProfile_def no_secret_def pbSecurity_def)

lemma reply_map_op: "(\<And>a. g (f a) = g a) \<Longrightarrow> reply st g (map_op f m) = reply st g m"
  by (auto simp: fun_eq_iff reply_def map_op_def split: prod.splits sum.splits)

lemma pbConnection_muted [simp]: "pbConnection (muted B) U = pbConnection B U"
proof -
  have "map_option (pbProfile U) (fst (attempt (map_op no_secret m) t))
          = map_option (pbProfile U) (fst (attempt m t)) \<and>
        snd (attempt (map_op no_secret m) t) = snd (attempt m t)" for m and t :: 'a
    by (auto simp: attempt_def map_op_def split: prod.splits sum.splits)
  then show ?thesis
    by (auto simp: fun_eq_iff pbConnection_def split_beta)
qed

text \<open>C21: No reply of the server depends on a stored passphrase: over a backend whose profiles all have their passphrase erased, every handler that reports a profile gives the same result and the same state.\<close>

theorem passphrase_never_served:
  "Profile_List (muted B) U = Profile_List B U \<and>
   Profile_Get (muted B) U = Profile_Get B U \<and>
   Profile_Add (muted B) U = Profile_Add B U \<and>
   Profile_Patch (muted B) U = Profile_Patch B U \<and>
   Connection_Get (muted B) U = Connection_Get B U \<and>
   Connection_Add (muted B) U = Connection_Add B U \<and>
   Connection_List (muted B) U = Connection_List B U"
proof -
  have rl: "reply st (map (pbProfile U)) (map_op (map no_secret) m) = reply st (map (pbProfile U)) m"
    for st and m :: "('a, Profile list) op"
    by (rule reply_map_op) simp
  have rp: "reply st (pbProfile U) (map_op no_secret m) = reply st (pbProfile U) m"
    for st and m :: "('a, Profile) op"
    by (rule reply_map_op) simp
  have "Profile_List (muted B) U = Profile_List B U"
    "Profile_Get (muted B) U = Profile_Get B U" "Profile_Add (muted B) U = Profile_Add B U"
    "Profile_Patch (muted B) U = Profile_Patch B U"
    unfolding fun_eq_iff Profile_List_def Profile_Get_def Profile_Add_def Profile_Patch_def
      muted_sel rl rp by simp_all
  moreover have "Connection_Get (muted B) U = Connection_Get B U"
    "Connection_Add (muted B) U = Connection_Add B U"
    "Connection_List (muted B) U = Connection_List B U"
    unfolding fun_eq_iff Connection_Get_def Connection_Add_def Connection_List_def
      pbConnection_muted muted_sel by simp_all
  ultimately show ?thesis by blast
qed

text \<open>The id under which a connection is reported names it: the reply of Add, sent back as the reference of Get, makes the server ask the backend for the very id of the active connection, when that id is the text of a UUID; likewise for Erase.\<close>

theorem connection_ref_roundtrip:
  assumes U: "uuid_law U" and u: "length u = 16"
    and act: "b_Activate B (car_Interface req) (uuidFromBytes U (car_Profile req))
                (get_str (car_AccessPoint req)) s = (Inr a, s1)"
    and a: "ac_ID a = uuid_String U u"
    and add: "Connection_Add B U req s = (Inr c, s2)"
  shows "Connection_Get B U (pcn_Id c) s' =
           (case b_Connection B (ac_ID a) s' of
              (Inl e, t) \<Rightarrow> (Inl (errToStatus (''connection '' @ ac_ID a) e), t)
            | (Inr a', t) \<Rightarrow> (case pbConnection B U a' t of (c', t') \<Rightarrow> (Inr c', t'))) \<and>
         Connection_Erase B U (pcn_Id c) s' =
           reply (errToStatus ''deactivate'') (\<lambda>_. ()) (b_Deactivate B (ac_ID a)) s'"
proof -
  from add act have "pcn_Id c = uuidToBytes U (ac_ID a)"
    by (auto simp: Connection_Add_def pbConnection_def invalid_def Let_def
        split: if_splits prod.splits)
  with a U u have c: "pcn_Id c = u" by (simp add: uuidToBytes_String)
  with U u a have "uuidFromBytes U (pcn_Id c) = ac_ID a" by (simp add: uuidFromBytes_law)
  moreover from U u a have "ac_ID a \<noteq> []" by (simp add: uuid_law_def)
  ultimately show ?thesis by (simp add: Connection_Get_def Connection_Erase_def Let_def)
qed

definition a_request :: ConnectionAddRequest where
  "a_request = \<lparr>car_Interface = ''wlan0'', car_Profile = replicate 16 (CHR ''p''), car_AccessPoint = None\<rparr>"

definition host_one :: host where
  "host_one = the_host\<lparr>h_actives := [\<lparr>ac_ID = hex_encode (replicate 16 (CHR ''c'')), ac_Iface = ''wlan0'',
     ac_ProfileID = hex_encode (replicate 16 (CHR ''p'')), ac_SSID = ''net'', ac_BSSID = []\<rparr>]\<rparr>"

lemma connection_ref_roundtrip_witness:
  "h_calls (snd (Connection_Erase host_backend hex_uuid
       (pcn_Id (projr (fst (Connection_Add host_backend hex_uuid a_request host_one)))) the_host))
     = [''Deactivate'']"
proof -
  let ?a = "hd (h_actives host_one)"
  let ?r = "Connection_Add host_backend hex_uuid a_request host_one"
  have p: "uuidFromBytes hex_uuid (car_Profile a_request) = hex_encode (replicate 16 (CHR ''p''))"
    by (simp add: a_request_def uuidFromBytes_def hex_uuid_def)
  have act: "b_Activate host_backend (car_Interface a_request)
      (uuidFromBytes hex_uuid (car_Profile a_request)) (get_str (car_AccessPoint a_request)) host_one
        = (Inr ?a, h_log ''Activate'' host_one)"
    unfolding p by (simp add: host_backend_def h_find_def host_one_def)
  have id: "ac_ID ?a = uuid_String hex_uuid (replicate 16 (CHR ''c''))"
    by (simp add: host_one_def hex_uuid_def)
  have "uuidFromBytes hex_uuid (car_Profile a_request) \<noteq> []" "car_Interface a_request \<noteq> []"
    by code_simp+
  with act have "\<exists>c. fst ?r = Inr c" by (simp add: Connection_Add_def Let_def split: prod.split)
  then obtain c where "fst ?r = Inr c" by blast
  then have add: "?r = (Inr c, snd ?r)" by (metis prod.collapse)
  show ?thesis
    using connection_ref_roundtrip [OF hex_uuid_law _ act id add, of the_host] \<open>fst ?r = Inr c\<close>
    by (simp add: reply_def host_backend_def h_log_def the_host_def)
qed

text \<open>The scan service does not touch the radio within the time to live: after a scan that went to the backend, a request for the same interface whose clock reading is at most the time to live later returns the same access points, over whatever backend and from whatever state that backend is in, and even if every write of the cache file fails.\<close>

theorem scan_served_from_cache:
  fixes E :: "'s scan_env" and clk :: "'s \<Rightarrow> int"
  assumes now: "\<And>b. se_now E b = (clk b, b)"
    and disk: "\<And>b. clk (snd (se_disk E b)) = clk b"
    and cache: "ss_cache s = Some c" "ttl_ok c"
    and first: "AccessPoint_Scan B E i s = (Inr items, s1)"
    and miss: "cache_Get c i (clk (ss_backend s)) = None"
    and later: "clk b' - clk (ss_backend s1) \<le> sc_ttl c"
  shows "AccessPoint_Scan B' E i (s1\<lparr>ss_backend := b'\<rparr>) = (Inr items, s1\<lparr>ss_backend := b'\<rparr>)"
proof -
  from first have i: "i \<noteq> []" by (auto simp: AccessPoint_Scan_def invalid_def)
  have hit: "cache_hit E i s = (None, s)" using cache now miss by (simp add: cache_hit_def)
  obtain r b1 where sc: "b_Scan B i (ss_backend s) = (r, b1)" by force
  with first i hit obtain aps where r: "r = Inr aps" "items = map pbAccessPoint aps"
    and s1: "s1 = cache_store E i items (s\<lparr>ss_backend := b1\<rparr>)"
    by (cases r) (auto simp: AccessPoint_Scan_def Let_def)
  obtain D b2 where d: "se_disk E b1 = (D, b2)" by (rule prod.exhaust)
  have st: "ss_cache s1 = Some (mem_put c i (clk b1) items)" "ss_backend s1 = b2"
    unfolding s1 using cache_store_now [of "s\<lparr>ss_backend := b1\<rparr>" c E "clk b1" b1 D b2 i items]
    by (simp_all add: cache now d)
  from disk [of b1] d st later have "clk b' - clk b1 \<le> sc_ttl c" by simp
  with cache have "cache_Get (mem_put c i (clk b1) items) i (clk b') = Some items"
    by (simp add: cache.get_put)
  then show ?thesis using i st now by (simp add: AccessPoint_Scan_def cache_hit_def)
qed

definition quiet_env :: "host scan_env" where
  "quiet_env = \<lparr>se_now = (\<lambda>h. (int (length (h_calls h)), h)),
     se_disk = (\<lambda>h. ((\<lparr>create_fails = Some ''read-only'', write_fails = None, close_fails = None,
                 rename_fails = None, remove_fails = False\<rparr>, ''tmp''), h)),
     se_marshal = (\<lambda>_. Some [])\<rparr>"

definition cached_host :: "host scan_state" where
  "cached_host = \<lparr>ss_backend = the_host, ss_cache = Some (NewScanCache ''cache'' 10), ss_files = Map.empty\<rparr>"

lemma scan_served_from_cache_witness:
  "\<forall>B'. \<exists>items s1. AccessPoint_Scan host_backend quiet_env ''wlan0'' cached_host = (Inr items, s1) \<and>
     length items = 1 \<and> AccessPoint_Scan B' quiet_env ''wlan0'' s1 = (Inr items, s1)"
proof
  fix B'
  let ?r = "AccessPoint_Scan host_backend quiet_env ''wlan0'' cached_host"
  have defs: "?r = (Inr (map pbAccessPoint (projr (fst (b_Scan host_backend ''wlan0'' the_host)))),
      cached_host\<lparr>ss_backend := h_log ''Scan'' the_host,
        ss_cache := Some (mem_put (NewScanCache ''cache'' 10) ''wlan0'' 1
          (map pbAccessPoint (projr (fst (b_Scan host_backend ''wlan0'' the_host)))))\<rparr>)"
    by (simp add: AccessPoint_Scan_def cache_hit_def cached_host_def NewScanCache_def cache_Get_def
        quiet_env_def host_backend_def cache_store_def h_log_def the_host_def cache_Put_def
        writeFileAtomic_def Let_def mem_put_def)
  then obtain items s1 where r: "?r = (Inr items, s1)" and len: "length items = 1"
    and b: "ss_backend s1 = h_log ''Scan'' the_host"
    by (simp add: host_backend_def)
  have "AccessPoint_Scan B' quiet_env ''wlan0'' (s1\<lparr>ss_backend := ss_backend s1\<rparr>)
          = (Inr items, s1\<lparr>ss_backend := ss_backend s1\<rparr>)"
    by (rule scan_served_from_cache [where clk = "\<lambda>h. int (length (h_calls h))"
          and c = "NewScanCache ''cache'' 10", OF _ _ _ _ r])
      (simp_all add: quiet_env_def cached_host_def ttl_ok_def NewScanCache_def cache_Get_def)
  with r len show "\<exists>items s1. ?r = (Inr items, s1) \<and> length items = 1 \<and>
      AccessPoint_Scan B' quiet_env ''wlan0'' s1 = (Inr items, s1)"
    by simp
qed

text \<open>A watch delivers the statuses of the backend in their order, each mapped to its message, as a prefix that is complete exactly when no send failed.\<close>

theorem watch_delivers_prefix:
  assumes "uuidFromBytes U ref \<noteq> []" and "b_Watch B (uuidFromBytes U ref) s = (Inr sts, s1)"
    and "Connection_Watch B U send ref s = ((e, ms), s2)"
  shows "ms = map pbStatus (take (length ms) sts) \<and> (e = None \<longleftrightarrow> length ms = length sts)"
  using assms send_all_prefix [of send sts s1 e ms s2] by (simp add: Connection_Watch_def)

lemma watch_delivers_prefix_witness:
  "fst (Connection_Watch host_backend hex_uuid (\<lambda>_ s. (None, s)) (replicate 16 (CHR ''c'')) the_host)
     = (None, [pbStatus h_status])"
proof -
  let ?r = "Connection_Watch host_backend hex_uuid (\<lambda>_ s. (None, s)) (replicate 16 (CHR ''c'')) the_host"
  obtain e ms s2 where r: "?r = ((e, ms), s2)" by (metis prod.exhaust)
  have id: "uuidFromBytes hex_uuid (replicate 16 (CHR ''c'')) \<noteq> []" by code_simp
  have w: "b_Watch host_backend (uuidFromBytes hex_uuid (replicate 16 (CHR ''c''))) the_host
             = (Inr [h_status], h_log ''Watch'' the_host)"
    by (simp add: host_backend_def)
  have len: "length (snd (fst ?r)) = 1" by code_simp
  from watch_delivers_prefix [OF id w r] r len show ?thesis by simp
qed

end
