(* ===== verification/Go_Utf8.thy ===== *)
theory Go_Utf8
  imports Go_Strings
begin

text \<open>
  Go's conversion between a string and its runes (\<open>unicode/utf8\<close>).  A rune is kept as the
  bytes that encode it, so that \<open>string([]rune)\<close> is concatenation; a byte that starts no
  valid encoding becomes the replacement character.
\<close>

definition utf8 :: "nat list \<Rightarrow> string" where
  "utf8 bs = map char_of bs"

definition cont :: "nat \<Rightarrow> bool" where
  "cont b \<longleftrightarrow> 128 \<le> b \<and> b \<le> 191"

text \<open>The length of the encoding at the start of the bytes, 0 when there is none.\<close>

definition rune_len :: "nat list \<Rightarrow> nat" where
  "rune_len bs = (case bs of
       [] \<Rightarrow> 0
     | b0 # t1 \<Rightarrow>
         if b0 < 128 then 1
         else (case t1 of
             [] \<Rightarrow> 0
           | b1 # t2 \<Rightarrow>
               if 194 \<le> b0 \<and> b0 \<le> 223 then (if cont b1 then 2 else 0)
               else (case t2 of
                   [] \<Rightarrow> 0
                 | b2 # t3 \<Rightarrow>
                     if 224 \<le> b0 \<and> b0 \<le> 239 then
                       (if cont b1 \<and> cont b2 \<and> (b0 = 224 \<longrightarrow> 160 \<le> b1) \<and> (b0 = 237 \<longrightarrow> b1 \<le> 159)
                        then 3 else 0)
                     else (case t3 of
                         [] \<Rightarrow> 0
                       | b3 # _ \<Rightarrow>
                           if 240 \<le> b0 \<and> b0 \<le> 244 \<and> cont b1 \<and> cont b2 \<and> cont b3
                              \<and> (b0 = 240 \<longrightarrow> 144 \<le> b1) \<and> (b0 = 244 \<longrightarrow> b1 \<le> 143)
                           then 4 else 0))))"

definition RuneError :: string where
  "RuneError = utf8 [239, 191, 189]"

function runes :: "string \<Rightarrow> string list" where
  "runes [] = []"
| "runes (c # s) =
     (let n = rune_len (map byte (c # s))
      in if n = 0 then RuneError # runes s else take n (c # s) # runes (drop (n - 1) s))"
  by pat_completeness auto
termination by (relation "measure length") auto

definition RuneCount :: "string \<Rightarrow> nat" where
  "RuneCount s = length (runes s)"

section \<open>Padded verbs of fmt\<close>

text \<open>\<open>%-Ns\<close> and \<open>%Ns\<close>: the width counts runes.\<close>

definition pad_right :: "nat \<Rightarrow> string \<Rightarrow> string" where
  "pad_right n s = s @ replicate (n - RuneCount s) CHR '' ''"

definition pad_left :: "nat \<Rightarrow> string \<Rightarrow> string" where
  "pad_left n s = replicate (n - RuneCount s) CHR '' '' @ s"

section \<open>Lemmas\<close>

lemma runes_ascii: "\<forall>c\<in>set s. byte c < 128 \<Longrightarrow> runes s = map (\<lambda>c. [c]) s"
  by (induction s) (auto simp: rune_len_def Let_def)

lemma concat_runes_ascii: "\<forall>c\<in>set s. byte c < 128 \<Longrightarrow> concat (runes s) = s"
  by (simp add: runes_ascii)

end
