(* ===== verification/Client.thy ===== *)
theory Client
  imports Server Go_Utf8
begin

text \<open>
  The wifi services as a client sees them: the calls of the generated gRPC stubs as a
  record of operations over a state (the server and everything behind it).  The command
  line and the terminal UI only ever use this record; \<open>server_client\<close> is the instance they
  get from \<open>internal/server\<close> registered over a backend, which is what the in-process
  server of \<open>cmd/client.go\<close> gives.
\<close>

record 's wifi_client =
  c_Interface_List :: "('s, PbInterface list) handler"
  c_Interface_SetPower :: "string \<Rightarrow> bool \<Rightarrow> ('s, PbInterface) handler"
  c_AccessPoint_Scan :: "string \<Rightarrow> ('s, PbAccessPoint list) handler"
  c_Profile_List :: "('s, PbProfile list) handler"
  c_Profile_Add :: "ProfileAddRequest \<Rightarrow> ('s, PbProfile) handler"
  c_Profile_Erase :: "string \<Rightarrow> ('s, unit) handler"
  c_Connection_Add :: "ConnectionAddRequest \<Rightarrow> ('s, PbConnection) handler"
  c_Connection_List :: "string \<Rightarrow> ('s, PbConnection list) handler"
  c_Connection_Erase :: "string \<Rightarrow> ('s, unit) handler"
  c_Connection_GetStatus :: "string \<Rightarrow> ('s, PbConnectionStatus) handler"
  c_Connection_Watch :: "string \<Rightarrow> 's \<Rightarrow> (rpc_error option \<times> PbConnectionStatus list) \<times> 's"

text \<open>A handler over the backend's state as one over the state of the scan service.\<close>

definition on_backend :: "('s \<Rightarrow> 'r \<times> 's) \<Rightarrow> 's scan_state \<Rightarrow> 'r \<times> 's scan_state" where
  "on_backend h s = (case h (ss_backend s) of (r, b) \<Rightarrow> (r, s\<lparr>ss_backend := b\<rparr>))"

definition server_client :: "'s Backend \<Rightarrow> uuid_lib \<Rightarrow> 's scan_env \<Rightarrow> 's scan_state wifi_client" where
  "server_client B U E = \<lparr>
     c_Interface_List = on_backend (Interface_List B),
     c_Interface_SetPower = (\<lambda>name on. on_backend (Interface_SetPower B name on)),
     c_AccessPoint_Scan = AccessPoint_Scan B E,
     c_Profile_List = on_backend (Profile_List B U),
     c_Profile_Add = (\<lambda>req. on_backend (Profile_Add B U req)),
     c_Profile_Erase = (\<lambda>ref. on_backend (Profile_Erase B U ref)),
     c_Connection_Add = (\<lambda>req. on_backend (Connection_Add B U req)),
     c_Connection_List = (\<lambda>name. on_backend (Connection_List B U name)),
     c_Connection_Erase = (\<lambda>ref. on_backend (Connection_Erase B U ref)),
     c_Connection_GetStatus = (\<lambda>ref. on_backend (Connection_GetStatus B U ref)),
     c_Connection_Watch = (\<lambda>ref. on_backend (Connection_Watch B U (\<lambda>_ s. (None, s)) ref))\<rparr>"

section \<open>Names of enum values\<close>

text \<open>The names the generated code prints for \<open>KeyManagement\<close>.\<close>

fun KeyManagement_String :: "KeyManagement \<Rightarrow> string" where
  "KeyManagement_String KEY_MANAGEMENT_UNSPECIFIED = ''KEY_MANAGEMENT_UNSPECIFIED''"
| "KeyManagement_String KEY_MANAGEMENT_NONE = ''KEY_MANAGEMENT_NONE''"
| "KeyManagement_String KEY_MANAGEMENT_WPA_PSK = ''KEY_MANAGEMENT_WPA_PSK''"
| "KeyManagement_String KEY_MANAGEMENT_SAE = ''KEY_MANAGEMENT_SAE''"
| "KeyManagement_String KEY_MANAGEMENT_WPA_EAP = ''KEY_MANAGEMENT_WPA_EAP''"
| "KeyManagement_String KEY_MANAGEMENT_OWE = ''KEY_MANAGEMENT_OWE''"

fun keyMgmtShort :: "KeyManagement \<Rightarrow> string option" where
  "keyMgmtShort KEY_MANAGEMENT_NONE = Some ''open''"
| "keyMgmtShort KEY_MANAGEMENT_WPA_PSK = Some ''wpa-psk''"
| "keyMgmtShort KEY_MANAGEMENT_SAE = Some ''sae''"
| "keyMgmtShort KEY_MANAGEMENT_WPA_EAP = Some ''eap''"
| "keyMgmtShort KEY_MANAGEMENT_OWE = Some ''owe''"
| "keyMgmtShort KEY_MANAGEMENT_UNSPECIFIED = None"

definition km_name :: "KeyManagement \<Rightarrow> string" where
  "km_name k = (case keyMgmtShort k of Some s \<Rightarrow> s | None \<Rightarrow> KeyManagement_String k)"

text \<open>\<open>kmStr\<close> of the command line.\<close>

definition kmStr :: "KeyManagement list \<Rightarrow> string" where
  "kmStr ks = (if ks = [] then ''-'' else Join (map km_name ks) '','')"

end
