(* ===== verification/Go_Json.thy ===== *)
theory Go_Json
  imports Wfm_Prelude "HOL-Library.AList"
begin

text \<open>
  \<open>encoding/json\<close> as the program uses it: JSON values, and the decoding of a value into a Go
  variable.  A decoder gets the value and the variable and returns the variable and whether
  there was no error; as in Go a mismatch leaves the variable, decoding goes on, and the
  error is reported at the end.  \<open>null\<close> leaves everything but slices and maps unchanged.
  Field names are matched exactly, else without regard to case.
\<close>

text \<open>\<open>JFloat\<close> is a number that is no integer literal.  An object keeps its keys in order.\<close>

datatype json =
    JNull
  | JBool bool
  | JNum int
  | JFloat string
  | JStr string
  | JArr "json list"
  | JObj "(string \<times> json) list"

type_synonym 'a dec = "json \<Rightarrow> 'a \<Rightarrow> 'a \<times> bool"

definition dec_string :: "string dec" where
  "dec_string j x = (case j of JStr s \<Rightarrow> (s, True) | JNull \<Rightarrow> (x, True) | _ \<Rightarrow> (x, False))"

definition dec_bool :: "bool dec" where
  "dec_bool j x = (case j of JBool b \<Rightarrow> (b, True) | JNull \<Rightarrow> (x, True) | _ \<Rightarrow> (x, False))"

text \<open>\<open>int\<close>, 64 bits.\<close>

definition dec_int :: "int dec" where
  "dec_int j x =
     (case j of
        JNum n \<Rightarrow> if - (2 ^ 63) \<le> n \<and> n < 2 ^ 63 then (n, True) else (x, False)
      | JNull \<Rightarrow> (x, True)
      | _ \<Rightarrow> (x, False))"

definition dec_u32 :: "32 word dec" where
  "dec_u32 j x =
     (case j of
        JNum n \<Rightarrow> if 0 \<le> n \<and> n < 2 ^ 32 then (word_of_int n, True) else (x, False)
      | JNull \<Rightarrow> (x, True)
      | _ \<Rightarrow> (x, False))"

text \<open>\<open>any\<close>, where \<open>JNull\<close> is \<open>nil\<close>, and \<open>json.RawMessage\<close>.\<close>

definition dec_any :: "json dec" where
  "dec_any j x = (j, True)"

definition dec_raw :: "json option dec" where
  "dec_raw j x = (Some j, True)"

definition dec_list :: "'a dec \<Rightarrow> 'a \<Rightarrow> 'a list dec" where
  "dec_list d zero j x =
     (case j of
        JArr js \<Rightarrow> (map (\<lambda>e. fst (d e zero)) js, list_all (\<lambda>e. snd (d e zero)) js)
      | JNull \<Rightarrow> ([], True)
      | _ \<Rightarrow> (x, False))"

text \<open>A map from strings, as an association list with one entry for a key; the last one wins.\<close>

definition dec_map :: "'a dec \<Rightarrow> 'a \<Rightarrow> (string \<times> 'a) list dec" where
  "dec_map d zero j x =
     (case j of
        JObj kvs \<Rightarrow> (fold (\<lambda>(k, v) m. AList.update k (fst (d v zero)) m) kvs x, list_all (\<lambda>(k, v). snd (d v zero)) kvs)
      | JNull \<Rightarrow> ([], True)
      | _ \<Rightarrow> (x, False))"

text \<open>A struct, by the names of its fields.\<close>

definition find_field :: "(string \<times> 'a) list \<Rightarrow> string \<Rightarrow> 'a option" where
  "find_field fs k =
     (case map_of fs k of
        Some f \<Rightarrow> Some f
      | None \<Rightarrow> (case find (\<lambda>(n, _). EqualFold n k) fs of None \<Rightarrow> None | Some (_, f) \<Rightarrow> Some f))"

definition dec_field :: "(string \<times> 'a dec) list \<Rightarrow> string \<times> json \<Rightarrow> 'a \<times> bool \<Rightarrow> 'a \<times> bool" where
  "dec_field fs kv acc =
     (case find_field fs (fst kv) of
        None \<Rightarrow> acc
      | Some d \<Rightarrow> (case d (snd kv) (fst acc) of (x, ok) \<Rightarrow> (x, snd acc \<and> ok)))"

definition dec_struct :: "(string \<times> 'a dec) list \<Rightarrow> 'a dec" where
  "dec_struct fs j x =
     (case j of
        JObj kvs \<Rightarrow> fold (dec_field fs) kvs (x, True)
      | JNull \<Rightarrow> (x, True)
      | _ \<Rightarrow> (x, False))"

text \<open>\<open>json.Unmarshal\<close> of a message that may be empty, where it is an error.\<close>

definition Unmarshal :: "'a dec \<Rightarrow> json option \<Rightarrow> 'a \<Rightarrow> 'a \<times> bool" where
  "Unmarshal d raw x = (case raw of None \<Rightarrow> (x, False) | Some j \<Rightarrow> d j x)"

text \<open>Decoding a field of type \<open>'b\<close> of a record.\<close>

definition into :: "('a \<Rightarrow> 'b) \<Rightarrow> ('b \<Rightarrow> 'a \<Rightarrow> 'a) \<Rightarrow> 'b dec \<Rightarrow> 'a dec" where
  "into getf putf d j x = (case d j (getf x) of (v, ok) \<Rightarrow> (putf v x, ok))"

lemmas dec_defs = dec_string_def dec_bool_def dec_int_def dec_u32_def dec_any_def dec_raw_def dec_list_def
  dec_map_def find_field_def dec_field_def dec_struct_def Unmarshal_def into_def

text \<open>A decoded map has one entry for a key.\<close>

lemma distinct_dec_map:
  assumes "distinct (map fst x)"
  shows "distinct (map fst (fst (dec_map d zero j x)))"
proof -
  have "distinct (map fst (fold (\<lambda>(k, v) m. AList.update k (fst (d v zero)) m) kvs m))"
    if "distinct (map fst m)" for kvs m
    using that by (induction kvs arbitrary: m) (auto simp: distinct_update)
  with assms show ?thesis by (auto simp: dec_map_def split: json.split)
qed

end
