(* ===== verification/Go_Sha1.thy ===== *)
theory Go_Sha1
  imports Wfm_Prelude
begin

text \<open>
  \<open>crypto/sha1\<close> (FIPS 180-4): the padded message in blocks of sixteen 32-bit words, the
  schedule of eighty words, the eighty rounds of a block, and the digest as bytes.
\<close>

unbundle bit_operations_syntax

type_synonym w32 = "32 word"
type_synonym sha_state = "w32 \<times> w32 \<times> w32 \<times> w32 \<times> w32"

definition sha1_init :: sha_state where
  "sha1_init = (0x67452301, 0xEFCDAB89, 0x98BADCFE, 0x10325476, 0xC3D2E1F0)"

text \<open>The message, a one bit, zeros up to 56 modulo 64, and the length in bits as 64 bits.\<close>

definition be_bytes :: "nat \<Rightarrow> nat \<Rightarrow> nat list" where
  "be_bytes n x = rev (map (\<lambda>i. x div 256 ^ i mod 256) [0..<n])"

definition sha1_pad :: "string \<Rightarrow> nat list" where
  "sha1_pad m =
     map byte m @ [128] @ replicate ((119 - length m mod 64) mod 64) 0 @ be_bytes 8 (8 * length m mod 2 ^ 64)"

fun be_words :: "nat list \<Rightarrow> w32 list" where
  "be_words (a # b # c # d # r) = word_of_nat (16777216 * a + 65536 * b + 256 * c + d) # be_words r"
| "be_words _ = []"

text \<open>The schedule is kept reversed, so that the words 3, 8, 14 and 16 back are at fixed places.\<close>

fun sha1_extend :: "nat \<Rightarrow> w32 list \<Rightarrow> w32 list" where
  "sha1_extend 0 w = w"
| "sha1_extend (Suc n) w = sha1_extend n (word_rotl 1 (w ! 2 XOR w ! 7 XOR w ! 13 XOR w ! 15) # w)"

definition sha1_f :: "nat \<Rightarrow> w32 \<Rightarrow> w32 \<Rightarrow> w32 \<Rightarrow> w32 \<times> w32" where
  "sha1_f t b c d =
     (if t < 20 then ((b AND c) OR (NOT b AND d), 0x5A827999)
      else if t < 40 then (b XOR c XOR d, 0x6ED9EBA1)
      else if t < 60 then ((b AND c) OR (b AND d) OR (c AND d), 0x8F1BBCDC)
      else (b XOR c XOR d, 0xCA62C1D6))"

fun sha1_rounds :: "nat \<Rightarrow> w32 list \<Rightarrow> sha_state \<Rightarrow> sha_state" where
  "sha1_rounds t [] s = s"
| "sha1_rounds t (w # ws) (a, b, c, d, e) =
     (case sha1_f t b c d of
        (f, k) \<Rightarrow> sha1_rounds (Suc t) ws (word_rotl 5 a + f + e + k + w, a, word_rotl 30 b, c, d))"

definition sha1_block :: "w32 list \<Rightarrow> sha_state \<Rightarrow> sha_state" where
  "sha1_block ws s =
     (case (s, sha1_rounds 0 (rev (sha1_extend 64 (rev ws))) s) of
        ((a, b, c, d, e), (a', b', c', d', e')) \<Rightarrow> (a + a', b + b', c + c', d + d', e + e'))"

function sha1_blocks :: "w32 list \<Rightarrow> sha_state \<Rightarrow> sha_state" where
  "sha1_blocks ws s = (if length ws < 16 then s else sha1_blocks (drop 16 ws) (sha1_block (take 16 ws) s))"
  by pat_completeness auto
termination by (relation "measure (\<lambda>(ws, s). length ws)") auto

declare sha1_blocks.simps [simp del]

definition sha1_Sum :: "string \<Rightarrow> string" where
  "sha1_Sum m =
     (case sha1_blocks (be_words (sha1_pad m)) sha1_init of
        (a, b, c, d, e) \<Rightarrow> concat (map (\<lambda>w. map char_of (be_bytes 4 (unat w))) [a, b, c, d, e]))"

lemma length_be_bytes [simp]: "length (be_bytes n x) = n"
  by (simp add: be_bytes_def)

lemma length_sha1_Sum [simp]: "length (sha1_Sum m) = 20"
  by (simp add: sha1_Sum_def split: prod.split)

text \<open>The padding fills whole blocks.\<close>

lemma sha1_pad_blocks: "length (sha1_pad m) mod 64 = 0"
proof -
  have eq: "(k + 1 + (119 - k mod 64) mod 64 + 8) mod 64 = 0" for k :: nat
  proof -
    define q r where "q = k div 64" and "r = k mod 64"
    have k: "k = 64 * q + r" "r < 64" by (simp_all add: q_def r_def)
    have "(119 - r) mod 64 + r = (if r \<le> 55 then 55 else 119)"
    proof (cases "r \<le> 55")
      case True
      then have "119 - r = 64 + (55 - r)" by simp
      moreover have "(64 + (55 - r)) mod 64 = 55 - r" by (simp only: mod_add_self1) simp
      ultimately show ?thesis using True by simp
    qed (use k(2) in simp)
    then have "k + 1 + (119 - r) mod 64 + 8 = 64 * q + (if r \<le> 55 then 64 else 128)" using k(1) by auto
    then show ?thesis by (simp add: r_def [symmetric])
  qed
  show ?thesis using eq [of "length m"] by (simp add: sha1_pad_def ac_simps)
qed

end
