(* ===== verification/Watch.thy ===== *)
theory Watch
  imports Wnet
begin

text \<open>
  The watch goroutines of the backends.  Each is a loop over what it waits for (signals or
  ticks) that may send one status per round and then stop.  The events are those that
  arrive before the context of the stream is done, so a finite list; the channel is closed
  after the last round.  The locale states what the rounds of every backend share, and
  derives what a reader of the channel sees.
\<close>

text \<open>
  One round: the status it sends, if any, and whether the goroutine returns after it.
\<close>

type_synonym ('e, 'w, 's) round = "'e \<Rightarrow> 'w \<Rightarrow> 's \<Rightarrow> (Status option \<times> bool) \<times> 'w \<times> 's"

fun watch_run :: "('e, 'w, 's) round \<Rightarrow> 'e list \<Rightarrow> 'w \<Rightarrow> 's \<Rightarrow> Status list \<times> 's" where
  "watch_run rnd [] w s = ([], s)"
| "watch_run rnd (e # es) w s =
     (case rnd e w s of
        ((o', stop), w', s') \<Rightarrow>
          (case (if stop then ([], s') else watch_run rnd es w' s') of
             (sts, s'') \<Rightarrow> (case o' of None \<Rightarrow> sts | Some st \<Rightarrow> st # sts, s'')))"

text \<open>No status repeats the state of the one before it.\<close>

fun changes :: "ConnState option \<Rightarrow> Status list \<Rightarrow> bool" where
  "changes l [] = True"
| "changes l (st # sts) = (l \<noteq> Some (st_State st) \<and> changes (Some (st_State st)) sts)"

text \<open>A state that satisfies \<open>final\<close> is the last one received.\<close>

fun ends_at :: "(ConnState \<Rightarrow> bool) \<Rightarrow> Status list \<Rightarrow> bool" where
  "ends_at final [] = True"
| "ends_at final (st # sts) = ((final (st_State st) \<longrightarrow> sts = []) \<and> ends_at final sts)"

definition stops_at :: "('e, 'w, 's) round \<Rightarrow> (ConnState \<Rightarrow> bool) \<Rightarrow> bool" where
  "stops_at rnd final \<longleftrightarrow>
     (\<forall>e w s st stop w' s'. rnd e w s = ((Some st, stop), w', s') \<longrightarrow> final (st_State st) \<longrightarrow> stop)"

locale watch_contract =
  fixes rnd :: "('e, 'w, 's) round" and last_state :: "'w \<Rightarrow> ConnState option"
  assumes sent: "rnd e w s = ((Some st, stop), w', s') \<Longrightarrow>
      last_state w \<noteq> Some (st_State st) \<and> last_state w' = Some (st_State st)"
    and kept: "rnd e w s = ((None, stop), w', s') \<Longrightarrow> last_state w' = last_state w"
begin

lemma run_changes: "watch_run rnd es w s = (sts, s') \<Longrightarrow> changes (last_state w) sts"
proof (induction es arbitrary: w s sts s')
  case (Cons e es)
  obtain o' stop w1 s1 where r: "rnd e w s = ((o', stop), w1, s1)" by (metis prod.exhaust)
  obtain ts s2 where t: "(if stop then ([], s1) else watch_run rnd es w1 s1) = (ts, s2)"
    by force
  have ts: "changes (last_state w1) ts" using t Cons.IH by (cases stop) auto
  show ?case
  proof (cases o')
    case None
    with r t Cons.prems kept [of e w s stop w1 s1] ts show ?thesis by simp
  next
    case (Some st)
    with r t Cons.prems sent [of e w s st stop w1 s1] ts show ?thesis by auto
  qed
qed simp

end

text \<open>A round that stops at every final state ends the stream there.\<close>

lemma run_ends_at:
  assumes "stops_at rnd final"
  shows "watch_run rnd es w s = (sts, s') \<Longrightarrow> ends_at final sts"
proof (induction es arbitrary: w s sts s')
  case (Cons e es)
  obtain o' stop w1 s1 where r: "rnd e w s = ((o', stop), w1, s1)" by (metis prod.exhaust)
  obtain ts s2 where t: "(if stop then ([], s1) else watch_run rnd es w1 s1) = (ts, s2)"
    by force
  have ts: "ends_at final ts" using t Cons.IH by (cases stop) auto
  show ?case
  proof (cases o')
    case None
    with r t Cons.prems ts show ?thesis by simp
  next
    case (Some st)
    with assms r have "final (st_State st) \<longrightarrow> stop" unfolding stops_at_def by blast
    with Some r t Cons.prems ts show ?thesis by auto
  qed
qed simp

end
