(* ===== verification/Ubus.thy ===== *)
theory Ubus
  imports Go_Json Go_Sha1 Watch Exclude
begin

text \<open>
  \<open>internal/wnet/ubus\<close>: the backend for a remote OpenWrt node over ubus JSON-RPC.
  \<open>client.go\<close> is the client with its session, \<open>convert.go\<close> the shapes of replies,
  \<open>ubus.go\<close>, \<open>profile.go\<close> and \<open>conn.go\<close> the backend.  HTTP, the clock and the order in which
  Go walks over a map are the environment.
\<close>

section \<open>client.go\<close>

text \<open>
  A request fails, or is answered with a status and a body, \<open>None\<close> when it is no JSON value.
\<close>

datatype http_result = HttpErr string | HttpResp nat "json option"

text \<open>\<open>Options\<close>, as kept by the client and the backend.\<close>

record ubus_opts =
  uo_Username :: string
  uo_Password :: string
  uo_Radio :: string
  uo_Network :: string

record 's ubus_env =
  ub_post :: "json \<Rightarrow> 's \<Rightarrow> http_result \<times> 's"
  ub_order :: "'s \<Rightarrow> (string \<times> json) list \<Rightarrow> (string \<times> json) list"
  ub_now :: "'s \<Rightarrow> int \<times> 's"
  ub_wait :: "int \<Rightarrow> 's \<Rightarrow> string option \<times> 's"
  ub_ticks :: "'s \<Rightarrow> nat"
  ub_opts :: ubus_opts

record 's ubus_state =
  us_id :: int
  us_session :: string
  us_env :: 's

definition defaultNetwork :: string where "defaultNetwork = ''wwan''"

text \<open>The network of the options, with the default of \<open>New\<close>.\<close>

definition ubus_network :: "'s ubus_env \<Rightarrow> string" where
  "ubus_network E = (if uo_Network (ub_opts E) = [] then defaultNetwork else uo_Network (ub_opts E))"

definition anonSession :: string where "anonSession = ''00000000000000000000000000000000''"

definition ubusOK :: int where "ubusOK = 0"
definition ubusInvalidCommand :: int where "ubusInvalidCommand = 1"
definition ubusInvalidArgument :: int where "ubusInvalidArgument = 2"
definition ubusMethodNotFound :: int where "ubusMethodNotFound = 3"
definition ubusNotFound :: int where "ubusNotFound = 4"
definition ubusNoData :: int where "ubusNoData = 5"
definition ubusPermissionDenie :: int where "ubusPermissionDenie = 6"
definition ubusTimeout :: int where "ubusTimeout = 7"
definition ubusNotSupported :: int where "ubusNotSupported = 8"

lemmas ubus_codes = ubusOK_def ubusInvalidCommand_def ubusInvalidArgument_def ubusMethodNotFound_def
  ubusNotFound_def ubusNoData_def ubusPermissionDenie_def ubusTimeout_def ubusNotSupported_def

definition on_us :: "('s \<Rightarrow> 'a \<times> 's) \<Rightarrow> 's ubus_state \<Rightarrow> 'a \<times> 's ubus_state" where
  "on_us f s = (case f (us_env s) of (a, e) \<Rightarrow> (a, s\<lparr>us_env := e\<rparr>))"

definition rpcRequest :: "int \<Rightarrow> string \<Rightarrow> string \<Rightarrow> string \<Rightarrow> json \<Rightarrow> json" where
  "rpcRequest i session object meth args =
     JObj [(''jsonrpc'', JStr ''2.0''), (''id'', JNum i), (''method'', JStr ''call''),
           (''params'', JArr [JStr session, JStr object, JStr meth, args])]"

record rpcError =
  re_Code :: int
  re_Message :: string

record rpcResponse =
  rr_Result :: "json option"
  rr_Error :: "rpcError option"

definition dec_rpcError :: "rpcError option dec" where
  "dec_rpcError j x =
     (case j of
        JNull \<Rightarrow> (None, True)
      | _ \<Rightarrow>
          (case dec_struct [(''code'', into re_Code (\<lambda>v. re_Code_update (\<lambda>_. v)) dec_int),
                            (''message'', into re_Message (\<lambda>v. re_Message_update (\<lambda>_. v)) dec_string)]
                  j (case x of Some e \<Rightarrow> e | None \<Rightarrow> \<lparr>re_Code = 0, re_Message = []\<rparr>) of
             (e, ok) \<Rightarrow> (Some e, ok)))"

definition dec_rpcResponse :: "rpcResponse dec" where
  "dec_rpcResponse =
     dec_struct [(''result'', into rr_Result (\<lambda>v. rr_Result_update (\<lambda>_. v)) dec_raw),
                 (''error'', into rr_Error (\<lambda>v. rr_Error_update (\<lambda>_. v)) dec_rpcError)]"

text \<open>\<open>[status]\<close> or \<open>[status, data]\<close>.\<close>

definition rpc_result :: "json option \<Rightarrow> (int \<times> json option) res" where
  "rpc_result result =
     (case Unmarshal (dec_list dec_any JNull) result [] of
        (_, False) \<Rightarrow> Inl (ErrOther ''decode ubus result'')
      | ([], True) \<Rightarrow> Inl (ErrOther ''empty ubus result'')
      | (p # ps, True) \<Rightarrow>
          (case dec_int p 0 of
             (_, False) \<Rightarrow> Inl (ErrOther ''decode ubus status'')
           | (code, True) \<Rightarrow> Inr (code, case ps of [] \<Rightarrow> None | d # _ \<Rightarrow> Some d)))"

definition rpc_reply :: "http_result \<Rightarrow> (int \<times> json option) res" where
  "rpc_reply r =
     (case r of
        HttpErr e \<Rightarrow> Inl (ErrOther (''ubus request: '' @ e))
      | HttpResp st body \<Rightarrow>
          if st \<noteq> 200 then Inl (ErrOther (''ubus http '' @ show_nat st))
          else
            (case Unmarshal dec_rpcResponse body \<lparr>rr_Result = None, rr_Error = None\<rparr> of
               (_, False) \<Rightarrow> Inl (ErrOther ''decode ubus response'')
             | (rr, True) \<Rightarrow>
                 (case rr_Error rr of
                    Some e \<Rightarrow>
                      if re_Code e = -32001 \<or> re_Code e = -32002 then Inr (ubusPermissionDenie, None)
                      else Inl (ErrOther (''ubus jsonrpc error '' @ show_int (re_Code e) @ '': '' @ re_Message e))
                  | None \<Rightarrow> rpc_result (rr_Result rr))))"

definition rawCall :: "'s ubus_env \<Rightarrow> string \<Rightarrow> string \<Rightarrow> string \<Rightarrow> json \<Rightarrow> ('s ubus_state, int \<times> json option) op" where
  "rawCall E session object meth args s =
     (let i = wrap64 (us_id s + 1) in
      (case on_us (ub_post E (rpcRequest i session object meth args)) (s\<lparr>us_id := i\<rparr>) of
         (r, s') \<Rightarrow> (rpc_reply r, s')))"

definition dec_session :: "string dec" where
  "dec_session = dec_struct [(''ubus_rpc_session'', dec_string)]"

definition ubus_login :: "'s ubus_env \<Rightarrow> ('s ubus_state, unit) op" where
  "ubus_login E =
     bindE (mapErr (wrap_err ''ubus login'') (rawCall E anonSession ''session'' ''login''
         (JObj [(''username'', JStr (uo_Username (ub_opts E))), (''password'', JStr (uo_Password (ub_opts E)))])))
       (\<lambda>(code, data).
         if code \<noteq> ubusOK then failE (ErrOther (''ubus login refused (status '' @ show_int code @ '')''))
         else
           (case Unmarshal dec_session data [] of
              (_, False) \<Rightarrow> failE (ErrOther ''ubus login: decode session'')
            | (x, True) \<Rightarrow>
                if x = [] then failE (ErrOther ''ubus login: no session returned'')
                else (\<lambda>s. (Inr (), s\<lparr>us_session := x\<rparr>))))"

definition sessionID :: "'s ubus_env \<Rightarrow> ('s ubus_state, string) op" where
  "sessionID E s =
     (if us_session s = [] then bindE (ubus_login E) (\<lambda>_ s. (Inr (us_session s), s)) s
      else (Inr (us_session s), s))"

definition relogin :: "'s ubus_env \<Rightarrow> string \<Rightarrow> ('s ubus_state, string) op" where
  "relogin E stale s =
     (if us_session s \<noteq> stale then (Inr (us_session s), s)
      else bindE (ubus_login E) (\<lambda>_ s. (Inr (us_session s), s)) (s\<lparr>us_session := []\<rparr>))"

definition statusErr :: "string \<Rightarrow> int \<Rightarrow> werr option" where
  "statusErr action code =
     (if code = ubusOK \<or> code = ubusNoData then None
      else if code = ubusNotFound \<or> code = ubusMethodNotFound then Some (ErrNotFound action)
      else if code = ubusNotSupported then Some (ErrUnsupported action)
      else if code = ubusPermissionDenie then Some (ErrOther (action @ '': permission denied (rpcd ACL)''))
      else if code = ubusInvalidArgument \<or> code = ubusInvalidCommand then
        Some (ErrOther (action @ '': invalid ubus request (status '' @ show_int code @ '')''))
      else if code = ubusTimeout then Some (ErrOther (action @ '': ubus timeout''))
      else Some (ErrOther (action @ '': ubus status '' @ show_int code)))"

text \<open>The end of \<open>Call\<close>: the status, then the payload, if any, decoded into \<open>x0\<close>.\<close>

definition finish_call :: "string \<Rightarrow> 'a dec \<Rightarrow> 'a \<Rightarrow> int \<times> json option \<Rightarrow> 'a res" where
  "finish_call action d x0 r =
     (case statusErr action (fst r) of
        Some e \<Rightarrow> Inl e
      | None \<Rightarrow>
          (case snd r of
             None \<Rightarrow> Inr x0
           | Some j \<Rightarrow> (case d j x0 of (x, ok) \<Rightarrow> if ok then Inr x else Inl (ErrOther ''json''))))"

definition ubus_Call ::
  "'s ubus_env \<Rightarrow> string \<Rightarrow> string \<Rightarrow> json \<Rightarrow> 'a dec \<Rightarrow> 'a \<Rightarrow> ('s ubus_state, 'a) op" where
  "ubus_Call E object meth args d x0 =
     bindE (sessionID E) (\<lambda>ses.
       bindE (rawCall E ses object meth args) (\<lambda>r1.
         bindE (if fst r1 = ubusPermissionDenie
                then bindE (relogin E ses) (\<lambda>ses'. rawCall E ses' object meth args)
                else retE r1) (\<lambda>r2 s.
           (finish_call (object @ ''.'' @ meth) d x0 r2, s))))"

text \<open>\<open>args\<close> and \<open>out\<close> that are \<open>nil\<close>.\<close>

definition no_args :: json where "no_args = JObj []"

definition dec_nil :: "unit dec" where "dec_nil j x = (x, True)"


section \<open>convert.go\<close>

record encryption =
  en_Enabled :: bool
  en_Wpa :: "int list"
  en_Authentication :: "string list"
  en_Wep :: bool

record scanResult =
  sr_SSID :: string
  sr_BSSID :: string
  sr_Channel :: int
  sr_Mhz :: "32 word"
  sr_Signal :: int
  sr_Quality :: int
  sr_QualityMax :: int
  sr_Encryption :: encryption

record iwinfoInfo =
  ii_SSID :: string
  ii_BSSID :: string
  ii_Mode :: string
  ii_Channel :: int
  ii_Frequency :: "32 word"
  ii_Signal :: int
  ii_Quality :: int
  ii_QualityMax :: int
  ii_HwAddr :: string
  ii_Encryption :: encryption

definition zero_encryption :: encryption where
  "zero_encryption = \<lparr>en_Enabled = False, en_Wpa = [], en_Authentication = [], en_Wep = False\<rparr>"

definition dec_encryption :: "encryption dec" where
  "dec_encryption = dec_struct [
     (''enabled'', into en_Enabled (\<lambda>v. en_Enabled_update (\<lambda>_. v)) dec_bool),
     (''wpa'', into en_Wpa (\<lambda>v. en_Wpa_update (\<lambda>_. v)) (dec_list dec_int 0)),
     (''authentication'', into en_Authentication (\<lambda>v. en_Authentication_update (\<lambda>_. v)) (dec_list dec_string [])),
     (''wep'', into en_Wep (\<lambda>v. en_Wep_update (\<lambda>_. v)) dec_bool)]"

definition zero_scanResult :: scanResult where
  "zero_scanResult = \<lparr>sr_SSID = [], sr_BSSID = [], sr_Channel = 0, sr_Mhz = 0, sr_Signal = 0, sr_Quality = 0,
     sr_QualityMax = 0, sr_Encryption = zero_encryption\<rparr>"

definition dec_scanResult :: "scanResult dec" where
  "dec_scanResult = dec_struct [
     (''ssid'', into sr_SSID (\<lambda>v. sr_SSID_update (\<lambda>_. v)) dec_string),
     (''bssid'', into sr_BSSID (\<lambda>v. sr_BSSID_update (\<lambda>_. v)) dec_string),
     (''channel'', into sr_Channel (\<lambda>v. sr_Channel_update (\<lambda>_. v)) dec_int),
     (''mhz'', into sr_Mhz (\<lambda>v. sr_Mhz_update (\<lambda>_. v)) dec_u32),
     (''signal'', into sr_Signal (\<lambda>v. sr_Signal_update (\<lambda>_. v)) dec_int),
     (''quality'', into sr_Quality (\<lambda>v. sr_Quality_update (\<lambda>_. v)) dec_int),
     (''quality_max'', into sr_QualityMax (\<lambda>v. sr_QualityMax_update (\<lambda>_. v)) dec_int),
     (''encryption'', into sr_Encryption (\<lambda>v. sr_Encryption_update (\<lambda>_. v)) dec_encryption)]"

definition zero_iwinfoInfo :: iwinfoInfo where
  "zero_iwinfoInfo = \<lparr>ii_SSID = [], ii_BSSID = [], ii_Mode = [], ii_Channel = 0, ii_Frequency = 0, ii_Signal = 0,
     ii_Quality = 0, ii_QualityMax = 0, ii_HwAddr = [], ii_Encryption = zero_encryption\<rparr>"

definition dec_iwinfoInfo :: "iwinfoInfo dec" where
  "dec_iwinfoInfo = dec_struct [
     (''ssid'', into ii_SSID (\<lambda>v. ii_SSID_update (\<lambda>_. v)) dec_string),
     (''bssid'', into ii_BSSID (\<lambda>v. ii_BSSID_update (\<lambda>_. v)) dec_string),
     (''mode'', into ii_Mode (\<lambda>v. ii_Mode_update (\<lambda>_. v)) dec_string),
     (''channel'', into ii_Channel (\<lambda>v. ii_Channel_update (\<lambda>_. v)) dec_int),
     (''frequency'', into ii_Frequency (\<lambda>v. ii_Frequency_update (\<lambda>_. v)) dec_u32),
     (''signal'', into ii_Signal (\<lambda>v. ii_Signal_update (\<lambda>_. v)) dec_int),
     (''quality'', into ii_Quality (\<lambda>v. ii_Quality_update (\<lambda>_. v)) dec_int),
     (''quality_max'', into ii_QualityMax (\<lambda>v. ii_QualityMax_update (\<lambda>_. v)) dec_int),
     (''hwaddr'', into ii_HwAddr (\<lambda>v. ii_HwAddr_update (\<lambda>_. v)) dec_string),
     (''encryption'', into ii_Encryption (\<lambda>v. ii_Encryption_update (\<lambda>_. v)) dec_encryption)]"

text \<open>64-bit arithmetic: the product wraps.\<close>

definition ubus_signalQuality :: "int \<Rightarrow> int \<Rightarrow> int" where
  "ubus_signalQuality q qmax =
     (if qmax \<le> 0 then 0
      else
        let v = tdiv (wrap64 (q * 100)) qmax in
        if v < 0 then 0 else if v > 100 then 100 else v)"

definition encToKeyMgmt :: "encryption \<Rightarrow> KeyMgmt list" where
  "encToKeyMgmt e =
     (if \<not> en_Enabled e then [KeyNone]
      else
        let auth = (\<lambda>a. a \<in> set (map ToLower (en_Authentication e)));
            out = (if auth ''sae'' then [KeySAE] else []) @
                  (if auth ''owe'' then [KeyOWE] else []) @
                  (if auth ''8021x'' \<or> auth ''eap'' then [KeyWPAEAP] else []) @
                  (if auth ''psk'' then [KeyWPAPSK] else [])
        in if out = [] then [KeyWPAPSK] else out)"

definition apFromScan :: "scanResult \<Rightarrow> AP" where
  "apFromScan r =
     \<lparr>ap_SSID = sr_SSID r, ap_BSSID = ToLower (sr_BSSID r),
      ap_Signal = ubus_signalQuality (sr_Quality r) (sr_QualityMax r),
      ap_FreqMHz = sr_Mhz r, ap_KeyMgmt = encToKeyMgmt (sr_Encryption r)\<rparr>"

definition isAssociated :: "string \<Rightarrow> bool" where
  "isAssociated bssid \<longleftrightarrow> (let b = TrimSpace bssid in b \<noteq> [] \<and> \<not> HasPrefix b ''00:00:00:00:00:00'')"

record wifiIface =
  wi_Section :: string
  wi_Device :: string
  wi_Mode :: string
  wi_SSID :: string
  wi_Encryption :: string
  wi_Key :: string
  wi_Network :: string
  wi_BSSID :: string
  wi_Disabled :: bool

text \<open>\<open>uciBool\<close> and \<open>firstString\<close> of a value of type \<open>any\<close>.\<close>

definition uciBool :: "json \<Rightarrow> bool" where
  "uciBool v =
     (case v of
        JBool b \<Rightarrow> b
      | JStr t \<Rightarrow> ToLower (TrimSpace t) \<in> {''1'', ''true'', ''yes'', ''on''}
      | _ \<Rightarrow> False)"

definition firstString :: "json \<Rightarrow> string" where
  "firstString v =
     (case v of
        JStr s \<Rightarrow> s
      | JArr (JStr s # _) \<Rightarrow> s
      | _ \<Rightarrow> [])"

definition boolToUCI :: "bool \<Rightarrow> string" where
  "boolToUCI v = (if v then ''1'' else ''0'')"

text \<open>The struct a section is decoded into.\<close>

record uciSection =
  uc_Type :: string
  uc_Device :: string
  uc_Mode :: string
  uc_SSID :: string
  uc_Encryption :: string
  uc_Key :: string
  uc_Network :: json
  uc_BSSID :: string
  uc_Disabled :: json

definition zero_uciSection :: uciSection where
  "zero_uciSection = \<lparr>uc_Type = [], uc_Device = [], uc_Mode = [], uc_SSID = [], uc_Encryption = [], uc_Key = [],
     uc_Network = JNull, uc_BSSID = [], uc_Disabled = JNull\<rparr>"

definition dec_uciSection :: "uciSection dec" where
  "dec_uciSection = dec_struct [
     (''.type'', into uc_Type (\<lambda>v. uc_Type_update (\<lambda>_. v)) dec_string),
     (''device'', into uc_Device (\<lambda>v. uc_Device_update (\<lambda>_. v)) dec_string),
     (''mode'', into uc_Mode (\<lambda>v. uc_Mode_update (\<lambda>_. v)) dec_string),
     (''ssid'', into uc_SSID (\<lambda>v. uc_SSID_update (\<lambda>_. v)) dec_string),
     (''encryption'', into uc_Encryption (\<lambda>v. uc_Encryption_update (\<lambda>_. v)) dec_string),
     (''key'', into uc_Key (\<lambda>v. uc_Key_update (\<lambda>_. v)) dec_string),
     (''network'', into uc_Network (\<lambda>v. uc_Network_update (\<lambda>_. v)) dec_any),
     (''bssid'', into uc_BSSID (\<lambda>v. uc_BSSID_update (\<lambda>_. v)) dec_string),
     (''disabled'', into uc_Disabled (\<lambda>v. uc_Disabled_update (\<lambda>_. v)) dec_any)]"

definition parseWifiIface :: "string \<times> json \<Rightarrow> wifiIface option" where
  "parseWifiIface kv =
     (case dec_uciSection (snd kv) zero_uciSection of
        (s, ok) \<Rightarrow>
          if \<not> ok \<or> uc_Type s \<noteq> ''wifi-iface'' then None
          else Some \<lparr>wi_Section = fst kv, wi_Device = uc_Device s, wi_Mode = uc_Mode s, wi_SSID = uc_SSID s,
                     wi_Encryption = uc_Encryption s, wi_Key = uc_Key s, wi_Network = firstString (uc_Network s),
                     wi_BSSID = uc_BSSID s, wi_Disabled = uciBool (uc_Disabled s)\<rparr>)"

text \<open>The argument is the map in the order of the walk.\<close>

definition parseWifiIfaces :: "(string \<times> json) list \<Rightarrow> wifiIface list" where
  "parseWifiIfaces values = List.map_filter parseWifiIface values"

definition secType :: "SecurityKind \<Rightarrow> string" where
  "secType k = (case k of SecPSK \<Rightarrow> ''psk'' | SecEnterprise \<Rightarrow> ''8021x'' | SecOpen \<Rightarrow> ''open'')"

definition encStrToSecKind :: "string \<Rightarrow> SecurityKind" where
  "encStrToSecKind enc =
     (let e = ToLower (TrimSpace enc) in
      if e = [] \<or> e = ''none'' then SecOpen
      else if Contains e ''8021x'' \<or> Contains e ''wpa-eap'' \<or> Contains e ''wpa2-eap'' \<or> Contains e ''wpa3-eap''
      then SecEnterprise else SecPSK)"

definition secKindToEnc :: "SecurityKind \<Rightarrow> string" where
  "secKindToEnc k = (case k of SecPSK \<Rightarrow> ''psk2'' | SecEnterprise \<Rightarrow> ''wpa2'' | SecOpen \<Rightarrow> ''none'')"

definition ubus_profileID :: "(string \<Rightarrow> string) \<Rightarrow> string \<Rightarrow> SecurityKind \<Rightarrow> string" where
  "ubus_profileID sha ssid k = DeriveID sha [ssid, secType k]"

definition ubus_toProfile :: "(string \<Rightarrow> string) \<Rightarrow> wifiIface \<Rightarrow> Profile" where
  "ubus_toProfile sha w =
     (let kind = encStrToSecKind (wi_Encryption w) in
      \<lparr>pr_ID = ubus_profileID sha (wi_SSID w) kind, pr_Name = wi_SSID w, pr_SSID = wi_SSID w, pr_Hidden = False,
       pr_Autoconnect = (\<not> wi_Disabled w), pr_Security = \<lparr>sec_Kind = kind, sec_Passphrase = []\<rparr>,
       pr_IPv4 = zero_IPConfig, pr_IPv6 = zero_IPConfig\<rparr>)"

text \<open>\<open>parseWirelessStatus\<close>: decoding errors are dropped; what could be read is kept.\<close>

record radioIface =
  ri_Section :: string
  ri_Ifname :: string

definition dec_radioIface :: "radioIface dec" where
  "dec_radioIface = dec_struct [
     (''section'', into ri_Section (\<lambda>v. ri_Section_update (\<lambda>_. v)) dec_string),
     (''ifname'', into ri_Ifname (\<lambda>v. ri_Ifname_update (\<lambda>_. v)) dec_string)]"

definition dec_radio :: "radioIface list dec" where
  "dec_radio = dec_struct [(''interfaces'', dec_list dec_radioIface \<lparr>ri_Section = [], ri_Ifname = []\<rparr>)]"

definition radio_entry :: "radioIface \<Rightarrow> (string \<rightharpoonup> string) \<Rightarrow> (string \<rightharpoonup> string)" where
  "radio_entry it out = (if ri_Section it \<noteq> [] then out(ri_Section it \<mapsto> ri_Ifname it) else out)"

text \<open>The radios are walked over in the order in which \<open>ord\<close> puts the keys of the map.\<close>

definition parseWirelessStatus ::
  "((string \<times> json) list \<Rightarrow> (string \<times> json) list) \<Rightarrow> json option \<Rightarrow> (string \<rightharpoonup> string)" where
  "parseWirelessStatus ord raw =
     (let m = fst (Unmarshal (dec_map dec_any JNull) raw []) in
      fold radio_entry (concat (map (\<lambda>kv. fst (dec_radio (snd kv) [])) (ord m))) Map.empty)"

record ifAddr =
  ia_Address :: string
  ia_Mask :: int

record ifRoute =
  ir_Target :: string
  ir_Mask :: int
  ir_Nexthop :: string

record ifStatusReply =
  is_IPv4Address :: "ifAddr list"
  is_Route :: "ifRoute list"
  is_DNSServer :: "string list"

definition dec_ifAddr :: "ifAddr dec" where
  "dec_ifAddr = dec_struct [
     (''address'', into ia_Address (\<lambda>v. ia_Address_update (\<lambda>_. v)) dec_string),
     (''mask'', into ia_Mask (\<lambda>v. ia_Mask_update (\<lambda>_. v)) dec_int)]"

definition dec_ifRoute :: "ifRoute dec" where
  "dec_ifRoute = dec_struct [
     (''target'', into ir_Target (\<lambda>v. ir_Target_update (\<lambda>_. v)) dec_string),
     (''mask'', into ir_Mask (\<lambda>v. ir_Mask_update (\<lambda>_. v)) dec_int),
     (''nexthop'', into ir_Nexthop (\<lambda>v. ir_Nexthop_update (\<lambda>_. v)) dec_string)]"

definition dec_ifStatus :: "ifStatusReply dec" where
  "dec_ifStatus = dec_struct [
     (''ipv4-address'', into is_IPv4Address (\<lambda>v. is_IPv4Address_update (\<lambda>_. v))
        (dec_list dec_ifAddr \<lparr>ia_Address = [], ia_Mask = 0\<rparr>)),
     (''route'', into is_Route (\<lambda>v. is_Route_update (\<lambda>_. v))
        (dec_list dec_ifRoute \<lparr>ir_Target = [], ir_Mask = 0, ir_Nexthop = []\<rparr>)),
     (''dns-server'', into is_DNSServer (\<lambda>v. is_DNSServer_update (\<lambda>_. v)) (dec_list dec_string []))]"

definition parseIfStatus :: "json option \<Rightarrow> string list \<times> string \<times> string list" where
  "parseIfStatus raw =
     (case Unmarshal dec_ifStatus raw \<lparr>is_IPv4Address = [], is_Route = [], is_DNSServer = []\<rparr> of
        (s, ok) \<Rightarrow>
          if \<not> ok then ([], [], [])
          else
            (map (\<lambda>a. ia_Address a @ ''/'' @ show_int (ia_Mask a)) (is_IPv4Address s),
             (case find (\<lambda>r. ir_Target r = ''0.0.0.0'' \<and> ir_Mask r = 0 \<and> ir_Nexthop r \<noteq> []) (is_Route s) of
                None \<Rightarrow> [] | Some r \<Rightarrow> ir_Nexthop r),
             is_DNSServer s))"


section \<open>ubus.go\<close>

definition str_obj :: "(string \<times> string) list \<Rightarrow> json" where
  "str_obj kvs = JObj (map (\<lambda>(k, v). (k, JStr v)) kvs)"

record peer =
  pe_MAC :: string
  pe_Authorized :: bool

definition dec_peers :: "peer list dec" where
  "dec_peers = dec_struct [(''results'', dec_list (dec_struct [
     (''mac'', into pe_MAC (\<lambda>v. pe_MAC_update (\<lambda>_. v)) dec_string),
     (''authorized'', into pe_Authorized (\<lambda>v. pe_Authorized_update (\<lambda>_. v)) dec_bool)])
     \<lparr>pe_MAC = [], pe_Authorized = False\<rparr>)]"

definition peer_bssid :: "peer list \<Rightarrow> string" where
  "peer_bssid ps = (case find (\<lambda>p. pe_Authorized p \<and> isAssociated (pe_MAC p)) ps of None \<Rightarrow> [] | Some p \<Rightarrow> pe_MAC p)"

definition ubus_info :: "'s ubus_env \<Rightarrow> string \<Rightarrow> ('s ubus_state, iwinfoInfo) op" where
  "ubus_info E device =
     bindE (ubus_Call E ''iwinfo'' ''info'' (str_obj [(''device'', device)]) dec_iwinfoInfo zero_iwinfoInfo) (\<lambda>out.
       if \<not> EqualFold (ii_Mode out) ''Client'' \<or> \<not> isAssociated (ii_BSSID out) then retE out
       else
         bindE (ubus_Call E ''iwinfo'' ''assoclist'' (str_obj [(''device'', device)]) dec_peers []) (\<lambda>peers.
           retE (out\<lparr>ii_BSSID := peer_bssid peers\<rparr>)))"

definition ubus_toIface :: "string \<Rightarrow> iwinfoInfo \<Rightarrow> Interface" where
  "ubus_toIface device info =
     \<lparr>if_Name = device, if_Mac = ToLower (ii_HwAddr info), if_Pci = [], if_Powered = True,
      if_Up = (isAssociated (ii_BSSID info) \<or> ii_SSID info \<noteq> []), if_Desc = ii_Mode info\<rparr>"

definition dec_devices :: "string list dec" where
  "dec_devices = dec_struct [(''devices'', dec_list dec_string [])]"

definition ubus_device_iface :: "'s ubus_env \<Rightarrow> string \<Rightarrow> ('s ubus_state, Interface) op" where
  "ubus_device_iface E d = bindE (ubus_info E d) (\<lambda>info. retE (ubus_toIface d info))"

definition ubus_Interfaces :: "'s ubus_env \<Rightarrow> ('s ubus_state, Interface list) op" where
  "ubus_Interfaces E =
     bindE (ubus_Call E ''iwinfo'' ''devices'' no_args dec_devices []) (collectE (ubus_device_iface E))"

definition ubus_Interface :: "'s ubus_env \<Rightarrow> string \<Rightarrow> ('s ubus_state, Interface) op" where
  "ubus_Interface E name = mapErr (\<lambda>_. ErrNotFound (''interface '' @ name)) (ubus_device_iface E name)"

definition ubus_SetPower :: "'s ubus_env \<Rightarrow> string \<Rightarrow> bool \<Rightarrow> ('s ubus_state, Interface) op" where
  "ubus_SetPower E name on = failE (ErrUnsupported ''per-interface power on OpenWrt'')"

definition dec_scan :: "scanResult list dec" where
  "dec_scan = dec_struct [(''results'', dec_list dec_scanResult zero_scanResult)]"

definition ubus_Scan :: "'s ubus_env \<Rightarrow> string \<Rightarrow> ('s ubus_state, AP list) op" where
  "ubus_Scan E iface =
     bindE (ubus_Call E ''iwinfo'' ''scan'' (str_obj [(''device'', iface)]) dec_scan []) (\<lambda>rs.
       retE (map apFromScan rs))"

definition dec_values :: "(string \<times> json) list dec" where
  "dec_values = dec_struct [(''values'', dec_map dec_any JNull)]"

text \<open>The sections of the wireless configuration, in the order in which the code walks over them.\<close>

definition uci_values :: "'s ubus_env \<Rightarrow> ('s ubus_state, (string \<times> json) list) op" where
  "uci_values E =
     bindE (ubus_Call E ''uci'' ''get'' (str_obj [(''config'', ''wireless'')]) dec_values []) (\<lambda>vs s.
       (Inr (ub_order E (us_env s) vs), s))"

definition wifiIfaces :: "'s ubus_env \<Rightarrow> ('s ubus_state, wifiIface list) op" where
  "wifiIfaces E = bindE (uci_values E) (\<lambda>vs. retE (parseWifiIfaces vs))"

definition staIfaces :: "'s ubus_env \<Rightarrow> ('s ubus_state, wifiIface list) op" where
  "staIfaces E = bindE (wifiIfaces E) (\<lambda>ws. retE (filter (\<lambda>w. EqualFold (wi_Mode w) ''sta'') ws))"

definition ubus_commit :: "'s ubus_env \<Rightarrow> ('s ubus_state, unit) op" where
  "ubus_commit E = ubus_Call E ''uci'' ''commit'' (str_obj [(''config'', ''wireless'')]) dec_nil ()"

definition reloadWifi :: "'s ubus_env \<Rightarrow> ('s ubus_state, unit) op" where
  "reloadWifi E = ubus_Call E ''network'' ''reload'' no_args dec_nil ()"

definition section_type :: "json \<Rightarrow> string \<times> bool" where
  "section_type raw = dec_struct [(''.type'', dec_string)] raw []"

definition pickRadio :: "'s ubus_env \<Rightarrow> ('s ubus_state, string) op" where
  "pickRadio E =
     (if uo_Radio (ub_opts E) \<noteq> [] then retE (uo_Radio (ub_opts E))
      else
        bindE (uci_values E) (\<lambda>vs.
          (case find (\<lambda>kv. section_type (snd kv) = (''wifi-device'', True)) vs of
             Some (name, _) \<Rightarrow> retE name
           | None \<Rightarrow> failE (ErrOther ''no wifi-device found; set ubus.radio''))))"

section \<open>profile.go\<close>

text \<open>\<open>sha\<close> derives the ids, see \<open>DeriveID\<close>.\<close>

definition sectionName :: "string \<Rightarrow> SecurityKind \<Rightarrow> string" where
  "sectionName ssid k = ''wfm_'' @ hex_encode (take 6 (sha1_Sum (ssid @ NUL # secType k)))"

definition findByID :: "(string \<Rightarrow> string) \<Rightarrow> 's ubus_env \<Rightarrow> string \<Rightarrow> ('s ubus_state, wifiIface option) op" where
  "findByID sha E i =
     bindE (staIfaces E) (\<lambda>stas.
       retE (find (\<lambda>w. ubus_profileID sha (wi_SSID w) (encStrToSecKind (wi_Encryption w)) = i) stas))"

definition findByProfile ::
  "(string \<Rightarrow> string) \<Rightarrow> 's ubus_env \<Rightarrow> string \<Rightarrow> SecurityKind \<Rightarrow> ('s ubus_state, wifiIface option) op" where
  "findByProfile sha E ssid k = findByID sha E (ubus_profileID sha ssid k)"

definition ubus_Profiles :: "(string \<Rightarrow> string) \<Rightarrow> 's ubus_env \<Rightarrow> ('s ubus_state, Profile list) op" where
  "ubus_Profiles sha E = bindE (staIfaces E) (\<lambda>stas. retE (map (ubus_toProfile sha) stas))"

text \<open>\<open>w, ok, err := findByID(id)\<close>, and not found when there is none.\<close>

definition found_or :: "string \<Rightarrow> 'a option \<Rightarrow> ('s, 'a) op" where
  "found_or what x = (case x of None \<Rightarrow> failE (ErrNotFound what) | Some w \<Rightarrow> retE w)"

definition ubus_Profile :: "(string \<Rightarrow> string) \<Rightarrow> 's ubus_env \<Rightarrow> string \<Rightarrow> ('s ubus_state, Profile) op" where
  "ubus_Profile sha E i =
     bindE (findByID sha E i) (\<lambda>r. bindE (found_or (''profile '' @ i) r) (\<lambda>w. retE (ubus_toProfile sha w)))"

definition manualIP :: "IPConfig option \<Rightarrow> bool" where
  "manualIP c = (case c of None \<Rightarrow> False | Some cfg \<Rightarrow> ip_Method cfg = IPManual)"

definition rejectUnsupported :: "Security \<Rightarrow> IPConfig option \<Rightarrow> IPConfig option \<Rightarrow> werr option" where
  "rejectUnsupported sec ipv4 ipv6 =
     (if sec_Kind sec = SecEnterprise then Some (ErrUnsupported ''enterprise security'')
      else if manualIP ipv4 \<or> manualIP ipv6 then Some (ErrUnsupported ''per-profile static IP'')
      else None)"

text \<open>The options \<open>writeStation\<close> sets; \<open>existing\<close> is the section that is updated.\<close>

definition station_values ::
  "'s ubus_env \<Rightarrow> string \<Rightarrow> Security \<Rightarrow> bool \<Rightarrow> wifiIface option \<Rightarrow> (string \<times> string) list" where
  "station_values E ssid sec autoconnect existing =
     [(''mode'', ''sta''), (''ssid'', ssid), (''encryption'', secKindToEnc (sec_Kind sec)),
      (''disabled'', boolToUCI (\<not> autoconnect))] @
     (if ubus_network E \<noteq> [] then [(''network'', ubus_network E)] else []) @
     (case sec_Kind sec of
        SecPSK \<Rightarrow>
          if sec_Passphrase sec \<noteq> [] then [(''key'', sec_Passphrase sec)]
          else (case existing of
                  None \<Rightarrow> []
                | Some w \<Rightarrow> if wi_Key w \<noteq> [] then [(''key'', wi_Key w)] else [])
      | SecOpen \<Rightarrow> [(''key'', [])]
      | SecEnterprise \<Rightarrow> [])"

definition setAndCommit :: "'s ubus_env \<Rightarrow> string \<Rightarrow> (string \<times> string) list \<Rightarrow> ('s ubus_state, unit) op" where
  "setAndCommit E sect vals =
     bindE (ubus_Call E ''uci'' ''set''
         (JObj [(''config'', JStr ''wireless''), (''section'', JStr sect), (''values'', str_obj vals)]) dec_nil ())
       (\<lambda>_. ubus_commit E)"

definition writeStation ::
  "'s ubus_env \<Rightarrow> string \<Rightarrow> Security \<Rightarrow> bool \<Rightarrow> wifiIface option \<Rightarrow> ('s ubus_state, unit) op" where
  "writeStation E ssid sec autoconnect existing =
     (let vals = station_values E ssid sec autoconnect existing in
      case existing of
        Some w \<Rightarrow> setAndCommit E (wi_Section w) vals
      | None \<Rightarrow>
          bindE (pickRadio E) (\<lambda>radio.
            bindE (ubus_Call E ''uci'' ''add''
                (JObj [(''config'', JStr ''wireless''), (''type'', JStr ''wifi-iface''),
                       (''name'', JStr (sectionName ssid (sec_Kind sec))),
                       (''values'', str_obj (vals @ [(''device'', radio)]))]) dec_nil ())
              (\<lambda>_. ubus_commit E)))"

definition deleteSection :: "'s ubus_env \<Rightarrow> string \<Rightarrow> ('s ubus_state, unit) op" where
  "deleteSection E sect =
     bindE (ubus_Call E ''uci'' ''delete'' (str_obj [(''config'', ''wireless''), (''section'', sect)]) dec_nil ())
       (\<lambda>_. ubus_commit E)"

definition ubus_AddProfile :: "(string \<Rightarrow> string) \<Rightarrow> 's ubus_env \<Rightarrow> ProfileSpec \<Rightarrow> ('s ubus_state, Profile) op" where
  "ubus_AddProfile sha E spec =
     (if ps_SSID spec = [] then failE (ErrOther ''ssid is required'')
      else
        (case rejectUnsupported (ps_Security spec) (ps_IPv4 spec) (ps_IPv6 spec) of
           Some e \<Rightarrow> failE e
         | None \<Rightarrow>
             bindE (findByProfile sha E (ps_SSID spec) (sec_Kind (ps_Security spec))) (\<lambda>cur.
               bindE (writeStation E (ps_SSID spec) (ps_Security spec) (ps_Autoconnect spec) cur) (\<lambda>_.
                 ubus_Profile sha E (ubus_profileID sha (ps_SSID spec) (sec_Kind (ps_Security spec)))))))"

definition ubus_PatchProfile ::
  "(string \<Rightarrow> string) \<Rightarrow> 's ubus_env \<Rightarrow> string \<Rightarrow> ProfilePatch \<Rightarrow> ('s ubus_state, Profile) op" where
  "ubus_PatchProfile sha E i patch =
     bindE (findByID sha E i) (\<lambda>r. bindE (found_or (''profile '' @ i) r) (\<lambda>cur.
       let ssid = (case pp_SSID patch of Some v \<Rightarrow> v | None \<Rightarrow> wi_SSID cur);
           kind = encStrToSecKind (wi_Encryption cur);
           sec = (case pp_Security patch of Some v \<Rightarrow> v | None \<Rightarrow> \<lparr>sec_Kind = kind, sec_Passphrase = []\<rparr>);
           autoconnect = (case pp_Autoconnect patch of Some v \<Rightarrow> v | None \<Rightarrow> \<not> wi_Disabled cur)
       in case rejectUnsupported sec (pp_IPv4 patch) (pp_IPv6 patch) of
            Some e \<Rightarrow> failE e
          | None \<Rightarrow>
              bindE (if ssid \<noteq> wi_SSID cur \<or> sec_Kind sec \<noteq> kind then
                       bindE (writeStation E ssid
                           (if sec_Kind sec = SecPSK \<and> sec_Passphrase sec = [] then sec\<lparr>sec_Passphrase := wi_Key cur\<rparr> else sec)
                           autoconnect None) (\<lambda>_. deleteSection E (wi_Section cur))
                     else writeStation E ssid sec autoconnect (Some cur)) (\<lambda>_.
                ubus_Profile sha E (ubus_profileID sha ssid (sec_Kind sec)))))"

definition ubus_DeleteProfile :: "(string \<Rightarrow> string) \<Rightarrow> 's ubus_env \<Rightarrow> string \<Rightarrow> ('s ubus_state, unit) op" where
  "ubus_DeleteProfile sha E i =
     bindE (findByID sha E i) (\<lambda>r. bindE (found_or (''profile '' @ i) r) (\<lambda>cur. deleteSection E (wi_Section cur)))"

section \<open>conn.go\<close>

definition wirelessStatus :: "'s ubus_env \<Rightarrow> ('s ubus_state, string \<rightharpoonup> string) op" where
  "wirelessStatus E =
     bindE (ubus_Call E ''network.wireless'' ''status'' no_args dec_raw None) (\<lambda>raw s.
       (Inr (parseWirelessStatus (ub_order E (us_env s)) raw), s))"

record runtime =
  rt_iface :: wifiIface
  rt_ifname :: string
  rt_network :: string

definition ifname_of :: "(string \<rightharpoonup> string) \<Rightarrow> string \<Rightarrow> string" where
  "ifname_of m sect = (case m sect of None \<Rightarrow> [] | Some n \<Rightarrow> n)"

definition runtimeByID :: "(string \<Rightarrow> string) \<Rightarrow> 's ubus_env \<Rightarrow> string \<Rightarrow> ('s ubus_state, runtime option) op" where
  "runtimeByID sha E i =
     bindE (findByID sha E i) (\<lambda>r.
       (case r of
          None \<Rightarrow> retE None
        | Some w \<Rightarrow>
            bindE (wirelessStatus E) (\<lambda>status.
              retE (Some \<lparr>rt_iface = w, rt_ifname = ifname_of status (wi_Section w),
                          rt_network = (if wi_Network w = [] then ubus_network E else wi_Network w)\<rparr>))))"

text \<open>An interface that carries the station.\<close>

definition carries :: "iwinfoInfo \<Rightarrow> wifiIface \<Rightarrow> bool" where
  "carries info w \<longleftrightarrow> ii_SSID info = wi_SSID w \<and> isAssociated (ii_BSSID info)"

definition ubus_active :: "string \<Rightarrow> string \<Rightarrow> wifiIface \<Rightarrow> iwinfoInfo \<Rightarrow> Active" where
  "ubus_active i ifname w info =
     \<lparr>ac_ID = i, ac_Iface = ifname, ac_ProfileID = i, ac_SSID = wi_SSID w, ac_BSSID = ToLower (ii_BSSID info)\<rparr>"

definition ubus_connectionByID :: "(string \<Rightarrow> string) \<Rightarrow> 's ubus_env \<Rightarrow> string \<Rightarrow> ('s ubus_state, Active) op" where
  "ubus_connectionByID sha E i =
     bindE (runtimeByID sha E i) (\<lambda>r.
       (case r of
          None \<Rightarrow> failE (ErrNotFound (''connection '' @ i))
        | Some rt \<Rightarrow>
            if wi_Disabled (rt_iface rt) \<or> rt_ifname rt = [] then failE (ErrNotFound (''connection '' @ i))
            else
              bindE (mapErr (\<lambda>_. ErrNotFound (''connection '' @ i)) (ubus_info E (rt_ifname rt))) (\<lambda>info.
                if carries info (rt_iface rt) then retE (ubus_active i (rt_ifname rt) (rt_iface rt) info)
                else failE (ErrNotFound (''connection '' @ i)))))"

text \<open>One station of \<open>Connections\<close>; an error skips it.\<close>

definition station_conn ::
  "(string \<Rightarrow> string) \<Rightarrow> 's ubus_env \<Rightarrow> (string \<rightharpoonup> string) \<Rightarrow> wifiIface \<Rightarrow> 's ubus_state \<Rightarrow> Active option \<times> 's ubus_state" where
  "station_conn sha E status w s =
     (let ifname = ifname_of status (wi_Section w) in
      if wi_Disabled w \<or> ifname = [] then (None, s)
      else
        (case ubus_info E ifname s of
           (Inl _, s') \<Rightarrow> (None, s')
         | (Inr info, s') \<Rightarrow>
             (if carries info w
              then Some (ubus_active (ubus_profileID sha (wi_SSID w) (encStrToSecKind (wi_Encryption w))) ifname w info)
              else None, s')))"

definition ubus_Connections :: "(string \<Rightarrow> string) \<Rightarrow> 's ubus_env \<Rightarrow> ('s ubus_state, Active list) op" where
  "ubus_Connections sha E =
     bindE (staIfaces E) (\<lambda>stas. bindE (wirelessStatus E) (\<lambda>status s.
       (case filter_mapS (station_conn sha E status) stas s of (xs, s') \<Rightarrow> (Inr xs, s'))))"

definition ubus_Connection :: "(string \<Rightarrow> string) \<Rightarrow> 's ubus_env \<Rightarrow> string \<Rightarrow> ('s ubus_state, Active) op" where
  "ubus_Connection sha E connID = ubus_connectionByID sha E connID"

text \<open>The peers on the same radio are disabled.\<close>

definition disable_peer :: "'s ubus_env \<Rightarrow> wifiIface \<Rightarrow> wifiIface \<Rightarrow> ('s ubus_state, unit) op" where
  "disable_peer E cur other =
     (if wi_Section other = wi_Section cur \<or> wi_Device other \<noteq> wi_Device cur \<or> wi_Disabled other then retE ()
      else
        ubus_Call E ''uci'' ''set''
          (JObj [(''config'', JStr ''wireless''), (''section'', JStr (wi_Section other)),
                 (''values'', str_obj [(''disabled'', ''1'')])]) dec_nil ())"

definition assoc_fuel :: nat where "assoc_fuel = 52"

definition assoc_check :: "(string \<Rightarrow> string) \<Rightarrow> 's ubus_env \<Rightarrow> string \<Rightarrow> 's ubus_state \<Rightarrow> bool \<times> 's ubus_state" where
  "assoc_check sha E i s =
     (case runtimeByID sha E i s of
        (Inr (Some rt), s1) \<Rightarrow>
          if wi_Disabled (rt_iface rt) \<or> rt_ifname rt = [] then (False, s1)
          else
            (case ubus_info E (rt_ifname rt) s1 of
               (Inr info, s2) \<Rightarrow> (carries info (rt_iface rt), s2)
             | (Inl _, s2) \<Rightarrow> (False, s2))
      | (_, s1) \<Rightarrow> (False, s1))"

fun wait_assoc :: "nat \<Rightarrow> (string \<Rightarrow> string) \<Rightarrow> 's ubus_env \<Rightarrow> string \<Rightarrow> int \<Rightarrow> ('s ubus_state, unit) op" where
  "wait_assoc 0 sha E i deadline s = (Inl OutOfFuel, s)"
| "wait_assoc (Suc n) sha E i deadline s =
     (case assoc_check sha E i s of
        (True, s1) \<Rightarrow> (Inr (), s1)
      | (False, s1) \<Rightarrow>
          (case on_us (ub_now E) s1 of
             (t, s2) \<Rightarrow>
               if deadline < t then (Inl (ErrOther (''association timed out for profile '' @ i)), s2)
               else
                 (case on_us (ub_wait E 500000000) s2 of
                    (Some e, s3) \<Rightarrow> (Inl (ErrOther e), s3)
                  | (None, s3) \<Rightarrow> wait_assoc n sha E i deadline s3)))"

definition waitAssociated :: "(string \<Rightarrow> string) \<Rightarrow> 's ubus_env \<Rightarrow> string \<Rightarrow> int \<Rightarrow> ('s ubus_state, unit) op" where
  "waitAssociated sha E i timeout s =
     (case on_us (ub_now E) s of (t, s') \<Rightarrow> wait_assoc assoc_fuel sha E i (t + timeout) s')"

definition ubus_Activate ::
  "(string \<Rightarrow> string) \<Rightarrow> 's ubus_env \<Rightarrow> string \<Rightarrow> string \<Rightarrow> string \<Rightarrow> ('s ubus_state, Active) op" where
  "ubus_Activate sha E iface profID bssid =
     bindE (findByID sha E profID) (\<lambda>r. bindE (found_or (''profile '' @ profID) r) (\<lambda>cur.
       bindE (staIfaces E) (\<lambda>stas.
         bindE (eachE (disable_peer E cur) stas) (\<lambda>_.
           bindE (setAndCommit E (wi_Section cur) [(''disabled'', ''0''), (''bssid'', ToLower bssid)]) (\<lambda>_.
             bindE (reloadWifi E) (\<lambda>_.
               bindE (waitAssociated sha E profID 25000000000) (\<lambda>_.
                 ubus_connectionByID sha E profID)))))))"

definition ubus_Deactivate :: "(string \<Rightarrow> string) \<Rightarrow> 's ubus_env \<Rightarrow> string \<Rightarrow> ('s ubus_state, unit) op" where
  "ubus_Deactivate sha E connID =
     bindE (findByID sha E connID) (\<lambda>r. bindE (found_or (''connection '' @ connID) r) (\<lambda>cur.
       bindE (setAndCommit E (wi_Section cur) [(''disabled'', ''1'')]) (\<lambda>_. reloadWifi E)))"

definition ifStatus :: "'s ubus_env \<Rightarrow> string \<Rightarrow> 's ubus_state \<Rightarrow> (string list \<times> string \<times> string list) \<times> 's ubus_state" where
  "ifStatus E network s =
     (if network = [] then (([], [], []), s)
      else
        (case ubus_Call E (''network.interface.'' @ network) ''status'' no_args dec_raw None s of
           (Inl _, s') \<Rightarrow> (([], [], []), s')
         | (Inr raw, s') \<Rightarrow> (parseIfStatus raw, s')))"

definition statusFor :: "'s ubus_env \<Rightarrow> runtime \<Rightarrow> 's ubus_state \<Rightarrow> Status \<times> 's ubus_state" where
  "statusFor E rt s =
     (let st = zero_Status\<lparr>st_State := StateIdle\<rparr> in
      if wi_Disabled (rt_iface rt) then (st, s)
      else if rt_ifname rt = [] then (st\<lparr>st_State := StateAssociating\<rparr>, s)
      else
        (case ubus_info E (rt_ifname rt) s of
           (Inl _, s1) \<Rightarrow> (st, s1)
         | (Inr info, s1) \<Rightarrow>
             if carries info (rt_iface rt) then
               (case ifStatus E (rt_network rt) s1 of
                  ((as, gw, dns), s2) \<Rightarrow>
                    (st\<lparr>st_State := StateConnected, st_BSSID := ToLower (ii_BSSID info),
                        st_Signal := ubus_signalQuality (ii_Quality info) (ii_QualityMax info),
                        st_Addresses := as, st_Gateway := gw, st_DNS := dns\<rparr>, s2))
             else (st\<lparr>st_State := StateAssociating\<rparr>, s1)))"

definition ubus_Status :: "(string \<Rightarrow> string) \<Rightarrow> 's ubus_env \<Rightarrow> string \<Rightarrow> ('s ubus_state, Status) op" where
  "ubus_Status sha E connID =
     bindE (runtimeByID sha E connID) (\<lambda>r. bindE (found_or (''connection '' @ connID) r) (\<lambda>rt s.
       (case statusFor E rt s of (st, s') \<Rightarrow> (Inr st, s'))))"

text \<open>The goroutine's state is the last state sent; a round runs at once and then on every tick.\<close>

definition ubus_timed_out :: Status where
  "ubus_timed_out = zero_Status\<lparr>st_State := StateFailed, st_Error := ErrCUnknown, st_Detail := ''association timed out''\<rparr>"

definition ubus_round :: "(string \<Rightarrow> string) \<Rightarrow> 's ubus_env \<Rightarrow> string \<Rightarrow> int \<Rightarrow> (unit, ConnState option, 's ubus_state) round" where
  "ubus_round sha E connID deadline _ l s =
     (case runtimeByID sha E connID s of
        (Inr (Some rt), s1) \<Rightarrow>
          (case statusFor E rt s1 of
             (st0, s2) \<Rightarrow>
               (case (if st_State st0 \<noteq> StateConnected then
                        (case on_us (ub_now E) s2 of (t, s') \<Rightarrow> (if deadline < t then ubus_timed_out else st0, s'))
                      else (st0, s2)) of
                  (st, s3) \<Rightarrow>
                    let stop = (st_State st = StateConnected \<or> st_State st = StateFailed) in
                    if Some (st_State st) \<noteq> l then ((Some st, stop), Some (st_State st), s3)
                    else ((None, stop), l, s3)))
      | (_, s1) \<Rightarrow> ((None, True), l, s1))"

definition ubus_Watch :: "(string \<Rightarrow> string) \<Rightarrow> 's ubus_env \<Rightarrow> string \<Rightarrow> ('s ubus_state, Status list) op" where
  "ubus_Watch sha E connID =
     bindE (runtimeByID sha E connID) (\<lambda>r. bindE (found_or (''connection '' @ connID) r) (\<lambda>_ s.
       (case on_us (ub_now E) s of
          (t, s1) \<Rightarrow>
            (case watch_run (ubus_round sha E connID (t + 30000000000))
                    (replicate (Suc (ub_ticks E (us_env s1))) ()) None s1 of
               (sts, s') \<Rightarrow> (Inr sts, s')))))"

definition ubus_backend :: "(string \<Rightarrow> string) \<Rightarrow> 's ubus_env \<Rightarrow> 's ubus_state Backend" where
  "ubus_backend sha E = \<lparr>
     b_Interfaces = ubus_Interfaces E, b_Interface = ubus_Interface E, b_SetPower = ubus_SetPower E,
     b_Scan = ubus_Scan E, b_Profiles = ubus_Profiles sha E, b_Profile = ubus_Profile sha E,
     b_AddProfile = ubus_AddProfile sha E, b_PatchProfile = ubus_PatchProfile sha E,
     b_DeleteProfile = ubus_DeleteProfile sha E, b_Activate = ubus_Activate sha E,
     b_Deactivate = ubus_Deactivate sha E, b_Connections = ubus_Connections sha E,
     b_Connection = ubus_Connection sha E, b_Status = ubus_Status sha E, b_Watch = ubus_Watch sha E\<rparr>"

text \<open>
  \<open>NewClient\<close> and \<open>New\<close>.  The HTTP client is made for the endpoint, with or without verification
  of certificates; no request goes out before the first call, and the session is empty.
\<close>

definition NewClient :: "(string \<Rightarrow> bool \<Rightarrow> 's ubus_env) \<Rightarrow> string \<Rightarrow> bool \<Rightarrow> ubus_opts \<Rightarrow> 's ubus_env res" where
  "NewClient http endpoint insecure opts =
     (if endpoint = [] then Inl (ErrOther ''ubus endpoint is required'')
      else Inr ((http endpoint insecure)\<lparr>ub_opts := opts\<rparr>))"

definition new_client_state :: "'s \<Rightarrow> 's ubus_state" where
  "new_client_state e = \<lparr>us_id = 0, us_session = [], us_env = e\<rparr>"

definition ubus_New :: "(string \<Rightarrow> string) \<Rightarrow> (string \<Rightarrow> bool \<Rightarrow> 's ubus_env) \<Rightarrow> string \<Rightarrow> bool \<Rightarrow> ubus_opts \<Rightarrow>
    's ubus_state Backend res" where
  "ubus_New sha http endpoint insecure opts =
     (case NewClient http endpoint insecure opts of
        Inl e \<Rightarrow> Inl e
      | Inr E \<Rightarrow> Inr (ubus_backend sha E))"

end
