(* ===== verification/Telemetry.thy ===== *)
theory Telemetry
  imports Wfm_Prelude
begin

text \<open>
  \<open>cmd/config/otel.go\<close> and \<open>cmd/version/version.go\<close>: the defaults the program adds to its
  telemetry configuration, and how it takes the providers from it.  The library that resolves
  a configuration is a parameter; of its configuration, what the program adds is modelled, and
  anything else is opaque.
\<close>

section \<open>version.go\<close>

record BuildInfo =
  bi_Version :: string
  bi_GitRev :: string
  bi_GitDirty :: bool

definition build_info :: BuildInfo where
  "build_info = \<lparr>bi_Version = ''YYMMDD-local'', bi_GitRev = ''0000000000000000000000000000000000000000'',
     bi_GitDirty = False\<rparr>"

section \<open>otel.go\<close>

datatype processor = Resource "(string \<times> string) list" | OtherProcessor string

datatype exporter = Pretty | OtherExporter string

record provider =
  pv_Processors :: "string list"
  pv_Exporters :: "string list"

text \<open>The maps of the configuration; \<open>None\<close> is the nil map.\<close>

record OtelConfig =
  oc_Processors :: "(string \<times> processor) list option"
  oc_Exporters :: "(string \<times> exporter) list option"
  oc_Providers :: "(string \<times> provider) list option"

definition zero_OtelConfig :: OtelConfig where
  "zero_OtelConfig = \<lparr>oc_Processors = None, oc_Exporters = None, oc_Providers = None\<rparr>"

text \<open>\<open>if _, ok := m[k]; !ok { m[k] = v }\<close>, after the nil map has been replaced.\<close>

definition put_absent :: "string \<Rightarrow> 'v \<Rightarrow> (string \<times> 'v) list \<Rightarrow> (string \<times> 'v) list" where
  "put_absent k v m = (case map_of m k of None \<Rightarrow> m @ [(k, v)] | Some _ \<Rightarrow> m)"

definition not_nil :: "(string \<times> 'v) list option \<Rightarrow> (string \<times> 'v) list" where
  "not_nil m = (case m of None \<Rightarrow> [] | Some m \<Rightarrow> m)"

definition ServiceResourceId :: string where "ServiceResourceId = ''resource/wfm''"

definition otel_defaults :: "OtelConfig \<Rightarrow> OtelConfig" where
  "otel_defaults c = \<lparr>
     oc_Processors = Some (put_absent ServiceResourceId
       (Resource [(''service.name'', ''wfm''), (''service.version'', bi_Version build_info)]) (not_nil (oc_Processors c))),
     oc_Exporters = Some (put_absent ''pretty'' Pretty (not_nil (oc_Exporters c))),
     oc_Providers = Some (put_absent ''logger'' \<lparr>pv_Processors = [], pv_Exporters = [''pretty'']\<rparr>
       (put_absent ''meter'' \<lparr>pv_Processors = [ServiceResourceId], pv_Exporters = []\<rparr>
         (put_absent ''tracer'' \<lparr>pv_Processors = [ServiceResourceId], pv_Exporters = []\<rparr> (not_nil (oc_Providers c)))))\<rparr>"

datatype otel_error = OtelNotExist | OtelError string

record resolver =
  rs_NewConfig :: OtelConfig
  rs_Tracer :: "OtelConfig \<Rightarrow> otel_error + string"
  rs_Meter :: "OtelConfig \<Rightarrow> otel_error + string"
  rs_Logger :: "OtelConfig \<Rightarrow> otel_error + string"

text \<open>\<open>p, err := \<dots>; if err != nil && !errors.Is(err, mkot.ErrNotExist) { return err }\<close>\<close>

definition resolved :: "string \<Rightarrow> otel_error + string \<Rightarrow> string + string option" where
  "resolved what r =
     (case r of
        Inr p \<Rightarrow> Inr (Some p)
      | Inl OtelNotExist \<Rightarrow> Inr None
      | Inl (OtelError e) \<Rightarrow> Inl (''resolve '' @ what @ '' provider: '' @ e))"

record otx =
  ox_Tracer :: "string option"
  ox_Meter :: "string option"
  ox_Logger :: "string option"

text \<open>The receiver may be nil; the configuration it points to is changed in place.\<close>

definition otel_Build :: "resolver \<Rightarrow> OtelConfig option \<Rightarrow> (string + otx) \<times> OtelConfig" where
  "otel_Build rs c =
     (let otc = otel_defaults (case c of None \<Rightarrow> rs_NewConfig rs | Some c \<Rightarrow> c) in
      (case resolved ''tracer'' (rs_Tracer rs otc) of
         Inl e \<Rightarrow> (Inl e, otc)
       | Inr t \<Rightarrow>
           (case resolved ''meter'' (rs_Meter rs otc) of
              Inl e \<Rightarrow> (Inl e, otc)
            | Inr m \<Rightarrow>
                (case resolved ''logger'' (rs_Logger rs otc) of
                   Inl e \<Rightarrow> (Inl e, otc)
                 | Inr l \<Rightarrow> (Inr \<lparr>ox_Tracer = t, ox_Meter = m, ox_Logger = l\<rparr>, otc)))))"

section \<open>Lemmas\<close>

lemma map_of_put_absent: "map_of (put_absent k v m) = (\<lambda>x. if x = k \<and> map_of m k = None then Some v else map_of m x)"
  by (auto simp: put_absent_def fun_eq_iff map_add_def split: option.splits)

lemma put_absent_extends: "map_of m \<subseteq>\<^sub>m map_of (put_absent k v m)"
  by (auto simp: map_le_def map_of_put_absent)

lemma put_absent_id [simp]: "map_of m k \<noteq> None \<Longrightarrow> put_absent k v m = m"
  by (auto simp: put_absent_def)

lemma put_absent_has [simp]: "map_of (put_absent k v m) k \<noteq> None"
  by (simp add: map_of_put_absent)

lemma put_absent_keeps [simp]: "map_of m x \<noteq> None \<Longrightarrow> map_of (put_absent k v m) x \<noteq> None"
  by (simp add: map_of_put_absent)

text \<open>Every name a provider of the defaults refers to is configured.\<close>

definition refers :: "OtelConfig \<Rightarrow> string \<Rightarrow> bool" where
  "refers c name \<longleftrightarrow>
     (case map_of (not_nil (oc_Providers c)) name of
        None \<Rightarrow> False
      | Some p \<Rightarrow> list_all (\<lambda>q. map_of (not_nil (oc_Processors c)) q \<noteq> None) (pv_Processors p) \<and>
                  list_all (\<lambda>q. map_of (not_nil (oc_Exporters c)) q \<noteq> None) (pv_Exporters p))"

definition extends :: "OtelConfig \<Rightarrow> OtelConfig \<Rightarrow> bool" where
  "extends c c' \<longleftrightarrow>
     map_of (not_nil (oc_Processors c)) \<subseteq>\<^sub>m map_of (not_nil (oc_Processors c')) \<and>
     map_of (not_nil (oc_Exporters c)) \<subseteq>\<^sub>m map_of (not_nil (oc_Exporters c')) \<and>
     map_of (not_nil (oc_Providers c)) \<subseteq>\<^sub>m map_of (not_nil (oc_Providers c'))"

lemma otel_defaults_extends: "extends c (otel_defaults c)"
proof -
  have "map_of m \<subseteq>\<^sub>m map_of (put_absent k3 v3 (put_absent k2 v2 (put_absent k1 v1 m)))"
    for m :: "(string \<times> provider) list" and k1 k2 k3 v1 v2 v3
    by (meson put_absent_extends map_le_trans)
  then show ?thesis by (simp add: extends_def otel_defaults_def not_nil_def put_absent_extends)
qed

lemma otel_defaults_idem: "otel_defaults (otel_defaults c) = otel_defaults c"
  by (simp add: otel_defaults_def not_nil_def)

text \<open>A provider the user did not configure refers only to what is configured.\<close>

lemma otel_defaults_refers:
  assumes "map_of (not_nil (oc_Providers c)) name = None"
  shows "name = ''tracer'' \<or> name = ''meter'' \<or> name = ''logger'' \<Longrightarrow> refers (otel_defaults c) name"
  using assms by (elim disjE) (simp_all add: refers_def otel_defaults_def map_of_put_absent not_nil_def del: put_absent_id)

lemma otel_Build_errors:
  "otel_Build rs c = (r, c') \<Longrightarrow>
     isl r \<longleftrightarrow> (\<exists>e. rs_Tracer rs c' = Inl (OtelError e) \<or> rs_Meter rs c' = Inl (OtelError e) \<or> rs_Logger rs c' = Inl (OtelError e))"
  by (auto simp: otel_Build_def resolved_def Let_def split: sum.splits otel_error.splits)

section \<open>Properties\<close>

text \<open>C34: The telemetry defaults only add: whatever the user configured under a name stays, every provider the program adds refers only to processors and exporters that are configured, adding the defaults again changes nothing, and the set-up fails exactly when the library reports an error other than a missing provider.\<close>

theorem telemetry_defaults:
  assumes "otel_Build rs (Some c) = (r, c')"
  shows "extends c c' \<and> otel_defaults c' = c' \<and>
    (\<forall>name \<in> {''tracer'', ''meter'', ''logger''}. map_of (not_nil (oc_Providers c)) name = None \<longrightarrow> refers c' name) \<and>
    (isl r \<longleftrightarrow> (\<exists>e. rs_Tracer rs c' = Inl (OtelError e) \<or> rs_Meter rs c' = Inl (OtelError e) \<or> rs_Logger rs c' = Inl (OtelError e)))"
proof -
  have "c' = otel_defaults c"
    using assms by (auto simp: otel_Build_def Let_def split: sum.splits)
  with otel_Build_errors [OF assms] otel_defaults_extends otel_defaults_idem otel_defaults_refers show ?thesis by auto
qed

definition own_logger :: OtelConfig where
  "own_logger = zero_OtelConfig\<lparr>oc_Providers := Some [(''logger'', \<lparr>pv_Processors = [], pv_Exporters = [''file'']\<rparr>)]\<rparr>"

lemma telemetry_defaults_witness:
  "\<exists>r c'. otel_Build \<lparr>rs_NewConfig = zero_OtelConfig, rs_Tracer = \<lambda>_. Inl OtelNotExist, rs_Meter = \<lambda>_. Inr ''m'', rs_Logger = \<lambda>_. Inr ''l''\<rparr> (Some own_logger) = (r, c') \<and>
     refers c' ''tracer'' \<and> \<not> isl r \<and> map_of (not_nil (oc_Providers c')) ''logger'' = Some \<lparr>pv_Processors = [], pv_Exporters = [''file'']\<rparr>"
proof -
  let ?rs = "\<lparr>rs_NewConfig = zero_OtelConfig, rs_Tracer = \<lambda>_. Inl OtelNotExist, rs_Meter = \<lambda>_. Inr ''m'', rs_Logger = \<lambda>_. Inr ''l''\<rparr>"
  obtain r c' where b: "otel_Build ?rs (Some own_logger) = (r, c')" by force
  have own: "map_of (not_nil (oc_Providers own_logger)) ''logger'' = Some \<lparr>pv_Processors = [], pv_Exporters = [''file'']\<rparr>"
    "map_of (not_nil (oc_Providers own_logger)) ''tracer'' = None"
    by (simp_all add: own_logger_def not_nil_def)
  from telemetry_defaults [OF b] own(2) have "refers c' ''tracer''" "\<not> isl r" by auto
  moreover have "map_of (not_nil (oc_Providers c')) ''logger'' = Some \<lparr>pv_Processors = [], pv_Exporters = [''file'']\<rparr>"
    using telemetry_defaults [OF b] own(1) by (auto simp: extends_def map_le_def dom_def)
  ultimately show ?thesis using b by blast
qed

end
