(* ===== verification/Cmd.thy ===== *)
theory Cmd
  imports Client Ubus Telemetry
begin

text \<open>
  \<open>cmd\<close> and \<open>cmd/config\<close>: the configuration, the choice of a backend, how a client finds
  its server and a server its socket, and the commands over the wifi client.  A command
  returns its output and its error; flags and arguments are the values the command line
  library hands over, an absent one the empty string.  YAML, the system bus, the sockets,
  the quoting of \<open>%q\<close> and the telemetry library are parameters.
\<close>

datatype cmd_error =
    NotExist string
  | Failed string
  | FailedRpc string rpc_error

section \<open>config.go of cmd/config\<close>

record UbusConfig =
  uc_Endpoint :: string
  uc_Username :: string
  uc_PasswordFile :: string
  uc_Password :: string
  uc_Insecure :: bool
  uc_Radio :: string
  uc_Network :: string

record Config =
  cf_path :: string
  cf_Otel :: OtelConfig
  cf_Exclude :: "ExcludeRule list"
  cf_Ubus :: UbusConfig

definition zero_Config :: Config where
  "zero_Config = \<lparr>cf_path = [], cf_Otel = zero_OtelConfig, cf_Exclude = [],
     cf_Ubus = \<lparr>uc_Endpoint = [], uc_Username = [], uc_PasswordFile = [], uc_Password = [],
       uc_Insecure = False, uc_Radio = [], uc_Network = []\<rparr>\<rparr>"

definition DefaultConfigPaths :: "string list" where
  "DefaultConfigPaths = [''wfm.yaml'', ''wfm.yml'']"

text \<open>What opening a file gives, and what the YAML decoder makes of its content.\<close>

datatype file_result = FileMissing | FileError string | FileContent string

datatype yaml_result = YamlConfig Config | YamlEOF | YamlError string

record cmd_os =
  co_file :: "string \<Rightarrow> file_result"
  co_yaml :: "string \<Rightarrow> yaml_result"
  co_env_socket :: string
  co_home :: "string option"
  co_temp :: string
  co_listening :: "string \<Rightarrow> bool"
  co_bus :: "(string \<Rightarrow> bool option) option"
  co_quote :: "string \<Rightarrow> string"
  co_uuid :: uuid_lib
  co_resolver :: resolver
  co_otel_start :: "otx \<Rightarrow> string option"

text \<open>\<open>strings.TrimRight(s, "\r\n")\<close>\<close>

definition trim_newlines :: "string \<Rightarrow> string" where
  "trim_newlines s = rev (dropWhile (\<lambda>c. c = newline \<or> c = creturn) (rev s))"

definition ResolvePassword :: "cmd_os \<Rightarrow> UbusConfig \<Rightarrow> cmd_error + string" where
  "ResolvePassword X c =
     (if uc_PasswordFile c = [] then Inr (uc_Password c)
      else (case co_file X (uc_PasswordFile c) of
              FileContent b \<Rightarrow> Inr (trim_newlines b)
            | FileMissing \<Rightarrow> Inl (NotExist ''read ubus password_file'')
            | FileError e \<Rightarrow> Inl (Failed (''read ubus password_file: '' @ e))))"

definition ReadFromFile :: "cmd_os \<Rightarrow> string \<Rightarrow> cmd_error + Config" where
  "ReadFromFile X p =
     (case co_file X p of
        FileMissing \<Rightarrow> Inl (NotExist (''open: '' @ p))
      | FileError e \<Rightarrow> Inl (Failed (''open: '' @ e))
      | FileContent b \<Rightarrow>
          (case co_yaml X b of
             YamlError e \<Rightarrow> Inl (Failed (''decode: '' @ e))
           | YamlEOF \<Rightarrow> Inr (zero_Config\<lparr>cf_path := p\<rparr>)
           | YamlConfig c \<Rightarrow> Inr (c\<lparr>cf_path := p\<rparr>)))"

fun evaluate_rules :: "nat \<Rightarrow> ExcludeRule list \<Rightarrow> cmd_error + unit" where
  "evaluate_rules i [] = Inr ()"
| "evaluate_rules i (r # rs) =
     (case Validate r of
        Inl e \<Rightarrow> Inl (Failed (''interface.exclude['' @ show_nat i @ '']: '' @ err_text e))
      | Inr _ \<Rightarrow> evaluate_rules (i + 1) rs)"

definition Evaluate :: "Config \<Rightarrow> cmd_error + unit" where
  "Evaluate c = evaluate_rules 0 (cf_Exclude c)"

section \<open>config.go\<close>

fun search_config :: "cmd_os \<Rightarrow> string list \<Rightarrow> cmd_error + Config option" where
  "search_config X [] = Inr None"
| "search_config X (p # ps) =
     (case ReadFromFile X p of
        Inr c \<Rightarrow> Inr (Some c)
      | Inl (NotExist _) \<Rightarrow> search_config X ps
      | Inl e \<Rightarrow> Inl (Failed (''read config: '' @ p)))"

definition load_config :: "cmd_os \<Rightarrow> string option \<Rightarrow> cmd_error + Config" where
  "load_config X flag =
     (case flag of
        Some p \<Rightarrow> (case ReadFromFile X p of Inl e \<Rightarrow> Inl (Failed ''read config'') | Inr c \<Rightarrow> Inr c)
      | None \<Rightarrow>
          (case search_config X DefaultConfigPaths of
             Inl e \<Rightarrow> Inl e
           | Inr None \<Rightarrow> Inr zero_Config
           | Inr (Some c) \<Rightarrow> Inr c))"

text \<open>
  The start of the program: read the configuration, build and start telemetry from it, check
  it.  The check that the context holds no configuration yet is left out.
\<close>

definition UseConfigInit :: "cmd_os \<Rightarrow> string option \<Rightarrow> cmd_error + Config" where
  "UseConfigInit X flag =
     (case load_config X flag of
        Inl e \<Rightarrow> Inl e
      | Inr c \<Rightarrow>
          (case otel_Build (co_resolver X) (Some (cf_Otel c)) of
             (Inl e, _) \<Rightarrow> Inl (Failed (''build otel: '' @ e))
           | (Inr o1, otc) \<Rightarrow>
               (case co_otel_start X o1 of
                  Some e \<Rightarrow> Inl (Failed (''start otel: '' @ e))
                | None \<Rightarrow>
                    (case Evaluate (c\<lparr>cf_Otel := otc\<rparr>) of
                       Inl e \<Rightarrow> Inl (Failed ''evaluate config'')
                     | Inr _ \<Rightarrow> Inr (c\<lparr>cf_Otel := otc\<rparr>)))))"

section \<open>backend.go\<close>

text \<open>The constructors of the four backend packages.\<close>

record 's backends =
  k_nmcli :: "'s Backend"
  k_nmdbus :: "cmd_error + 's Backend"
  k_iwd :: "cmd_error + 's Backend"
  k_ubus :: "string \<Rightarrow> bool \<Rightarrow> ubus_opts \<Rightarrow> cmd_error + 's Backend"

definition newUbusBackend :: "cmd_os \<Rightarrow> 's backends \<Rightarrow> Config option \<Rightarrow> cmd_error + 's Backend" where
  "newUbusBackend X K c =
     (case c of
        None \<Rightarrow> Inl (Failed ''ubus backend requires ubus.endpoint in the config'')
      | Some c \<Rightarrow>
          if uc_Endpoint (cf_Ubus c) = []
          then Inl (Failed ''ubus backend requires ubus.endpoint in the config'')
          else (case ResolvePassword X (cf_Ubus c) of
                  Inl e \<Rightarrow> Inl e
                | Inr pass \<Rightarrow>
                    k_ubus K (uc_Endpoint (cf_Ubus c)) (uc_Insecure (cf_Ubus c))
                      \<lparr>uo_Username = uc_Username (cf_Ubus c), uo_Password = pass,
                       uo_Radio = uc_Radio (cf_Ubus c), uo_Network = uc_Network (cf_Ubus c)\<rparr>))"

definition newRawBackend :: "cmd_os \<Rightarrow> 's backends \<Rightarrow> string \<Rightarrow> Config option \<Rightarrow> cmd_error + 's Backend" where
  "newRawBackend X K name c =
     (if name = ''nmcli'' then Inr (k_nmcli K)
      else if name = ''nmdbus'' then k_nmdbus K
      else if name = ''iwd'' then k_iwd K
      else if name = ''ubus'' then newUbusBackend X K c
      else Inl (Failed (''unknown backend '' @ name)))"

definition newBackend :: "cmd_os \<Rightarrow> 's backends \<Rightarrow> Config option \<Rightarrow> string \<Rightarrow> cmd_error + 's Backend" where
  "newBackend X K c name =
     (case newRawBackend X K name c of
        Inl e \<Rightarrow> Inl e
      | Inr b \<Rightarrow> (case c of None \<Rightarrow> Inr b | Some c \<Rightarrow> Inr (WithExcluded b (cf_Exclude c))))"

text \<open>A call on the bus that fails counts as no.\<close>

definition nameHasOwner :: "(string \<Rightarrow> bool option) \<Rightarrow> string \<Rightarrow> bool" where
  "nameHasOwner bus name \<longleftrightarrow> bus name = Some True"

definition detectBackend :: "cmd_os \<Rightarrow> string" where
  "detectBackend X =
     (case co_bus X of
        None \<Rightarrow> ''nmcli''
      | Some bus \<Rightarrow>
          if nameHasOwner bus ''net.connman.iwd'' then ''iwd''
          else if nameHasOwner bus ''org.freedesktop.NetworkManager'' then ''nmdbus''
          else ''nmcli'')"

section \<open>client.go\<close>

text \<open>\<open>path/filepath\<close> on Unix: \<open>Clean\<close> goes through the segments, \<open>Dir\<close> cuts after the last slash.\<close>

definition clean_step :: "bool \<Rightarrow> string list \<Rightarrow> string \<Rightarrow> string list" where
  "clean_step rooted out seg =
     (if seg = [] \<or> seg = ''.'' then out
      else if seg = ''..'' then
        (if out \<noteq> [] \<and> last out \<noteq> ''..'' then butlast out
         else if rooted then out else out @ [seg])
      else out @ [seg])"

definition filepath_Clean :: "string \<Rightarrow> string" where
  "filepath_Clean p =
     (let rooted = HasPrefix p ''/'';
          out = foldl (clean_step rooted) [] (SplitByte p CHR ''/'');
          r = (if rooted then ''/'' else []) @ Join out ''/''
      in if r = [] then ''.'' else r)"

definition filepath_Dir :: "string \<Rightarrow> string" where
  "filepath_Dir p = filepath_Clean (rev (dropWhile (\<lambda>c. c \<noteq> CHR ''/'') (rev p)))"

definition defaultSocketPath :: "cmd_os \<Rightarrow> string" where
  "defaultSocketPath X =
     (if co_env_socket X \<noteq> [] then co_env_socket X
      else
        (let home = (case co_home X of None \<Rightarrow> co_temp X | Some h \<Rightarrow> if h = [] then co_temp X else h)
         in filepath_Clean (Join (filter (\<lambda>e. e \<noteq> []) [home, ''.wfm'', ''wfm.sock'']) ''/'')))"

definition serverAddr :: "string option \<Rightarrow> string" where
  "serverAddr flag = (case flag of Some v \<Rightarrow> v | None \<Rightarrow> [])"

definition dialTarget :: "string \<Rightarrow> string" where
  "dialTarget addr =
     (if HasPrefix addr ''unix:'' then addr
      else if HasPrefix addr ''/'' \<or> HasPrefix addr ''./'' \<or> HasPrefix addr ''~'' then ''unix://'' @ addr
      else addr)"

text \<open>Where a client connects: a gRPC target, or a server of its own over a named backend.\<close>

datatype connection = Remote string | InProc string

definition dialInProc :: "cmd_os \<Rightarrow> string \<Rightarrow> connection" where
  "dialInProc X backend = InProc (if backend = [] then detectBackend X else backend)"

definition dial :: "cmd_os \<Rightarrow> string option \<Rightarrow> string \<Rightarrow> connection" where
  "dial X server backend =
     (if serverAddr server \<noteq> [] then Remote (dialTarget (serverAddr server))
      else if co_listening X (defaultSocketPath X) then Remote (''unix://'' @ defaultSocketPath X)
      else dialInProc X backend)"

text \<open>
  The client of a connection: over the wire as given by the transport, or the services on the
  backend.  The in-process server is registered without a scan cache: its state has \<open>ss_cache\<close> None.
\<close>

definition connect_client ::
  "cmd_os \<Rightarrow> 's backends \<Rightarrow> 's scan_env \<Rightarrow> (string \<Rightarrow> cmd_error + 's scan_state wifi_client) \<Rightarrow> Config option \<Rightarrow>
   connection \<Rightarrow> cmd_error + 's scan_state wifi_client" where
  "connect_client X K E transport c conn =
     (case conn of
        Remote target \<Rightarrow> transport target
      | InProc name \<Rightarrow>
          (case newBackend X K c name of
             Inl e \<Rightarrow> Inl e
           | Inr B \<Rightarrow> Inr (server_client B (co_uuid X) E)))"

definition uuidStr :: "cmd_os \<Rightarrow> string \<Rightarrow> string" where
  "uuidStr X b = (case uuid_FromBytes (co_uuid X) b of None \<Rightarrow> [] | Some u \<Rightarrow> uuid_String (co_uuid X) u)"

definition uuidBytes :: "cmd_os \<Rightarrow> string \<Rightarrow> cmd_error + string" where
  "uuidBytes X s = (case uuid_Parse (co_uuid X) s of None \<Rightarrow> Inl (Failed ''invalid uuid'') | Some b \<Rightarrow> Inr b)"

fun stateStr :: "PbConnectionState \<Rightarrow> string" where
  "stateStr CONNECTION_STATE_UNSPECIFIED = ''unspecified''"
| "stateStr CONNECTION_STATE_IDLE = ''idle''"
| "stateStr CONNECTION_STATE_ASSOCIATING = ''associating''"
| "stateStr CONNECTION_STATE_AUTHENTICATING = ''authenticating''"
| "stateStr CONNECTION_STATE_CONFIGURING = ''configuring''"
| "stateStr CONNECTION_STATE_CONNECTED = ''connected''"
| "stateStr CONNECTION_STATE_FAILED = ''failed''"
| "stateStr CONNECTION_STATE_DISCONNECTING = ''disconnecting''"

section \<open>serve.go\<close>

definition isUnixAddr :: "string \<Rightarrow> bool" where
  "isUnixAddr addr \<longleftrightarrow>
     HasPrefix addr ''unix://'' \<or> HasPrefix addr ''/'' \<or> HasPrefix addr ''./'' \<or> HasPrefix addr ''~''"

text \<open>\<open>os.MkdirAll\<close>, \<open>os.Remove\<close> and \<open>net.Listen\<close> over a state.\<close>

datatype remove_result = Removed | NoSuchFile | RemoveError string

record 's listen_os =
  lo_mkdir :: "string \<Rightarrow> 's \<Rightarrow> string option \<times> 's"
  lo_remove :: "string \<Rightarrow> 's \<Rightarrow> remove_result \<times> 's"
  lo_listen :: "string \<Rightarrow> string \<Rightarrow> 's \<Rightarrow> (string + string) \<times> 's"

text \<open>The socket a server listens on, when its address is that of one.\<close>

definition listen_sock :: "string \<Rightarrow> string option" where
  "listen_sock addr = (if isUnixAddr addr then Some (TrimPrefix addr ''unix://'') else None)"

definition listen :: "cmd_os \<Rightarrow> 's listen_os \<Rightarrow> string \<Rightarrow> 's \<Rightarrow> (string + string) \<times> 's" where
  "listen X L addr s =
     (let addr = (if addr = [] then defaultSocketPath X else addr) in
      case listen_sock addr of
        Some sock \<Rightarrow>
          (case lo_mkdir L (filepath_Dir sock) s of
             (Some e, s1) \<Rightarrow> (Inl e, s1)
           | (None, s1) \<Rightarrow>
               (case lo_remove L sock s1 of
                  (RemoveError e, s2) \<Rightarrow> (Inl e, s2)
                | (_, s2) \<Rightarrow> lo_listen L ''unix'' sock s2))
      | None \<Rightarrow> lo_listen L ''tcp'' addr s)"

definition defaultScanCachePath :: string where "defaultScanCachePath = ''.wfm''"
definition defaultScanCacheTTL :: int where "defaultScanCacheTTL = 5000000000"

text \<open>
  The options of the scan cache.  \<open>ttlFlag\<close> is what \<open>time.ParseDuration\<close> makes of the flag, when
  it is set.  A cache file that cannot be read or decoded only gives a warning.
\<close>

definition scanCacheOpts ::
  "(string \<Rightarrow> read_result) \<Rightarrow> (string \<Rightarrow> ScanCacheMsg option) \<Rightarrow> nat \<Rightarrow> int \<Rightarrow>
   (string + int) option \<Rightarrow> string \<Rightarrow> cmd_error + (options \<Rightarrow> options) list" where
  "scanCacheOpts read unmarshal uid now ttlFlag path =
     (case (case ttlFlag of None \<Rightarrow> Inr defaultScanCacheTTL | Some r \<Rightarrow> r) of
        Inl e \<Rightarrow> Inl (Failed (''invalid --scan-cache-ttl: '' @ e))
      | Inr ttl \<Rightarrow>
          if ttl \<le> 0 then Inr []
          else
            (let path = (if path = [] then defaultScanCachePath @ ''.'' @ show_nat uid else path)
             in Inr [WithScanCache (snd (cache_Load unmarshal (read path) now (NewScanCache path ttl)))]))"

text \<open>
  \<open>serve\<close> up to the running server: its listener, the backend behind it and the cache of its
  scan service.  The backend is opened before the socket, the cache options read after it.
\<close>

definition cmd_serve ::
  "cmd_os \<Rightarrow> 's backends \<Rightarrow> 'l listen_os \<Rightarrow> Config option \<Rightarrow>
   (string \<Rightarrow> read_result) \<Rightarrow> (string \<Rightarrow> ScanCacheMsg option) \<Rightarrow> nat \<Rightarrow> int \<Rightarrow>
   string \<Rightarrow> string \<Rightarrow> (string + int) option \<Rightarrow> string \<Rightarrow> 'l \<Rightarrow>
   (cmd_error + string \<times> 's Backend \<times> options) \<times> 'l" where
  "cmd_serve X K L c read unmarshal uid now addr backend ttlFlag path s =
     (case newBackend X K c (if backend = [] then detectBackend X else backend) of
        Inl e \<Rightarrow> (Inl e, s)
      | Inr b \<Rightarrow>
          (case listen X L addr s of
             (Inl e, s') \<Rightarrow> (Inl (Failed e), s')
           | (Inr lis, s') \<Rightarrow>
               (case scanCacheOpts read unmarshal uid now ttlFlag path of
                  Inl e \<Rightarrow> (Inl e, s')
                | Inr opts \<Rightarrow> (Inr (lis, b, Register opts), s'))))"

section \<open>root.go\<close>

text \<open>The configuration every command but \<open>version\<close> starts with.\<close>

definition root_config :: "cmd_os \<Rightarrow> bool \<Rightarrow> string option \<Rightarrow> cmd_error + Config option" where
  "root_config X version flag =
     (if version then Inr None
      else (case UseConfigInit X flag of Inl e \<Rightarrow> Inl e | Inr c \<Rightarrow> Inr (Some c)))"

end
