(* ===== verification/Commands.thy ===== *)
theory Commands
  imports Cmd
begin

text \<open>
  The commands of \<open>cmd/connect.go\<close>, \<open>interface.go\<close>, \<open>profile.go\<close> and \<open>scan.go\<close>: from the
  arguments to the calls of the wifi client and the text printed.  \<open>conn\<close> is the client
  \<open>dial\<close> gave, or its error.
\<close>

type_synonym 's run = "'s \<Rightarrow> (string \<times> cmd_error option) \<times> 's"

definition refuse :: "cmd_error \<Rightarrow> 's run" where
  "refuse e s = (([], Some e), s)"

definition say :: "string \<Rightarrow> 's run" where
  "say out s = ((out, None), s)"

text \<open>\<open>cc, err := dial(ctx, cmd); if err != nil { return err }\<close>, then the rest.\<close>

definition with_conn :: "cmd_error + 's wifi_client \<Rightarrow> ('s wifi_client \<Rightarrow> 's run) \<Rightarrow> 's run" where
  "with_conn conn f = (case conn of Inl e \<Rightarrow> refuse e | Inr cl \<Rightarrow> f cl)"

text \<open>A call whose error is returned, its answer printed.\<close>

definition call_rpc :: "('s, 'a) handler \<Rightarrow> ('a \<Rightarrow> string) \<Rightarrow> 's run" where
  "call_rpc h show s =
     (case h s of (Inl e, s') \<Rightarrow> (([], Some (FailedRpc [] e)), s') | (Inr a, s') \<Rightarrow> ((show a, None), s'))"

definition println :: "string \<Rightarrow> string" where
  "println s = s @ [newline]"

definition show_bool :: "bool \<Rightarrow> string" where
  "show_bool b = (if b then ''true'' else ''false'')"

section \<open>interface.go\<close>

definition parseOnOff :: "string \<Rightarrow> cmd_error + bool" where
  "parseOnOff s =
     (if s \<in> set [''on'', ''up'', ''true'', ''1'', ''yes''] then Inr True
      else if s \<in> set [''off'', ''down'', ''false'', ''0'', ''no''] then Inr False
      else Inl (Failed (''state must be on|off (got '' @ s)))"

definition interface_line :: "PbInterface \<Rightarrow> string" where
  "interface_line it = println (
     pad_right 10 (pif_Id it) @ '' mac='' @ pad_right 17 (pif_Mac it) @
     '' powered='' @ pad_right 5 (show_bool (pif_Powered it)) @
     '' up='' @ pad_right 5 (show_bool (pif_Up it)) @ ''  '' @ pif_Desc it)"

definition cmd_interface_list :: "cmd_error + 's wifi_client \<Rightarrow> 's run" where
  "cmd_interface_list conn =
     with_conn conn (\<lambda>cl. call_rpc (c_Interface_List cl) (\<lambda>its. concat (map interface_line its)))"

definition cmd_interface_power :: "cmd_error + 's wifi_client \<Rightarrow> string \<Rightarrow> string \<Rightarrow> 's run" where
  "cmd_interface_power conn name st =
     (case parseOnOff st of
        Inl e \<Rightarrow> refuse e
      | Inr on \<Rightarrow>
          with_conn conn (\<lambda>cl. call_rpc (c_Interface_SetPower cl name on)
            (\<lambda>it. println (pif_Id it @ '' powered='' @ show_bool (pif_Powered it) @ '' up='' @ show_bool (pif_Up it)))))"

section \<open>scan.go\<close>

definition scan_line :: "PbAccessPoint \<Rightarrow> string" where
  "scan_line ap = println (
     pad_right 32 (pap_Ssid ap) @ '' '' @ pad_right 17 (pap_Bssid ap) @
     '' sig='' @ pad_left 3 (show_int (pap_Signal ap)) @
     '' freq='' @ pad_right 5 (show_nat (unat (pap_Frequency ap))) @ '' '' @ kmStr (pap_KeyManagement ap))"

definition cmd_scan :: "cmd_error + 's wifi_client \<Rightarrow> string \<Rightarrow> 's run" where
  "cmd_scan conn ifname =
     (if ifname = [] then refuse (Failed ''interface is required'')
      else with_conn conn (\<lambda>cl. call_rpc (c_AccessPoint_Scan cl ifname) (\<lambda>aps. concat (map scan_line aps))))"

section \<open>profile.go\<close>

definition secStr :: "Credential option \<Rightarrow> string" where
  "secStr s = (case s of
       Some (PskCred _) \<Rightarrow> ''psk''
     | Some EnterpriseCred \<Rightarrow> ''enterprise''
     | Some OpenCred \<Rightarrow> ''open''
     | Some CredNotSet \<Rightarrow> ''-''
     | None \<Rightarrow> ''-'')"

definition profile_line :: "cmd_os \<Rightarrow> PbProfile \<Rightarrow> string" where
  "profile_line X p = println (
     uuidStr X (ppr_Id p) @ ''  ssid='' @ pad_right 24 (ppr_Ssid p) @ '' name='' @ pad_right 16 (ppr_Name p) @
     '' sec='' @ secStr (ppr_Security p) @ '' autoconnect='' @ show_bool (ppr_Autoconnect p))"

definition cmd_profile_list :: "cmd_os \<Rightarrow> cmd_error + 's wifi_client \<Rightarrow> 's run" where
  "cmd_profile_list X conn =
     with_conn conn (\<lambda>cl. call_rpc (c_Profile_List cl) (\<lambda>ps. concat (map (profile_line X) ps)))"

definition cmd_profile_rm :: "cmd_os \<Rightarrow> cmd_error + 's wifi_client \<Rightarrow> string \<Rightarrow> 's run" where
  "cmd_profile_rm X conn id' =
     (case uuidBytes X id' of
        Inl e \<Rightarrow> refuse (Failed ''invalid uuid'')
      | Inr b \<Rightarrow>
          with_conn conn (\<lambda>cl. call_rpc (c_Profile_Erase cl b) (\<lambda>_. println (''deleted '' @ id'))))"

definition splitCSV :: "string \<Rightarrow> string list" where
  "splitCSV s = filter (\<lambda>v. v \<noteq> []) (map TrimSpace (SplitByte s CHR '',''))"

definition buildIpConfig :: "string \<Rightarrow> string \<Rightarrow> string \<Rightarrow> string \<Rightarrow> cmd_error + PbIpConfig" where
  "buildIpConfig m addr gw dns =
     (case (if m = ''auto'' then Some METHOD_AUTO
            else if m = ''manual'' then Some METHOD_MANUAL
            else if m = ''disabled'' then Some METHOD_DISABLED
            else None) of
        None \<Rightarrow> Inl (Failed (''ip4 method must be auto|manual|disabled (got '' @ m))
      | Some meth \<Rightarrow>
          Inr \<lparr>pip_Method = meth,
               pip_Addresses = (if addr \<noteq> [] then splitCSV addr else []),
               pip_Gateway = gw,
               pip_Dns = (if dns \<noteq> [] then splitCSV dns else []),
               pip_DnsSearch = []\<rparr>)"

record add_flags =
  af_ssid :: string
  af_psk :: string
  af_name :: string
  af_hidden :: bool
  af_no_autoconnect :: bool
  af_ip4 :: string
  af_ip4_addr :: string
  af_ip4_gw :: string
  af_ip4_dns :: string

text \<open>The credential of \<open>profile add\<close> and \<open>connect\<close>.\<close>

definition psk_or_open :: "string \<Rightarrow> Credential" where
  "psk_or_open psk = (if psk \<noteq> [] then PskCred psk else OpenCred)"

definition add_request :: "add_flags \<Rightarrow> PbIpConfig option \<Rightarrow> ProfileAddRequest" where
  "add_request f ip4 = \<lparr>par_Name = af_name f, par_Ssid = af_ssid f, par_Hidden = af_hidden f,
     par_Autoconnect = (\<not> af_no_autoconnect f), par_Security = Some (psk_or_open (af_psk f)),
     par_Ipv4 = ip4, par_Ipv6 = None\<rparr>"

definition cmd_profile_add :: "cmd_os \<Rightarrow> cmd_error + 's wifi_client \<Rightarrow> add_flags \<Rightarrow> 's run" where
  "cmd_profile_add X conn f =
     (if af_ssid f = [] then refuse (Failed ''--ssid is required'')
      else
        (case (if af_ip4 f \<noteq> []
               then map_sum (\<lambda>e. e) Some (buildIpConfig (af_ip4 f) (af_ip4_addr f) (af_ip4_gw f) (af_ip4_dns f))
               else Inr None) of
           Inl e \<Rightarrow> refuse e
         | Inr ip4 \<Rightarrow>
             with_conn conn (\<lambda>cl. call_rpc (c_Profile_Add cl (add_request f ip4))
               (\<lambda>p. println (''created '' @ uuidStr X (ppr_Id p) @ '' ssid='' @ ppr_Ssid p)))))"

section \<open>connect.go\<close>

fun PbConnectionError_String :: "PbConnectionError \<Rightarrow> string" where
  "PbConnectionError_String CONNECTION_ERROR_UNSPECIFIED = ''CONNECTION_ERROR_UNSPECIFIED''"
| "PbConnectionError_String CONNECTION_ERROR_NONE = ''CONNECTION_ERROR_NONE''"
| "PbConnectionError_String CONNECTION_ERROR_AUTH_FAILED = ''CONNECTION_ERROR_AUTH_FAILED''"
| "PbConnectionError_String CONNECTION_ERROR_NETWORK_NOT_FOUND = ''CONNECTION_ERROR_NETWORK_NOT_FOUND''"
| "PbConnectionError_String CONNECTION_ERROR_ASSOC_TIMEOUT = ''CONNECTION_ERROR_ASSOC_TIMEOUT''"
| "PbConnectionError_String CONNECTION_ERROR_IP_CONFIG_FAILED = ''CONNECTION_ERROR_IP_CONFIG_FAILED''"
| "PbConnectionError_String CONNECTION_ERROR_DISCONNECTED = ''CONNECTION_ERROR_DISCONNECTED''"
| "PbConnectionError_String CONNECTION_ERROR_UNKNOWN = ''CONNECTION_ERROR_UNKNOWN''"

definition statusLine :: "PbConnectionStatus \<Rightarrow> string" where
  "statusLine st =
     ''state='' @ stateStr (pcs_State st) @
     (if pcs_Error st \<noteq> CONNECTION_ERROR_NONE \<and> pcs_Error st \<noteq> CONNECTION_ERROR_UNSPECIFIED
      then '' error='' @ PbConnectionError_String (pcs_Error st) else []) @
     (if get_str (pcs_Bssid st) \<noteq> []
      then '' bssid='' @ get_str (pcs_Bssid st) @ '' sig='' @ show_int (get_int (pcs_Signal st)) else []) @
     (if pcs_Addresses st \<noteq> [] then '' addr='' @ Join (pcs_Addresses st) '','' else []) @
     (if pcs_Gateway st \<noteq> [] then '' gw='' @ pcs_Gateway st else []) @
     (if pcs_Dns st \<noteq> [] then '' dns='' @ Join (pcs_Dns st) '','' else []) @
     (if get_str (pcs_Detail st) \<noteq> [] then '' ('' @ get_str (pcs_Detail st) @ '')'' else [])"

text \<open>Getters on the absent messages of a connection give the empty string.\<close>

definition conn_iface :: "PbConnection \<Rightarrow> string" where
  "conn_iface c = (case pcn_Interface c of None \<Rightarrow> [] | Some it \<Rightarrow> pif_Id it)"

definition conn_ssid :: "PbConnection \<Rightarrow> string" where
  "conn_ssid c = (case pcn_Profile c of None \<Rightarrow> [] | Some p \<Rightarrow> ppr_Ssid p)"

definition conn_bssid :: "PbConnection \<Rightarrow> string" where
  "conn_bssid c = (case pcn_AccessPoint c of None \<Rightarrow> [] | Some ap \<Rightarrow> pap_Bssid ap)"

definition connectionSummary :: "cmd_os \<Rightarrow> PbConnection \<Rightarrow> PbConnectionStatus \<Rightarrow> string" where
  "connectionSummary X c st = uuidStr X (pcn_Id c) @ '' iface='' @ conn_iface c @ '' '' @ statusLine st"

definition connect_request :: "string \<Rightarrow> string \<Rightarrow> ProfileAddRequest" where
  "connect_request ssid psk = \<lparr>par_Name = [], par_Ssid = ssid, par_Hidden = False, par_Autoconnect = True,
     par_Security = Some (psk_or_open psk), par_Ipv4 = None, par_Ipv6 = None\<rparr>"

definition cmd_connect :: "cmd_os \<Rightarrow> cmd_error + 's wifi_client \<Rightarrow> string \<Rightarrow> string \<Rightarrow> string \<Rightarrow> 's run" where
  "cmd_connect X conn ifname ssid psk =
     (if ifname = [] \<or> ssid = [] then refuse (Failed ''usage: connect <interface> <ssid> [psk]'')
      else with_conn conn (\<lambda>cl s.
        (case c_Profile_Add cl (connect_request ssid psk) s of
           (Inl e, s1) \<Rightarrow> (([], Some (FailedRpc ''create profile'' e)), s1)
         | (Inr prof, s1) \<Rightarrow>
             (let out = println (''profile '' @ uuidStr X (ppr_Id prof) @ '' created for '' @ co_quote X ssid) @
                        println (''connecting '' @ ifname @ '' -> '' @ co_quote X ssid @ '' ...'')
              in (case c_Connection_Add cl
                         \<lparr>car_Interface = ifname, car_Profile = ppr_Id prof, car_AccessPoint = None\<rparr> s1 of
                    (Inl e, s2) \<Rightarrow>
                      (case c_Profile_Erase cl (ppr_Id prof) s2 of
                         (_, s3) \<Rightarrow> ((out, Some (FailedRpc ''connect failed (profile rolled back)'' e)), s3))
                  | (Inr c, s2) \<Rightarrow>
                      (case c_Connection_GetStatus cl (pcn_Id c) s2 of
                         (Inr st, s3) \<Rightarrow> ((out @ println (''connected: '' @ connectionSummary X c st), None), s3)
                       | (Inl _, s3) \<Rightarrow> ((out @ println (''connected: '' @ uuidStr X (pcn_Id c)), None), s3)))))))"

definition connection_line :: "cmd_os \<Rightarrow> PbConnection \<Rightarrow> string" where
  "connection_line X c = println (
     uuidStr X (pcn_Id c) @ ''  iface='' @ pad_right 8 (conn_iface c) @ '' ssid='' @ pad_right 24 (conn_ssid c) @
     '' bssid='' @ conn_bssid c)"

definition cmd_connection_list :: "cmd_os \<Rightarrow> cmd_error + 's wifi_client \<Rightarrow> 's run" where
  "cmd_connection_list X conn =
     with_conn conn (\<lambda>cl. call_rpc (c_Connection_List cl []) (\<lambda>cs. concat (map (connection_line X) cs)))"

definition connRefArg :: "cmd_os \<Rightarrow> string \<Rightarrow> cmd_error + string" where
  "connRefArg X id' = (case uuidBytes X id' of Inl e \<Rightarrow> Inl (Failed ''invalid uuid'') | Inr b \<Rightarrow> Inr b)"

definition with_ref :: "cmd_os \<Rightarrow> cmd_error + 's wifi_client \<Rightarrow> string \<Rightarrow> ('s wifi_client \<Rightarrow> string \<Rightarrow> 's run) \<Rightarrow> 's run" where
  "with_ref X conn id' f =
     (case connRefArg X id' of Inl e \<Rightarrow> refuse e | Inr ref \<Rightarrow> with_conn conn (\<lambda>cl. f cl ref))"

definition cmd_connection_status :: "cmd_os \<Rightarrow> cmd_error + 's wifi_client \<Rightarrow> string \<Rightarrow> 's run" where
  "cmd_connection_status X conn id' =
     with_ref X conn id' (\<lambda>cl ref. call_rpc (c_Connection_GetStatus cl ref) (\<lambda>st. println (statusLine st)))"

definition cmd_connection_watch :: "cmd_os \<Rightarrow> cmd_error + 's wifi_client \<Rightarrow> string \<Rightarrow> 's run" where
  "cmd_connection_watch X conn id' =
     with_ref X conn id' (\<lambda>cl ref s.
       (case c_Connection_Watch cl ref s of
          ((err, sts), s') \<Rightarrow>
            ((concat (map (\<lambda>st. println (statusLine st)) sts), map_option (FailedRpc []) err), s')))"

definition cmd_connection_down :: "cmd_os \<Rightarrow> cmd_error + 's wifi_client \<Rightarrow> string \<Rightarrow> 's run" where
  "cmd_connection_down X conn id' =
     with_ref X conn id' (\<lambda>cl ref. call_rpc (c_Connection_Erase cl ref) (\<lambda>_. println ''deactivated''))"

end
