(* ===== verification/Go_Net.thy ===== *)
theory Go_Net
  imports Go_Strings "HOL-Library.Word"
begin

unbundle bit_operations_syntax

text \<open>
  The parts of Go's \<open>net\<close> (with \<open>net/netip\<close>), \<open>encoding/binary\<close> and \<open>crypto/sha1\<close>
  the program uses: parsing and printing IP addresses and CIDR prefixes, netmasks, and
  the SHA-1 digest.  Addresses are lists of bytes, each a natural number below 256.
\<close>

section \<open>Parsing addresses\<close>

datatype ipaddr = V4 "nat list" | V6 "nat list"

text \<open>One decimal field of a dotted quad: no leading zero, at most 255.\<close>

definition parse_octet :: "string \<Rightarrow> nat option" where
  "parse_octet s =
     (case read_nat s of
        Some n \<Rightarrow> if n \<le> 255 \<and> (length s = 1 \<or> hd s \<noteq> CHR ''0'') then Some n else None
      | None \<Rightarrow> None)"

definition parse_ipv4 :: "string \<Rightarrow> nat list option" where
  "parse_ipv4 s =
     (case SplitByte s (CHR ''.'') of
        [a, b, c, d] \<Rightarrow>
          (case (parse_octet a, parse_octet b, parse_octet c, parse_octet d) of
             (Some w, Some x, Some y, Some z) \<Rightarrow> Some [w, x, y, z]
           | _ \<Rightarrow> None)
      | _ \<Rightarrow> None)"

definition hex_num :: "string \<Rightarrow> nat" where
  "hex_num s = foldl (\<lambda>n c. 16 * n + (case hex_val c of Some v \<Rightarrow> v | None \<Rightarrow> 0)) 0 s"

text \<open>
  The group loop of \<open>netip.parseIPv6\<close>: \<open>acc\<close> holds the bytes read so far, \<open>ell\<close> the
  position of the ellipsis.
\<close>

function parse6 :: "nat list \<Rightarrow> nat option \<Rightarrow> string \<Rightarrow> (nat list \<times> nat option) option" where
  "parse6 acc ell s =
     (if 16 \<le> length acc then (if s = [] then Some (acc, ell) else None)
      else
        let h = takeWhile (\<lambda>c. hex_val c \<noteq> None) s;
            rest = drop (length h) s;
            acc' = acc @ [hex_num h div 256, hex_num h mod 256]
        in
          if h = [] \<or> 4 < length h then None
          else if rest \<noteq> [] \<and> hd rest = CHR ''.'' then
            (if ell = None \<and> length acc \<noteq> 12 \<or> 16 < length acc + 4 then None
             else map_option (\<lambda>q. (acc @ q, ell)) (parse_ipv4 s))
          else if rest = [] then Some (acc', ell)
          else if hd rest \<noteq> CHR '':'' \<or> length rest = 1 then None
          else if hd (tl rest) = CHR '':'' then
            (if ell \<noteq> None then None
             else if tl (tl rest) = [] then Some (acc', Some (length acc'))
             else parse6 acc' (Some (length acc')) (tl (tl rest)))
          else parse6 acc' ell (tl rest))"
  by pat_completeness auto
termination
proof (relation "measure (\<lambda>(acc, ell, s). length s)", goal_cases)
  case 1 show ?case by simp
next
  case (2 acc ell s h rest acc')
  then have "s \<noteq> []" by auto
  with 2 show ?case by (auto simp: Let_def)
next
  case (3 acc ell s h rest acc')
  then have "s \<noteq> []" by auto
  with 3 show ?case by (auto simp: Let_def)
qed

declare parse6.simps [simp del]

definition expand6 :: "nat list \<times> nat option \<Rightarrow> nat list option" where
  "expand6 p =
     (case p of (acc, ell) \<Rightarrow>
        if length acc < 16 then
          (case ell of
             None \<Rightarrow> None
           | Some e \<Rightarrow> Some (take e acc @ replicate (16 - length acc) 0 @ drop e acc))
        else if ell = None then Some acc else None)"

definition parse_ipv6 :: "string \<Rightarrow> nat list option" where
  "parse_ipv6 s =
     (if HasPrefix s ''::'' then
        (if length s = 2 then Some (replicate 16 0)
         else Option.bind (parse6 [] (Some 0) (drop 2 s)) expand6)
      else Option.bind (parse6 [] None s) expand6)"

text \<open>
  \<open>netip.ParseAddr\<close> without zones: every caller here rejects an address with a zone, and a
  \<open>%\<close> is only ever part of one.
\<close>

definition ParseAddr :: "string \<Rightarrow> ipaddr option" where
  "ParseAddr s =
     (if CHR ''%'' \<in> set s then None
      else case find (\<lambda>c. c = CHR ''.'' \<or> c = CHR '':'') s of
             None \<Rightarrow> None
           | Some c \<Rightarrow>
               if c = CHR ''.'' then map_option V4 (parse_ipv4 s)
               else map_option V6 (parse_ipv6 s))"

definition v4_prefix :: "nat list" where
  "v4_prefix = replicate 10 0 @ [255, 255]"

fun As16 :: "ipaddr \<Rightarrow> nat list" where
  "As16 (V4 b) = v4_prefix @ b"
| "As16 (V6 b) = b"

fun BitLen :: "ipaddr \<Rightarrow> nat" where
  "BitLen (V4 _) = 32"
| "BitLen (V6 _) = 128"

definition ParseIP :: "string \<Rightarrow> nat list option" where
  "ParseIP s = map_option As16 (ParseAddr s)"

definition To4 :: "nat list \<Rightarrow> nat list option" where
  "To4 ip =
     (if length ip = 4 then Some ip
      else if length ip = 16 \<and> take 12 ip = v4_prefix then Some (drop 12 ip)
      else None)"

definition To16 :: "nat list \<Rightarrow> nat list option" where
  "To16 ip =
     (if length ip = 4 then Some (v4_prefix @ ip)
      else if length ip = 16 then Some ip else None)"

section \<open>Printing addresses\<close>

definition show_ipv4 :: "nat list \<Rightarrow> string" where
  "show_ipv4 b = Join (map show_nat b) ''.''"

fun show_hex :: "nat \<Rightarrow> string" where
  "show_hex n = (if n < 16 then [hex_char n] else show_hex (n div 16) @ [hex_char (n mod 16)])"

declare show_hex.simps [simp del]

fun groups16 :: "nat list \<Rightarrow> nat list" where
  "groups16 (a # b # r) = (256 * a + b) # groups16 r"
| "groups16 _ = []"

definition zero_run :: "nat list \<Rightarrow> nat \<Rightarrow> nat" where
  "zero_run g i = length (takeWhile (\<lambda>x. x = 0) (drop i g))"

text \<open>The longest run of at least two zero groups, the first one on a tie: (start, length).\<close>

definition longest_zero_run :: "nat list \<Rightarrow> (nat \<times> nat) option" where
  "longest_zero_run g =
     foldl (\<lambda>best i.
        let l = zero_run g i
        in if 2 \<le> l \<and> (case best of None \<Rightarrow> True | Some (_, m) \<Rightarrow> m < l)
           then Some (i, l) else best) None [0..<8]"

definition show_ipv6 :: "nat list \<Rightarrow> string" where
  "show_ipv6 b =
     (let g = groups16 b
      in case longest_zero_run g of
           None \<Rightarrow> Join (map show_hex g) '':''
         | Some (i, l) \<Rightarrow>
             Join (map show_hex (take i g)) '':'' @ ''::'' @
             Join (map show_hex (drop (i + l) g)) '':'')"

definition IP_String :: "nat list \<Rightarrow> string" where
  "IP_String ip =
     (case To4 ip of
        Some q \<Rightarrow> show_ipv4 q
      | None \<Rightarrow>
          if ip = [] then ''<nil>''
          else if length ip = 16 then show_ipv6 ip
          else ''?'' @ hex_encode (map char_of ip))"

section \<open>Prefixes and masks\<close>

text \<open>\<open>net.CIDRMask\<close>: \<open>n\<close> one bits, then zero bits up to \<open>bits\<close>.\<close>

definition mask_byte :: "nat \<Rightarrow> nat" where
  "mask_byte k = (if 8 \<le> k then 255 else 256 - 2 ^ (8 - k))"

definition CIDRMask :: "nat \<Rightarrow> nat \<Rightarrow> nat list" where
  "CIDRMask n bits = map (\<lambda>i. mask_byte (n - 8 * i)) [0..<bits div 8]"

definition read_prefix :: "string \<Rightarrow> nat option" where
  "read_prefix s = (case read_nat s of Some n \<Rightarrow> if n < 16777215 then Some n else None | None \<Rightarrow> None)"

text \<open>\<open>net.ParseCIDR\<close>: the address in 16-byte form and the mask.\<close>

definition ParseCIDR :: "string \<Rightarrow> (nat list \<times> nat list) option" where
  "ParseCIDR s =
     (case IndexByte s (CHR ''/'') of
        None \<Rightarrow> None
      | Some i \<Rightarrow>
          (case (ParseAddr (take i s), read_prefix (drop (Suc i) s)) of
             (Some a, Some n) \<Rightarrow>
               if n \<le> BitLen a then Some (As16 a, CIDRMask n (BitLen a)) else None
           | _ \<Rightarrow> None))"

definition leading_ones :: "nat \<Rightarrow> nat option" where
  "leading_ones b = find (\<lambda>k. mask_byte k = b) [0..<9]"

text \<open>\<open>IPMask.Size\<close>: the number of one bits, or 0 when the mask is not canonical.\<close>

fun mask_ones :: "nat list \<Rightarrow> nat option" where
  "mask_ones [] = Some 0"
| "mask_ones (b # m) =
     (if b = 255 then map_option ((+) 8) (mask_ones m)
      else if list_all (\<lambda>x. x = 0) m then leading_ones b else None)"

definition mask_size :: "nat list \<Rightarrow> nat" where
  "mask_size m = (case mask_ones m of Some n \<Rightarrow> n | None \<Rightarrow> 0)"

section \<open>Round trips\<close>

definition octets :: "nat list \<Rightarrow> bool" where
  "octets q \<longleftrightarrow> length q = 4 \<and> (\<forall>b \<in> set q. b < 256)"

lemma octetsE:
  assumes "octets q"
  obtains a b c d where "q = [a, b, c, d]" "a < 256" "b < 256" "c < 256" "d < 256"
  using assms by (auto simp: octets_def length_Suc_conv numeral_eq_Suc)

lemma digit_char_0: "n < 10 \<Longrightarrow> digit_char n = CHR ''0'' \<longleftrightarrow> n = 0"
proof -
  assume n: "n < 10"
  have "CHR ''0'' = digit_char 0" by code_simp
  moreover have "digit_char n = digit_char 0 \<longleftrightarrow> n = 0"
    using n by (metis digit_val_digit_char zero_less_numeral)
  ultimately show ?thesis by simp
qed

lemma hd_show_nat: "0 < n \<Longrightarrow> hd (show_nat n) \<noteq> CHR ''0''"
proof (induction n rule: show_nat.induct)
  case (1 n)
  show ?case
  proof (cases "n < 10")
    case True
    with "1.prems" show ?thesis by (simp add: show_nat.simps [of n] digit_char_0)
  next
    case False
    then have "show_nat n = show_nat (n div 10) @ [digit_char (n mod 10)]"
      by (simp add: show_nat.simps [of n])
    moreover have "hd (show_nat (n div 10)) \<noteq> CHR ''0''" using False "1.IH" by simp
    moreover have "show_nat (n div 10) \<noteq> []" using show_nat_props by blast
    ultimately show ?thesis by simp
  qed
qed

lemma parse_octet_show [simp]: "n < 256 \<Longrightarrow> parse_octet (show_nat n) = Some n"
  using hd_show_nat [of n]
  by (cases "n = 0") (auto simp: parse_octet_def, simp add: show_nat.simps)

lemma dot_not_digit: "CHR ''.'' \<notin> set (show_nat n)"
proof
  assume "CHR ''.'' \<in> set (show_nat n)"
  from set_show_nat [OF this] show False by (simp add: is_digit_def byte_def)
qed

lemma parse_show_ipv4 [simp]: "octets q \<Longrightarrow> parse_ipv4 (show_ipv4 q) = Some q"
  by (erule octetsE)
    (simp add: parse_ipv4_def show_ipv4_def SplitByte_sep SplitByte_no_sep dot_not_digit)

text \<open>The bytes of a printed IPv4 address: digits and dots.\<close>

definition quad_char :: "char \<Rightarrow> bool" where
  "quad_char c \<longleftrightarrow> is_digit c \<or> c = CHR ''.''"

lemma set_Join: "set (Join xs sep) \<subseteq> (\<Union>x \<in> set xs. set x) \<union> set sep"
  by (induction xs sep rule: Join.induct) auto

lemma set_show_ipv4: "c \<in> set (show_ipv4 q) \<Longrightarrow> quad_char c"
  using set_Join [of "map show_nat q" "''.''"] set_show_nat
  by (fastforce simp: show_ipv4_def quad_char_def)

lemma not_quad_char:
  "\<not> quad_char (CHR ''%'')" "\<not> quad_char (CHR ''/'')" "\<not> quad_char (CHR '':'')"
  by (simp_all add: quad_char_def is_digit_def byte_def)

lemma find_first_dot:
  assumes "\<forall>c \<in> set s. c \<noteq> CHR '':''" and "CHR ''.'' \<in> set s"
  shows "find (\<lambda>c. c = CHR ''.'' \<or> c = CHR '':'') s = Some (CHR ''.'')"
  using assms by (induction s) auto

lemma dot_in_show_ipv4: "octets q \<Longrightarrow> CHR ''.'' \<in> set (show_ipv4 q)"
  by (erule octetsE) (simp add: show_ipv4_def)

lemma ParseAddr_show_ipv4 [simp]:
  assumes "octets q"
  shows "ParseAddr (show_ipv4 q) = Some (V4 q)"
proof -
  have chars: "\<forall>c \<in> set (show_ipv4 q). c \<noteq> CHR ''%'' \<and> c \<noteq> CHR '':''"
    using set_show_ipv4 not_quad_char by blast
  then have "find (\<lambda>c. c = CHR ''.'' \<or> c = CHR '':'') (show_ipv4 q) = Some (CHR ''.'')"
    by (intro find_first_dot dot_in_show_ipv4 assms) auto
  with chars assms show ?thesis by (auto simp: ParseAddr_def)
qed

lemma To4_v4_prefix [simp]: "length q = 4 \<Longrightarrow> To4 (v4_prefix @ q) = Some q"
  by (simp add: To4_def v4_prefix_def)

lemma IP_String_v4 [simp]: "length q = 4 \<Longrightarrow> IP_String (v4_prefix @ q) = show_ipv4 q"
  by (simp add: IP_String_def)

lemma ParseIP_show_ipv4 [simp]: "octets q \<Longrightarrow> ParseIP (show_ipv4 q) = Some (v4_prefix @ q)"
  by (simp add: ParseIP_def)

lemma octets_CIDRMask: "octets (CIDRMask n 32)"
  by (auto simp: octets_def CIDRMask_def mask_byte_def)

lemma mask_size_CIDRMask:
  assumes "n \<le> 32"
  shows "mask_size (CIDRMask n 32) = n"
proof -
  have "\<forall>n \<in> set [0..<33]. mask_size (CIDRMask n 32) = n" by code_simp
  with assms show ?thesis by simp
qed

lemma read_prefix_show: "n \<le> 128 \<Longrightarrow> read_prefix (show_nat n) = Some n"
  by (simp add: read_prefix_def)

lemma ParseCIDR_show:
  assumes "octets q" and "n \<le> 32"
  shows "ParseCIDR (show_ipv4 q @ ''/'' @ show_nat n) = Some (v4_prefix @ q, CIDRMask n 32)"
proof -
  have "CHR ''/'' \<notin> set (show_ipv4 q)" using set_show_ipv4 not_quad_char by blast
  then have "IndexByte (show_ipv4 q @ CHR ''/'' # show_nat n) (CHR ''/'') = Some (length (show_ipv4 q))"
    by (rule IndexByte_sep)
  with assms show ?thesis by (simp add: ParseCIDR_def read_prefix_show)
qed

end
