(* ===== verification/Iwd_Profile.thy ===== *)
theory Iwd_Profile
  imports Go_Net Wnet
begin

text \<open>
  \<open>internal/wnet/iwd/convert.go\<close> and \<open>profile.go\<close>: signal strength, network types, the
  names of provisioning files and their content.  The lemmas give the round trips: SSID
  and type through the file name, addresses through address and netmask, and a profile
  through the file that is written for it.
\<close>

section \<open>convert.go\<close>

definition iwd_dbmToQuality :: "int \<Rightarrow> int" where
  "iwd_dbmToQuality dbm =
     (if dbm \<le> -100 then 0 else if dbm \<ge> -50 then 100 else 2 * (dbm + 100))"

definition iwd_signalToQuality :: "16 word \<Rightarrow> int" where
  "iwd_signalToQuality iwdSignal = iwd_dbmToQuality (tdiv (sint iwdSignal) 100)"

definition iwdTypeToKeyMgmt :: "string \<Rightarrow> KeyMgmt list" where
  "iwdTypeToKeyMgmt t =
     (if t = ''psk'' then [KeyWPAPSK]
      else if t = ''8021x'' then [KeyWPAEAP]
      else if t = ''open'' then [KeyNone]
      else [KeyNone])"

fun secKindToType :: "SecurityKind \<Rightarrow> string" where
  "secKindToType SecPSK = ''psk''"
| "secKindToType SecEnterprise = ''8021x''"
| "secKindToType SecOpen = ''open''"

definition typeToSecKind :: "string \<Rightarrow> SecurityKind" where
  "typeToSecKind t =
     (if t = ''psk'' then SecPSK else if t = ''8021x'' then SecEnterprise else SecOpen)"

definition iwd_mapState :: "string \<Rightarrow> ConnState" where
  "iwd_mapState s =
     (if s = ''connected'' \<or> s = ''roaming'' then StateConnected
      else if s = ''connecting'' then StateAssociating
      else if s = ''disconnecting'' then StateDisconnecting
      else if s = ''disconnected'' then StateIdle
      else StateUnspecified)"

section \<open>File names\<close>

definition profileTypes :: "string list" where
  "profileTypes = [''open'', ''psk'', ''8021x'']"

definition simple_char :: "char \<Rightarrow> bool" where
  "simple_char c \<longleftrightarrow>
     CHR ''A'' \<le> c \<and> c \<le> CHR ''Z'' \<or> CHR ''a'' \<le> c \<and> c \<le> CHR ''z'' \<or>
     CHR ''0'' \<le> c \<and> c \<le> CHR ''9'' \<or> c = CHR '' '' \<or> c = CHR ''_'' \<or> c = CHR ''-''"

definition simpleSSID :: "string \<Rightarrow> bool" where
  "simpleSSID s \<longleftrightarrow> s \<noteq> [] \<and> list_all simple_char s"

definition encodeSSID :: "string \<Rightarrow> string" where
  "encodeSSID ssid = (if simpleSSID ssid then ssid else CHR ''='' # hex_encode ssid)"

definition decodeSSID :: "string \<Rightarrow> string option" where
  "decodeSSID name = (if HasPrefix name ''='' then hex_decode (tl name) else Some name)"

definition profileFilename :: "string \<Rightarrow> string \<Rightarrow> string" where
  "profileFilename ssid typ = encodeSSID ssid @ ''.'' @ typ"

definition parseProfileFilename :: "string \<Rightarrow> (string \<times> string) option" where
  "parseProfileFilename name =
     (case LastIndexByte name (CHR ''.'') of
        None \<Rightarrow> None
      | Some i \<Rightarrow>
          let typ = drop (Suc i) name in
          if typ \<notin> set profileTypes then None
          else (case decodeSSID (take i name) of None \<Rightarrow> None | Some ssid \<Rightarrow> Some (ssid, typ)))"

section \<open>Addresses\<close>

definition boolStr :: "bool \<Rightarrow> string" where
  "boolStr b = (if b then ''true'' else ''false'')"

definition iwd_parseBool :: "string \<Rightarrow> bool \<Rightarrow> bool" where
  "iwd_parseBool s def =
     (let v = ToLower (TrimSpace s) in
      if v \<in> {''true'', ''yes'', ''1''} then True
      else if v \<in> {''false'', ''no'', ''0''} then False
      else def)"

definition cidrToAddrNetmask :: "string \<Rightarrow> (string \<times> string) option" where
  "cidrToAddrNetmask cidr =
     (case ParseCIDR cidr of
        Some (ip, m) \<Rightarrow> Some (IP_String ip, if length m = 4 then show_ipv4 m else [])
      | None \<Rightarrow> (case ParseIP cidr of Some _ \<Rightarrow> Some (cidr, []) | None \<Rightarrow> None))"

definition joinAddrNetmask :: "string \<Rightarrow> string \<Rightarrow> string" where
  "joinAddrNetmask addr netmask =
     (if netmask = [] then addr
      else (case ParseIP netmask of
              None \<Rightarrow> addr
            | Some ip \<Rightarrow>
                (case To4 ip of
                   None \<Rightarrow> addr
                 | Some m \<Rightarrow> addr @ ''/'' @ show_nat (mask_size m))))"

section \<open>File content\<close>

definition nl :: string where "nl = [newline]"

definition renderProfile ::
  "SecurityKind \<Rightarrow> string \<Rightarrow> bool \<Rightarrow> bool \<Rightarrow> IPConfig option \<Rightarrow> IPConfig option \<Rightarrow> string" where
  "renderProfile kind passphrase autoconnect hidden ipv4 ipv6 =
     (if kind = SecPSK \<and> passphrase \<noteq> []
      then ''[Security]'' @ nl @ ''Passphrase='' @ passphrase @ nl @ nl else []) @
     ''[Settings]'' @ nl @
     ''AutoConnect='' @ boolStr autoconnect @ nl @
     (if hidden then ''Hidden=true'' @ nl else []) @
     (case ipv4 of
        None \<Rightarrow> []
      | Some c4 \<Rightarrow>
          if ip_Method c4 = IPManual \<and> ip_Addresses c4 \<noteq> [] then
            (case cidrToAddrNetmask (hd (ip_Addresses c4)) of
               None \<Rightarrow> []
             | Some (addr, mk) \<Rightarrow>
                 nl @ ''[IPv4]'' @ nl @
                 ''Address='' @ addr @ nl @
                 (if mk \<noteq> [] then ''Netmask='' @ mk @ nl else []) @
                 (if ip_Gateway c4 \<noteq> [] then ''Gateway='' @ ip_Gateway c4 @ nl else []) @
                 (if ip_DNS c4 \<noteq> [] then ''DNS='' @ Join (ip_DNS c4) '' '' @ nl else []) @
                 (if ip_DNSSearch c4 \<noteq> [] then ''DomainName='' @ hd (ip_DNSSearch c4) @ nl else []))
          else []) @
     (case ipv6 of
        None \<Rightarrow> []
      | Some c6 \<Rightarrow>
          if ip_Method c6 = IPManual \<and> ip_Addresses c6 \<noteq> [] then
            nl @ ''[IPv6]'' @ nl @
            ''Enabled=true'' @ nl @
            ''Address='' @ hd (ip_Addresses c6) @ nl @
            (if ip_Gateway c6 \<noteq> [] then ''Gateway='' @ ip_Gateway c6 @ nl else []) @
            (if ip_DNS c6 \<noteq> [] then ''DNS='' @ Join (ip_DNS c6) '' '' @ nl else [])
          else [])"

type_synonym ini = "string \<rightharpoonup> (string \<rightharpoonup> string)"

text \<open>The body of the loop over lines: the sections so far and the current section.\<close>

definition ini_line :: "ini \<times> string \<Rightarrow> string \<Rightarrow> ini \<times> string" where
  "ini_line st text =
     (case st of (m, cur) \<Rightarrow>
        let line = TrimSpace text in
        if line = [] \<or> HasPrefix line ''#'' \<or> HasPrefix line '';'' then (m, cur)
        else if HasPrefix line ''['' \<and> HasSuffix line '']'' then
          let cur' = butlast (tl line)
          in (if m cur' = None then m(cur' \<mapsto> Map.empty) else m, cur')
        else
          (case IndexByte line (CHR ''='') of
             None \<Rightarrow> (m, cur)
           | Some i \<Rightarrow>
               if cur \<noteq> [] then
                 (m(cur \<mapsto> (case m cur of None \<Rightarrow> Map.empty | Some s \<Rightarrow> s)
                     (TrimSpace (take i line) \<mapsto> TrimSpace (drop (Suc i) line))), cur)
               else (m, cur)))"

definition parseINI :: "string \<Rightarrow> ini" where
  "parseINI content = fst (foldl ini_line (Map.empty, []) (scan_lines MaxScanTokenSize content))"

text \<open>\<open>m["sec"]\<close> and \<open>m["sec"]["key"]\<close>: the zero value when missing.\<close>

definition ini_get :: "(string \<rightharpoonup> string) option \<Rightarrow> string \<Rightarrow> string option" where
  "ini_get sec k = (case sec of None \<Rightarrow> None | Some s \<Rightarrow> s k)"

definition ini_str :: "(string \<rightharpoonup> string) option \<Rightarrow> string \<Rightarrow> string" where
  "ini_str sec k = (case ini_get sec k of None \<Rightarrow> [] | Some v \<Rightarrow> v)"

definition parse_ip4 :: "(string \<rightharpoonup> string) option \<Rightarrow> IPConfig" where
  "parse_ip4 ip4 =
     \<lparr>ip_Method = IPManual,
      ip_Addresses = (let addr = ini_str ip4 ''Address'' in
         if addr \<noteq> [] then [joinAddrNetmask addr (ini_str ip4 ''Netmask'')] else []),
      ip_Gateway = ini_str ip4 ''Gateway'',
      ip_DNS = (let d = ini_str ip4 ''DNS'' in if d \<noteq> [] then Fields d else []),
      ip_DNSSearch = (let dn = ini_str ip4 ''DomainName'' in if dn \<noteq> [] then [dn] else [])\<rparr>"

definition parse_ip6 :: "(string \<rightharpoonup> string) option \<Rightarrow> IPConfig" where
  "parse_ip6 ip6 =
     \<lparr>ip_Method = IPManual,
      ip_Addresses = (let a = ini_str ip6 ''Address'' in if a \<noteq> [] then [a] else []),
      ip_Gateway = ini_str ip6 ''Gateway'',
      ip_DNS = (let d = ini_str ip6 ''DNS'' in if d \<noteq> [] then Fields d else []),
      ip_DNSSearch = []\<rparr>"

definition auto_ip :: IPConfig where
  "auto_ip = zero_IPConfig\<lparr>ip_Method := IPAuto\<rparr>"

definition parseProfile :: "(string \<Rightarrow> string) \<Rightarrow> string \<Rightarrow> string \<Rightarrow> string \<Rightarrow> Profile" where
  "parseProfile sha ssid typ content =
     (let sec = parseINI content in
      \<lparr>pr_ID = DeriveID sha [ssid, typ],
       pr_Name = ssid,
       pr_SSID = ssid,
       pr_Hidden = (case ini_get (sec ''Settings'') ''Hidden'' of None \<Rightarrow> False | Some v \<Rightarrow> iwd_parseBool v False),
       pr_Autoconnect =
         (case ini_get (sec ''Settings'') ''AutoConnect'' of None \<Rightarrow> True | Some v \<Rightarrow> iwd_parseBool v True),
       pr_Security = \<lparr>sec_Kind = typeToSecKind typ, sec_Passphrase = []\<rparr>,
       pr_IPv4 = (case sec ''IPv4'' of None \<Rightarrow> auto_ip | Some ip4 \<Rightarrow> parse_ip4 (Some ip4)),
       pr_IPv6 = (case sec ''IPv6'' of None \<Rightarrow> auto_ip | Some ip6 \<Rightarrow> parse_ip6 (Some ip6))\<rparr>)"

section \<open>File names and addresses round trip\<close>

lemma simple_char_code: "simple_char c \<Longrightarrow> c \<noteq> CHR ''='' \<and> c \<noteq> CHR ''/'' \<and> c \<noteq> CHR ''.''"
  by (auto simp: simple_char_def less_eq_char_def)

lemma hex_encode_chars: "c \<in> set (hex_encode s) \<Longrightarrow> c \<noteq> CHR ''='' \<and> c \<noteq> CHR ''/'' \<and> c \<noteq> CHR ''.''"
  using set_hex_encode [of c s] by (auto simp: byte_def)

lemma decode_encode_SSID: "decodeSSID (encodeSSID s) = Some s"
proof (cases "simpleSSID s")
  case True
  then obtain c t where s: "s = c # t" "simple_char c" by (cases s) (auto simp: simpleSSID_def)
  from simple_char_code [OF s(2)] s(1) True show ?thesis
    by (simp add: decodeSSID_def encodeSSID_def HasPrefix_Cons)
next
  case False
  then show ?thesis by (simp add: decodeSSID_def encodeSSID_def HasPrefix_Cons)
qed

lemma encodeSSID_chars: "c \<in> set (encodeSSID s) \<Longrightarrow> c \<noteq> CHR ''/'' \<and> c \<noteq> CHR ''.''"
  by (auto simp: encodeSSID_def simpleSSID_def list_all_iff dest: simple_char_code hex_encode_chars
      split: if_splits)

lemma profileTypes_no_dot: "t \<in> set profileTypes \<Longrightarrow> CHR ''.'' \<notin> set t \<and> CHR ''/'' \<notin> set t \<and> NUL \<notin> set t"
  by (auto simp: profileTypes_def NUL_def) (code_simp)+

lemma secKindToType_types [simp]: "secKindToType k \<in> set profileTypes"
  by (cases k) (simp_all add: profileTypes_def)

lemma typeToSecKind_secKindToType [simp]: "typeToSecKind (secKindToType k) = k"
  by (cases k) (simp_all add: typeToSecKind_def)

lemma parse_profileFilename [go_simps]:
  assumes "t \<in> set profileTypes"
  shows "parseProfileFilename (profileFilename s t) = Some (s, t)"
proof -
  have "LastIndexByte (encodeSSID s @ CHR ''.'' # t) (CHR ''.'') = Some (length (encodeSSID s))"
    using profileTypes_no_dot [OF assms] by (intro LastIndexByte_sep) simp
  with assms show ?thesis
    by (simp add: parseProfileFilename_def profileFilename_def decode_encode_SSID)
qed

lemma cidr_addr_netmask:
  assumes "octets q" and "n \<le> 32"
  shows "cidrToAddrNetmask (show_ipv4 q @ ''/'' @ show_nat n) = Some (show_ipv4 q, show_ipv4 (CIDRMask n 32))"
proof -
  have "length q = 4" "length (CIDRMask n 32) = 4"
    using assms(1) octets_CIDRMask by (simp_all add: octets_def)
  with ParseCIDR_show [OF assms] show ?thesis by (simp add: cidrToAddrNetmask_def)
qed

lemma show_ipv4_nonempty: "octets q \<Longrightarrow> show_ipv4 q \<noteq> []"
  by (erule octetsE) (simp add: show_ipv4_def)

lemma join_cidr:
  assumes "n \<le> 32"
  shows "joinAddrNetmask a (show_ipv4 (CIDRMask n 32)) = a @ ''/'' @ show_nat n"
proof -
  have "length (CIDRMask n 32) = 4" using octets_CIDRMask by (simp add: octets_def)
  with assms show ?thesis
    by (simp add: joinAddrNetmask_def show_ipv4_nonempty octets_CIDRMask mask_size_CIDRMask)
qed

section \<open>Rendered files are read back\<close>

text \<open>A value that a provisioning file can hold: one line, no blank at either end.\<close>

definition clean :: "string \<Rightarrow> bool" where
  "clean v \<longleftrightarrow> v \<noteq> [] \<and> solid (hd v) \<and> solid (last v) \<and> newline \<notin> set v \<and> length v < 60000"

type_synonym ini_section = "string \<times> (string \<times> string) list"

definition sec_lines :: "ini_section \<Rightarrow> string list" where
  "sec_lines sec = (''['' @ fst sec @ '']'') # map (\<lambda>(k, v). k @ ''='' @ v) (snd sec)"

fun ini_lines :: "ini_section list \<Rightarrow> string list" where
  "ini_lines [] = []"
| "ini_lines [x] = sec_lines x"
| "ini_lines (x # y # r) = sec_lines x @ [] # ini_lines (y # r)"

definition key_ok :: "string \<Rightarrow> bool" where
  "key_ok k \<longleftrightarrow> k \<noteq> [] \<and> list_all (\<lambda>c. solid c \<and> c \<noteq> CHR ''='') k \<and>
     hd k \<notin> {CHR ''#'', CHR '';'', CHR ''[''} \<and> length k < 100"

definition sec_ok :: "ini_section \<Rightarrow> bool" where
  "sec_ok sec \<longleftrightarrow> key_ok (fst sec) \<and> list_all (\<lambda>(k, v). key_ok k \<and> clean v) (snd sec)"

definition put_kv :: "(string \<rightharpoonup> string) \<Rightarrow> string \<times> string \<Rightarrow> string \<rightharpoonup> string" where
  "put_kv m kv = m(fst kv \<mapsto> snd kv)"

definition kv_map :: "(string \<times> string) list \<Rightarrow> string \<rightharpoonup> string" where
  "kv_map kvs = foldl put_kv Map.empty kvs"

definition sec_map :: "ini \<Rightarrow> ini_section list \<Rightarrow> ini" where
  "sec_map m secs = foldl (\<lambda>m (n, kvs). m(n \<mapsto> kv_map kvs)) m secs"

lemma solid_not_newline: "solid c \<Longrightarrow> c \<noteq> newline \<and> c \<noteq> creturn"
  by (auto simp: solid_def newline_def creturn_def)

lemma key_ok_trimmed: "key_ok k \<Longrightarrow> TrimSpace k = k"
  by (rule TrimSpace_id, rule trimmed_solid) (simp_all add: key_ok_def list_all_iff)

lemma clean_trimmed: "clean v \<Longrightarrow> TrimSpace v = v"
  by (rule TrimSpace_id, rule trimmed_solid) (simp_all add: clean_def)

lemma ini_line_blank [simp]: "ini_line st [] = st"
  by (cases st) (simp add: ini_line_def)

lemma ini_line_sec:
  assumes "key_ok n" and "m n = None"
  shows "ini_line (m, cur) (''['' @ n @ '']'') = (m(n \<mapsto> Map.empty), n)"
proof -
  have t: "TrimSpace (''['' @ n @ '']'') = ''['' @ n @ '']''"
    by (rule TrimSpace_id, rule trimmed_solid) (simp_all add: solid_def byte_def)
  have "HasSuffix (CHR ''['' # n @ '']'') '']''"
    using HasSuffix_append [of "CHR ''['' # n" "'']''"] by simp
  with t assms(2) show ?thesis by (simp add: ini_line_def HasPrefix_Cons butlast_append)
qed

lemma ini_line_kv:
  assumes k: "key_ok k" and v: "clean v" and n: "n \<noteq> []" and m: "m n = Some s"
  shows "ini_line (m, n) (k @ ''='' @ v) = (m(n \<mapsto> s(k \<mapsto> v)), n)"
proof -
  from k obtain c r where c: "k = c # r" by (cases k) (auto simp: key_ok_def)
  have hs: "solid c" and cn: "c \<noteq> CHR ''#''" "c \<noteq> CHR '';''" "c \<noteq> CHR ''[''"
    using k c by (auto simp: key_ok_def)
  have ls: "solid (last (k @ ''='' @ v))" using v by (simp add: clean_def)
  have t: "TrimSpace (k @ ''='' @ v) = k @ ''='' @ v"
    using hs ls by (intro TrimSpace_id trimmed_solid) (simp_all add: c)
  have i: "IndexByte (k @ CHR ''='' # v) (CHR ''='') = Some (length k)"
    using k by (intro IndexByte_sep) (auto simp: key_ok_def list_all_iff)
  have "\<not> HasPrefix (k @ ''='' @ v) ''#''" "\<not> HasPrefix (k @ ''='' @ v) '';''"
    "\<not> HasPrefix (k @ ''='' @ v) ''[''" "k @ ''='' @ v \<noteq> []"
    using cn by (simp_all add: c HasPrefix_Cons)
  with t i k v n m show ?thesis by (simp add: ini_line_def Let_def key_ok_trimmed clean_trimmed)
qed

lemma ini_kvs:
  assumes "list_all (\<lambda>(k, v). key_ok k \<and> clean v) kvs" and "n \<noteq> []" and "m n = Some s"
  shows "foldl ini_line (m, n) (map (\<lambda>(k, v). k @ ''='' @ v) kvs)
           = (m(n \<mapsto> foldl put_kv s kvs), n)"
  using assms
proof (induction kvs arbitrary: m s)
  case Nil
  then show ?case by (simp add: fun_upd_idem)
next
  case (Cons kv kvs)
  obtain k v where kv: "kv = (k, v)" by force
  with Cons.prems have "ini_line (m, n) (k @ ''='' @ v) = (m(n \<mapsto> put_kv s kv), n)"
    by (simp add: ini_line_kv [simplified] put_kv_def)
  moreover have "foldl ini_line (m(n \<mapsto> put_kv s kv), n) (map (\<lambda>(k, v). k @ ''='' @ v) kvs)
      = ((m(n \<mapsto> put_kv s kv))(n \<mapsto> foldl put_kv (put_kv s kv) kvs), n)"
    by (rule Cons.IH) (use Cons.prems in simp_all)
  ultimately show ?case by (simp add: kv del: fun_upd_apply)
qed

lemma ini_sec:
  assumes "sec_ok (n, kvs)" and "m n = None"
  shows "foldl ini_line (m, cur) (sec_lines (n, kvs)) = (m(n \<mapsto> kv_map kvs), n)"
proof -
  have "n \<noteq> []" "key_ok n" using assms(1) by (auto simp: sec_ok_def key_ok_def)
  with assms ini_kvs [of kvs n "m(n \<mapsto> Map.empty)" Map.empty] show ?thesis
    by (simp add: sec_lines_def sec_ok_def ini_line_sec [simplified] kv_map_def)
qed

lemma ini_sections:
  assumes "list_all sec_ok secs" and "distinct (map fst secs)" and "\<forall>n \<in> fst ` set secs. m n = None"
  shows "fst (foldl ini_line (m, cur) (ini_lines secs)) = sec_map m secs"
  using assms
proof (induction secs arbitrary: m cur rule: ini_lines.induct)
  case (2 x)
  then show ?case by (cases x) (simp add: ini_sec sec_map_def)
next
  case (3 x y r)
  obtain n kvs where x: "x = (n, kvs)" by force
  have "foldl ini_line (m, cur) (sec_lines (n, kvs)) = (m(n \<mapsto> kv_map kvs), n)"
    using 3 x by (intro ini_sec) auto
  moreover have "fst (foldl ini_line (m(n \<mapsto> kv_map kvs), n) (ini_lines (y # r)))
      = sec_map (m(n \<mapsto> kv_map kvs)) (y # r)"
    using 3 x by (intro 3) auto
  ultimately show ?case using x by (simp add: sec_map_def)
qed (simp add: sec_map_def)

lemma line_ok_kv: "key_ok k \<Longrightarrow> clean v \<Longrightarrow>
    newline \<notin> set (k @ ''='' @ v) \<and> length (k @ ''='' @ v) < MaxScanTokenSize \<and> dropCR (k @ ''='' @ v) = k @ ''='' @ v"
proof -
  assume k: "key_ok k" and v: "clean v"
  have "newline \<noteq> CHR ''=''" by code_simp
  with k v solid_not_newline show ?thesis
    by (auto simp: key_ok_def clean_def list_all_iff dropCR_def MaxScanTokenSize_def)
qed

lemma line_ok_sec: "key_ok n \<Longrightarrow>
    newline \<notin> set (''['' @ n @ '']'') \<and> length (''['' @ n @ '']'') < MaxScanTokenSize \<and> dropCR (''['' @ n @ '']'') = ''['' @ n @ '']''"
proof -
  assume k: "key_ok n"
  have "newline \<noteq> CHR ''[''" "newline \<noteq> CHR '']''" "creturn \<noteq> CHR '']''"
    by code_simp+
  with k solid_not_newline show ?thesis
    by (auto simp: key_ok_def list_all_iff dropCR_def MaxScanTokenSize_def)
qed

lemma sec_lines_ok:
  assumes "sec_ok x"
  shows "\<forall>l \<in> set (sec_lines x). newline \<notin> set l \<and> length l < MaxScanTokenSize \<and> dropCR l = l"
proof
  fix l assume "l \<in> set (sec_lines x)"
  then consider "l = ''['' @ fst x @ '']''" | k v where "(k, v) \<in> set (snd x)" "l = k @ ''='' @ v"
    by (auto simp: sec_lines_def)
  then show "newline \<notin> set l \<and> length l < MaxScanTokenSize \<and> dropCR l = l"
  proof cases
    case 1
    with assms line_ok_sec show ?thesis unfolding sec_ok_def by blast
  next
    case 2
    with assms have "key_ok k \<and> clean v" by (auto simp: sec_ok_def list_all_iff)
    with 2 line_ok_kv show ?thesis by blast
  qed
qed

lemma ini_lines_ok:
  "list_all sec_ok secs \<Longrightarrow>
   \<forall>l \<in> set (ini_lines secs). newline \<notin> set l \<and> length l < MaxScanTokenSize \<and> dropCR l = l"
proof (induction secs rule: ini_lines.induct)
  case (3 x y r)
  then have "\<forall>l \<in> set (sec_lines x). newline \<notin> set l \<and> length l < MaxScanTokenSize \<and> dropCR l = l"
    by (intro sec_lines_ok) simp
  moreover have "dropCR [] = []" by (simp add: dropCR_def)
  ultimately show ?case using 3 by (auto simp: MaxScanTokenSize_def)
qed (use sec_lines_ok in auto)

lemma parseINI_sections:
  assumes "list_all sec_ok secs" and "distinct (map fst secs)"
  shows "parseINI (unlines (ini_lines secs)) = sec_map Map.empty secs"
  using assms ini_lines_ok [OF assms(1)]
  by (simp add: parseINI_def scan_lines_unlines ini_sections)

text \<open>The sections of the file written for a profile.\<close>

definition opt_kv :: "bool \<Rightarrow> string \<Rightarrow> string \<Rightarrow> (string \<times> string) list" where
  "opt_kv b k v = (if b then [(k, v)] else [])"

definition ip4_sections :: "IPConfig option \<Rightarrow> ini_section list" where
  "ip4_sections ipv4 = (case ipv4 of
       None \<Rightarrow> []
     | Some c \<Rightarrow>
         if ip_Method c = IPManual \<and> ip_Addresses c \<noteq> [] then
           (case cidrToAddrNetmask (hd (ip_Addresses c)) of
              None \<Rightarrow> []
            | Some (addr, mk) \<Rightarrow>
                [(''IPv4'', (''Address'', addr) # opt_kv (mk \<noteq> []) ''Netmask'' mk @
                   opt_kv (ip_Gateway c \<noteq> []) ''Gateway'' (ip_Gateway c) @
                   opt_kv (ip_DNS c \<noteq> []) ''DNS'' (Join (ip_DNS c) '' '') @
                   opt_kv (ip_DNSSearch c \<noteq> []) ''DomainName'' (hd (ip_DNSSearch c)))])
         else [])"

definition ip6_sections :: "IPConfig option \<Rightarrow> ini_section list" where
  "ip6_sections ipv6 = (case ipv6 of
       None \<Rightarrow> []
     | Some c \<Rightarrow>
         if ip_Method c = IPManual \<and> ip_Addresses c \<noteq> [] then
           [(''IPv6'', (''Enabled'', ''true'') # (''Address'', hd (ip_Addresses c)) #
              opt_kv (ip_Gateway c \<noteq> []) ''Gateway'' (ip_Gateway c) @
              opt_kv (ip_DNS c \<noteq> []) ''DNS'' (Join (ip_DNS c) '' ''))]
         else [])"

definition sec_sections :: "SecurityKind \<Rightarrow> string \<Rightarrow> ini_section list" where
  "sec_sections kind pw = (if kind = SecPSK \<and> pw \<noteq> [] then [(''Security'', [(''Passphrase'', pw)])] else [])"

definition set_section :: "bool \<Rightarrow> bool \<Rightarrow> ini_section" where
  "set_section auto hidden =
     (''Settings'', (''AutoConnect'', boolStr auto) # opt_kv hidden ''Hidden'' ''true'')"

lemma unlines_sec: "unlines (sec_lines (n, kvs)) = ''['' @ n @ '']'' @ nl @ concat (map (\<lambda>(k, v). k @ ''='' @ v @ nl) kvs)"
  by (induction kvs) (auto simp: sec_lines_def nl_def)

lemma unlines_ini_Cons: "unlines (ini_lines (x # ys)) =
    unlines (sec_lines x) @ (case ys of [] \<Rightarrow> [] | _ \<Rightarrow> nl @ unlines (ini_lines ys))"
  by (cases ys) (simp_all add: nl_def)

definition profile_sections ::
  "SecurityKind \<Rightarrow> string \<Rightarrow> bool \<Rightarrow> bool \<Rightarrow> IPConfig option \<Rightarrow> IPConfig option \<Rightarrow> ini_section list" where
  "profile_sections kind pw auto hidden ipv4 ipv6 =
     sec_sections kind pw @ set_section auto hidden # ip4_sections ipv4 @ ip6_sections ipv6"

lemma unlines_ini_append:
  "ys \<noteq> [] \<Longrightarrow> xs \<noteq> [] \<Longrightarrow> unlines (ini_lines (xs @ ys)) = unlines (ini_lines xs) @ nl @ unlines (ini_lines ys)"
  by (induction xs rule: ini_lines.induct) (auto simp: neq_Nil_conv nl_def)

lemma render_ip4:
  "(case ip4_sections ipv4 of [] \<Rightarrow> [] | _ \<Rightarrow> nl @ unlines (ini_lines (ip4_sections ipv4))) =
   (case ipv4 of
        None \<Rightarrow> []
      | Some c4 \<Rightarrow>
          if ip_Method c4 = IPManual \<and> ip_Addresses c4 \<noteq> [] then
            (case cidrToAddrNetmask (hd (ip_Addresses c4)) of
               None \<Rightarrow> []
             | Some (addr, mk) \<Rightarrow>
                 nl @ ''[IPv4]'' @ nl @
                 ''Address='' @ addr @ nl @
                 (if mk \<noteq> [] then ''Netmask='' @ mk @ nl else []) @
                 (if ip_Gateway c4 \<noteq> [] then ''Gateway='' @ ip_Gateway c4 @ nl else []) @
                 (if ip_DNS c4 \<noteq> [] then ''DNS='' @ Join (ip_DNS c4) '' '' @ nl else []) @
                 (if ip_DNSSearch c4 \<noteq> [] then ''DomainName='' @ hd (ip_DNSSearch c4) @ nl else []))
          else [])"
  by (auto simp: ip4_sections_def opt_kv_def unlines_sec split: option.split prod.split)

lemma render_ip6:
  "(case ip6_sections ipv6 of [] \<Rightarrow> [] | _ \<Rightarrow> nl @ unlines (ini_lines (ip6_sections ipv6))) =
   (case ipv6 of
        None \<Rightarrow> []
      | Some c6 \<Rightarrow>
          if ip_Method c6 = IPManual \<and> ip_Addresses c6 \<noteq> [] then
            nl @ ''[IPv6]'' @ nl @
            ''Enabled=true'' @ nl @
            ''Address='' @ hd (ip_Addresses c6) @ nl @
            (if ip_Gateway c6 \<noteq> [] then ''Gateway='' @ ip_Gateway c6 @ nl else []) @
            (if ip_DNS c6 \<noteq> [] then ''DNS='' @ Join (ip_DNS c6) '' '' @ nl else [])
          else [])"
  by (auto simp: ip6_sections_def opt_kv_def unlines_sec split: option.split)

lemma ini_tail:
  "unlines (ini_lines (x # ys @ zs)) = unlines (sec_lines x) @
     (case ys of [] \<Rightarrow> [] | _ \<Rightarrow> nl @ unlines (ini_lines ys)) @
     (case zs of [] \<Rightarrow> [] | _ \<Rightarrow> nl @ unlines (ini_lines zs))"
proof (cases "ys = []")
  case True
  show ?thesis unfolding True unlines_ini_Cons [of x] by (simp only: append_Nil list.case)
next
  case ys: False
  show ?thesis
  proof (cases "zs = []")
    case True
    show ?thesis unfolding True unlines_ini_Cons [of x] by (simp only: append_Nil2 list.case)
  next
  case False
  with ys have "unlines (ini_lines (ys @ zs)) = unlines (ini_lines ys) @ nl @ unlines (ini_lines zs)"
    by (simp add: unlines_ini_append)
  with False ys show ?thesis
    by (auto simp: neq_Nil_conv unlines_ini_Cons [of x] simp del: ini_lines.simps)
  qed
qed

lemma renderProfile_sections:
  "renderProfile kind pw auto hidden ipv4 ipv6 =
     unlines (ini_lines (profile_sections kind pw auto hidden ipv4 ipv6))"
proof -
  let ?t = "set_section auto hidden # ip4_sections ipv4 @ ip6_sections ipv6"
  have t: "unlines (ini_lines ?t) = unlines (sec_lines (set_section auto hidden)) @
     (case ip4_sections ipv4 of [] \<Rightarrow> [] | _ \<Rightarrow> nl @ unlines (ini_lines (ip4_sections ipv4))) @
     (case ip6_sections ipv6 of [] \<Rightarrow> [] | _ \<Rightarrow> nl @ unlines (ini_lines (ip6_sections ipv6)))"
    by (rule ini_tail)
  have s: "unlines (sec_lines (set_section auto hidden)) =
      ''[Settings]'' @ nl @ ''AutoConnect='' @ boolStr auto @ nl @ (if hidden then ''Hidden=true'' @ nl else [])"
    by (simp add: set_section_def opt_kv_def unlines_sec)
  have p: "unlines (ini_lines (profile_sections kind pw auto hidden ipv4 ipv6)) =
     (if kind = SecPSK \<and> pw \<noteq> [] then ''[Security]'' @ nl @ ''Passphrase='' @ pw @ nl @ nl else []) @
     unlines (ini_lines ?t)"
    by (simp add: profile_sections_def sec_sections_def unlines_sec nl_def)
  show ?thesis unfolding p t s render_ip4 render_ip6 by (simp add: renderProfile_def)
qed

text \<open>
  What a provisioning file can express: the first address in CIDR form, a gateway and
  words without blanks for the resolvers; and what is kept of a configuration.
\<close>

definition storable4 :: "IPConfig option \<Rightarrow> bool" where
  "storable4 ipv4 \<longleftrightarrow> (\<forall>c. ipv4 = Some c \<and> ip_Method c = IPManual \<and> ip_Addresses c \<noteq> [] \<longrightarrow>
     (\<exists>q n. octets q \<and> n \<le> 32 \<and> hd (ip_Addresses c) = show_ipv4 q @ ''/'' @ show_nat n) \<and>
     (ip_Gateway c = [] \<or> clean (ip_Gateway c)) \<and>
     (\<forall>d \<in> set (ip_DNS c). solid_word d) \<and> length (Join (ip_DNS c) '' '') < 60000 \<and>
     (ip_DNSSearch c = [] \<or> clean (hd (ip_DNSSearch c))))"

definition storable6 :: "IPConfig option \<Rightarrow> bool" where
  "storable6 ipv6 \<longleftrightarrow> (\<forall>c. ipv6 = Some c \<and> ip_Method c = IPManual \<and> ip_Addresses c \<noteq> [] \<longrightarrow>
     clean (hd (ip_Addresses c)) \<and>
     (ip_Gateway c = [] \<or> clean (ip_Gateway c)) \<and>
     (\<forall>d \<in> set (ip_DNS c). solid_word d) \<and> length (Join (ip_DNS c) '' '') < 60000)"

definition kept4 :: "IPConfig option \<Rightarrow> IPConfig" where
  "kept4 ipv4 = (case ipv4 of None \<Rightarrow> auto_ip | Some c \<Rightarrow>
     if ip_Method c = IPManual \<and> ip_Addresses c \<noteq> []
     then c\<lparr>ip_Addresses := [hd (ip_Addresses c)], ip_DNSSearch := take 1 (ip_DNSSearch c)\<rparr>
     else auto_ip)"

definition kept6 :: "IPConfig option \<Rightarrow> IPConfig" where
  "kept6 ipv6 = (case ipv6 of None \<Rightarrow> auto_ip | Some c \<Rightarrow>
     if ip_Method c = IPManual \<and> ip_Addresses c \<noteq> []
     then c\<lparr>ip_Addresses := [hd (ip_Addresses c)], ip_DNSSearch := []\<rparr>
     else auto_ip)"

lemma sec_map_set:
  "distinct (map fst secs) \<Longrightarrow> (n, kvs) \<in> set secs \<Longrightarrow> sec_map m secs n = Some (kv_map kvs)"
proof (induction secs arbitrary: m)
  case (Cons x xs)
  have other: "n \<notin> fst ` set xs \<Longrightarrow> sec_map m xs n = m n" for m xs
    by (induction xs arbitrary: m) (auto simp: sec_map_def)
  show ?case
  proof (cases "x = (n, kvs)")
    case True
    with Cons.prems other [of xs "m(n \<mapsto> kv_map kvs)"] show ?thesis by (simp add: sec_map_def)
  next
    case False
    with Cons show ?thesis by (auto simp: sec_map_def)
  qed
qed simp

lemma sec_map_other: "n \<notin> fst ` set secs \<Longrightarrow> sec_map m secs n = m n"
  by (induction secs arbitrary: m) (auto simp: sec_map_def)

lemma kv_map_opt [simp]: "foldl put_kv m (opt_kv b k v) = m(k := if b then Some v else m k)"
  by (simp add: opt_kv_def put_kv_def)

lemma clean_words: "\<forall>d \<in> set ds. solid_word d \<Longrightarrow> ds \<noteq> [] \<Longrightarrow> length (Join ds '' '') < 60000 \<Longrightarrow> clean (Join ds '' '')"
proof -
  assume w: "\<forall>d \<in> set ds. solid_word d" and ne: "ds \<noteq> []" and len: "length (Join ds '' '') < 60000"
  have "Join ds '' '' \<noteq> [] \<and> solid (hd (Join ds '' '')) \<and> solid (last (Join ds '' '')) \<and> newline \<notin> set (Join ds '' '')"
    using w ne
  proof (induction ds rule: induct_list012)
    case (2 d)
    then have "d \<noteq> []" "\<forall>c \<in> set d. solid c" by (auto simp: solid_word_def)
    then show ?case using solid_not_newline by auto
  next
    case (3 d e ds)
    then have d: "d \<noteq> []" "\<forall>c \<in> set d. solid c" by (auto simp: solid_word_def)
    have "newline \<noteq> CHR '' ''" by code_simp
    with d 3 solid_not_newline show ?case by auto
  qed simp
  with len show ?thesis by (simp add: clean_def)
qed

lemma clean_quad: "octets q \<Longrightarrow> clean (show_ipv4 q)"
proof -
  assume q: "octets q"
  have "\<forall>c \<in> set (show_ipv4 q). solid c"
    using set_show_ipv4 by (fastforce simp: quad_char_def is_digit_def solid_def byte_def)
  moreover have "length (show_nat n) \<le> 3" if "n < 256" for n
    using that by (simp add: show_nat.simps)
  with q have "length (show_ipv4 q) < 100"
  proof -
    from q obtain a b c d where "q = [a, b, c, d]" "a < 256" "b < 256" "c < 256" "d < 256" by (rule octetsE)
    moreover from this \<open>\<And>n. n < 256 \<Longrightarrow> length (show_nat n) \<le> 3\<close>
    have "length (show_nat a) \<le> 3" "length (show_nat b) \<le> 3" "length (show_nat c) \<le> 3" "length (show_nat d) \<le> 3"
      by blast+
    ultimately show ?thesis by (simp add: show_ipv4_def)
  qed
  ultimately show ?thesis using show_ipv4_nonempty [OF q] solid_not_newline by (auto simp: clean_def)
qed

lemma key_names:
  "key_ok ''IPv4''" "key_ok ''IPv6''" "key_ok ''Settings''" "key_ok ''Security''" "key_ok ''Passphrase''"
  "key_ok ''AutoConnect''" "key_ok ''Hidden''" "key_ok ''Address''" "key_ok ''Netmask''" "key_ok ''Gateway''"
  "key_ok ''DNS''" "key_ok ''DomainName''" "key_ok ''Enabled''"
  by code_simp+

lemma clean_words_true: "clean (boolStr b)" "clean ''true''"
proof -
  have "newline \<notin> set ''true''" "newline \<notin> set ''false''" by code_simp+
  then show "clean (boolStr b)" "clean ''true''"
    by (simp_all add: clean_def boolStr_def solid_def byte_def)
qed

lemma kvs_opt: "list_all (\<lambda>(k, v). key_ok k \<and> clean v) (opt_kv c k v) \<longleftrightarrow> (c \<longrightarrow> key_ok k \<and> clean v)"
  by (simp add: opt_kv_def)

definition manual :: "IPConfig option \<Rightarrow> IPConfig \<Rightarrow> bool" where
  "manual ip c \<longleftrightarrow> ip = Some c \<and> ip_Method c = IPManual \<and> ip_Addresses c \<noteq> []"

lemma ip4_sections_none: "\<nexists>c. manual ip c \<Longrightarrow> ip4_sections ip = [] \<and> kept4 ip = auto_ip"
  by (auto simp: manual_def ip4_sections_def kept4_def split: option.split)

lemma ip6_sections_none: "\<nexists>c. manual ip c \<Longrightarrow> ip6_sections ip = [] \<and> kept6 ip = auto_ip"
  by (auto simp: manual_def ip6_sections_def kept6_def split: option.split)

lemma ip4_sections_manual:
  assumes "manual ip c" and "octets q" and "n \<le> 32" and "hd (ip_Addresses c) = show_ipv4 q @ ''/'' @ show_nat n"
  shows "ip4_sections ip = [(''IPv4'', (''Address'', show_ipv4 q) #
      opt_kv True ''Netmask'' (show_ipv4 (CIDRMask n 32)) @
      opt_kv (ip_Gateway c \<noteq> []) ''Gateway'' (ip_Gateway c) @
      opt_kv (ip_DNS c \<noteq> []) ''DNS'' (Join (ip_DNS c) '' '') @
      opt_kv (ip_DNSSearch c \<noteq> []) ''DomainName'' (hd (ip_DNSSearch c)))]"
proof -
  have "show_ipv4 (CIDRMask n 32) \<noteq> []" using octets_CIDRMask show_ipv4_nonempty by blast
  with assms show ?thesis by (simp add: manual_def ip4_sections_def cidr_addr_netmask [simplified])
qed

lemma ip6_sections_manual:
  assumes "manual ip c"
  shows "ip6_sections ip = [(''IPv6'', (''Enabled'', ''true'') # (''Address'', hd (ip_Addresses c)) #
      opt_kv (ip_Gateway c \<noteq> []) ''Gateway'' (ip_Gateway c) @
      opt_kv (ip_DNS c \<noteq> []) ''DNS'' (Join (ip_DNS c) '' ''))]"
  using assms by (simp add: manual_def ip6_sections_def)

lemma ip4_sections_ok:
  assumes "storable4 ip"
  shows "list_all sec_ok (ip4_sections ip)"
proof (cases "\<exists>c. manual ip c")
  case True
  then obtain c where c: "manual ip c" by blast
  with assms obtain q n where q: "octets q" "n \<le> 32" "hd (ip_Addresses c) = show_ipv4 q @ ''/'' @ show_nat n"
    and w: "ip_Gateway c = [] \<or> clean (ip_Gateway c)" "\<forall>d \<in> set (ip_DNS c). solid_word d"
      "length (Join (ip_DNS c) '' '') < 60000" "ip_DNSSearch c = [] \<or> clean (hd (ip_DNSSearch c))"
    unfolding storable4_def manual_def by blast
  have "clean (show_ipv4 q)" "clean (show_ipv4 (CIDRMask n 32))"
    using clean_quad q octets_CIDRMask by blast+
  moreover have "ip_DNS c \<noteq> [] \<longrightarrow> clean (Join (ip_DNS c) '' '')" using clean_words w(2,3) by blast
  ultimately show ?thesis unfolding ip4_sections_manual [OF c q] using w(1,4)
    by (simp add: sec_ok_def kvs_opt key_names) blast
qed (simp add: ip4_sections_none)

lemma ip6_sections_ok:
  assumes "storable6 ip"
  shows "list_all sec_ok (ip6_sections ip)"
proof (cases "\<exists>c. manual ip c")
  case True
  then obtain c where c: "manual ip c" by blast
  with assms have w: "clean (hd (ip_Addresses c))" "ip_Gateway c = [] \<or> clean (ip_Gateway c)"
    "\<forall>d \<in> set (ip_DNS c). solid_word d" "length (Join (ip_DNS c) '' '') < 60000"
    unfolding storable6_def manual_def by blast+
  have "ip_DNS c \<noteq> [] \<longrightarrow> clean (Join (ip_DNS c) '' '')" using clean_words w(3,4) by blast
  then show ?thesis unfolding ip6_sections_manual [OF c] using w(1,2)
    by (simp add: sec_ok_def kvs_opt key_names clean_words_true) blast
qed (simp add: ip6_sections_none)

lemma sections_ok:
  assumes "storable4 ipv4" and "storable6 ipv6" and "pw = [] \<or> clean pw"
  shows "list_all sec_ok (profile_sections kind pw auto hidden ipv4 ipv6)"
proof -
  have "sec_ok (set_section auto hidden)"
    by (simp add: set_section_def sec_ok_def kvs_opt key_names clean_words_true)
  moreover have "list_all sec_ok (sec_sections kind pw)"
    using assms(3) by (auto simp: sec_sections_def sec_ok_def key_names)
  ultimately show ?thesis
    using ip4_sections_ok [OF assms(1)] ip6_sections_ok [OF assms(2)] by (simp add: profile_sections_def)
qed

lemma section_shape:
  "ip4_sections ip = [] \<or> (\<exists>kvs. ip4_sections ip = [(''IPv4'', kvs)])"
  "ip6_sections ip = [] \<or> (\<exists>kvs. ip6_sections ip = [(''IPv6'', kvs)])"
  by (auto simp: ip4_sections_def ip6_sections_def split: option.split)

lemma sections_distinct: "distinct (map fst (profile_sections kind pw auto hidden ipv4 ipv6))"
  using section_shape(1) [of ipv4] section_shape(2) [of ipv6]
  by (auto simp: profile_sections_def sec_sections_def set_section_def)

lemma parse_rendered:
  assumes "storable4 ipv4" and "storable6 ipv6" and "pw = [] \<or> clean pw"
  shows "parseINI (renderProfile kind pw auto hidden ipv4 ipv6)
           = sec_map Map.empty (profile_sections kind pw auto hidden ipv4 ipv6)"
  unfolding renderProfile_sections
  by (rule parseINI_sections [OF sections_ok [OF assms] sections_distinct])

lemma iwd_parseBool_boolStr [simp]: "iwd_parseBool (boolStr b) d = b" "iwd_parseBool ''true'' d = True"
proof -
  have "TrimSpace ''true'' = ''true''" "TrimSpace ''false'' = ''false''" by code_simp+
  moreover have "ToLower ''true'' = ''true''" "ToLower ''false'' = ''false''" by code_simp+
  ultimately show "iwd_parseBool (boolStr b) d = b" "iwd_parseBool ''true'' d = True"
    by (cases b; simp add: iwd_parseBool_def boolStr_def)+
qed

lemma section_lookup:
  fixes kind pw auto hidden ipv4 ipv6
  defines "m \<equiv> sec_map Map.empty (profile_sections kind pw auto hidden ipv4 ipv6)"
  shows "m ''Settings'' = Some (kv_map (snd (set_section auto hidden)))"
    and "m ''Security'' = (if kind = SecPSK \<and> pw \<noteq> [] then Some (kv_map [(''Passphrase'', pw)]) else None)"
    and "m ''IPv4'' = (case ip4_sections ipv4 of [] \<Rightarrow> None | x # _ \<Rightarrow> Some (kv_map (snd x)))"
    and "m ''IPv6'' = (case ip6_sections ipv6 of [] \<Rightarrow> None | x # _ \<Rightarrow> Some (kv_map (snd x)))"
  using section_shape(1) [of ipv4] section_shape(2) [of ipv6]
  by (auto simp: m_def profile_sections_def sec_sections_def set_section_def sec_map_def)

lemma parse_ip4_section:
  assumes "storable4 ipv4"
  shows "(case (case ip4_sections ipv4 of [] \<Rightarrow> None | x # _ \<Rightarrow> Some (kv_map (snd x))) of
            None \<Rightarrow> auto_ip | Some ip4 \<Rightarrow> parse_ip4 (Some ip4)) = kept4 ipv4"
proof (cases "\<exists>c. manual ipv4 c")
  case True
  then obtain c where c: "manual ipv4 c" by blast
  with assms obtain q n where q: "octets q" "n \<le> 32" "hd (ip_Addresses c) = show_ipv4 q @ ''/'' @ show_nat n"
    and w: "\<forall>d \<in> set (ip_DNS c). solid_word d" "ip_DNSSearch c = [] \<or> clean (hd (ip_DNSSearch c))"
    unfolding storable4_def manual_def by blast
  have ne: "show_ipv4 q \<noteq> []" "show_ipv4 (CIDRMask n 32) \<noteq> []"
    using q octets_CIDRMask show_ipv4_nonempty by blast+
  have dns: "Fields (Join (ip_DNS c) '' '') = ip_DNS c" by (rule Fields_words [OF w(1)])
  have dj: "Join (ip_DNS c) '' '' \<noteq> [] \<longleftrightarrow> ip_DNS c \<noteq> []"
    using dns by (metis Fields_words Join.simps(1) empty_iff list.set(1))
  have sr: "(if ip_DNSSearch c \<noteq> [] then hd (ip_DNSSearch c) else []) \<noteq> [] \<longleftrightarrow> ip_DNSSearch c \<noteq> []"
    using w(2) by (auto simp: clean_def)
  have t1: "take 1 (ip_DNSSearch c) = (if ip_DNSSearch c \<noteq> [] then [hd (ip_DNSSearch c)] else [])"
    by (cases "ip_DNSSearch c") simp_all
  define kv where "kv = kv_map (snd (hd (ip4_sections ipv4)))"
  have kv: "ini_str (Some kv) ''Address'' = show_ipv4 q"
    "ini_str (Some kv) ''Netmask'' = show_ipv4 (CIDRMask n 32)"
    "ini_str (Some kv) ''Gateway'' = ip_Gateway c"
    "ini_str (Some kv) ''DNS'' = Join (ip_DNS c) '' ''"
    "ini_str (Some kv) ''DomainName'' = (if ip_DNSSearch c \<noteq> [] then hd (ip_DNSSearch c) else [])"
    using dj by (simp_all add: kv_def ip4_sections_manual [OF c q] kv_map_def put_kv_def ini_str_def ini_get_def)
  have j: "joinAddrNetmask (show_ipv4 q) (show_ipv4 (CIDRMask n 32)) = hd (ip_Addresses c)"
    using q(3) by (simp add: join_cidr [OF q(2)])
  have ds: "(if ip_DNS c \<noteq> [] then ip_DNS c else []) = ip_DNS c" by simp
  have "parse_ip4 (Some kv) = \<lparr>ip_Method = IPManual, ip_Addresses = [hd (ip_Addresses c)],
      ip_Gateway = ip_Gateway c, ip_DNS = ip_DNS c, ip_DNSSearch = take 1 (ip_DNSSearch c)\<rparr>"
    unfolding parse_ip4_def kv Let_def dj dns j sr t1 ds using ne by simp
  moreover have "kept4 ipv4 = \<lparr>ip_Method = IPManual, ip_Addresses = [hd (ip_Addresses c)],
      ip_Gateway = ip_Gateway c, ip_DNS = ip_DNS c, ip_DNSSearch = take 1 (ip_DNSSearch c)\<rparr>"
    using c by (simp add: kept4_def manual_def)
  ultimately show ?thesis by (simp add: kv_def ip4_sections_manual [OF c q])
qed (simp add: ip4_sections_none)

lemma parse_ip6_section:
  assumes "storable6 ipv6"
  shows "(case (case ip6_sections ipv6 of [] \<Rightarrow> None | x # _ \<Rightarrow> Some (kv_map (snd x))) of
            None \<Rightarrow> auto_ip | Some ip6 \<Rightarrow> parse_ip6 (Some ip6)) = kept6 ipv6"
proof (cases "\<exists>c. manual ipv6 c")
  case True
  then obtain c where c: "manual ipv6 c" by blast
  with assms have w: "hd (ip_Addresses c) \<noteq> []" "\<forall>d \<in> set (ip_DNS c). solid_word d"
    unfolding storable6_def clean_def manual_def by blast+
  have dns: "Fields (Join (ip_DNS c) '' '') = ip_DNS c" by (rule Fields_words [OF w(2)])
  have dj: "Join (ip_DNS c) '' '' \<noteq> [] \<longleftrightarrow> ip_DNS c \<noteq> []"
    using dns by (metis Fields_words Join.simps(1) empty_iff list.set(1))
  define kv where "kv = kv_map (snd (hd (ip6_sections ipv6)))"
  have kv: "ini_str (Some kv) ''Address'' = hd (ip_Addresses c)"
    "ini_str (Some kv) ''Gateway'' = ip_Gateway c"
    "ini_str (Some kv) ''DNS'' = Join (ip_DNS c) '' ''"
    using dj by (simp_all add: kv_def ip6_sections_manual [OF c] kv_map_def put_kv_def ini_str_def ini_get_def)
  have ds: "(if ip_DNS c \<noteq> [] then ip_DNS c else []) = ip_DNS c" by simp
  have "parse_ip6 (Some kv) = \<lparr>ip_Method = IPManual, ip_Addresses = [hd (ip_Addresses c)],
      ip_Gateway = ip_Gateway c, ip_DNS = ip_DNS c, ip_DNSSearch = []\<rparr>"
    unfolding parse_ip6_def kv Let_def dj dns ds using w(1) by simp
  moreover have "kept6 ipv6 = \<lparr>ip_Method = IPManual, ip_Addresses = [hd (ip_Addresses c)],
      ip_Gateway = ip_Gateway c, ip_DNS = ip_DNS c, ip_DNSSearch = []\<rparr>"
    using c by (simp add: kept6_def manual_def)
  ultimately show ?thesis by (simp add: kv_def ip6_sections_manual [OF c])
qed (simp add: ip6_sections_none)

lemma parseProfile_rendered:
  assumes "storable4 ipv4" and "storable6 ipv6" and "pw = [] \<or> clean pw"
  shows "parseProfile sha ssid typ (renderProfile kind pw auto hidden ipv4 ipv6) =
     \<lparr>pr_ID = DeriveID sha [ssid, typ], pr_Name = ssid, pr_SSID = ssid, pr_Hidden = hidden,
      pr_Autoconnect = auto, pr_Security = \<lparr>sec_Kind = typeToSecKind typ, sec_Passphrase = []\<rparr>,
      pr_IPv4 = kept4 ipv4, pr_IPv6 = kept6 ipv6\<rparr>"
proof -
  note L = section_lookup [of kind pw auto hidden ipv4 ipv6]
  have "ini_get (Some (kv_map (snd (set_section auto hidden)))) ''AutoConnect'' = Some (boolStr auto)"
    "ini_get (Some (kv_map (snd (set_section auto hidden)))) ''Hidden'' = (if hidden then Some ''true'' else None)"
    by (simp_all add: ini_get_def set_section_def kv_map_def put_kv_def)
  then show ?thesis
    unfolding parseProfile_def parse_rendered [OF assms] Let_def L(1) L(3) L(4)
      parse_ip4_section [OF assms(1)] parse_ip6_section [OF assms(2)]
    by simp
qed

lemma passphrase_rendered:
  assumes "storable4 ipv4" and "storable6 ipv6" and "pw = [] \<or> clean pw"
  shows "ini_str (parseINI (renderProfile kind pw auto hidden ipv4 ipv6) ''Security'') ''Passphrase''
           = (if kind = SecPSK then pw else [])"
  unfolding parse_rendered [OF assms] section_lookup(2)
  by (simp add: ini_str_def ini_get_def kv_map_def put_kv_def)

section \<open>Properties\<close>

text \<open>The name of a provisioning file determines the network: for every SSID, whatever bytes it holds, and every profile type, parsing the file name gives the SSID and the type back, and the name has no slash, so that it stays inside the store directory.\<close>

theorem filename_roundtrip:
  assumes "t \<in> set profileTypes"
  shows "parseProfileFilename (profileFilename s t) = Some (s, t) \<and>
         CHR ''/'' \<notin> set (profileFilename s t) \<and>
         (profileFilename s' t' = profileFilename s t \<and> t' \<in> set profileTypes \<longrightarrow> s' = s \<and> t' = t)"
proof -
  have "CHR ''/'' \<notin> set (profileFilename s t)"
    using profileTypes_no_dot [OF assms] encodeSSID_chars by (auto simp: profileFilename_def)
  moreover have "s' = s \<and> t' = t" if "profileFilename s' t' = profileFilename s t" "t' \<in> set profileTypes"
    using parse_profileFilename [OF assms, of s] parse_profileFilename [OF that(2), of s'] that(1) by simp
  ultimately show ?thesis using parse_profileFilename [OF assms] by blast
qed

lemma filename_roundtrip_witness:
  "parseProfileFilename (profileFilename ''a.b/c'' ''psk'') = Some (''a.b/c'', ''psk'') \<and>
   profileFilename ''a.b/c'' ''psk'' = ''=612e622f63.psk''"
proof -
  have "profileFilename ''a.b/c'' ''psk'' = ''=612e622f63.psk''" by code_simp
  with filename_roundtrip [of "''psk''" "''a.b/c''" "[]" "[]"] show ?thesis
    by (simp add: profileTypes_def)
qed

text \<open>A static IPv4 address in CIDR form survives the split into the Address and Netmask keys of iwd: for every address and every prefix length, cidrToAddrNetmask followed by joinAddrNetmask gives the CIDR text back.\<close>

theorem cidr_roundtrip:
  assumes "octets q" and "n \<le> 32"
  shows "(case cidrToAddrNetmask (show_ipv4 q @ ''/'' @ show_nat n) of
            Some (addr, mk) \<Rightarrow> joinAddrNetmask addr mk
          | None \<Rightarrow> []) = show_ipv4 q @ ''/'' @ show_nat n"
  using assms by (simp add: cidr_addr_netmask [simplified] join_cidr)

lemma cidr_roundtrip_witness:
  "(case cidrToAddrNetmask ''10.20.30.40/20'' of Some (addr, mk) \<Rightarrow> joinAddrNetmask addr mk | None \<Rightarrow> [])
     = ''10.20.30.40/20''"
proof -
  have q: "show_ipv4 [10, 20, 30, 40] = ''10.20.30.40''" "show_nat 20 = ''20''" by code_simp+
  have "octets [10, 20, 30, 40]" by (simp add: octets_def)
  from cidr_roundtrip [OF this, of 20] q show ?thesis by simp
qed

text \<open>C31: A profile file read back is the profile written: parsing the content rendered for a security kind, passphrase, flags and IP settings that a provisioning file can hold gives the same flags and kind, the IP settings up to what iwd keeps (the first address, one search domain, DHCP when no static address is set), no passphrase in the profile, and the very passphrase under the Security section.\<close>

theorem profile_file_roundtrip:
  assumes "storable4 ipv4" and "storable6 ipv6" and "pw = [] \<or> clean pw"
  shows "parseProfile sha ssid (secKindToType kind) (renderProfile kind pw auto hidden ipv4 ipv6) =
     \<lparr>pr_ID = DeriveID sha [ssid, secKindToType kind], pr_Name = ssid, pr_SSID = ssid, pr_Hidden = hidden,
      pr_Autoconnect = auto, pr_Security = \<lparr>sec_Kind = kind, sec_Passphrase = []\<rparr>,
      pr_IPv4 = kept4 ipv4, pr_IPv6 = kept6 ipv6\<rparr> \<and>
     ini_str (parseINI (renderProfile kind pw auto hidden ipv4 ipv6) ''Security'') ''Passphrase''
       = (if kind = SecPSK then pw else [])"
  using parseProfile_rendered [OF assms] passphrase_rendered [OF assms] by simp

definition static_ip :: IPConfig where
  "static_ip = \<lparr>ip_Method = IPManual, ip_Addresses = [''192.168.1.50/24'', ''10.0.0.1/8''],
     ip_Gateway = ''192.168.1.1'', ip_DNS = [''1.1.1.1'', ''8.8.8.8''], ip_DNSSearch = [''lan'', ''home'']\<rparr>"

lemma storable_static_ip: "storable4 (Some static_ip)"
proof -
  have "octets [192, 168, 1, 50]" by (simp add: octets_def)
  moreover have "show_ipv4 [192, 168, 1, 50] = ''192.168.1.50''" "show_nat 24 = ''24''" by code_simp+
  ultimately have a: "\<exists>q n. octets q \<and> n \<le> 32 \<and> ''192.168.1.50/24'' = show_ipv4 q @ ''/'' @ show_nat n"
    by (intro exI [of _ "[192, 168, 1, 50]"] exI [of _ 24]) simp
  have "clean ''192.168.1.1''" "clean ''lan''" "solid_word ''1.1.1.1''" "solid_word ''8.8.8.8''"
    by (simp_all add: clean_def solid_def solid_word_def char_eval)
  with a show ?thesis by (simp add: storable4_def static_ip_def)
qed

lemma profile_file_roundtrip_witness:
  "parseProfile (\<lambda>x. x) ''HomeNet'' ''psk'' (renderProfile SecPSK ''correct horse'' True False (Some static_ip) None) =
     \<lparr>pr_ID = ''HomeNet'' @ [NUL] @ ''psk'', pr_Name = ''HomeNet'', pr_SSID = ''HomeNet'', pr_Hidden = False,
      pr_Autoconnect = True, pr_Security = \<lparr>sec_Kind = SecPSK, sec_Passphrase = []\<rparr>,
      pr_IPv4 = static_ip\<lparr>ip_Addresses := [''192.168.1.50/24''], ip_DNSSearch := [''lan'']\<rparr>, pr_IPv6 = auto_ip\<rparr>"
proof -
  have "clean ''correct horse''" by (simp add: clean_def solid_def char_eval)
  with profile_file_roundtrip [OF storable_static_ip, of None "''correct horse''" "\<lambda>x. x" "''HomeNet''" SecPSK True False]
  show ?thesis by (simp add: storable6_def kept4_def kept6_def static_ip_def DeriveID_def)
qed

text \<open>Signal quality stays in 0 to 100 and never falls when the signal rises, over the whole 16-bit range that iwd reports.\<close>

theorem quality_bounds_mono:
  "0 \<le> iwd_signalToQuality x \<and> iwd_signalToQuality x \<le> 100 \<and>
   (sint x \<le> sint y \<longrightarrow> iwd_signalToQuality x \<le> iwd_signalToQuality y)"
proof -
  have mono: "tdiv a 100 \<le> tdiv b 100" if "a \<le> b" for a b
  proof -
    have t: "tdiv x 100 = (if 0 \<le> x then x div 100 else - ((- x) div 100))" for x
      by (simp add: tdiv_def sgn_if)
    have "a div 100 \<le> b div 100" "(- b) div 100 \<le> (- a) div 100" using that by (simp_all add: zdiv_mono1)
    moreover have "0 \<le> b \<Longrightarrow> 0 \<le> b div 100" "a < 0 \<Longrightarrow> 0 \<le> (- a) div 100"
      by (simp_all add: pos_imp_zdiv_nonneg_iff)
    ultimately show ?thesis using that by (auto simp: t)
  qed
  have "iwd_dbmToQuality a \<le> iwd_dbmToQuality b" if "a \<le> b" for a b
    using that by (simp add: iwd_dbmToQuality_def)
  with mono show ?thesis by (auto simp: iwd_signalToQuality_def iwd_dbmToQuality_def)
qed

lemma quality_bounds_mono_witness:
  "iwd_signalToQuality (word_of_int (- 7500)) \<le> iwd_signalToQuality (word_of_int (- 5400))"
  using quality_bounds_mono [of "word_of_int (- 7500)" "word_of_int (- 5400)"] by simp


end
