(* ===== verification/DBus.thy ===== *)
theory DBus
  imports Wnet
begin

text \<open>
  Values of the D-Bus binding (\<open>github.com/godbus/dbus\<close>) as the backends read them: a
  variant is the Go value it holds, and the accessors are the type assertions of the
  code, with Go's zero value when the type is another one or the variant is missing.
\<close>

datatype variant =
    VString string
  | VBool bool
  | VPath string
  | VByte nat
  | VInt16 int
  | VInt64 int
  | VU32 "32 word"
  | VBytes string
  | VStrings "string list"
  | VPaths "string list"
  | VU32s "32 word list"
  | VByteArrays "string list"
  | VStruct "variant list"
  | VDicts "(string \<times> variant) list list"
  | VOther

type_synonym dict = "(string \<times> variant) list"

datatype dbus_err = DBusError string | TransportError string

fun dbus_text :: "dbus_err \<Rightarrow> string" where
  "dbus_text (DBusError n) = n"
| "dbus_text (TransportError t) = t"

text \<open>A D-Bus error wraps none of the program's sentinels.\<close>

definition dbus_werr :: "dbus_err \<Rightarrow> werr" where
  "dbus_werr e = ErrOther (dbus_text e)"

definition variantString :: "variant option \<Rightarrow> string" where
  "variantString v = (case v of Some (VString s) \<Rightarrow> s | _ \<Rightarrow> [])"

definition variantBool :: "variant option \<Rightarrow> bool" where
  "variantBool v = (case v of Some (VBool b) \<Rightarrow> b | _ \<Rightarrow> False)"

definition variantPath :: "variant option \<Rightarrow> string" where
  "variantPath v = (case v of Some (VPath p) \<Rightarrow> p | _ \<Rightarrow> [])"

lemmas variant_defs = variantString_def variantBool_def variantPath_def

end
