(* ===== verification/Iwd_Backend.thy ===== *)
theory Iwd_Backend
  imports Iwd_Profile DBus Watch Exclude "HOL-Library.AList"
begin

text \<open>
  \<open>internal/wnet/iwd/iwd.go\<close> and \<open>ip.go\<close>: the backend for iwd.  Radios, networks and
  connections are read and driven over D-Bus; profiles are files of the store directory.
  The D-Bus service, the clock, the kernel tables and the faults of the disk are the
  environment; the store is concrete.
\<close>

section \<open>ip.go\<close>

datatype net_addr = IPNetAddr "nat list" nat | OtherAddr

text \<open>\<open>net.IP.IsGlobalUnicast\<close>: none of broadcast, unspecified, loopback, multicast, link-local.\<close>

definition IsGlobalUnicast :: "nat list \<Rightarrow> bool" where
  "IsGlobalUnicast ip =
     (case To4 ip of
        Some q \<Rightarrow>
          q \<noteq> [255, 255, 255, 255] \<and> q \<noteq> [0, 0, 0, 0] \<and> q ! 0 \<noteq> 127 \<and>
          \<not> (224 \<le> q ! 0 \<and> q ! 0 \<le> 239) \<and> \<not> (q ! 0 = 169 \<and> q ! 1 = 254)
      | None \<Rightarrow>
          length ip = 16 \<and> ip \<noteq> replicate 16 0 \<and> ip \<noteq> replicate 15 0 @ [1] \<and>
          ip ! 0 \<noteq> 255 \<and> \<not> (ip ! 0 = 254 \<and> 128 \<le> ip ! 1 \<and> ip ! 1 \<le> 191))"

text \<open>\<open>net.IPNet.String\<close> for the prefix masks the kernel reports.\<close>

definition IPNet_String :: "nat list \<Rightarrow> nat \<Rightarrow> string" where
  "IPNet_String ip n = IP_String ip @ ''/'' @ show_nat n"

definition ifaceAddrs :: "(string \<Rightarrow> net_addr list option) \<Rightarrow> string \<Rightarrow> string list" where
  "ifaceAddrs addrs name =
     (case addrs name of
        None \<Rightarrow> []
      | Some as \<Rightarrow>
          concat (map (\<lambda>a. case a of
              IPNetAddr ip n \<Rightarrow> if IsGlobalUnicast ip then [IPNet_String ip n] else []
            | OtherAddr \<Rightarrow> []) as))"

definition parseHexIPv4LE :: "string \<Rightarrow> string" where
  "parseHexIPv4LE h =
     (case hex_decode h of
        None \<Rightarrow> []
      | Some b \<Rightarrow> if length b \<noteq> 4 then [] else show_ipv4 (rev (map byte b)))"

fun gateway_from :: "string \<Rightarrow> string list \<Rightarrow> string" where
  "gateway_from iface [] = []"
| "gateway_from iface (line # ls) =
     (let fields = Fields line in
      if length fields < 3 \<or> fields ! 0 \<noteq> iface \<or> fields ! 1 \<noteq> ''00000000''
      then gateway_from iface ls
      else (let gw = parseHexIPv4LE (fields ! 2) in
            if gw \<noteq> [] then gw else gateway_from iface ls))"

definition defaultGateway :: "(string \<Rightarrow> string option) \<Rightarrow> string \<Rightarrow> string" where
  "defaultGateway read iface =
     (case read ''/proc/net/route'' of
        None \<Rightarrow> []
      | Some content \<Rightarrow> gateway_from iface (drop 1 (scan_lines MaxScanTokenSize content)))"

definition dnsServers :: "(string \<Rightarrow> string option) \<Rightarrow> string list" where
  "dnsServers read =
     (case read ''/etc/resolv.conf'' of
        None \<Rightarrow> []
      | Some content \<Rightarrow>
          concat (map (\<lambda>line. let fields = Fields line in
              if 2 \<le> length fields \<and> fields ! 0 = ''nameserver'' then [fields ! 1] else [])
            (scan_lines MaxScanTokenSize content)))"

section \<open>Environment and state\<close>

text \<open>The reply of \<open>GetManagedObjects\<close>, in the order in which one call iterates over it.\<close>

type_synonym objects = "(string \<times> (string \<times> dict) list) list"

text \<open>A signal on the subscribed channel, or the channel's end.\<close>

datatype iwd_event = Signal string string string "dict option" nat | SignalsClosed

record 's iwd_env =
  ie_managed :: "'s \<Rightarrow> (dbus_err + objects) \<times> 's"
  ie_call :: "string \<Rightarrow> string \<Rightarrow> variant list \<Rightarrow> 's \<Rightarrow> dbus_err option \<times> 's"
  ie_prop :: "string \<Rightarrow> string \<Rightarrow> 's \<Rightarrow> (dbus_err + variant) \<times> 's"
  ie_ordered :: "string \<Rightarrow> 's \<Rightarrow> (dbus_err + (string \<times> 16 word) list) \<times> 's"
  ie_diag :: "string \<Rightarrow> 's \<Rightarrow> (dbus_err + dict) \<times> 's"
  ie_match :: "string \<Rightarrow> 's \<Rightarrow> dbus_err option \<times> 's"
  ie_signals :: "'s \<Rightarrow> iwd_event list"
  ie_now :: "'s \<Rightarrow> int \<times> 's"
  ie_wait :: "int \<Rightarrow> 's \<Rightarrow> bool \<times> 's"
  ie_disk :: "'s \<Rightarrow> (string \<times> nat option) option \<times> 's"
  ie_readlink :: "'s \<Rightarrow> string \<Rightarrow> string option"
  ie_addrs :: "'s \<Rightarrow> string \<Rightarrow> net_addr list option"
  ie_read :: "'s \<Rightarrow> string \<Rightarrow> string option"
  ie_sha :: "string \<Rightarrow> string"

datatype node = DirNode | FileNode string

record store =
  sto_exists :: bool
  sto_nodes :: "(string \<times> node) list"

record 's iwd_state =
  iw_env :: 's
  iw_store :: store

definition on_env :: "('s \<Rightarrow> 'a \<times> 's) \<Rightarrow> 's iwd_state \<Rightarrow> 'a \<times> 's iwd_state" where
  "on_env f s = (case f (iw_env s) of (r, e) \<Rightarrow> (r, s\<lparr>iw_env := e\<rparr>))"

definition managed :: "'s iwd_env \<Rightarrow> ('s iwd_state, objects) op" where
  "managed E s =
     (case on_env (ie_managed E) s of
        (Inl e, s') \<Rightarrow> (Inl (dbus_werr e), s')
      | (Inr m, s') \<Rightarrow> (Inr m, s'))"

definition iwd_call :: "'s iwd_env \<Rightarrow> string \<Rightarrow> string \<Rightarrow> variant list \<Rightarrow> 's iwd_state \<Rightarrow> dbus_err option \<times> 's iwd_state" where
  "iwd_call E path meth args = on_env (ie_call E path meth args)"

fun mapConnectErr :: "dbus_err \<Rightarrow> werr" where
  "mapConnectErr (DBusError n) = ErrOther (''connect: '' @ n)"
| "mapConnectErr (TransportError t) = ErrOther (''connect: '' @ t)"

definition ifaceDevice :: string where "ifaceDevice = ''net.connman.iwd.Device''"
definition ifaceStation :: string where "ifaceStation = ''net.connman.iwd.Station''"
definition ifaceNetwork :: string where "ifaceNetwork = ''net.connman.iwd.Network''"
definition mPropChange :: string where "mPropChange = ''org.freedesktop.DBus.Properties.PropertiesChanged''"
definition mPropsSet :: string where "mPropsSet = ''org.freedesktop.DBus.Properties.Set''"

text \<open>\<open>m[k]\<close> on a map that may be nil.\<close>

definition dict_get :: "dict option \<Rightarrow> string \<Rightarrow> variant option" where
  "dict_get d k = (case d of None \<Rightarrow> None | Some kvs \<Rightarrow> map_of kvs k)"

section \<open>Interfaces\<close>

definition deviceToIface :: "(string \<Rightarrow> string option) \<Rightarrow> dict \<Rightarrow> Interface" where
  "deviceToIface readlink dev =
     (let powered = variantBool (map_of dev ''Powered'');
          name = variantString (map_of dev ''Name'')
      in \<lparr>if_Name = name, if_Mac = ToLower (variantString (map_of dev ''Address'')),
          if_Pci = LocalPCI readlink name, if_Powered = powered, if_Up = powered, if_Desc = []\<rparr>)"

text \<open>A device with the description the loops of \<open>Interfaces\<close> and \<open>Interface\<close> set.\<close>

definition described :: "(string \<Rightarrow> string option) \<Rightarrow> (string \<times> dict) list \<Rightarrow> dict \<Rightarrow> Interface" where
  "described readlink ifaces dev =
     (deviceToIface readlink dev)\<lparr>if_Desc :=
        (case map_of ifaces ifaceStation of
           Some st \<Rightarrow> variantString (map_of st ''State'')
         | None \<Rightarrow> variantString (map_of dev ''Mode''))\<rparr>"

definition iwd_Interfaces :: "'s iwd_env \<Rightarrow> ('s iwd_state, Interface list) op" where
  "iwd_Interfaces E =
     bindE (managed E) (\<lambda>m s.
       (Inr (concat (map (\<lambda>(path, ifaces).
          case map_of ifaces ifaceDevice of
            None \<Rightarrow> []
          | Some dev \<Rightarrow> [described (ie_readlink E (iw_env s)) ifaces dev]) m)), s))"

fun find_device :: "string \<Rightarrow> objects \<Rightarrow> (string \<times> (string \<times> dict) list \<times> dict) option" where
  "find_device name [] = None"
| "find_device name ((path, ifaces) # m) =
     (case map_of ifaces ifaceDevice of
        None \<Rightarrow> find_device name m
      | Some dev \<Rightarrow>
          if variantString (map_of dev ''Name'') \<noteq> name then find_device name m
          else Some (path, ifaces, dev))"

definition iwd_Interface :: "'s iwd_env \<Rightarrow> string \<Rightarrow> ('s iwd_state, Interface) op" where
  "iwd_Interface E name =
     bindE (managed E) (\<lambda>m s.
       (case find_device name m of
          Some (path, ifaces, dev) \<Rightarrow> (Inr (described (ie_readlink E (iw_env s)) ifaces dev), s)
        | None \<Rightarrow> (Inl (ErrNotFound (''interface '' @ name)), s)))"

definition devicePath :: "'s iwd_env \<Rightarrow> string \<Rightarrow> 's iwd_state \<Rightarrow> string option \<times> 's iwd_state" where
  "devicePath E name s =
     (case managed E s of
        (Inl _, s') \<Rightarrow> (None, s')
      | (Inr m, s') \<Rightarrow>
          (case find_device name m of Some (path, _, _) \<Rightarrow> (Some path, s') | None \<Rightarrow> (None, s')))"

definition iwd_SetPower :: "'s iwd_env \<Rightarrow> string \<Rightarrow> bool \<Rightarrow> ('s iwd_state, Interface) op" where
  "iwd_SetPower E name on s =
     (case devicePath E name s of
        (None, s1) \<Rightarrow> (Inl (ErrNotFound (''interface '' @ name)), s1)
      | (Some path, s1) \<Rightarrow>
          (case iwd_call E path mPropsSet [VString ifaceDevice, VString ''Powered'', VBool on] s1 of
             (Some e, s2) \<Rightarrow> (Inl (wrap_err ''set power'' (dbus_werr e)), s2)
           | (None, s2) \<Rightarrow> iwd_Interface E name s2))"

section \<open>Scanning\<close>

definition scan_deadline :: int where "scan_deadline = 8000000000"
definition scan_interval :: int where "scan_interval = 300000000"

text \<open>8 seconds in steps of 300 milliseconds.\<close>

definition scan_fuel :: nat where "scan_fuel = 28"

definition scan_body :: "'s iwd_env \<Rightarrow> string \<Rightarrow> 's iwd_state \<Rightarrow> unit option \<times> 's iwd_state" where
  "scan_body E devPath s =
     (case on_env (ie_prop E devPath (ifaceStation @ ''.Scanning'')) s of
        (Inl _, s') \<Rightarrow> (Some (), s')
      | (Inr v, s') \<Rightarrow> (if \<not> variantBool (Some v) then Some () else None, s'))"

definition wait_or_done :: "'s iwd_env \<Rightarrow> int \<Rightarrow> 's iwd_state \<Rightarrow> unit option \<times> 's iwd_state" where
  "wait_or_done E d s = (case on_env (ie_wait E d) s of (cancelled, s') \<Rightarrow> (if cancelled then Some () else None, s'))"

definition waitScanDone :: "'s iwd_env \<Rightarrow> string \<Rightarrow> ('s iwd_state, unit) op" where
  "waitScanDone E devPath s =
     (case on_env (ie_now E) s of
        (t, s') \<Rightarrow>
          poll scan_fuel (on_env (ie_now E)) (t + scan_deadline) (scan_body E devPath)
            (wait_or_done E scan_interval) () s')"

definition triggerScan :: "'s iwd_env \<Rightarrow> string \<Rightarrow> ('s iwd_state, unit) op" where
  "triggerScan E devPath s =
     (case iwd_call E devPath (ifaceStation @ ''.Scan'') [] s of (_, s') \<Rightarrow> waitScanDone E devPath s')"

definition iwd_ap :: "objects \<Rightarrow> string \<times> 16 word \<Rightarrow> AP list" where
  "iwd_ap m n =
     (case map_of m (fst n) of
        None \<Rightarrow> []
      | Some ifaces \<Rightarrow>
          let np = map_of ifaces ifaceNetwork in
          [\<lparr>ap_SSID = variantString (dict_get np ''Name''), ap_BSSID = [],
            ap_Signal = iwd_signalToQuality (snd n), ap_FreqMHz = 0,
            ap_KeyMgmt = iwdTypeToKeyMgmt (variantString (dict_get np ''Type''))\<rparr>])"

definition iwd_Scan :: "'s iwd_env \<Rightarrow> string \<Rightarrow> ('s iwd_state, AP list) op" where
  "iwd_Scan E iface s =
     (case devicePath E iface s of
        (None, s1) \<Rightarrow> (Inl (ErrNotFound (''interface '' @ iface)), s1)
      | (Some devPath, s1) \<Rightarrow>
          bindE (triggerScan E devPath) (\<lambda>_ s2.
            (case on_env (ie_ordered E devPath) s2 of
               (Inl e, s3) \<Rightarrow> (Inl (wrap_err ''ordered networks'' (dbus_werr e)), s3)
             | (Inr ordered, s3) \<Rightarrow>
                 bindE (managed E) (\<lambda>m. retE (concat (map (iwd_ap m) ordered))) s3)) s1)"

fun find_network :: "string \<Rightarrow> string \<Rightarrow> string \<Rightarrow> objects \<Rightarrow> string option" where
  "find_network devPath ssid typ [] = None"
| "find_network devPath ssid typ ((path, ifaces) # m) =
     (case map_of ifaces ifaceNetwork of
        None \<Rightarrow> find_network devPath ssid typ m
      | Some np \<Rightarrow>
          if variantPath (map_of np ''Device'') \<noteq> devPath then find_network devPath ssid typ m
          else if variantString (map_of np ''Name'') \<noteq> ssid then find_network devPath ssid typ m
          else if typ \<noteq> [] \<and> variantString (map_of np ''Type'') \<noteq> typ then find_network devPath ssid typ m
          else Some path)"

definition findNetwork :: "'s iwd_env \<Rightarrow> string \<Rightarrow> string \<Rightarrow> string \<Rightarrow> 's iwd_state \<Rightarrow> string option \<times> 's iwd_state" where
  "findNetwork E devPath ssid typ s =
     (case managed E s of
        (Inl _, s') \<Rightarrow> (None, s')
      | (Inr m, s') \<Rightarrow> (find_network devPath ssid typ m, s'))"

section \<open>The store\<close>

text \<open>
  Each system call may fail with a fault of the environment; a failing write either
  leaves the file as it was or a prefix of its data.  A name of the store is the file of that name in the directory:
  the names the program builds hold no slash.
\<close>

datatype dir_result = DirMissing | DirError string | DirEntries "(string \<times> bool) list"

definition os_ReadDir :: "'s iwd_env \<Rightarrow> 's iwd_state \<Rightarrow> dir_result \<times> 's iwd_state" where
  "os_ReadDir E s =
     (case on_env (ie_disk E) s of
        (Some (e, _), s') \<Rightarrow> (DirError e, s')
      | (None, s') \<Rightarrow>
          (if \<not> sto_exists (iw_store s') then DirMissing
           else DirEntries (map (\<lambda>(n, x). (n, x = DirNode)) (sort_key fst (sto_nodes (iw_store s')))), s'))"

definition os_ReadFile :: "'s iwd_env \<Rightarrow> string \<Rightarrow> ('s iwd_state, string) op" where
  "os_ReadFile E name s =
     (case on_env (ie_disk E) s of
        (Some (e, _), s') \<Rightarrow> (Inl (ErrOther e), s')
      | (None, s') \<Rightarrow>
          (case map_of (sto_nodes (iw_store s')) name of
             Some (FileNode c) \<Rightarrow> (Inr c, s')
           | Some DirNode \<Rightarrow> (Inl (ErrOther ''is a directory''), s')
           | None \<Rightarrow> (Inl (ErrOther ''no such file''), s')))"

definition os_MkdirAll :: "'s iwd_env \<Rightarrow> ('s iwd_state, unit) op" where
  "os_MkdirAll E s =
     (case on_env (ie_disk E) s of
        (Some (e, _), s') \<Rightarrow> (Inl (ErrOther e), s')
      | (None, s') \<Rightarrow> (Inr (), s'\<lparr>iw_store := (iw_store s')\<lparr>sto_exists := True\<rparr>\<rparr>))"

definition put_file :: "string \<Rightarrow> string \<Rightarrow> 's iwd_state \<Rightarrow> 's iwd_state" where
  "put_file name c s =
     s\<lparr>iw_store := (iw_store s)\<lparr>sto_nodes := AList.update name (FileNode c) (sto_nodes (iw_store s))\<rparr>\<rparr>"

definition os_WriteFile :: "'s iwd_env \<Rightarrow> string \<Rightarrow> string \<Rightarrow> ('s iwd_state, unit) op" where
  "os_WriteFile E name data s =
     (case on_env (ie_disk E) s of
        (f, s') \<Rightarrow>
          if map_of (sto_nodes (iw_store s')) name = Some DirNode then (Inl (ErrOther ''is a directory''), s')
          else (case f of
                  Some (e, None) \<Rightarrow> (Inl (ErrOther e), s')
                | Some (e, Some k) \<Rightarrow> (Inl (ErrOther e), put_file name (take k data) s')
                | None \<Rightarrow> (Inr (), put_file name data s')))"

definition os_Remove :: "'s iwd_env \<Rightarrow> string \<Rightarrow> ('s iwd_state, unit) op" where
  "os_Remove E name s =
     (case on_env (ie_disk E) s of
        (Some (e, _), s') \<Rightarrow> (Inl (ErrOther e), s')
      | (None, s') \<Rightarrow>
          if map_of (sto_nodes (iw_store s')) name = None then (Inl (ErrOther ''no such file''), s')
          else (Inr (), s'\<lparr>iw_store := (iw_store s')\<lparr>sto_nodes := AList.delete name (sto_nodes (iw_store s'))\<rparr>\<rparr>))"

definition writeProfile :: "'s iwd_env \<Rightarrow> string \<Rightarrow> string \<Rightarrow> ('s iwd_state, unit) op" where
  "writeProfile E name content = bindE (os_MkdirAll E) (\<lambda>_. os_WriteFile E name content)"

section \<open>Profiles\<close>

fun find_profile_entry :: "(string \<Rightarrow> string) \<Rightarrow> string \<Rightarrow> (string \<times> bool) list \<Rightarrow> (string \<times> string \<times> string) option" where
  "find_profile_entry sha id' [] = None"
| "find_profile_entry sha id' ((name, isdir) # es) =
     (if isdir then find_profile_entry sha id' es
      else (case parseProfileFilename name of
              None \<Rightarrow> find_profile_entry sha id' es
            | Some (s, t) \<Rightarrow>
                if DeriveID sha [s, t] = id' then Some (name, s, t) else find_profile_entry sha id' es))"

definition findProfileFile ::
  "'s iwd_env \<Rightarrow> string \<Rightarrow> 's iwd_state \<Rightarrow> (string \<times> string \<times> string) option \<times> 's iwd_state" where
  "findProfileFile E id' s =
     (case os_ReadDir E s of
        (DirEntries es, s') \<Rightarrow> (find_profile_entry (ie_sha E) id' es, s')
      | (_, s') \<Rightarrow> (None, s'))"

definition iwd_Profiles :: "'s iwd_env \<Rightarrow> ('s iwd_state, Profile list) op" where
  "iwd_Profiles E s =
     (case os_ReadDir E s of
        (DirMissing, s') \<Rightarrow> (Inr [], s')
      | (DirError e, s') \<Rightarrow> (Inl (ErrOther e), s')
      | (DirEntries es, s') \<Rightarrow>
          (case filter_mapS (\<lambda>(name, isdir) s.
                  if isdir then (None, s)
                  else (case parseProfileFilename name of
                          None \<Rightarrow> (None, s)
                        | Some (ssid, typ) \<Rightarrow>
                            (case os_ReadFile E name s of
                               (Inl _, s1) \<Rightarrow> (None, s1)
                             | (Inr data, s1) \<Rightarrow> (Some (parseProfile (ie_sha E) ssid typ data), s1)))) es s' of
             (out, s'') \<Rightarrow> (Inr out, s'')))"

definition iwd_Profile :: "'s iwd_env \<Rightarrow> string \<Rightarrow> ('s iwd_state, Profile) op" where
  "iwd_Profile E id' s =
     (case findProfileFile E id' s of
        (None, s') \<Rightarrow> (Inl (ErrNotFound (''profile '' @ id')), s')
      | (Some (name, ssid, typ), s') \<Rightarrow>
          bindE (os_ReadFile E name) (\<lambda>data. retE (parseProfile (ie_sha E) ssid typ data)) s')"

definition iwd_AddProfile :: "'s iwd_env \<Rightarrow> ProfileSpec \<Rightarrow> ('s iwd_state, Profile) op" where
  "iwd_AddProfile E spec =
     (if ps_SSID spec = [] then failE (ErrOther ''ssid is required'')
      else if sec_Kind (ps_Security spec) = SecEnterprise then failE (ErrUnsupported ''enterprise security'')
      else
        let typ = secKindToType (sec_Kind (ps_Security spec));
            content = renderProfile (sec_Kind (ps_Security spec)) (sec_Passphrase (ps_Security spec))
              (ps_Autoconnect spec) (ps_Hidden spec) (ps_IPv4 spec) (ps_IPv6 spec)
        in bindE (writeProfile E (profileFilename (ps_SSID spec) typ) content)
             (\<lambda>_. retE (parseProfile (ie_sha E) (ps_SSID spec) typ content)))"

text \<open>\<open>if patch.F != nil { spec.F = *patch.F }\<close>.\<close>

definition patched :: "'a option \<Rightarrow> 'a \<Rightarrow> 'a" where
  "patched p cur = (case p of None \<Rightarrow> cur | Some v \<Rightarrow> v)"

text \<open>The specification that a patch makes of the current profile and its stored secret.\<close>

definition iwd_patch_spec :: "Profile \<Rightarrow> string \<Rightarrow> ProfilePatch \<Rightarrow> ProfileSpec" where
  "iwd_patch_spec cur passphrase patch =
     \<lparr>ps_Name = [],
      ps_SSID = patched (pp_SSID patch) (pr_SSID cur),
      ps_Hidden = patched (pp_Hidden patch) (pr_Hidden cur),
      ps_Autoconnect = patched (pp_Autoconnect patch) (pr_Autoconnect cur),
      ps_Security = (case pp_Security patch of
           None \<Rightarrow> \<lparr>sec_Kind = sec_Kind (pr_Security cur), sec_Passphrase = passphrase\<rparr>
         | Some sec \<Rightarrow>
             if sec_Passphrase sec = [] \<and> sec_Kind sec = sec_Kind (pr_Security cur)
             then sec\<lparr>sec_Passphrase := passphrase\<rparr> else sec),
      ps_IPv4 = (case pp_IPv4 patch of None \<Rightarrow> Some (pr_IPv4 cur) | Some c \<Rightarrow> Some c),
      ps_IPv6 = (case pp_IPv6 patch of None \<Rightarrow> Some (pr_IPv6 cur) | Some c \<Rightarrow> Some c)\<rparr>"

text \<open>The end of \<open>PatchProfile\<close>: the old file is removed when the name changes, then the new one is written.\<close>

definition iwd_rewrite :: "'s iwd_env \<Rightarrow> string \<Rightarrow> ProfileSpec \<Rightarrow> ('s iwd_state, Profile) op" where
  "iwd_rewrite E name spec s =
     (if sec_Kind (ps_Security spec) = SecEnterprise then (Inl (ErrUnsupported ''enterprise security''), s)
      else
        let newType = secKindToType (sec_Kind (ps_Security spec));
            newName = profileFilename (ps_SSID spec) newType;
            content = renderProfile (sec_Kind (ps_Security spec)) (sec_Passphrase (ps_Security spec))
              (ps_Autoconnect spec) (ps_Hidden spec) (ps_IPv4 spec) (ps_IPv6 spec);
            s1 = (if newName \<noteq> name then snd (os_Remove E name s) else s)
        in bindE (writeProfile E newName content)
             (\<lambda>_. retE (parseProfile (ie_sha E) (ps_SSID spec) newType content)) s1)"

definition iwd_PatchProfile :: "'s iwd_env \<Rightarrow> string \<Rightarrow> ProfilePatch \<Rightarrow> ('s iwd_state, Profile) op" where
  "iwd_PatchProfile E id' patch s =
     (case findProfileFile E id' s of
        (None, s') \<Rightarrow> (Inl (ErrNotFound (''profile '' @ id')), s')
      | (Some (name, ssid, typ), s') \<Rightarrow>
          bindE (os_ReadFile E name) (\<lambda>data.
            let cur = parseProfile (ie_sha E) ssid typ data;
                passphrase = ini_str (parseINI data ''Security'') ''Passphrase''
            in iwd_rewrite E name (iwd_patch_spec cur passphrase patch)) s')"

definition iwd_DeleteProfile :: "'s iwd_env \<Rightarrow> string \<Rightarrow> ('s iwd_state, unit) op" where
  "iwd_DeleteProfile E id' s =
     (case findProfileFile E id' s of
        (None, s') \<Rightarrow> (Inl (ErrNotFound (''profile '' @ id')), s')
      | (Some (name, _, _), s') \<Rightarrow> os_Remove E name s')"

section \<open>Connections\<close>

record iwd_conn =
  icn_devPath :: string
  icn_dev :: "dict option"
  icn_station :: dict
  icn_netPath :: string

fun find_conn :: "(string \<Rightarrow> string) \<Rightarrow> objects \<Rightarrow> string \<Rightarrow> objects \<Rightarrow> iwd_conn option" where
  "find_conn sha m id' [] = None"
| "find_conn sha m id' ((path, ifaces) # rest) =
     (case map_of ifaces ifaceStation of
        None \<Rightarrow> find_conn sha m id' rest
      | Some st \<Rightarrow>
          let np = variantPath (map_of st ''ConnectedNetwork'') in
          if np = [] then find_conn sha m id' rest
          else (case map_of m np of
                  None \<Rightarrow> find_conn sha m id' rest
                | Some netIfaces \<Rightarrow>
                    let net = map_of netIfaces ifaceNetwork in
                    if DeriveID sha [variantString (dict_get net ''Name''), variantString (dict_get net ''Type'')] = id'
                    then Some \<lparr>icn_devPath = path, icn_dev = map_of ifaces ifaceDevice, icn_station = st, icn_netPath = np\<rparr>
                    else find_conn sha m id' rest))"

definition findConnByID :: "'s iwd_env \<Rightarrow> objects \<Rightarrow> string \<Rightarrow> iwd_conn option" where
  "findConnByID E m id' = find_conn (ie_sha E) m id' m"

definition connectedBSS :: "'s iwd_env \<Rightarrow> string \<Rightarrow> 's iwd_state \<Rightarrow> string \<times> 's iwd_state" where
  "connectedBSS E devPath s =
     (case on_env (ie_diag E devPath) s of
        (Inl _, s') \<Rightarrow> ([], s')
      | (Inr d, s') \<Rightarrow> (variantString (map_of d ''ConnectedBss''), s'))"

text \<open>\<open>m[path][iface]\<close>.\<close>

definition obj_iface :: "objects \<Rightarrow> string \<Rightarrow> string \<Rightarrow> dict option" where
  "obj_iface m path iface = (case map_of m path of None \<Rightarrow> None | Some ifaces \<Rightarrow> map_of ifaces iface)"

definition connectionByID :: "'s iwd_env \<Rightarrow> string \<Rightarrow> ('s iwd_state, Active) op" where
  "connectionByID E id' =
     bindE (managed E) (\<lambda>m s.
       (case findConnByID E m id' of
          None \<Rightarrow> (Inl (ErrNotFound (''connection '' @ id')), s)
        | Some c \<Rightarrow>
            (case connectedBSS E (icn_devPath c) s of
               (bss, s') \<Rightarrow>
                 (Inr \<lparr>ac_ID = id', ac_Iface = variantString (dict_get (icn_dev c) ''Name''), ac_ProfileID = id',
                       ac_SSID = variantString (dict_get (obj_iface m (icn_netPath c) ifaceNetwork) ''Name''),
                       ac_BSSID = bss\<rparr>, s'))))"

definition iwd_Activate :: "'s iwd_env \<Rightarrow> string \<Rightarrow> string \<Rightarrow> string \<Rightarrow> ('s iwd_state, Active) op" where
  "iwd_Activate E iface profileID bssid =
     bindE (iwd_Profile E profileID) (\<lambda>prof s.
       (case devicePath E iface s of
          (None, s1) \<Rightarrow> (Inl (ErrNotFound (''interface '' @ iface)), s1)
        | (Some devPath, s1) \<Rightarrow>
            bindE (triggerScan E devPath) (\<lambda>_ s2.
              (case findNetwork E devPath (pr_SSID prof) (secKindToType (sec_Kind (pr_Security prof))) s2 of
                 (None, s3) \<Rightarrow>
                   if pr_Hidden prof then
                     (case iwd_call E devPath (ifaceStation @ ''.ConnectHiddenNetwork'') [VString (pr_SSID prof)] s3 of
                        (Some e, s4) \<Rightarrow> (Inl (mapConnectErr e), s4)
                      | (None, s4) \<Rightarrow> connectionByID E profileID s4)
                   else (Inl (ErrNotFound (''network '' @ pr_SSID prof @ '' not in range'')), s3)
               | (Some netPath, s3) \<Rightarrow>
                   (case iwd_call E netPath (ifaceNetwork @ ''.Connect'') [] s3 of
                      (Some e, s4) \<Rightarrow> (Inl (mapConnectErr e), s4)
                    | (None, s4) \<Rightarrow> connectionByID E profileID s4))) s1))"

definition iwd_Deactivate :: "'s iwd_env \<Rightarrow> string \<Rightarrow> ('s iwd_state, unit) op" where
  "iwd_Deactivate E connID =
     bindE (managed E) (\<lambda>m s.
       (case findConnByID E m connID of
          None \<Rightarrow> (Inl (ErrNotFound (''connection '' @ connID)), s)
        | Some c \<Rightarrow>
            (case iwd_call E (icn_devPath c) (ifaceStation @ ''.Disconnect'') [] s of
               (Some e, s') \<Rightarrow> (Inl (dbus_werr e), s')
             | (None, s') \<Rightarrow> (Inr (), s'))))"

definition iwd_active :: "'s iwd_env \<Rightarrow> objects \<Rightarrow> string \<times> (string \<times> dict) list \<Rightarrow> 's iwd_state \<Rightarrow> Active option \<times> 's iwd_state" where
  "iwd_active E m entry s =
     (case entry of (devPath, ifaces) \<Rightarrow>
       (case map_of ifaces ifaceStation of
          None \<Rightarrow> (None, s)
        | Some st \<Rightarrow>
            let netPath = variantPath (map_of st ''ConnectedNetwork'') in
            if netPath = [] then (None, s)
            else
              let net = obj_iface m netPath ifaceNetwork;
                  ssid = variantString (dict_get net ''Name'');
                  id' = DeriveID (ie_sha E) [ssid, variantString (dict_get net ''Type'')]
              in (case connectedBSS E devPath s of
                    (bss, s') \<Rightarrow>
                      (Some \<lparr>ac_ID = id', ac_Iface = variantString (dict_get (map_of ifaces ifaceDevice) ''Name''),
                         ac_ProfileID = id', ac_SSID = ssid, ac_BSSID = bss\<rparr>, s'))))"

definition iwd_Connections :: "'s iwd_env \<Rightarrow> ('s iwd_state, Active list) op" where
  "iwd_Connections E =
     bindE (managed E) (\<lambda>m s. case filter_mapS (iwd_active E m) m s of (out, s') \<Rightarrow> (Inr out, s'))"

definition iwd_Connection :: "'s iwd_env \<Rightarrow> string \<Rightarrow> ('s iwd_state, Active) op" where
  "iwd_Connection E connID = connectionByID E connID"

section \<open>Status and watch\<close>

definition diag_status :: "(dbus_err + dict) \<Rightarrow> Status \<Rightarrow> Status" where
  "diag_status r st =
     (case r of
        Inl _ \<Rightarrow> st
      | Inr d \<Rightarrow>
          st\<lparr>st_BSSID := variantString (map_of d ''ConnectedBss''),
             st_Signal := (case map_of d ''RSSI'' of Some (VInt16 rssi) \<Rightarrow> iwd_dbmToQuality rssi | _ \<Rightarrow> st_Signal st)\<rparr>)"

definition iwd_buildStatus :: "'s iwd_env \<Rightarrow> string \<Rightarrow> string \<Rightarrow> string \<Rightarrow> 's iwd_state \<Rightarrow> Status \<times> 's iwd_state" where
  "iwd_buildStatus E devPath iface stateStr s =
     (case on_env (ie_diag E devPath) s of
        (r, s') \<Rightarrow>
          let st = diag_status r (zero_Status\<lparr>st_State := iwd_mapState stateStr\<rparr>) in
          (if st_State st = StateConnected
           then st\<lparr>st_Addresses := ifaceAddrs (ie_addrs E (iw_env s')) iface,
                   st_Gateway := defaultGateway (ie_read E (iw_env s')) iface,
                   st_DNS := dnsServers (ie_read E (iw_env s'))\<rparr>
           else st, s'))"

definition iwd_Status :: "'s iwd_env \<Rightarrow> string \<Rightarrow> ('s iwd_state, Status) op" where
  "iwd_Status E connID =
     bindE (managed E) (\<lambda>m s.
       (case findConnByID E m connID of
          None \<Rightarrow> (Inl (ErrNotFound (''connection '' @ connID)), s)
        | Some c \<Rightarrow>
            (case iwd_buildStatus E (icn_devPath c) (variantString (dict_get (icn_dev c) ''Name''))
                    (variantString (map_of (icn_station c) ''State'')) s of
               (st, s') \<Rightarrow> (Inr st, s'))))"

record iwd_watch =
  ww_last :: "ConnState option"
  ww_assoc :: bool

text \<open>\<open>emit\<close>: the status sent, if any, and whether the goroutine is done.\<close>

definition iwd_emit ::
  "'s iwd_env \<Rightarrow> string \<Rightarrow> string \<Rightarrow> string \<Rightarrow> iwd_watch \<Rightarrow> 's iwd_state
   \<Rightarrow> (Status option \<times> bool) \<times> iwd_watch \<times> 's iwd_state" where
  "iwd_emit E devPath iface stateStr w s =
     (case iwd_buildStatus E devPath iface stateStr s of
        (st0, s') \<Rightarrow>
          let assoc = (ww_assoc w \<or> st_State st0 = StateAssociating);
              st = (if st_State st0 = StateIdle \<and> assoc
                    then st0\<lparr>st_State := StateFailed, st_Error := ErrCUnknown\<rparr> else st0)
          in if Some (st_State st) = ww_last w then ((None, False), w\<lparr>ww_assoc := assoc\<rparr>, s')
             else ((Some st, st_State st = StateConnected \<or> st_State st = StateFailed),
                   \<lparr>ww_last = Some (st_State st), ww_assoc = assoc\<rparr>, s'))"

datatype iwd_step = Initial string | Event iwd_event

definition iwd_round ::
  "'s iwd_env \<Rightarrow> string \<Rightarrow> string \<Rightarrow> (iwd_step, iwd_watch, 's iwd_state) round" where
  "iwd_round E devPath iface e w s =
     (case e of
        Initial stateStr \<Rightarrow> iwd_emit E devPath iface stateStr w s
      | Event SignalsClosed \<Rightarrow> ((None, True), w, s)
      | Event (Signal path name iname changed len) \<Rightarrow>
          if path \<noteq> devPath \<or> name \<noteq> mPropChange \<or> len < 2 then ((None, False), w, s)
          else if iname \<noteq> ifaceStation then ((None, False), w, s)
          else (case dict_get changed ''State'' of
                  None \<Rightarrow> ((None, False), w, s)
                | Some v \<Rightarrow> iwd_emit E devPath iface (variantString (Some v)) w s))"

definition iwd_Watch :: "'s iwd_env \<Rightarrow> string \<Rightarrow> ('s iwd_state, Status list) op" where
  "iwd_Watch E connID =
     bindE (managed E) (\<lambda>m s.
       (case findConnByID E m connID of
          None \<Rightarrow> (Inl (ErrNotFound (''connection '' @ connID)), s)
        | Some c \<Rightarrow>
            (case on_env (ie_match E (icn_devPath c)) s of
               (Some e, s') \<Rightarrow> (Inl (dbus_werr e), s')
             | (None, s') \<Rightarrow>
                 (case watch_run (iwd_round E (icn_devPath c) (variantString (dict_get (icn_dev c) ''Name'')))
                         (Initial (variantString (map_of (icn_station c) ''State'')) # map Event (ie_signals E (iw_env s')))
                         \<lparr>ww_last = None, ww_assoc = False\<rparr> s' of
                    (sts, s'') \<Rightarrow> (Inr sts, s'')))))"

definition iwd_backend :: "'s iwd_env \<Rightarrow> 's iwd_state Backend" where
  "iwd_backend E = \<lparr>
     b_Interfaces = iwd_Interfaces E, b_Interface = iwd_Interface E, b_SetPower = iwd_SetPower E,
     b_Scan = iwd_Scan E, b_Profiles = iwd_Profiles E, b_Profile = iwd_Profile E,
     b_AddProfile = iwd_AddProfile E, b_PatchProfile = iwd_PatchProfile E,
     b_DeleteProfile = iwd_DeleteProfile E, b_Activate = iwd_Activate E,
     b_Deactivate = iwd_Deactivate E, b_Connections = iwd_Connections E,
     b_Connection = iwd_Connection E, b_Status = iwd_Status E, b_Watch = iwd_Watch E\<rparr>"

section \<open>Interfaces, scan and watch: lemmas\<close>

lemma find_device_name: "find_device n m = Some (p, ifs, dev) \<Longrightarrow> variantString (map_of dev ''Name'') = n"
  by (induction n m rule: find_device.induct) (auto split: option.splits if_splits)

lemma described_name: "if_Name (described rl ifs dev) = variantString (map_of dev ''Name'')"
  by (simp add: described_def deviceToIface_def Let_def)

interpretation iwd_named: named_backend "iwd_backend E" for E :: "'s iwd_env"
proof
  fix n it and s s' :: "'s iwd_state"
  assume "b_Interface (iwd_backend E) n s = (Inr it, s')"
  then show "if_Name it = n"
    by (auto simp: iwd_backend_def iwd_Interface_def bindE_def described_name find_device_name
        split: prod.splits sum.splits option.splits)
qed

lemma iwd_emit_Some:
  "iwd_emit E d i ss w s = ((Some st, stop), w', s') \<Longrightarrow>
     ww_last w \<noteq> Some (st_State st) \<and> ww_last w' = Some (st_State st) \<and>
     (stop \<longleftrightarrow> st_State st = StateConnected \<or> st_State st = StateFailed)"
  by (auto simp: iwd_emit_def Let_def split: prod.splits if_splits)

lemma iwd_emit_None:
  "iwd_emit E d i ss w s = ((None, stop), w', s') \<Longrightarrow> ww_last w' = ww_last w"
  by (auto simp: iwd_emit_def Let_def split: prod.splits if_splits)

lemma iwd_round_cases:
  assumes "iwd_round E d i e w s = ((r, stop), w', s')"
  obtains (emit) ss where "iwd_emit E d i ss w s = ((r, stop), w', s')"
  | (skip) "r = None" "w' = w"
  using assms by (auto simp: iwd_round_def split: iwd_step.splits iwd_event.splits if_splits option.splits)

interpretation iwd_watch: watch_contract "iwd_round E d i" ww_last for E :: "'s iwd_env" and d i
proof
  fix e w st stop w' and s s' :: "'s iwd_state"
  assume "iwd_round E d i e w s = ((Some st, stop), w', s')"
  then show "ww_last w \<noteq> Some (st_State st) \<and> ww_last w' = Some (st_State st)"
    by (rule iwd_round_cases) (auto dest: iwd_emit_Some)
next
  fix e w stop w' and s s' :: "'s iwd_state"
  assume "iwd_round E d i e w s = ((None, stop), w', s')"
  then show "ww_last w' = ww_last w"
    by (rule iwd_round_cases) (auto dest: iwd_emit_None)
qed

lemma iwd_stops: "stops_at (iwd_round E d i) terminal"
  unfolding stops_at_def terminal_def by (metis iwd_emit_Some iwd_round_cases option.distinct(1))

text \<open>Once an association was seen, no idle status follows: it is reported as a failure.\<close>

lemma iwd_round_assoc:
  "iwd_round E d i e w s = ((r, stop), w', s') \<Longrightarrow>
     (ww_assoc w \<longrightarrow> ww_assoc w') \<and>
     (\<forall>st. r = Some st \<longrightarrow> (st_State st = StateAssociating \<longrightarrow> ww_assoc w') \<and> (ww_assoc w \<longrightarrow> st_State st \<noteq> StateIdle))"
  by (auto simp: iwd_round_def iwd_emit_def Let_def
      split: iwd_step.splits iwd_event.splits if_splits option.splits prod.splits)

fun no_idle_after :: "bool \<Rightarrow> Status list \<Rightarrow> bool" where
  "no_idle_after b [] = True"
| "no_idle_after b (st # sts) =
     ((b \<longrightarrow> st_State st \<noteq> StateIdle) \<and> no_idle_after (b \<or> st_State st = StateAssociating) sts)"

lemma no_idle_weaken: "no_idle_after b sts \<Longrightarrow> \<not> c \<or> b \<Longrightarrow> no_idle_after c sts"
proof (induction b sts arbitrary: c rule: no_idle_after.induct)
  case (2 b st sts)
  have "no_idle_after (c \<or> st_State st = StateAssociating) sts" by (rule "2.IH") (use "2.prems" in auto)
  with "2.prems" show ?case by auto
qed simp

lemma iwd_run_no_idle:
  "watch_run (iwd_round E d i) es w s = (sts, s') \<Longrightarrow> no_idle_after (ww_assoc w) sts"
proof (induction es arbitrary: w s sts s')
  case (Cons e es)
  obtain r stop w1 s1 where rd: "iwd_round E d i e w s = ((r, stop), w1, s1)" by (metis prod.exhaust)
  obtain ts s2 where t: "(if stop then ([], s1) else watch_run (iwd_round E d i) es w1 s1) = (ts, s2)"
    by force
  have ts: "no_idle_after (ww_assoc w1) ts" using t Cons.IH by (cases stop) auto
  from iwd_round_assoc [OF rd] ts no_idle_weaken [OF ts] Cons.prems rd t show ?case
    by (cases r) auto
qed simp

text \<open>The clock law: reading the clock changes nothing, a completed wait advances it.\<close>

definition iwd_clock :: "'s iwd_env \<Rightarrow> ('s \<Rightarrow> int) \<Rightarrow> bool" where
  "iwd_clock E clk \<longleftrightarrow>
     (\<forall>e. ie_now E e = (clk e, e)) \<and>
     (\<forall>d e c e'. ie_wait E d e = (c, e') \<longrightarrow> clk e \<le> clk e' \<and> (\<not> c \<longrightarrow> clk e + d \<le> clk e')) \<and>
     (\<forall>p n e r e'. ie_prop E p n e = (r, e') \<longrightarrow> clk e \<le> clk e')"

lemma waitScanDone_returns:
  assumes "iwd_clock E clk"
  shows "\<exists>s'. waitScanDone E d s = (Inr (), s')"
proof -
  have now: "on_env (ie_now E) t = (clk (iw_env t), t)" for t
    using assms by (simp add: iwd_clock_def on_env_def)
  have "\<exists>r s'. poll scan_fuel (on_env (ie_now E)) (clk (iw_env s) + scan_deadline) (scan_body E d)
            (wait_or_done E scan_interval) () s = (Inr r, s')"
  proof (rule poll_enough_fuel [where clk = "\<lambda>t. clk (iw_env t)" and d = scan_interval])
    show "\<And>t x t'. on_env (ie_now E) t = (x, t') \<Longrightarrow> x = clk (iw_env t) \<and> clk (iw_env t') = clk (iw_env t)"
      using now by simp
    show "\<And>t r t'. scan_body E d t = (r, t') \<Longrightarrow> clk (iw_env t) \<le> clk (iw_env t')"
      using assms unfolding iwd_clock_def by (fastforce simp: scan_body_def on_env_def split: prod.splits sum.splits)
    show "\<And>t t'. wait_or_done E scan_interval t = (None, t') \<Longrightarrow> clk (iw_env t) + scan_interval \<le> clk (iw_env t')"
      using assms unfolding iwd_clock_def by (fastforce simp: wait_or_done_def on_env_def split: prod.splits if_splits)
  qed (simp_all add: scan_interval_def scan_deadline_def scan_fuel_def)
  then show ?thesis by (simp add: waitScanDone_def now)
qed

lemma managed_err: "managed E s = (Inl e, s') \<Longrightarrow> \<exists>m. e = ErrOther m"
  by (auto simp: managed_def dbus_werr_def split: prod.splits sum.splits)

end
