(* ===== verification/Iwd_Store.thy ===== *)
theory Iwd_Store
  imports Iwd_Backend
begin

text \<open>
  The profiles of the iwd backend as an abstract map: the store directory refines a map
  from networks (SSID and type) to file contents, and every profile operation acts on
  that map; then the properties of the backend as a whole.
\<close>

section \<open>The abstract store\<close>

definition known :: "store \<Rightarrow> string \<times> string \<Rightarrow> string option" where
  "known st k =
     (if snd k \<in> set profileTypes then
        (case map_of (sto_nodes st) (profileFilename (fst k) (snd k)) of Some (FileNode c) \<Rightarrow> Some c | _ \<Rightarrow> None)
      else None)"

text \<open>
  A store directory in order: one node per name, and every name that parses as a profile is
  a plain file under the name that the program itself would give it.
\<close>

definition store_ok :: "store \<Rightarrow> bool" where
  "store_ok st \<longleftrightarrow>
     distinct (map fst (sto_nodes st)) \<and>
     (\<not> sto_exists st \<longrightarrow> sto_nodes st = []) \<and>
     (\<forall>n x s t. (n, x) \<in> set (sto_nodes st) \<and> parseProfileFilename n = Some (s, t) \<longrightarrow>
        n = profileFilename s t \<and> x \<noteq> DirNode)"

text \<open>The derived ids of these networks do not collide.\<close>

definition ids_distinct :: "(string \<Rightarrow> string) \<Rightarrow> (string \<times> string) set \<Rightarrow> bool" where
  "ids_distinct sha K \<longleftrightarrow> (\<forall>k \<in> K. \<forall>k' \<in> K. DeriveID sha [fst k, snd k] = DeriveID sha [fst k', snd k'] \<longrightarrow> k = k')"

lemma parse_types: "parseProfileFilename n = Some (s, t) \<Longrightarrow> t \<in> set profileTypes"
  by (auto simp: parseProfileFilename_def Let_def split: option.splits if_splits)

lemma known_entry:
  assumes "store_ok st" and "(n, x) \<in> set (sto_nodes st)" and "parseProfileFilename n = Some (s, t)"
  shows "n = profileFilename s t \<and> x \<noteq> DirNode \<and> (\<exists>c. x = FileNode c \<and> known st (s, t) = Some c)"
proof -
  from assms have n: "n = profileFilename s t" "x \<noteq> DirNode" unfolding store_ok_def by blast+
  moreover from assms(1,2) have "map_of (sto_nodes st) n = Some x" unfolding store_ok_def by simp
  moreover from n(2) obtain c where "x = FileNode c" by (cases x) auto
  ultimately show ?thesis using parse_types [OF assms(3)] by (simp add: known_def)
qed

lemma known_node:
  assumes "known st (s, t) = Some c"
  shows "(profileFilename s t, FileNode c) \<in> set (sto_nodes st) \<and> t \<in> set profileTypes"
  using assms by (auto simp: known_def split: if_splits option.splits node.splits dest: map_of_SomeD)

lemma find_entry_Some:
  assumes "find_profile_entry sha i es = Some (n, s, t)"
  shows "(n, False) \<in> set es \<and> parseProfileFilename n = Some (s, t) \<and> DeriveID sha [s, t] = i"
  using assms
proof (induction es)
  case (Cons e es)
  obtain m d where e: "e = (m, d)" by force
  from Cons.prems e consider "find_profile_entry sha i es = Some (n, s, t)"
    | "\<not> d" "parseProfileFilename m = Some (s, t)" "DeriveID sha [s, t] = i" "m = n"
    by (auto split: if_splits option.splits)
  then show ?case by cases (use Cons.IH e in auto)
qed simp

lemma find_entry_None:
  assumes "find_profile_entry sha i es = None" and "(n, False) \<in> set es" and "parseProfileFilename n = Some (s, t)"
  shows "DeriveID sha [s, t] \<noteq> i"
  using assms
proof (induction es)
  case (Cons e es)
  obtain m d where e: "e = (m, d)" by force
  show ?case
  proof (cases "(n, False) = e")
    case True
    with Cons.prems e show ?thesis by (auto split: if_splits)
  next
    case False
    with Cons.prems have "(n, False) \<in> set es" by auto
    moreover from Cons.prems(1) e have "find_profile_entry sha i es = None"
      by (auto split: if_splits option.splits)
    ultimately show ?thesis using Cons.IH Cons.prems(3) by blast
  qed
qed simp

definition entries_of :: "store \<Rightarrow> (string \<times> bool) list" where
  "entries_of st = map (\<lambda>(n, x). (n, x = DirNode)) (sort_key fst (sto_nodes st))"

lemma entries_file: "(n, False) \<in> set (entries_of st) \<longleftrightarrow> (\<exists>x. (n, x) \<in> set (sto_nodes st) \<and> x \<noteq> DirNode)"
  by (force simp: entries_of_def)

text \<open>Looking a profile up by its id finds the network with that id, whatever the order of the directory.\<close>

lemma find_entry_known:
  assumes st: "store_ok st" and ids: "ids_distinct sha (dom (known st))" and k: "known st (s, t) = Some c"
  shows "find_profile_entry sha (DeriveID sha [s, t]) (entries_of st) = Some (profileFilename s t, s, t)"
proof -
  from known_node [OF k] have node: "(profileFilename s t, FileNode c) \<in> set (sto_nodes st)"
    and t: "t \<in> set profileTypes" by blast+
  from node have mem: "(profileFilename s t, False) \<in> set (entries_of st)" unfolding entries_file by blast
  show ?thesis
  proof (cases "find_profile_entry sha (DeriveID sha [s, t]) (entries_of st)")
    case None
    from find_entry_None [OF None mem parse_profileFilename [OF t]] show ?thesis by simp
  next
    case (Some r)
    obtain n s' t' where r: "r = (n, s', t')" by (metis prod.exhaust)
    from find_entry_Some [OF Some [unfolded r]] have e: "(n, False) \<in> set (entries_of st)"
      "parseProfileFilename n = Some (s', t')" "DeriveID sha [s', t'] = DeriveID sha [s, t]" by blast+
    from e(1) obtain x where x: "(n, x) \<in> set (sto_nodes st)" "x \<noteq> DirNode" unfolding entries_file by blast
    from known_entry [OF st x(1) e(2)] obtain c' where "n = profileFilename s' t'" "known st (s', t') = Some c'" by blast
    with ids e(3) k have "(s', t') = (s, t)" unfolding ids_distinct_def by (metis domI fst_conv snd_conv)
    with r Some \<open>n = profileFilename s' t'\<close> show ?thesis by simp
  qed
qed

lemma find_entry_unknown:
  assumes st: "store_ok st" and k: "\<And>k. known st k \<noteq> None \<Longrightarrow> DeriveID sha [fst k, snd k] \<noteq> i"
  shows "find_profile_entry sha i (entries_of st) = None"
proof (rule ccontr)
  assume "find_profile_entry sha i (entries_of st) \<noteq> None"
  then obtain n s t where f: "find_profile_entry sha i (entries_of st) = Some (n, s, t)"
    by (metis option.exhaust prod.exhaust)
  from find_entry_Some [OF f] have e: "(n, False) \<in> set (entries_of st)"
    "parseProfileFilename n = Some (s, t)" "DeriveID sha [s, t] = i" by blast+
  from e(1) obtain x where x: "(n, x) \<in> set (sto_nodes st)" unfolding entries_file by blast
  from known_entry [OF st x e(2)] k [of "(s, t)"] e(3) show False by auto
qed

section \<open>Directory operations on the map\<close>

definition put_node :: "string \<Rightarrow> string \<Rightarrow> store \<Rightarrow> store" where
  "put_node n c st = st\<lparr>sto_exists := True, sto_nodes := AList.update n (FileNode c) (sto_nodes st)\<rparr>"

definition del_node :: "string \<Rightarrow> store \<Rightarrow> store" where
  "del_node n st = st\<lparr>sto_nodes := AList.delete n (sto_nodes st)\<rparr>"

lemma known_put:
  assumes "t \<in> set profileTypes"
  shows "known (put_node (profileFilename s t) c st) = (known st)((s, t) \<mapsto> c)"
proof
  fix k :: "string \<times> string"
  obtain s' t' where k: "k = (s', t')" by force
  show "known (put_node (profileFilename s t) c st) k = ((known st)((s, t) \<mapsto> c)) k"
  proof (cases "k = (s, t)")
    case True
    with assms show ?thesis by (simp add: known_def put_node_def update_conv')
  next
    case False
    with k have "t' \<in> set profileTypes \<Longrightarrow> profileFilename s' t' \<noteq> profileFilename s t"
      using parse_profileFilename [OF assms, of s] parse_profileFilename [of t' s'] by auto
    with False k show ?thesis by (simp add: known_def put_node_def update_conv')
  qed
qed

lemma known_del:
  assumes "t \<in> set profileTypes"
  shows "known (del_node (profileFilename s t) st) = (known st)((s, t) := None)"
proof
  fix k :: "string \<times> string"
  obtain s' t' where k: "k = (s', t')" by force
  show "known (del_node (profileFilename s t) st) k = ((known st)((s, t) := None)) k"
  proof (cases "k = (s, t)")
    case True
    then show ?thesis by (simp add: known_def del_node_def delete_conv')
  next
    case False
    with k have "t' \<in> set profileTypes \<Longrightarrow> profileFilename s' t' \<noteq> profileFilename s t"
      using parse_profileFilename [OF assms, of s] parse_profileFilename [of t' s'] by auto
    with False k show ?thesis by (simp add: known_def del_node_def delete_conv')
  qed
qed

lemma set_update: "(n, x) \<in> set (AList.update k v xs) \<Longrightarrow> (n, x) \<in> set xs \<or> n = k \<and> x = v"
  by (induction xs) (auto split: if_splits)

lemma store_ok_put:
  assumes st: "store_ok st" and t: "t \<in> set profileTypes"
  shows "store_ok (put_node (profileFilename s t) c st)"
proof -
  have "distinct (map fst (AList.update (profileFilename s t) (FileNode c) (sto_nodes st)))"
    using st unfolding store_ok_def by (simp add: distinct_update)
  moreover have "n = profileFilename s' t' \<and> x \<noteq> DirNode"
    if "(n, x) \<in> set (AList.update (profileFilename s t) (FileNode c) (sto_nodes st))"
      "parseProfileFilename n = Some (s', t')" for n x s' t'
    using set_update [OF that(1)] that(2) st parse_profileFilename [OF t, of s] unfolding store_ok_def by auto
  ultimately show ?thesis by (auto simp: store_ok_def put_node_def)
qed

lemma store_ok_del: "store_ok st \<Longrightarrow> store_ok (del_node n st)"
proof -
  assume st: "store_ok st"
  have sub: "set (AList.delete n (sto_nodes st)) \<subseteq> set (sto_nodes st)" by (auto simp: AList.delete_eq)
  from st have "distinct (map fst (AList.delete n (sto_nodes st)))"
    unfolding store_ok_def by (simp add: distinct_delete)
  moreover from st have "\<not> sto_exists st \<longrightarrow> AList.delete n (sto_nodes st) = []"
    by (simp add: store_ok_def)
  moreover from st sub have "\<forall>m x s t. (m, x) \<in> set (AList.delete n (sto_nodes st)) \<and>
      parseProfileFilename m = Some (s, t) \<longrightarrow> m = profileFilename s t \<and> x \<noteq> DirNode"
    unfolding store_ok_def by blast
  ultimately show ?thesis by (simp add: store_ok_def del_node_def)
qed

text \<open>A disk without faults.\<close>

definition calm :: "'s iwd_env \<Rightarrow> bool" where
  "calm E \<longleftrightarrow> (\<forall>e. fst (ie_disk E e) = None)"

lemma calm_disk: "calm E \<Longrightarrow> \<exists>e. on_env (ie_disk E) s = (None, s\<lparr>iw_env := e\<rparr>)"
  by (cases "ie_disk E (iw_env s)") (auto simp: calm_def on_env_def, metis fst_conv)

lemma calm_ReadDir:
  assumes "calm E"
  shows "\<exists>e. os_ReadDir E s = (if sto_exists (iw_store s) then DirEntries (entries_of (iw_store s)) else DirMissing, s\<lparr>iw_env := e\<rparr>)"
  using calm_disk [OF assms, of s] by (auto simp: os_ReadDir_def entries_of_def)

lemma calm_find:
  assumes "calm E" and "store_ok (iw_store s)"
  shows "\<exists>e. findProfileFile E i s = (find_profile_entry (ie_sha E) i (entries_of (iw_store s)), s\<lparr>iw_env := e\<rparr>)"
proof -
  from calm_ReadDir [OF assms(1), of s] obtain e where
    r: "os_ReadDir E s = (if sto_exists (iw_store s) then DirEntries (entries_of (iw_store s)) else DirMissing, s\<lparr>iw_env := e\<rparr>)" by blast
  have "\<not> sto_exists (iw_store s) \<Longrightarrow> entries_of (iw_store s) = []"
    using assms(2) by (simp add: store_ok_def entries_of_def)
  with r show ?thesis by (cases "sto_exists (iw_store s)") (auto simp: findProfileFile_def)
qed

lemma calm_read:
  assumes "calm E" and "known (iw_store s) (x, t) = Some c"
  shows "\<exists>e. os_ReadFile E (profileFilename x t) s = (Inr c, s\<lparr>iw_env := e\<rparr>)"
  using calm_disk [OF assms(1), of s] assms(2)
  by (auto simp: os_ReadFile_def known_def split: if_splits option.splits node.splits)

lemma calm_write:
  assumes "calm E" and "store_ok (iw_store s)" and "t \<in> set profileTypes"
  shows "\<exists>e. writeProfile E (profileFilename x t) c s
           = (Inr (), s\<lparr>iw_env := e, iw_store := put_node (profileFilename x t) c (iw_store s)\<rparr>)"
proof -
  from calm_disk [OF assms(1), of s] obtain e1 where e1: "on_env (ie_disk E) s = (None, s\<lparr>iw_env := e1\<rparr>)" by blast
  define s1 where "s1 = s\<lparr>iw_env := e1, iw_store := (iw_store s)\<lparr>sto_exists := True\<rparr>\<rparr>"
  from calm_disk [OF assms(1), of s1] obtain e2 where e2: "on_env (ie_disk E) s1 = (None, s1\<lparr>iw_env := e2\<rparr>)" by blast
  have mk: "os_MkdirAll E s = (Inr (), s1)" by (simp add: os_MkdirAll_def e1 s1_def)
  have "map_of (sto_nodes (iw_store s)) (profileFilename x t) \<noteq> Some DirNode"
    using assms(2) parse_profileFilename [OF assms(3), of x] unfolding store_ok_def
    by (blast dest: map_of_SomeD)
  then have "os_WriteFile E (profileFilename x t) c s1 = (Inr (), put_file (profileFilename x t) c (s1\<lparr>iw_env := e2\<rparr>))"
    by (simp add: os_WriteFile_def e2) (simp add: s1_def)
  with mk have "writeProfile E (profileFilename x t) c s
      = (Inr (), s\<lparr>iw_env := e2, iw_store := put_node (profileFilename x t) c (iw_store s)\<rparr>)"
    by (simp add: writeProfile_def put_file_def put_node_def s1_def)
  then show ?thesis by blast
qed

lemma calm_remove:
  assumes "calm E" and "known (iw_store s) (x, t) = Some c"
  shows "\<exists>e. os_Remove E (profileFilename x t) s
           = (Inr (), s\<lparr>iw_env := e, iw_store := del_node (profileFilename x t) (iw_store s)\<rparr>)"
proof -
  from known_node [OF assms(2)] have "map_of (sto_nodes (iw_store s)) (profileFilename x t) \<noteq> None"
    by (metis map_of_eq_None_iff fst_conv image_eqI)
  with calm_disk [OF assms(1), of s] show ?thesis by (auto simp: os_Remove_def del_node_def)
qed

section \<open>The profile operations refine the map\<close>

text \<open>What each operation promises of the map of known networks.\<close>

definition spec_content :: "ProfileSpec \<Rightarrow> string" where
  "spec_content spec = renderProfile (sec_Kind (ps_Security spec)) (sec_Passphrase (ps_Security spec))
     (ps_Autoconnect spec) (ps_Hidden spec) (ps_IPv4 spec) (ps_IPv6 spec)"

definition spec_key :: "ProfileSpec \<Rightarrow> string \<times> string" where
  "spec_key spec = (ps_SSID spec, secKindToType (sec_Kind (ps_Security spec)))"

definition profile_of :: "(string \<Rightarrow> string) \<Rightarrow> string \<times> string \<Rightarrow> string \<Rightarrow> Profile" where
  "profile_of sha k c = parseProfile sha (fst k) (snd k) c"

lemma profile_of_ID [simp]: "pr_ID (profile_of sha k c) = DeriveID sha [fst k, snd k]"
  by (simp add: profile_of_def parseProfile_def Let_def)

lemma Profile_known:
  assumes "calm E" and "store_ok (iw_store s)" and "ids_distinct (ie_sha E) (dom (known (iw_store s)))"
    and "known (iw_store s) k = Some c"
  shows "\<exists>e. iwd_Profile E (DeriveID (ie_sha E) [fst k, snd k]) s = (Inr (profile_of (ie_sha E) k c), s\<lparr>iw_env := e\<rparr>)"
proof -
  obtain x t where k: "k = (x, t)" by force
  from calm_find [OF assms(1,2)] find_entry_known [OF assms(2,3) assms(4) [unfolded k]] obtain e1 where
    f: "findProfileFile E (DeriveID (ie_sha E) [x, t]) s = (Some (profileFilename x t, x, t), s\<lparr>iw_env := e1\<rparr>)"
    by metis
  from calm_read [OF assms(1), of "s\<lparr>iw_env := e1\<rparr>" x t c] assms(4) k obtain e2 where
    "os_ReadFile E (profileFilename x t) (s\<lparr>iw_env := e1\<rparr>) = (Inr c, s\<lparr>iw_env := e2\<rparr>)" by auto
  with f k show ?thesis by (simp add: iwd_Profile_def profile_of_def) blast
qed

lemma Profile_unknown:
  assumes "calm E" and "store_ok (iw_store s)"
    and "\<And>k. known (iw_store s) k \<noteq> None \<Longrightarrow> DeriveID (ie_sha E) [fst k, snd k] \<noteq> i"
  shows "\<exists>e. iwd_Profile E i s = (Inl (ErrNotFound (''profile '' @ i)), s\<lparr>iw_env := e\<rparr>)"
proof -
  from calm_find [OF assms(1,2), of i] find_entry_unknown [OF assms(2,3)] obtain e where
    "findProfileFile E i s = (None, s\<lparr>iw_env := e\<rparr>)" by metis
  then show ?thesis by (simp add: iwd_Profile_def) blast
qed

lemma AddProfile_known:
  assumes "calm E" and "store_ok (iw_store s)" and "ps_SSID spec \<noteq> []" and "sec_Kind (ps_Security spec) \<noteq> SecEnterprise"
  shows "\<exists>s'. iwd_AddProfile E spec s = (Inr (profile_of (ie_sha E) (spec_key spec) (spec_content spec)), s') \<and>
     known (iw_store s') = (known (iw_store s))(spec_key spec \<mapsto> spec_content spec) \<and> store_ok (iw_store s')"
proof -
  let ?t = "secKindToType (sec_Kind (ps_Security spec))"
  from calm_write [OF assms(1,2), of ?t "ps_SSID spec" "spec_content spec"] obtain e where
    w: "writeProfile E (profileFilename (ps_SSID spec) ?t) (spec_content spec) s =
      (Inr (), s\<lparr>iw_env := e, iw_store := put_node (profileFilename (ps_SSID spec) ?t) (spec_content spec) (iw_store s)\<rparr>)"
    by auto
  with assms(3,4) have "iwd_AddProfile E spec s = (Inr (profile_of (ie_sha E) (spec_key spec) (spec_content spec)),
      s\<lparr>iw_env := e, iw_store := put_node (profileFilename (ps_SSID spec) ?t) (spec_content spec) (iw_store s)\<rparr>)"
    by (simp add: iwd_AddProfile_def spec_content_def [symmetric] profile_of_def spec_key_def Let_def)
  then show ?thesis using assms(2) by (simp add: known_put store_ok_put spec_key_def)
qed

lemma DeleteProfile_known:
  assumes "calm E" and "store_ok (iw_store s)" and "ids_distinct (ie_sha E) (dom (known (iw_store s)))"
    and "known (iw_store s) k = Some c"
  shows "\<exists>s'. iwd_DeleteProfile E (DeriveID (ie_sha E) [fst k, snd k]) s = (Inr (), s') \<and>
     known (iw_store s') = (known (iw_store s))(k := None) \<and> store_ok (iw_store s')"
proof -
  obtain x t where k: "k = (x, t)" by force
  from calm_find [OF assms(1,2)] find_entry_known [OF assms(2,3) assms(4) [unfolded k]] obtain e1 where
    f: "findProfileFile E (DeriveID (ie_sha E) [x, t]) s = (Some (profileFilename x t, x, t), s\<lparr>iw_env := e1\<rparr>)"
    by metis
  from calm_remove [OF assms(1), of "s\<lparr>iw_env := e1\<rparr>" x t c] assms(4) k obtain e2 where
    "os_Remove E (profileFilename x t) (s\<lparr>iw_env := e1\<rparr>) =
       (Inr (), s\<lparr>iw_env := e2, iw_store := del_node (profileFilename x t) (iw_store s)\<rparr>)" by auto
  moreover from known_node assms(4) k have "t \<in> set profileTypes" by blast
  ultimately show ?thesis using f k assms(2) by (simp add: iwd_DeleteProfile_def known_del store_ok_del)
qed

lemma rewrite_known:
  assumes "calm E" and "store_ok (iw_store s)" and "known (iw_store s) k = Some c"
    and "sec_Kind (ps_Security spec) \<noteq> SecEnterprise"
  shows "\<exists>s'. iwd_rewrite E (profileFilename (fst k) (snd k)) spec s =
       (Inr (profile_of (ie_sha E) (spec_key spec) (spec_content spec)), s') \<and>
     known (iw_store s') = ((known (iw_store s))(k := None))(spec_key spec \<mapsto> spec_content spec) \<and> store_ok (iw_store s')"
proof -
  obtain x t where k: "k = (x, t)" by force
  let ?t = "secKindToType (sec_Kind (ps_Security spec))"
  let ?n = "profileFilename (ps_SSID spec) ?t"
  from known_node assms(3) k have t: "t \<in> set profileTypes" by blast
  have same: "?n = profileFilename x t \<longleftrightarrow> spec_key spec = k"
    using parse_profileFilename [OF t, of x] parse_profileFilename [of ?t "ps_SSID spec"] by (auto simp: k spec_key_def)
  define s1 where "s1 = (if ?n \<noteq> profileFilename x t then snd (os_Remove E (profileFilename x t) s) else s)"
  from calm_remove [OF assms(1) assms(3) [unfolded k]] obtain e1 where
    r: "os_Remove E (profileFilename x t) s = (Inr (), s\<lparr>iw_env := e1, iw_store := del_node (profileFilename x t) (iw_store s)\<rparr>)"
    by blast
  have s1: "store_ok (iw_store s1)" "known (iw_store s1) = (if spec_key spec = k then known (iw_store s) else (known (iw_store s))(k := None))"
    using r assms(2) same t by (auto simp: s1_def store_ok_del known_del k)
  from calm_write [OF assms(1) s1(1), of ?t "ps_SSID spec" "spec_content spec"] obtain e where
    w: "writeProfile E ?n (spec_content spec) s1 = (Inr (), s1\<lparr>iw_env := e, iw_store := put_node ?n (spec_content spec) (iw_store s1)\<rparr>)"
    by auto
  with assms(4) have "iwd_rewrite E (profileFilename (fst k) (snd k)) spec s =
     (Inr (profile_of (ie_sha E) (spec_key spec) (spec_content spec)),
      s1\<lparr>iw_env := e, iw_store := put_node ?n (spec_content spec) (iw_store s1)\<rparr>)"
    by (simp add: iwd_rewrite_def Let_def k spec_content_def [symmetric] s1_def [symmetric] profile_of_def spec_key_def)
  moreover have "known (put_node ?n (spec_content spec) (iw_store s1))
      = ((known (iw_store s))(k := None))(spec_key spec \<mapsto> spec_content spec)"
    using s1(2) by (auto simp: known_put spec_key_def [symmetric] fun_upd_twist)
  ultimately show ?thesis using s1(1) by (simp add: store_ok_put)
qed

lemma PatchProfile_known:
  fixes patch :: ProfilePatch
  assumes "calm E" and "store_ok (iw_store s)" and "ids_distinct (ie_sha E) (dom (known (iw_store s)))"
    and "known (iw_store s) k = Some c"
  defines "spec \<equiv> iwd_patch_spec (profile_of (ie_sha E) k c) (ini_str (parseINI c ''Security'') ''Passphrase'') patch"
  assumes "sec_Kind (ps_Security spec) \<noteq> SecEnterprise"
  shows "\<exists>s'. iwd_PatchProfile E (DeriveID (ie_sha E) [fst k, snd k]) patch s =
       (Inr (profile_of (ie_sha E) (spec_key spec) (spec_content spec)), s') \<and>
     known (iw_store s') = ((known (iw_store s))(k := None))(spec_key spec \<mapsto> spec_content spec) \<and> store_ok (iw_store s')"
proof -
  obtain x t where k: "k = (x, t)" by force
  from calm_find [OF assms(1,2)] find_entry_known [OF assms(2,3) assms(4) [unfolded k]] obtain e1 where
    f: "findProfileFile E (DeriveID (ie_sha E) [x, t]) s = (Some (profileFilename x t, x, t), s\<lparr>iw_env := e1\<rparr>)"
    by metis
  from calm_read [OF assms(1), of "s\<lparr>iw_env := e1\<rparr>" x t c] assms(4) k obtain e2 where
    r: "os_ReadFile E (profileFilename x t) (s\<lparr>iw_env := e1\<rparr>) = (Inr c, s\<lparr>iw_env := e2\<rparr>)" by auto
  from rewrite_known [OF assms(1), of "s\<lparr>iw_env := e2\<rparr>" k c spec] assms obtain s' where
    w: "iwd_rewrite E (profileFilename x t) spec (s\<lparr>iw_env := e2\<rparr>) =
       (Inr (profile_of (ie_sha E) (spec_key spec) (spec_content spec)), s')"
    and s': "known (iw_store s') = ((known (iw_store s))(k := None))(spec_key spec \<mapsto> spec_content spec)" "store_ok (iw_store s')"
    by (auto simp: k)
  have "iwd_PatchProfile E (DeriveID (ie_sha E) [fst k, snd k]) patch s = iwd_rewrite E (profileFilename x t) spec (s\<lparr>iw_env := e2\<rparr>)"
    by (simp add: iwd_PatchProfile_def k f r spec_def Let_def profile_of_def)
  with w s' show ?thesis by simp
qed

section \<open>Properties\<close>

text \<open>A small environment and store to evaluate on.\<close>

definition objects0 :: objects where
  "objects0 =
     [(''/phy0/3'',
        [(ifaceDevice, [(''Name'', VString ''wlan0''), (''Address'', VString ''02:AA:00:00:00:01''),
            (''Powered'', VBool True), (''Mode'', VString ''station'')]),
         (ifaceStation, [(''State'', VString ''connecting''), (''ConnectedNetwork'', VPath ''/phy0/3/net'')])]),
      (''/phy0/3/net'',
        [(ifaceNetwork, [(''Name'', VString ''HomeNet''), (''Type'', VString ''psk''), (''Device'', VPath ''/phy0/3'')])])]"

definition state_signal :: "string \<Rightarrow> iwd_event" where
  "state_signal v = Signal ''/phy0/3'' mPropChange ifaceStation (Some [(''State'', VString v)]) 3"

text \<open>The state of the environment is its clock.\<close>

definition env0 :: "int iwd_env" where
  "env0 = \<lparr>ie_managed = (\<lambda>t. (Inr objects0, t)), ie_call = (\<lambda>p m a t. (None, t)),
     ie_prop = (\<lambda>p n t. (Inr (VBool True), t)), ie_ordered = (\<lambda>p t. (Inr [], t)),
     ie_diag = (\<lambda>p t. (Inr [], t)), ie_match = (\<lambda>p t. (None, t)),
     ie_signals = (\<lambda>t. [state_signal ''connecting'', state_signal ''disconnected'', state_signal ''connected'']),
     ie_now = (\<lambda>t. (t, t)), ie_wait = (\<lambda>d t. (False, t + \<bar>d\<bar>)), ie_disk = (\<lambda>t. (None, t)),
     ie_readlink = (\<lambda>t n. Some ''../../../0000:02:00.0''), ie_addrs = (\<lambda>t n. None), ie_read = (\<lambda>t p. None),
     ie_sha = (\<lambda>x. x)\<rparr>"

definition home_file :: string where
  "home_file = renderProfile SecPSK ''correct horse'' True False None None"

definition state0 :: "int iwd_state" where
  "state0 = \<lparr>iw_env = 0, iw_store = \<lparr>sto_exists = True, sto_nodes = [(''HomeNet.psk'', FileNode home_file)]\<rparr>\<rparr>"

lemma env0_sel [simp]: "ie_sha env0 = (\<lambda>x. x)" "ie_disk env0 = (\<lambda>t. (None, t))"
  by (simp_all add: env0_def)

lemma calm_env0: "calm env0"
  by (simp add: calm_def)

lemma env0_clock: "iwd_clock env0 (\<lambda>t. t)"
  by (auto simp: iwd_clock_def env0_def)

lemma ids_distinct_id: "K \<subseteq> UNIV \<times> set profileTypes \<Longrightarrow> ids_distinct (\<lambda>x. x) K"
proof -
  assume K: "K \<subseteq> UNIV \<times> set profileTypes"
  have "k = k'" if k: "k \<in> K" "k' \<in> K" and eq: "Join [fst k, snd k] [NUL] = Join [fst k', snd k'] [NUL]" for k k'
  proof -
    have n: "NUL \<notin> set (snd k)" "NUL \<notin> set (snd k')" using K k profileTypes_no_dot by fastforce+
    from ssid_type_key_inj [OF n eq] show ?thesis by (simp add: prod_eq_iff)
  qed
  then show ?thesis unfolding ids_distinct_def DeriveID_def by blast
qed

lemma known_types: "dom (known st) \<subseteq> UNIV \<times> set profileTypes"
  by (auto simp: known_def split: if_splits)

lemma home_name: "parseProfileFilename ''HomeNet.psk'' = Some (''HomeNet'', ''psk'')" "profileFilename ''HomeNet'' ''psk'' = ''HomeNet.psk''"
  by code_simp+

lemma state0_ok: "store_ok (iw_store state0)"
  by (auto simp: store_ok_def state0_def home_name)

lemma state0_known: "known (iw_store state0) (''HomeNet'', ''psk'') = Some home_file"
  by (simp add: known_def state0_def home_name profileTypes_def)

lemma state0_ids: "ids_distinct (ie_sha env0) (dom (known (iw_store state0)))"
  using ids_distinct_id known_types by simp

text \<open>C1: Adding a profile refines insertion into the map of known networks: on a disk without faults the new network holds the content rendered for the specification and every other network keeps its content; the returned profile is found again under its id; and the directory stays in order.\<close>

theorem iwd_add_refines_insert:
  assumes "calm E" and "store_ok (iw_store s)" and "ps_SSID spec \<noteq> []" and "sec_Kind (ps_Security spec) \<noteq> SecEnterprise"
    and ids: "ids_distinct (ie_sha E) (insert (spec_key spec) (dom (known (iw_store s))))"
  shows "\<exists>p s'. iwd_AddProfile E spec s = (Inr p, s') \<and> pr_SSID p = ps_SSID spec \<and>
     known (iw_store s') = (known (iw_store s))(spec_key spec \<mapsto> spec_content spec) \<and>
     store_ok (iw_store s') \<and> fst (iwd_Profile E (pr_ID p) s') = Inr p"
proof -
  from AddProfile_known [OF assms(1-4)] obtain s' where
    a: "iwd_AddProfile E spec s = (Inr (profile_of (ie_sha E) (spec_key spec) (spec_content spec)), s')"
    and k: "known (iw_store s') = (known (iw_store s))(spec_key spec \<mapsto> spec_content spec)"
    and ok: "store_ok (iw_store s')" by blast
  from k have "dom (known (iw_store s')) = insert (spec_key spec) (dom (known (iw_store s)))" by simp
  with ids have "ids_distinct (ie_sha E) (dom (known (iw_store s')))" by simp
  moreover from k have "known (iw_store s') (spec_key spec) = Some (spec_content spec)" by simp
  ultimately have "fst (iwd_Profile E (DeriveID (ie_sha E) [fst (spec_key spec), snd (spec_key spec)]) s')
      = Inr (profile_of (ie_sha E) (spec_key spec) (spec_content spec))"
    using Profile_known [OF assms(1) ok] by fastforce
  then show ?thesis using a k ok
    by (auto simp: profile_of_def parseProfile_def Let_def spec_key_def)
qed

definition cafe_spec :: ProfileSpec where
  "cafe_spec = \<lparr>ps_Name = ''x'', ps_SSID = ''Cafe.1'', ps_Hidden = True, ps_Autoconnect = False,
     ps_Security = \<lparr>sec_Kind = SecOpen, sec_Passphrase = []\<rparr>, ps_IPv4 = None, ps_IPv6 = None\<rparr>"

lemma iwd_add_refines_insert_witness:
  "\<exists>p s'. iwd_AddProfile env0 cafe_spec state0 = (Inr p, s') \<and> known (iw_store s') (''HomeNet'', ''psk'') = Some home_file"
proof -
  have "ids_distinct (ie_sha env0) (insert (spec_key cafe_spec) (dom (known (iw_store state0))))"
    using known_types by (auto intro!: ids_distinct_id simp: spec_key_def)
  from iwd_add_refines_insert [OF calm_env0 state0_ok _ _ this] state0_known show ?thesis
    by (auto simp: cafe_spec_def spec_key_def)
qed

text \<open>C3: Deleting a profile by its id removes exactly that network from the map of known networks, and afterwards the id is not found.\<close>

theorem iwd_delete_refines_remove:
  assumes "calm E" and "store_ok (iw_store s)" and ids: "ids_distinct (ie_sha E) (dom (known (iw_store s)))"
    and k: "known (iw_store s) k = Some c"
  shows "\<exists>s'. iwd_DeleteProfile E (DeriveID (ie_sha E) [fst k, snd k]) s = (Inr (), s') \<and>
     known (iw_store s') = (known (iw_store s))(k := None) \<and> store_ok (iw_store s') \<and>
     (\<exists>m. fst (iwd_Profile E (DeriveID (ie_sha E) [fst k, snd k]) s') = Inl (ErrNotFound m))"
proof -
  from DeleteProfile_known [OF assms] obtain s' where
    d: "iwd_DeleteProfile E (DeriveID (ie_sha E) [fst k, snd k]) s = (Inr (), s')"
    and k': "known (iw_store s') = (known (iw_store s))(k := None)" and ok: "store_ok (iw_store s')" by blast
  have "DeriveID (ie_sha E) [fst k2, snd k2] \<noteq> DeriveID (ie_sha E) [fst k, snd k]"
    if "known (iw_store s') k2 \<noteq> None" for k2
  proof
    assume eq: "DeriveID (ie_sha E) [fst k2, snd k2] = DeriveID (ie_sha E) [fst k, snd k]"
    from that k' have "k2 \<in> dom (known (iw_store s))" "k2 \<noteq> k" by (auto split: if_splits)
    with ids eq k show False unfolding ids_distinct_def by blast
  qed
  from Profile_unknown [OF assms(1) ok this] d k' ok show ?thesis by fastforce
qed

lemma iwd_delete_refines_remove_witness:
  "\<exists>s'. iwd_DeleteProfile env0 (''HomeNet'' @ [NUL] @ ''psk'') state0 = (Inr (), s') \<and> known (iw_store s') (''HomeNet'', ''psk'') = None"
  using iwd_delete_refines_remove [OF calm_env0 state0_ok state0_ids state0_known] by (auto simp: DeriveID_def)


definition rename_patch :: ProfilePatch where
  "rename_patch = \<lparr>pp_Name = None, pp_SSID = Some ''NewNet'', pp_Hidden = Some True, pp_Autoconnect = None,
     pp_Security = None, pp_IPv4 = None, pp_IPv6 = None\<rparr>"

lemma home_profile:
  "ini_str (parseINI home_file ''Security'') ''Passphrase'' = ''correct horse''"
  "pr_IPv4 (parseProfile sha x t home_file) = auto_ip" "pr_IPv6 (parseProfile sha x t home_file) = auto_ip"
proof -
  have c: "clean ''correct horse''" by (simp add: clean_def solid_def char_eval)
  have s: "storable4 None" "storable6 None" by (simp_all add: storable4_def storable6_def)
  note r = parseProfile_rendered [OF s, of "''correct horse''"] passphrase_rendered [OF s, of "''correct horse''"]
  show "ini_str (parseINI home_file ''Security'') ''Passphrase'' = ''correct horse''"
    using r(2) c by (simp add: home_file_def)
  show "pr_IPv4 (parseProfile sha x t home_file) = auto_ip" "pr_IPv6 (parseProfile sha x t home_file) = auto_ip"
    using r(1) c by (simp_all add: home_file_def kept4_def kept6_def)
qed



definition failing_env :: "(string \<times> nat option) option list iwd_env" where
  "failing_env = \<lparr>ie_managed = (\<lambda>l. (Inr objects0, l)), ie_call = (\<lambda>p m a l. (None, l)),
     ie_prop = (\<lambda>p n l. (Inr (VBool False), l)), ie_ordered = (\<lambda>p l. (Inr [], l)),
     ie_diag = (\<lambda>p l. (Inr [], l)), ie_match = (\<lambda>p l. (None, l)), ie_signals = (\<lambda>l. []),
     ie_now = (\<lambda>l. (0, l)), ie_wait = (\<lambda>d l. (False, l)),
     ie_disk = (\<lambda>l. case l of [] \<Rightarrow> (None, []) | f # r \<Rightarrow> (f, r)),
     ie_readlink = (\<lambda>l n. None), ie_addrs = (\<lambda>l n. None), ie_read = (\<lambda>l p. None), ie_sha = (\<lambda>x. x)\<rparr>"

definition full_state :: "(string \<times> nat option) option list iwd_state" where
  "full_state = \<lparr>iw_env = [None, None, None, Some (''no space left'', None)], iw_store = iw_store state0\<rparr>"


text \<open>The exclusion rules decide over the iwd backend as if every attribute had been looked up: for valid rules and an interface that resolves, the interface is treated as excluded, with or without the name-only shortcut, exactly when some rule matches its resolved name, MAC and PCI address; and a lookup through the wrapper succeeds exactly for the interfaces that no rule matches.\<close>

theorem iwd_exclusion_exact:
  assumes "valid_rules rules" and "n \<noteq> []" and "iwd_Interface E n s = (Inr it, s')"
  shows "fst (excludedName (iwd_backend E) (newExcludeSet rules) n s) = excluded_by rules it \<and>
     (f_Interface (iwd_backend E) (newExcludeSet rules) n s = (Inr it, s') \<longleftrightarrow> \<not> excluded_by rules it)"
proof -
  have look: "b_Interface (iwd_backend E) n s = (Inr it, s')" using assms(3) by (simp add: iwd_backend_def)
  show ?thesis
    using iwd_named.excludedName_resolved [OF assms(1,2) look] iwd_named.f_Interface_Inr [OF assms(1)] look
    by blast
qed

lemma iwd_exclusion_exact_witness:
  "fst (excludedName (iwd_backend env0) (newExcludeSet [mac_rule]) ''wlan0'' state0)"
proof -
  obtain it s' where i: "iwd_Interface env0 ''wlan0'' state0 = (Inr it, s')" and m: "if_Mac it = ''02:aa:00:00:00:01''"
  proof -
    have "ToLower ''02:AA:00:00:00:01'' = ''02:aa:00:00:00:01''" by code_simp
    then show thesis
      using that by (simp add: iwd_Interface_def managed_def on_env_def env0_def objects0_def variant_defs
          described_def deviceToIface_def Let_def)
  qed
  have "valid_rules [mac_rule]" by (simp add: valid_rules_def Validate_def mac_rule_def isEmpty_def byte_def)
  from iwd_exclusion_exact [OF this _ i]
  have "fst (excludedName (iwd_backend env0) (newExcludeSet [mac_rule]) ''wlan0'' state0) = excluded_by [mac_rule] it"
    by simp
  moreover have "excluded_by [mac_rule] it"
    by (simp add: excluded_by_def rule_spec_def isEmpty_def mac_rule_def m byte_def)
  ultimately show ?thesis by simp
qed

lemma iwd_stream_facts:
  assumes "iwd_Watch E c s = (Inr sts, s')"
  shows "changes None sts \<and> ends_at terminal sts \<and> no_idle_after False sts"
proof -
  from assms obtain d i es t where
    r: "watch_run (iwd_round E d i) es \<lparr>ww_last = None, ww_assoc = False\<rparr> t = (sts, s')"
    by (auto simp: iwd_Watch_def bindE_def simp del: watch_run.simps split: prod.splits sum.splits option.splits)
  from iwd_watch.run_changes [OF r] run_ends_at [OF iwd_stops r] iwd_run_no_idle [OF r] show ?thesis by simp
qed

text \<open>What a reader of the iwd watch sees: no status repeats the state before it, a Connected or Failed status is the last one, and after an Associating status there is no Idle one, since a drop back to idle is reported as a failure.\<close>

theorem iwd_watch_stream:
  assumes "iwd_Watch E c s = (Inr sts, s')"
  shows "changes None sts \<and> ends_at terminal sts \<and> no_idle_after False sts"
  using assms by (rule iwd_stream_facts)

lemma iwd_watch_stream_witness:
  "\<exists>sts s'. iwd_Watch env0 (''HomeNet'' @ [NUL] @ ''psk'') state0 = (Inr sts, s') \<and>
     map st_State sts = [StateAssociating, StateFailed] \<and> ends_at terminal sts"
proof -
  let ?r = "iwd_Watch env0 (''HomeNet'' @ [NUL] @ ''psk'') state0"
  have "map st_State (projr (fst ?r)) = [StateAssociating, StateFailed] \<and> isl (fst ?r) = False"
    by (simp add: iwd_Watch_def managed_def on_env_def env0_def objects0_def findConnByID_def variant_defs
        dict_get_def DeriveID_def ifaceStation_def ifaceNetwork_def ifaceDevice_def iwd_round_def iwd_emit_def
        iwd_buildStatus_def diag_status_def zero_Status_def iwd_mapState_def state_signal_def mPropChange_def Let_def)
  then obtain sts s' where "?r = (Inr sts, s')" "map st_State sts = [StateAssociating, StateFailed]"
    by (cases ?r; cases "fst ?r") auto
  moreover from iwd_watch_stream [OF this(1)] have "ends_at terminal sts" by simp
  ultimately show ?thesis by (intro exI [of _ sts] exI [of _ s'] conjI)
qed

text \<open>A scan ends: as long as the clock runs on while the backend waits, the wait for the scan to finish uses at most its fuel, for whatever iwd answers, and the call returns a result or one of the errors of the code, never the marker of an unfinished loop.\<close>

lemma iwd_scan_ends:
  assumes "iwd_clock E clk"
  shows "fst (iwd_Scan E n s) \<noteq> Inl OutOfFuel \<and> (\<exists>s'. triggerScan E d s = (Inr (), s'))"
proof -
  have t: "\<exists>s'. triggerScan E d s = (Inr (), s')" for d s
    using waitScanDone_returns [OF assms] by (auto simp: triggerScan_def split: prod.split)
  have "fst (iwd_Scan E n s) \<noteq> Inl OutOfFuel"
  proof (cases "devicePath E n s")
    case (Pair r s1)
    show ?thesis
    proof (cases r)
      case (Some d)
      from t [of d s1] obtain s2 where s2: "triggerScan E d s1 = (Inr (), s2)" by blast
      show ?thesis
        using s2 by (auto simp: iwd_Scan_def Pair Some bindE_def dbus_werr_def
            split: prod.splits sum.splits dest: managed_err)
    qed (simp add: iwd_Scan_def Pair)
  qed
  with t show ?thesis by blast
qed

section \<open>What reading leaves of the store\<close>

named_theorems keeps_store \<open>calls after which the store is the one before\<close>

lemma on_env_keeps [keeps_store]: "on_env f s = (r, s') \<Longrightarrow> iw_store s' = iw_store s"
  by (auto simp: on_env_def split: prod.splits)

lemma iwd_reads_keep [keeps_store]:
  "managed E s = (m, s') \<Longrightarrow> iw_store s' = iw_store s"
  "iwd_call E path meth args s = (c, s') \<Longrightarrow> iw_store s' = iw_store s"
  "os_ReadDir E s = (d, s') \<Longrightarrow> iw_store s' = iw_store s"
  "os_ReadFile E name s = (f, s') \<Longrightarrow> iw_store s' = iw_store s"
  by (auto simp: managed_def iwd_call_def os_ReadDir_def os_ReadFile_def split: prod.splits sum.splits option.splits
      node.splits if_splits dest: on_env_keeps)

lemma iwd_lookups_keep [keeps_store]:
  "devicePath E name s = (d, s') \<Longrightarrow> iw_store s' = iw_store s"
  "findNetwork E dev ssid typ s = (n, s') \<Longrightarrow> iw_store s' = iw_store s"
  "findProfileFile E i s = (p, s') \<Longrightarrow> iw_store s' = iw_store s"
  "connectedBSS E dev s = (b, s') \<Longrightarrow> iw_store s' = iw_store s"
  by (auto simp: devicePath_def findNetwork_def findProfileFile_def connectedBSS_def
      split: prod.splits sum.splits option.splits dir_result.splits dest: keeps_store)

lemma iwd_Profile_keeps [keeps_store]: "iwd_Profile E i s = (p, s') \<Longrightarrow> iw_store s' = iw_store s"
  by (auto simp: iwd_Profile_def bindE_def retE_def split: prod.splits sum.splits option.splits dest!: keeps_store)

lemma connectionByID_keeps [keeps_store]: "connectionByID E i s = (c, s') \<Longrightarrow> iw_store s' = iw_store s"
  by (auto simp: connectionByID_def bindE_def split: prod.splits sum.splits option.splits dest!: keeps_store)

lemma triggerScan_keeps [keeps_store]: "triggerScan E dev s = (r, s') \<Longrightarrow> iw_store s' = iw_store s"
proof -
  have "waitScanDone E dev s1 = (r, s') \<Longrightarrow> iw_store s' = iw_store s1" for s1
    unfolding waitScanDone_def
    by (auto split: prod.splits dest!: keeps_store poll_keeps [where k = iw_store, rotated -1]
        simp: scan_body_def wait_or_done_def split: sum.splits)
  then show "triggerScan E dev s = (r, s') \<Longrightarrow> iw_store s' = iw_store s"
    by (auto simp: triggerScan_def split: prod.splits dest!: keeps_store)
qed

lemma iwd_Activate_keeps: "iwd_Activate E ifname i b s = (r, s') \<Longrightarrow> iw_store s' = iw_store s"
  unfolding iwd_Activate_def bindE_def
  by (auto split: prod.splits sum.splits option.splits if_splits dest!: keeps_store)


end
