(* ===== verification/Nmcli.thy ===== *)
theory Nmcli
  imports Watch Exclude
begin

text \<open>
  \<open>internal/wnet/nmcli\<close>: the backend that runs the \<open>nmcli\<close> and \<open>ip\<close> programs and parses
  their output.  \<open>nm.go\<close> holds the commands and parsers, \<open>backend.go\<close> the backend.  The
  programs that are run, the timers and the context are the environment.
\<close>

section \<open>nm.go: running commands\<close>

datatype exec_result = ExecOK string | ExecFail string string string

record 's nm_env =
  ne_exec :: "string \<Rightarrow> string list \<Rightarrow> 's \<Rightarrow> exec_result \<times> 's"
  ne_sleep :: "int \<Rightarrow> 's \<Rightarrow> string option \<times> 's"
  ne_readlink :: "'s \<Rightarrow> string \<Rightarrow> string option"
  ne_ticks :: "'s \<Rightarrow> nat"

text \<open>\<open>ExecFail err stdout stderr\<close>: the program failed with these outputs.\<close>

definition nm_exec :: "'s nm_env \<Rightarrow> string \<Rightarrow> string list \<Rightarrow> ('s, string) op" where
  "nm_exec E name args s =
     (case ne_exec E name args s of
        (ExecOK out, s') \<Rightarrow> (Inr out, s')
      | (ExecFail err out errb, s') \<Rightarrow>
          let msg = (if TrimSpace errb = [] then TrimSpace out else TrimSpace errb)
          in (Inl (ErrOther (name @ '' '' @ Join args '' '' @ '': '' @ err @ '': '' @ msg)), s'))"

definition nm_Run :: "'s nm_env \<Rightarrow> string list \<Rightarrow> ('s, string) op" where
  "nm_Run E args = nm_exec E ''nmcli'' args"

text \<open>The current field is kept reversed.\<close>

fun split_terse :: "string \<Rightarrow> string \<Rightarrow> string list" where
  "split_terse b [] = [rev b]"
| "split_terse b [c] = (if c = CHR '':'' then [rev b, []] else [rev (c # b)])"
| "split_terse b (c # d # r) =
     (if c = CHR 0x5C then split_terse (d # b) r
      else if c = CHR '':'' then rev b # split_terse [] (d # r)
      else split_terse (c # b) (d # r))"

definition splitTerse :: "string \<Rightarrow> string list" where
  "splitTerse line = split_terse [] line"

type_synonym pairs = "(string \<times> string) list"

definition detail_buffer :: nat where "detail_buffer = 1024 * 1024"

definition parseDetail :: "string \<Rightarrow> pairs" where
  "parseDetail out =
     concat (map (\<lambda>line. case IndexByte line (CHR '':'') of
         None \<Rightarrow> [] | Some i \<Rightarrow> [(take i line, drop (Suc i) line)])
       (scan_lines detail_buffer out))"

definition detailGet :: "pairs \<Rightarrow> string \<Rightarrow> string" where
  "detailGet ps key = (case map_of ps key of None \<Rightarrow> [] | Some v \<Rightarrow> v)"

definition detailPrefix :: "pairs \<Rightarrow> string \<Rightarrow> string list" where
  "detailPrefix ps base =
     concat (map (\<lambda>(k, v). if (k = base \<or> HasPrefix k (base @ ''['')) \<and> v \<noteq> [] then [v] else []) ps)"

definition stateCode :: "string \<Rightarrow> int" where
  "stateCode s =
     (case Fields s of
        [] \<Rightarrow> -1
      | f # _ \<Rightarrow> (case Atoi f of (n, ok) \<Rightarrow> if \<not> ok then -1 else n))"

definition nm_atoi :: "string \<Rightarrow> int" where
  "nm_atoi s = fst (Atoi (TrimSpace s))"

section \<open>nm.go: devices\<close>

record Device =
  dv_Name :: string
  dv_Type :: string
  dv_StateCode :: int
  dv_StateText :: string
  dv_Reason :: string
  dv_Mac :: string
  dv_ConUUID :: string
  dv_Up :: bool

definition StateDisconnected :: int where "StateDisconnected = 30"
definition StatePrepare :: int where "StatePrepare = 40"
definition StateConfig :: int where "StateConfig = 50"
definition StateNeedAuth :: int where "StateNeedAuth = 60"
definition StateIPConfig :: int where "StateIPConfig = 70"
definition StateIPCheck :: int where "StateIPCheck = 80"
definition StateSecondaries :: int where "StateSecondaries = 90"
definition StateActivated :: int where "StateActivated = 100"
definition StateDeactivating :: int where "StateDeactivating = 110"
definition NmStateFailed :: int where "NmStateFailed = 120"

lemmas nm_state_defs = StateDisconnected_def StatePrepare_def StateConfig_def StateNeedAuth_def
  StateIPConfig_def StateIPCheck_def StateSecondaries_def StateActivated_def StateDeactivating_def
  NmStateFailed_def

definition WifiDeviceNames :: "'s nm_env \<Rightarrow> ('s, string list) op" where
  "WifiDeviceNames E =
     bindE (nm_Run E [''-t'', ''-f'', ''DEVICE,TYPE'', ''device'', ''status'']) (\<lambda>out.
       retE (concat (map (\<lambda>line. let f = splitTerse line in
            if 2 \<le> length f \<and> f ! 1 = ''wifi'' then [f ! 0] else [])
          (scan_lines MaxScanTokenSize out))))"

definition linkUp :: "'s nm_env \<Rightarrow> string \<Rightarrow> 's \<Rightarrow> bool \<times> 's" where
  "linkUp E name s =
     (case nm_exec E ''ip'' [''-br'', ''link'', ''show'', name] s of
        (Inl _, s') \<Rightarrow> (False, s')
      | (Inr out, s') \<Rightarrow> (let f = Fields out in 2 \<le> length f \<and> f ! 1 = ''UP'', s'))"

definition DeviceInfo :: "'s nm_env \<Rightarrow> string \<Rightarrow> ('s, Device) op" where
  "DeviceInfo E name =
     bindE (nm_Run E [''-t'', ''-f'',
         ''GENERAL.DEVICE,GENERAL.TYPE,GENERAL.HWADDR,GENERAL.STATE,GENERAL.REASON,GENERAL.CON-UUID'',
         ''device'', ''show'', name]) (\<lambda>out s.
       let ps = parseDetail out in
       (case linkUp E name s of
          (up, s') \<Rightarrow>
            (Inr \<lparr>dv_Name = detailGet ps ''GENERAL.DEVICE'', dv_Type = detailGet ps ''GENERAL.TYPE'',
                  dv_StateCode = stateCode (detailGet ps ''GENERAL.STATE''),
                  dv_StateText = detailGet ps ''GENERAL.STATE'', dv_Reason = detailGet ps ''GENERAL.REASON'',
                  dv_Mac = detailGet ps ''GENERAL.HWADDR'', dv_ConUUID = detailGet ps ''GENERAL.CON-UUID'',
                  dv_Up = up\<rparr>, s')))"

definition DeviceIP4 :: "'s nm_env \<Rightarrow> string \<Rightarrow> 's \<Rightarrow> (string list \<times> string \<times> string list) \<times> 's" where
  "DeviceIP4 E name s =
     (case nm_Run E [''-t'', ''-f'', ''IP4.ADDRESS,IP4.GATEWAY,IP4.DNS'', ''device'', ''show'', name] s of
        (Inl _, s') \<Rightarrow> (([], [], []), s')
      | (Inr out, s') \<Rightarrow>
          let ps = parseDetail out in
          ((detailPrefix ps ''IP4.ADDRESS'', detailGet ps ''IP4.GATEWAY'', detailPrefix ps ''IP4.DNS''), s'))"

definition nm_SetPower :: "'s nm_env \<Rightarrow> string \<Rightarrow> bool \<Rightarrow> ('s, unit) op" where
  "nm_SetPower E name on =
     (if on then
        tryE (nm_exec E ''ip'' [''link'', ''set'', ''dev'', name, ''up'']) (\<lambda>_.
          bindE (nm_Run E [''device'', ''set'', name, ''managed'', ''yes'']) (\<lambda>_. retE ()))
      else
        bindE (nm_Run E [''device'', ''set'', name, ''managed'', ''no'']) (\<lambda>_.
          bindE (nm_exec E ''ip'' [''link'', ''set'', ''dev'', name, ''down'']) (\<lambda>_. retE ())))"

section \<open>nm.go: scanning\<close>

record NmAP =
  na_InUse :: bool
  na_SSID :: string
  na_BSSID :: string
  na_Chan :: int
  na_FreqMHz :: "32 word"
  na_Signal :: int
  na_Security :: string

definition scanAttempts :: nat where "scanAttempts = 4"
definition scanSettleDelay :: int where "scanSettleDelay = 1500000000"

definition ap_line :: "string \<Rightarrow> NmAP list" where
  "ap_line line =
     (let f = splitTerse line in
      if length f < 7 then []
      else [\<lparr>na_InUse = (f ! 0 = ''*''), na_SSID = f ! 1, na_BSSID = f ! 2, na_Chan = nm_atoi (f ! 3),
             na_FreqMHz = word_of_int (nm_atoi (TrimSuffix (TrimSpace (f ! 4)) '' MHz'')),
             na_Signal = nm_atoi (f ! 5), na_Security = TrimSpace (f ! 6)\<rparr>])"

definition parseAPList :: "string \<Rightarrow> NmAP list" where
  "parseAPList out = concat (map ap_line (scan_lines MaxScanTokenSize out))"

definition countScannable :: "NmAP list \<Rightarrow> nat" where
  "countScannable aps = length (filter (\<lambda>ap. \<not> na_InUse ap) aps)"

definition listAPs :: "'s nm_env \<Rightarrow> string \<Rightarrow> ('s, NmAP list) op" where
  "listAPs E ifname =
     bindE (nm_Run E [''-t'', ''-f'', ''IN-USE,SSID,BSSID,CHAN,FREQ,SIGNAL,SECURITY'',
         ''device'', ''wifi'', ''list'', ''ifname'', ifname, ''--rescan'', ''no''])
       (\<lambda>out. retE (parseAPList out))"

definition sleepCtx :: "'s nm_env \<Rightarrow> int \<Rightarrow> ('s, unit) op" where
  "sleepCtx E d s =
     (case ne_sleep E d s of
        (Some e, s') \<Rightarrow> (Inl (ErrOther e), s')
      | (None, s') \<Rightarrow> (Inr (), s'))"

text \<open>
  The loop over attempts, with the best list so far and the last error.  In Go \<open>best\<close> is
  nil until a longer list is read, that is until it is not empty.
\<close>

fun scan_loop :: "'s nm_env \<Rightarrow> string \<Rightarrow> nat \<Rightarrow> NmAP list \<Rightarrow> werr option \<Rightarrow> ('s, NmAP list) op" where
  "scan_loop E ifname 0 best lastErr s =
     (case lastErr of
        Some e \<Rightarrow> if best = [] then (Inl e, s) else (Inr best, s)
      | None \<Rightarrow> (Inr best, s))"
| "scan_loop E ifname (Suc n) best lastErr s =
     (case nm_Run E [''device'', ''wifi'', ''rescan'', ''ifname'', ifname] s of
        (_, s1) \<Rightarrow>
          (case sleepCtx E scanSettleDelay s1 of
             (Inl e, s2) \<Rightarrow> (Inl e, s2)
           | (Inr _, s2) \<Rightarrow>
               (case listAPs E ifname s2 of
                  (Inl e, s3) \<Rightarrow> scan_loop E ifname n best (Some e) s3
                | (Inr aps, s3) \<Rightarrow>
                    let best' = (if length best < length aps then aps else best) in
                    if 0 < countScannable aps then scan_loop E ifname 0 best' lastErr s3
                    else scan_loop E ifname n best' lastErr s3)))"

definition nm_Scan :: "'s nm_env \<Rightarrow> string \<Rightarrow> ('s, NmAP list) op" where
  "nm_Scan E ifname = scan_loop E ifname scanAttempts [] None"

definition CurrentAP :: "'s nm_env \<Rightarrow> string \<Rightarrow> 's \<Rightarrow> NmAP option \<times> 's" where
  "CurrentAP E ifname s =
     (case listAPs E ifname s of
        (Inl _, s') \<Rightarrow> (None, s')
      | (Inr aps, s') \<Rightarrow> (find na_InUse aps, s'))"

section \<open>nm.go: connections\<close>

record ConnProfile =
  cp_UUID :: string
  cp_Name :: string
  cp_Type :: string

definition WifiProfiles :: "'s nm_env \<Rightarrow> ('s, ConnProfile list) op" where
  "WifiProfiles E =
     bindE (nm_Run E [''-t'', ''-f'', ''UUID,NAME,TYPE'', ''connection'', ''show'']) (\<lambda>out.
       retE (concat (map (\<lambda>line. let f = splitTerse line in
            if 3 \<le> length f \<and> f ! 2 = ''802-11-wireless''
            then [\<lparr>cp_UUID = f ! 0, cp_Name = f ! 1, cp_Type = f ! 2\<rparr>] else [])
          (scan_lines MaxScanTokenSize out))))"

definition ConnectionDetail :: "'s nm_env \<Rightarrow> string \<Rightarrow> string list \<Rightarrow> ('s, pairs) op" where
  "ConnectionDetail E uuid flds =
     bindE (nm_Run E [''-t'', ''-f'', Join flds '','', ''connection'', ''show'', uuid])
       (\<lambda>out. retE (parseDetail out))"

definition hex_run :: "nat \<Rightarrow> string \<Rightarrow> bool" where
  "hex_run n s \<longleftrightarrow> n \<le> length s \<and> list_all (\<lambda>c. hex_val c \<noteq> None) (take n s)"

text \<open>\<open>uuidRe\<close> at the start of a string: 8-4-4-4-12 hexadecimal digits.\<close>

fun uuid_groups :: "nat list \<Rightarrow> string \<Rightarrow> bool" where
  "uuid_groups [] s = True"
| "uuid_groups [n] s = hex_run n s"
| "uuid_groups (n # m # ns) s = (hex_run n s \<and> HasPrefix (drop n s) ''-'' \<and> uuid_groups (m # ns) (drop (Suc n) s))"

fun find_uuid :: "string \<Rightarrow> string" where
  "find_uuid [] = []"
| "find_uuid (c # s) = (if uuid_groups [8, 4, 4, 4, 12] (c # s) then take 36 (c # s) else find_uuid s)"

definition AddConnection :: "'s nm_env \<Rightarrow> string list \<Rightarrow> ('s, string) op" where
  "AddConnection E args =
     bindE (nm_Run E ([''connection'', ''add''] @ args)) (\<lambda>out.
       let u = find_uuid out in
       if u \<noteq> [] then retE u
       else failE (ErrOther (''could not determine new connection uuid from: '' @ TrimSpace out)))"

definition ModifyConnection :: "'s nm_env \<Rightarrow> string \<Rightarrow> string list \<Rightarrow> ('s, unit) op" where
  "ModifyConnection E uuid kv = bindE (nm_Run E ([''connection'', ''modify'', uuid] @ kv)) (\<lambda>_. retE ())"

definition DeleteConnection :: "'s nm_env \<Rightarrow> string \<Rightarrow> ('s, unit) op" where
  "DeleteConnection E uuid = bindE (nm_Run E [''connection'', ''delete'', uuid]) (\<lambda>_. retE ())"

definition ActivateConnection :: "'s nm_env \<Rightarrow> string \<Rightarrow> string \<Rightarrow> nat \<Rightarrow> ('s, unit) op" where
  "ActivateConnection E uuid ifname waitSec =
     bindE (nm_Run E ([''-w'', show_nat waitSec, ''connection'', ''up'', uuid] @
         (if ifname \<noteq> [] then [''ifname'', ifname] else []))) (\<lambda>_. retE ())"

definition DeactivateConnection :: "'s nm_env \<Rightarrow> string \<Rightarrow> ('s, unit) op" where
  "DeactivateConnection E uuid = bindE (nm_Run E [''connection'', ''down'', uuid]) (\<lambda>_. retE ())"

record NmActive =
  nc_Name :: string
  nc_UUID :: string
  nc_Device :: string
  nc_Type :: string
  nc_State :: string

definition ActiveWifiConnections :: "'s nm_env \<Rightarrow> ('s, NmActive list) op" where
  "ActiveWifiConnections E =
     bindE (nm_Run E [''-t'', ''-f'', ''NAME,UUID,DEVICE,TYPE,STATE'', ''connection'', ''show'', ''--active'']) (\<lambda>out.
       retE (concat (map (\<lambda>line. let f = splitTerse line in
            if 5 \<le> length f \<and> f ! 3 = ''802-11-wireless''
            then [\<lparr>nc_Name = f ! 0, nc_UUID = f ! 1, nc_Device = f ! 2, nc_Type = f ! 3, nc_State = f ! 4\<rparr>] else [])
          (scan_lines MaxScanTokenSize out))))"

section \<open>backend.go: interfaces and scan\<close>

definition toIface :: "(string \<Rightarrow> string option) \<Rightarrow> Device \<Rightarrow> Interface" where
  "toIface readlink d =
     \<lparr>if_Name = dv_Name d, if_Mac = ToLower (dv_Mac d), if_Pci = LocalPCI readlink (dv_Name d),
      if_Powered = (StateDisconnected \<le> dv_StateCode d), if_Up = dv_Up d, if_Desc = dv_StateText d\<rparr>"

text \<open>An operation that applies \<open>toIface\<close> to a device it has looked up.\<close>

definition device_iface :: "'s nm_env \<Rightarrow> string \<Rightarrow> ('s, Interface) op" where
  "device_iface E name = bindE (DeviceInfo E name) (\<lambda>d s. (Inr (toIface (ne_readlink E s) d), s))"

definition nmcli_Interfaces :: "'s nm_env \<Rightarrow> ('s, Interface list) op" where
  "nmcli_Interfaces E = bindE (WifiDeviceNames E) (collectE (device_iface E))"

definition not_found_of :: "werr \<Rightarrow> werr" where
  "not_found_of e = (case e of ErrOther m \<Rightarrow> ErrNotFound m | ErrNotFound m \<Rightarrow> ErrNotFound m
     | ErrUnsupported m \<Rightarrow> ErrNotFound m | OutOfFuel \<Rightarrow> OutOfFuel)"

definition nmcli_Interface :: "'s nm_env \<Rightarrow> string \<Rightarrow> ('s, Interface) op" where
  "nmcli_Interface E name = mapErr not_found_of (device_iface E name)"

definition nmcli_SetPower :: "'s nm_env \<Rightarrow> string \<Rightarrow> bool \<Rightarrow> ('s, Interface) op" where
  "nmcli_SetPower E name on = bindE (nm_SetPower E name on) (\<lambda>_. device_iface E name)"

text \<open>\<open>add\<close> appends a method that is not yet listed.\<close>

definition add_new :: "'a \<Rightarrow> 'a list \<Rightarrow> 'a list" where
  "add_new k out = (if k \<in> set out then out else out @ [k])"

definition nmcli_parseKeyMgmt :: "string \<Rightarrow> KeyMgmt list" where
  "nmcli_parseKeyMgmt text =
     (let sec = ToUpper (TrimSpace text) in
      if sec = [] then [KeyNone]
      else
        let o1 = (if Contains sec ''WPA3'' then add_new KeySAE [] else []);
            o2 = (if Contains sec ''802.1X'' then add_new KeyWPAEAP o1 else o1);
            o3 = (if Contains sec ''OWE'' then add_new KeyOWE o2 else o2);
            o4 = (if Contains sec ''WPA2'' \<or> Contains sec ''WPA1'' \<or> Contains sec ''WPA-'' \<or> sec = ''WPA''
                  then add_new KeyWPAPSK o3 else o3)
        in if o4 = [] then add_new KeyWPAPSK o4 else o4)"

definition nmcli_toAP :: "NmAP \<Rightarrow> AP" where
  "nmcli_toAP ap = \<lparr>ap_SSID = na_SSID ap, ap_BSSID = na_BSSID ap, ap_Signal = na_Signal ap,
     ap_FreqMHz = na_FreqMHz ap, ap_KeyMgmt = nmcli_parseKeyMgmt (na_Security ap)\<rparr>"

definition nmcli_Scan :: "'s nm_env \<Rightarrow> string \<Rightarrow> ('s, AP list) op" where
  "nmcli_Scan E iface = bindE (nm_Scan E iface) (\<lambda>aps. retE (map nmcli_toAP aps))"

section \<open>backend.go: profiles\<close>

definition profileFields :: "string list" where
  "profileFields =
     [''connection.id'', ''connection.autoconnect'', ''802-11-wireless.ssid'', ''802-11-wireless.hidden'',
      ''802-11-wireless-security.key-mgmt'',
      ''ipv4.method'', ''ipv4.addresses'', ''ipv4.gateway'', ''ipv4.dns'', ''ipv4.dns-search'',
      ''ipv6.method'', ''ipv6.addresses'', ''ipv6.gateway'', ''ipv6.dns'', ''ipv6.dns-search'']"

definition splitMulti :: "string list \<Rightarrow> string list" where
  "splitMulti vs =
     concat (map (\<lambda>v. filter (\<lambda>p. p \<noteq> []) (map TrimSpace (SplitByte v (CHR '','')))) vs)"

definition nmcli_method :: "string \<Rightarrow> IPMethod" where
  "nmcli_method m =
     (if m = ''auto'' then IPAuto else if m = ''manual'' then IPManual
      else if m = ''disabled'' then IPDisabled else IPUnspecified)"

definition ipConfigFromDetail :: "pairs \<Rightarrow> string \<Rightarrow> IPConfig" where
  "ipConfigFromDetail ps prefix =
     \<lparr>ip_Method = nmcli_method (detailGet ps (prefix @ ''.method'')),
      ip_Addresses = splitMulti (detailPrefix ps (prefix @ ''.addresses'')),
      ip_Gateway = detailGet ps (prefix @ ''.gateway''),
      ip_DNS = splitMulti (detailPrefix ps (prefix @ ''.dns'')),
      ip_DNSSearch = splitMulti (detailPrefix ps (prefix @ ''.dns-search''))\<rparr>"

definition securityFromKeyMgmt :: "string \<Rightarrow> Security" where
  "securityFromKeyMgmt km =
     (if km = [] \<or> km = ''none'' then \<lparr>sec_Kind = SecOpen, sec_Passphrase = []\<rparr>
      else if km = ''wpa-eap'' then \<lparr>sec_Kind = SecEnterprise, sec_Passphrase = []\<rparr>
      else \<lparr>sec_Kind = SecPSK, sec_Passphrase = []\<rparr>)"

definition detail_profile :: "string \<Rightarrow> pairs \<Rightarrow> Profile" where
  "detail_profile i ps =
     \<lparr>pr_ID = i, pr_Name = detailGet ps ''connection.id'', pr_SSID = detailGet ps ''802-11-wireless.ssid'',
      pr_Hidden = (detailGet ps ''802-11-wireless.hidden'' = ''yes''),
      pr_Autoconnect = (detailGet ps ''connection.autoconnect'' = ''yes''),
      pr_Security = securityFromKeyMgmt (detailGet ps ''802-11-wireless-security.key-mgmt''),
      pr_IPv4 = ipConfigFromDetail ps ''ipv4'', pr_IPv6 = ipConfigFromDetail ps ''ipv6''\<rparr>"

definition profileByUUID :: "'s nm_env \<Rightarrow> string \<Rightarrow> ('s, Profile) op" where
  "profileByUUID E i =
     bindE (mapErr not_found_of (ConnectionDetail E i profileFields)) (\<lambda>ps. retE (detail_profile i ps))"

definition nmcli_Profiles :: "'s nm_env \<Rightarrow> ('s, Profile list) op" where
  "nmcli_Profiles E = bindE (WifiProfiles E) (collectE (\<lambda>pr. profileByUUID E (cp_UUID pr)))"

definition nmcli_Profile :: "'s nm_env \<Rightarrow> string \<Rightarrow> ('s, Profile) op" where
  "nmcli_Profile E i = profileByUUID E i"

definition yesno :: "bool \<Rightarrow> string" where
  "yesno v = (if v then ''yes'' else ''no'')"

definition ipArgs :: "string \<Rightarrow> IPConfig option \<Rightarrow> string list" where
  "ipArgs prefix cfg =
     (case cfg of
        None \<Rightarrow> []
      | Some c \<Rightarrow>
          (case ip_Method c of
             IPUnspecified \<Rightarrow> []
           | IPAuto \<Rightarrow> [prefix @ ''.method'', ''auto'']
           | IPDisabled \<Rightarrow> [prefix @ ''.method'', ''disabled'']
           | IPManual \<Rightarrow>
               [prefix @ ''.method'', ''manual''] @
               (if ip_Addresses c \<noteq> [] then [prefix @ ''.addresses'', Join (ip_Addresses c) '',''] else []) @
               (if ip_Gateway c \<noteq> [] then [prefix @ ''.gateway'', ip_Gateway c] else []) @
               (if ip_DNS c \<noteq> [] then [prefix @ ''.dns'', Join (ip_DNS c) '',''] else []) @
               (if ip_DNSSearch c \<noteq> [] then [prefix @ ''.dns-search'', Join (ip_DNSSearch c) '',''] else [])))"

definition add_args :: "ProfileSpec \<Rightarrow> string list" where
  "add_args spec =
     [''type'', ''wifi'', ''con-name'', (if ps_Name spec = [] then ps_SSID spec else ps_Name spec),
      ''ssid'', ps_SSID spec, ''802-11-wireless.hidden'', yesno (ps_Hidden spec),
      ''connection.autoconnect'', yesno (ps_Autoconnect spec)] @
     (if sec_Kind (ps_Security spec) = SecPSK
      then [''wifi-sec.key-mgmt'', ''wpa-psk'', ''wifi-sec.psk'', sec_Passphrase (ps_Security spec)] else []) @
     ipArgs ''ipv4'' (ps_IPv4 spec) @ ipArgs ''ipv6'' (ps_IPv6 spec)"

definition nmcli_AddProfile :: "'s nm_env \<Rightarrow> ProfileSpec \<Rightarrow> ('s, Profile) op" where
  "nmcli_AddProfile E spec =
     (if ps_SSID spec = [] then failE (ErrOther ''ssid is required'')
      else if sec_Kind (ps_Security spec) = SecEnterprise then failE (ErrUnsupported ''enterprise security'')
      else bindE (AddConnection E (add_args spec)) (profileByUUID E))"

definition opt_args :: "'a option \<Rightarrow> ('a \<Rightarrow> string list) \<Rightarrow> string list" where
  "opt_args x f = (case x of None \<Rightarrow> [] | Some v \<Rightarrow> f v)"

text \<open>The key-value arguments of a patch; \<open>None\<close> for a kind of security that is refused.\<close>

definition patch_args :: "ProfilePatch \<Rightarrow> string list option" where
  "patch_args patch =
     (let base = opt_args (pp_Name patch) (\<lambda>v. [''connection.id'', v]) @
                 opt_args (pp_SSID patch) (\<lambda>v. [''802-11-wireless.ssid'', v]) @
                 opt_args (pp_Hidden patch) (\<lambda>v. [''802-11-wireless.hidden'', yesno v]) @
                 opt_args (pp_Autoconnect patch) (\<lambda>v. [''connection.autoconnect'', yesno v]);
          ips = opt_args (pp_IPv4 patch) (\<lambda>c. ipArgs ''ipv4'' (Some c)) @
                opt_args (pp_IPv6 patch) (\<lambda>c. ipArgs ''ipv6'' (Some c))
      in (case pp_Security patch of
            None \<Rightarrow> Some (base @ ips)
          | Some sec \<Rightarrow>
              (case sec_Kind sec of
                 SecPSK \<Rightarrow> Some (base @ [''wifi-sec.key-mgmt'', ''wpa-psk'', ''wifi-sec.psk'', sec_Passphrase sec] @ ips)
               | SecOpen \<Rightarrow> Some (base @ [''wifi-sec.key-mgmt'', ''none'', ''wifi-sec.psk'', []] @ ips)
               | SecEnterprise \<Rightarrow> None)))"

definition nmcli_PatchProfile :: "'s nm_env \<Rightarrow> string \<Rightarrow> ProfilePatch \<Rightarrow> ('s, Profile) op" where
  "nmcli_PatchProfile E i patch =
     (case patch_args patch of
        None \<Rightarrow> failE (ErrUnsupported ''enterprise security'')
      | Some kv \<Rightarrow>
          if kv \<noteq> [] then bindE (ModifyConnection E i kv) (\<lambda>_. profileByUUID E i)
          else profileByUUID E i)"

definition nmcli_DeleteProfile :: "'s nm_env \<Rightarrow> string \<Rightarrow> ('s, unit) op" where
  "nmcli_DeleteProfile E i = DeleteConnection E i"

section \<open>backend.go: connections\<close>

definition nmcli_toActive :: "'s nm_env \<Rightarrow> NmActive \<Rightarrow> 's \<Rightarrow> Active \<times> 's" where
  "nmcli_toActive E a s =
     (case CurrentAP E (nc_Device a) s of
        (None, s') \<Rightarrow>
          (\<lparr>ac_ID = nc_UUID a, ac_Iface = nc_Device a, ac_ProfileID = nc_UUID a, ac_SSID = [], ac_BSSID = []\<rparr>, s')
      | (Some ap, s') \<Rightarrow>
          (\<lparr>ac_ID = nc_UUID a, ac_Iface = nc_Device a, ac_ProfileID = nc_UUID a, ac_SSID = na_SSID ap,
            ac_BSSID = na_BSSID ap\<rparr>, s'))"

definition activeByUUID :: "'s nm_env \<Rightarrow> string \<Rightarrow> ('s, Active) op" where
  "activeByUUID E i =
     bindE (ActiveWifiConnections E) (\<lambda>actives s.
       (case find (\<lambda>a. nc_UUID a = i) actives of
          Some a \<Rightarrow> (case nmcli_toActive E a s of (x, s') \<Rightarrow> (Inr x, s'))
        | None \<Rightarrow> (Inl (ErrNotFound (''active connection '' @ i)), s)))"

definition nmcli_Activate :: "'s nm_env \<Rightarrow> string \<Rightarrow> string \<Rightarrow> string \<Rightarrow> ('s, Active) op" where
  "nmcli_Activate E iface profileID bssid =
     bindE (mapErr (wrap_err ''set bssid'') (ModifyConnection E profileID [''802-11-wireless.bssid'', bssid])) (\<lambda>_.
       bindE (ActivateConnection E profileID iface 60) (\<lambda>_. activeByUUID E profileID))"

definition nmcli_Deactivate :: "'s nm_env \<Rightarrow> string \<Rightarrow> ('s, unit) op" where
  "nmcli_Deactivate E connID = DeactivateConnection E connID"

definition nmcli_Connections :: "'s nm_env \<Rightarrow> ('s, Active list) op" where
  "nmcli_Connections E =
     bindE (ActiveWifiConnections E) (\<lambda>actives s.
       (case filter_mapS (\<lambda>a s. case nmcli_toActive E a s of (x, s') \<Rightarrow> (Some x, s')) actives s of
          (out, s') \<Rightarrow> (Inr out, s')))"

definition nmcli_Connection :: "'s nm_env \<Rightarrow> string \<Rightarrow> ('s, Active) op" where
  "nmcli_Connection E connID = activeByUUID E connID"

section \<open>backend.go: status and watch\<close>

definition nmcli_mapState :: "int \<Rightarrow> ConnState" where
  "nmcli_mapState code =
     (if code = StatePrepare \<or> code = StateConfig then StateAssociating
      else if code = StateNeedAuth then StateAuthenticating
      else if code = StateIPConfig \<or> code = StateIPCheck \<or> code = StateSecondaries then StateConfiguring
      else if code = StateActivated then StateConnected
      else if code = StateDeactivating then StateDisconnecting
      else if code = NmStateFailed then StateFailed
      else if code = StateDisconnected then StateIdle
      else StateUnspecified)"

definition statusForDevice :: "'s nm_env \<Rightarrow> Device \<Rightarrow> bool \<Rightarrow> 's \<Rightarrow> Status \<times> 's" where
  "statusForDevice E d sawNeedAuth s =
     (let st0 = zero_Status\<lparr>st_State := nmcli_mapState (dv_StateCode d)\<rparr>;
          reason = ToLower (dv_Reason d);
          st1 = (if st_State st0 = StateFailed
                 then st0\<lparr>st_Error := (if sawNeedAuth \<or> Contains reason ''secret'' \<or> Contains reason ''auth''
                             then ErrCAuthFailed else ErrCUnknown),
                          st_Detail := dv_Reason d\<rparr>
                 else st0)
      in (case CurrentAP E (dv_Name d) s of
            (r, s1) \<Rightarrow>
              let st2 = (case r of None \<Rightarrow> st1 | Some ap \<Rightarrow> st1\<lparr>st_BSSID := na_BSSID ap, st_Signal := na_Signal ap\<rparr>) in
              (case DeviceIP4 E (dv_Name d) s1 of
                 ((as, gw, dns), s2) \<Rightarrow>
                   (st2\<lparr>st_Addresses := as, st_Gateway := gw, st_DNS := dns\<rparr>, s2))))"

definition deviceForActive :: "'s nm_env \<Rightarrow> string \<Rightarrow> ('s, string) op" where
  "deviceForActive E i =
     bindE (ActiveWifiConnections E) (\<lambda>actives.
       (case find (\<lambda>a. nc_UUID a = i) actives of
          Some a \<Rightarrow> retE (nc_Device a)
        | None \<Rightarrow> failE (ErrNotFound (''active connection '' @ i))))"

definition nmcli_Status :: "'s nm_env \<Rightarrow> string \<Rightarrow> ('s, Status) op" where
  "nmcli_Status E connID =
     bindE (deviceForActive E connID) (\<lambda>dev.
       bindE (DeviceInfo E dev) (\<lambda>d s.
         (case statusForDevice E d (dv_StateCode d = StateNeedAuth) s of (st, s') \<Rightarrow> (Inr st, s'))))"

record nmcli_watch =
  nw_last :: "ConnState option"
  nw_sawNeedAuth :: bool

text \<open>One round of the polling goroutine: it runs at once, then on every tick.\<close>

definition nmcli_round :: "'s nm_env \<Rightarrow> string \<Rightarrow> (unit, nmcli_watch, 's) round" where
  "nmcli_round E dev _ w s =
     (case DeviceInfo E dev s of
        (Inl _, s1) \<Rightarrow> ((None, True), w, s1)
      | (Inr d, s1) \<Rightarrow>
          let saw = (nw_sawNeedAuth w \<or> dv_StateCode d = StateNeedAuth) in
          (case statusForDevice E d saw s1 of
             (st, s2) \<Rightarrow>
               let stop = (st_State st = StateConnected \<or> st_State st = StateFailed) in
               if Some (st_State st) \<noteq> nw_last w
               then ((Some st, stop), \<lparr>nw_last = Some (st_State st), nw_sawNeedAuth = saw\<rparr>, s2)
               else ((None, stop), w\<lparr>nw_sawNeedAuth := saw\<rparr>, s2)))"

definition nmcli_Watch :: "'s nm_env \<Rightarrow> string \<Rightarrow> ('s, Status list) op" where
  "nmcli_Watch E connID =
     bindE (deviceForActive E connID) (\<lambda>dev s.
       (case watch_run (nmcli_round E dev) (replicate (Suc (ne_ticks E s)) ())
               \<lparr>nw_last = None, nw_sawNeedAuth = False\<rparr> s of
          (sts, s') \<Rightarrow> (Inr sts, s')))"

definition nmcli_backend :: "'s nm_env \<Rightarrow> 's Backend" where
  "nmcli_backend E = \<lparr>
     b_Interfaces = nmcli_Interfaces E, b_Interface = nmcli_Interface E, b_SetPower = nmcli_SetPower E,
     b_Scan = nmcli_Scan E, b_Profiles = nmcli_Profiles E, b_Profile = nmcli_Profile E,
     b_AddProfile = nmcli_AddProfile E, b_PatchProfile = nmcli_PatchProfile E,
     b_DeleteProfile = nmcli_DeleteProfile E, b_Activate = nmcli_Activate E,
     b_Deactivate = nmcli_Deactivate E, b_Connections = nmcli_Connections E,
     b_Connection = nmcli_Connection E, b_Status = nmcli_Status E, b_Watch = nmcli_Watch E\<rparr>"

section \<open>Lemmas\<close>

text \<open>How \<open>nmcli -t\<close> prints a value.\<close>

fun terse_escape :: "string \<Rightarrow> string" where
  "terse_escape [] = []"
| "terse_escape (c # s) = (if c = CHR '':'' \<or> c = CHR 0x5C then CHR 0x5C # c # terse_escape s else c # terse_escape s)"

lemma split_terse_escape:
  "split_terse b (terse_escape s @ CHR '':'' # r) = (rev b @ s) # split_terse [] r"
proof (induction s arbitrary: b)
  case Nil
  then show ?case by (cases r) auto
next
  case (Cons c s)
  show ?case
  proof (cases "c = CHR '':'' \<or> c = CHR 0x5C")
    case True
    with Cons [of "c # b"] show ?thesis by auto
  next
    case False
    obtain d t where "terse_escape s @ CHR '':'' # r = d # t" by (cases "terse_escape s") auto
    with False Cons [of "c # b"] show ?thesis by auto
  qed
qed

lemma split_terse_escape_end: "split_terse b (terse_escape s) = [rev b @ s]"
proof (induction s arbitrary: b)
  case (Cons c s)
  show ?case
  proof (cases "c = CHR '':'' \<or> c = CHR 0x5C")
    case True
    with Cons [of "c # b"] show ?thesis by auto
  next
    case False
    with Cons [of "c # b"] show ?thesis by (cases "terse_escape s") auto
  qed
qed simp

text \<open>The outcomes of the attempts a scan makes, as the code makes them: it stops at a neighbour.\<close>

fun scan_reads :: "'s nm_env \<Rightarrow> string \<Rightarrow> nat \<Rightarrow> 's \<Rightarrow> (NmAP list res) list" where
  "scan_reads E ifname 0 s = []"
| "scan_reads E ifname (Suc n) s =
     (let s2 = snd (sleepCtx E scanSettleDelay (snd (nm_Run E [''device'', ''wifi'', ''rescan'', ''ifname'', ifname] s)))
      in (case listAPs E ifname s2 of
            (Inl e, s3) \<Rightarrow> Inl e # scan_reads E ifname n s3
          | (Inr aps, s3) \<Rightarrow> Inr aps # (if 0 < countScannable aps then [] else scan_reads E ifname n s3)))"

text \<open>The longest list read, the earliest one on a tie; the last error if every list read was empty.\<close>

definition longer :: "NmAP list \<Rightarrow> NmAP list res \<Rightarrow> NmAP list" where
  "longer best r = (case r of Inl _ \<Rightarrow> best | Inr aps \<Rightarrow> if length best < length aps then aps else best)"

definition last_error :: "werr option \<Rightarrow> NmAP list res \<Rightarrow> werr option" where
  "last_error e r = (case r of Inl x \<Rightarrow> Some x | Inr _ \<Rightarrow> e)"

definition scan_answer :: "NmAP list \<Rightarrow> werr option \<Rightarrow> (NmAP list res) list \<Rightarrow> NmAP list res" where
  "scan_answer best lastErr rs =
     (let b = foldl longer best rs in
      (case foldl last_error lastErr rs of Some e \<Rightarrow> if b = [] then Inl e else Inr b | None \<Rightarrow> Inr b))"

lemma scan_loop_answer:
  assumes "\<And>d s. fst (ne_sleep E d s) = None"
  shows "fst (scan_loop E i n best lastErr s) = scan_answer best lastErr (scan_reads E i n s)"
proof (induction n arbitrary: best lastErr s)
  case 0
  then show ?case by (simp add: scan_answer_def split: option.split)
next
  case (Suc n)
  obtain r s1 where r: "nm_Run E [''device'', ''wifi'', ''rescan'', ''ifname'', i] s = (r, s1)" by force
  obtain s2 where sl: "sleepCtx E scanSettleDelay s1 = (Inr (), s2)"
    using assms [of scanSettleDelay s1] by (cases "ne_sleep E scanSettleDelay s1") (simp add: sleepCtx_def)
  obtain q s3 where l: "listAPs E i s2 = (q, s3)" by force
  show ?case
  proof (cases q)
    case (Inl e)
    with Suc r sl l show ?thesis by (simp add: scan_answer_def longer_def last_error_def)
  next
    case (Inr aps)
    have zero: "fst (scan_loop E i 0 b e s) = scan_answer b e []" for b e s
      by (simp add: scan_answer_def split: option.split)
    show ?thesis
      using Suc Inr r sl l zero
      by (cases "0 < countScannable aps") (simp_all add: scan_answer_def longer_def last_error_def del: scan_loop.simps(1))
  qed
qed

lemma scan_reads_length: "length (scan_reads E i n s) \<le> n"
proof (induction n arbitrary: s)
  case (Suc n)
  then show ?case by (auto simp: Let_def split: prod.split sum.split)
qed simp

lemma longest_bound: "length best \<le> length (foldl longer best rs) \<and> (\<forall>aps. Inr aps \<in> set rs \<longrightarrow> length aps \<le> length (foldl longer best rs))"
proof (induction rs arbitrary: best)
  case (Cons r rs)
  have "length best \<le> length (longer best r)" "\<And>aps. r = Inr aps \<Longrightarrow> length aps \<le> length (longer best r)"
    by (auto simp: longer_def split: sum.split)
  with Cons [of "longer best r"] show ?case by (auto intro: le_trans)
qed simp

lemma longest_read: "foldl longer best rs = best \<or> Inr (foldl longer best rs) \<in> set rs"
proof (induction rs arbitrary: best)
  case (Cons r rs)
  have "longer best r = best \<or> r = Inr (longer best r)" by (auto simp: longer_def split: sum.split)
  with Cons [of "longer best r"] show ?case by auto
qed simp

lemma nmcli_round_Some:
  "nmcli_round E dev u w s = ((Some st, stop), w', s') \<Longrightarrow>
     nw_last w \<noteq> Some (st_State st) \<and> nw_last w' = Some (st_State st) \<and>
     (stop \<longleftrightarrow> st_State st = StateConnected \<or> st_State st = StateFailed)"
  by (auto simp: nmcli_round_def Let_def split: prod.splits sum.splits if_splits)

interpretation nmcli_watch: watch_contract "nmcli_round E dev" nw_last for E :: "'s nm_env" and dev
proof
  fix e w st stop w' and s s' :: 's
  assume "nmcli_round E dev e w s = ((Some st, stop), w', s')"
  from nmcli_round_Some [OF this] show "nw_last w \<noteq> Some (st_State st) \<and> nw_last w' = Some (st_State st)" by blast
next
  fix e w stop w' and s s' :: 's
  assume "nmcli_round E dev e w s = ((None, stop), w', s')"
  then show "nw_last w' = nw_last w"
    by (auto simp: nmcli_round_def Let_def split: prod.splits sum.splits if_splits)
qed

lemma nmcli_stops: "stops_at (nmcli_round E dev) terminal"
  unfolding stops_at_def terminal_def by (metis nmcli_round_Some)

lemma distinct_add_new: "distinct xs \<Longrightarrow> distinct (add_new k xs)"
  by (auto simp: add_new_def)

lemma add_new_nonempty [simp]: "add_new k xs \<noteq> []"
  by (auto simp: add_new_def)

section \<open>Properties\<close>

text \<open>Splitting a line of terse nmcli output undoes nmcli's escaping: for any values, also with colons and backslashes in them, the fields of the line that nmcli prints for them are those values.\<close>

theorem splitTerse_roundtrip:
  "splitTerse (Join (map terse_escape (f # fs)) '':'') = f # fs"
proof -
  have "split_terse [] (Join (map terse_escape (f # fs)) '':'') = f # fs"
  proof (induction fs arbitrary: f)
    case Nil
    then show ?case by (simp add: split_terse_escape_end)
  next
    case (Cons g fs)
    have "Join (map terse_escape (f # g # fs)) '':'' = terse_escape f @ CHR '':'' # Join (map terse_escape (g # fs)) '':''"
      by simp
    then show ?case using Cons [of g] by (simp add: split_terse_escape)
  qed
  then show ?thesis by (simp add: splitTerse_def)
qed

text \<open>A scan makes at most four attempts and, when its context is not cancelled, returns the longest list it has read, which no other list read exceeds; it fails only when every list read was empty and some read failed, with the error of the last read that failed.\<close>

theorem nm_scan_longest:
  fixes E :: "'s nm_env" and i :: string and s :: 's
  assumes "\<And>d s. fst (ne_sleep E d s) = None"
  defines "rs \<equiv> scan_reads E i scanAttempts s"
  shows "length rs \<le> 4 \<and>
    (case fst (nm_Scan E i s) of
       Inr best \<Rightarrow> (best = [] \<or> Inr best \<in> set rs) \<and> (\<forall>aps. Inr aps \<in> set rs \<longrightarrow> length aps \<le> length best)
     | Inl e \<Rightarrow> (\<forall>aps. Inr aps \<in> set rs \<longrightarrow> aps = []) \<and> foldl last_error None rs = Some e)"
proof -
  have a: "fst (nm_Scan E i s) = scan_answer [] None rs"
    unfolding nm_Scan_def rs_def by (rule scan_loop_answer [OF assms(1)])
  have "length rs \<le> 4" using scan_reads_length [of E i scanAttempts s] by (simp add: rs_def scanAttempts_def)
  with longest_bound [of "[]" rs] longest_read [of "[]" rs] show ?thesis
    unfolding a scan_answer_def Let_def by (auto split: option.split)
qed

text \<open>A scripted environment: the answers of the programs in order, then failures.\<close>

definition script_env :: "exec_result list nm_env" where
  "script_env = \<lparr>
     ne_exec = (\<lambda>name args l. case l of [] \<Rightarrow> (ExecFail ''exit status 1'' [] ''gone'', []) | r # rs \<Rightarrow> (r, rs)),
     ne_sleep = (\<lambda>d l. (None, l)), ne_readlink = (\<lambda>l n. None), ne_ticks = (\<lambda>l. length l)\<rparr>"

definition one_bss :: string where
  "one_bss = Join (map terse_escape [''*'', ''net'', ''02:00:00:00:01:00'', ''1'', ''2412 MHz'', ''70'', ''WPA2'']) '':'' @ [newline]"

lemma nm_scan_longest_witness:
  "length (scan_reads script_env ''wlan0'' scanAttempts [ExecOK [], ExecOK one_bss]) \<le> 4"
  using nm_scan_longest [of script_env "''wlan0''" "[ExecOK [], ExecOK one_bss]"] by (simp add: script_env_def)

text \<open>The key-management list read from nmcli's SECURITY column is never empty and never names a method twice, and it says that the network is open exactly when the column is blank.\<close>

theorem nmcli_keymgmt_wellformed:
  "nmcli_parseKeyMgmt t \<noteq> [] \<and> distinct (nmcli_parseKeyMgmt t) \<and>
   (KeyNone \<in> set (nmcli_parseKeyMgmt t) \<longleftrightarrow> TrimSpace t = [])"
  by (auto simp: nmcli_parseKeyMgmt_def Let_def add_new_def ToUpper_def)

text \<open>What a reader of the nmcli watch sees: no status repeats the state before it, and a Connected or Failed status is the last one.\<close>

lemma nmcli_stream:
  assumes "nmcli_Watch E c s = (Inr sts, s')"
  shows "changes None sts \<and> ends_at terminal sts"
proof -
  from assms obtain dev es t where
    r: "watch_run (nmcli_round E dev) es \<lparr>nw_last = None, nw_sawNeedAuth = False\<rparr> t = (sts, s')"
    by (auto simp: nmcli_Watch_def bindE_def simp del: watch_run.simps split: prod.splits sum.splits)
  from nmcli_watch.run_changes [OF r] run_ends_at [OF nmcli_stops r] show ?thesis by simp
qed

text \<open>C32: A patch that sets nothing runs no modifying command: it reads the profile and nothing else, whatever nmcli would answer to other commands; and activating a connection sends the BSSID, also an empty one that clears an old pin, before anything else, so that a refused change of the pin means that the connection is not brought up.\<close>

theorem nmcli_command_order:
  assumes "fst (nm_Run E ([''connection'', ''modify'', p] @ [''802-11-wireless.bssid'', bssid]) s) = Inl e"
  shows "nmcli_PatchProfile E i \<lparr>pp_Name = None, pp_SSID = None, pp_Hidden = None, pp_Autoconnect = None,
           pp_Security = None, pp_IPv4 = None, pp_IPv6 = None\<rparr> = profileByUUID E i \<and>
         nmcli_Activate E iface p bssid s =
           (Inl (wrap_err ''set bssid'' e), snd (nm_Run E ([''connection'', ''modify'', p] @ [''802-11-wireless.bssid'', bssid]) s))"
proof -
  obtain s1 where "nm_Run E ([''connection'', ''modify'', p] @ [''802-11-wireless.bssid'', bssid]) s = (Inl e, s1)"
    using assms by (metis prod.collapse)
  then show ?thesis
    by (simp add: nmcli_PatchProfile_def patch_args_def opt_args_def nmcli_Activate_def ModifyConnection_def mapErr_def bindE_def)
qed

lemma nmcli_command_order_witness:
  "\<exists>m. nmcli_Activate script_env ''wlan0'' ''p0'' [] [] = (Inl (ErrOther m), [])"
  using nmcli_command_order [of script_env "''p0''" "[]" "[]"] by (simp add: nm_Run_def nm_exec_def script_env_def Let_def)

end
