(* ===== verification/Nmdbus.thy ===== *)
theory Nmdbus
  imports Go_Net DBus Watch Exclude
begin

text \<open>
  \<open>internal/wnet/nmdbus\<close>: the backend for NetworkManager over D-Bus.  \<open>convert.go\<close> maps
  flags, states and addresses, \<open>settings.go\<close> builds and reads the connection settings,
  \<open>nmdbus.go\<close> is the backend.  The D-Bus service, the clock and the kernel's interface
  flags are the environment.
\<close>

section \<open>convert.go\<close>

definition nmStateUnmanaged :: int where "nmStateUnmanaged = 10"
definition nmStateUnavailable :: int where "nmStateUnavailable = 20"
definition nmStateDisconnected :: int where "nmStateDisconnected = 30"
definition nmStatePrepare :: int where "nmStatePrepare = 40"
definition nmStateConfig :: int where "nmStateConfig = 50"
definition nmStateNeedAuth :: int where "nmStateNeedAuth = 60"
definition nmStateIPConfig :: int where "nmStateIPConfig = 70"
definition nmStateIPCheck :: int where "nmStateIPCheck = 80"
definition nmStateSecondaries :: int where "nmStateSecondaries = 90"
definition nmStateActivated :: int where "nmStateActivated = 100"
definition nmStateDeactivating :: int where "nmStateDeactivating = 110"
definition nmStateFailed :: int where "nmStateFailed = 120"

lemmas nmState_defs = nmStateUnmanaged_def nmStateUnavailable_def nmStateDisconnected_def
  nmStatePrepare_def nmStateConfig_def nmStateNeedAuth_def nmStateIPConfig_def nmStateIPCheck_def
  nmStateSecondaries_def nmStateActivated_def nmStateDeactivating_def nmStateFailed_def

definition nmDeviceTypeWifi :: "32 word" where "nmDeviceTypeWifi = 2"
definition nmReasonNoSecrets :: "32 word" where "nmReasonNoSecrets = 7"

definition apFlagPrivacy :: "32 word" where "apFlagPrivacy = 0x1"
definition secPSK :: "32 word" where "secPSK = 0x100"
definition sec8021X :: "32 word" where "sec8021X = 0x200"
definition secSAE :: "32 word" where "secSAE = 0x400"
definition secOWE :: "32 word" where "secOWE = 0x800"
definition secOWETM :: "32 word" where "secOWETM = 0x1000"

unbundle bit_operations_syntax

definition keyMgmtFromFlags :: "32 word \<Rightarrow> 32 word \<Rightarrow> 32 word \<Rightarrow> KeyMgmt list" where
  "keyMgmtFromFlags flags wpa rsn =
     (let out =
        (if rsn AND secSAE \<noteq> 0 then [KeySAE] else []) @
        (if (rsn OR wpa) AND sec8021X \<noteq> 0 then [KeyWPAEAP] else []) @
        (if rsn AND (secOWE OR secOWETM) \<noteq> 0 then [KeyOWE] else []) @
        (if (rsn OR wpa) AND secPSK \<noteq> 0 then [KeyWPAPSK] else [])
      in if out = [] then (if flags AND apFlagPrivacy \<noteq> 0 then [KeyWPAPSK] else [KeyNone]) else out)"

definition mapDeviceState :: "int \<Rightarrow> ConnState" where
  "mapDeviceState code =
     (if code = nmStatePrepare \<or> code = nmStateConfig then StateAssociating
      else if code = nmStateNeedAuth then StateAuthenticating
      else if code = nmStateIPConfig \<or> code = nmStateIPCheck \<or> code = nmStateSecondaries then StateConfiguring
      else if code = nmStateActivated then StateConnected
      else if code = nmStateDeactivating then StateDisconnecting
      else if code = nmStateFailed then StateFailed
      else if code = nmStateDisconnected then StateIdle
      else StateUnspecified)"

definition stateName :: "32 word \<Rightarrow> string" where
  "stateName code =
     (let c = uint code in
      if c = nmStateUnmanaged then ''unmanaged''
      else if c = nmStateUnavailable then ''unavailable''
      else if c = nmStateDisconnected then ''disconnected''
      else if c = nmStatePrepare then ''prepare''
      else if c = nmStateConfig then ''config''
      else if c = nmStateNeedAuth then ''need-auth''
      else if c = nmStateIPConfig then ''ip-config''
      else if c = nmStateIPCheck then ''ip-check''
      else if c = nmStateSecondaries then ''secondaries''
      else if c = nmStateActivated then ''connected''
      else if c = nmStateDeactivating then ''deactivating''
      else if c = nmStateFailed then ''failed''
      else ''unknown'')"

definition stateText :: "32 word \<Rightarrow> string" where
  "stateText code = show_nat (unat code) @ '' ('' @ stateName code @ '')''"

definition nmdbus_securityFromKeyMgmt :: "string \<Rightarrow> Security" where
  "nmdbus_securityFromKeyMgmt km =
     (if km = [] \<or> km = ''none'' then \<lparr>sec_Kind = SecOpen, sec_Passphrase = []\<rparr>
      else if km = ''wpa-eap'' then \<lparr>sec_Kind = SecEnterprise, sec_Passphrase = []\<rparr>
      else \<lparr>sec_Kind = SecPSK, sec_Passphrase = []\<rparr>)"

definition splitCIDR :: "string \<Rightarrow> (string \<times> 32 word) option" where
  "splitCIDR s =
     (case ParseCIDR s of
        None \<Rightarrow> None
      | Some (ip, m) \<Rightarrow> Some (IP_String ip, word_of_nat (mask_size m)))"

text \<open>\<open>binary.NativeEndian\<close>; \<open>le\<close> says that the machine is little-endian.\<close>

definition native_order :: "bool \<Rightarrow> nat list \<Rightarrow> nat list" where
  "native_order le b = (if le then rev b else b)"

definition native_u32 :: "bool \<Rightarrow> nat list \<Rightarrow> 32 word" where
  "native_u32 le b = word_of_nat (foldl (\<lambda>n x. 256 * n + x) 0 (native_order le b))"

definition native_bytes :: "bool \<Rightarrow> 32 word \<Rightarrow> nat list" where
  "native_bytes le u =
     native_order le [unat u div 16777216, unat u div 65536 mod 256, unat u div 256 mod 256, unat u mod 256]"

definition ip4ToU32 :: "bool \<Rightarrow> string \<Rightarrow> 32 word option" where
  "ip4ToU32 le s =
     (case ParseIP s of
        None \<Rightarrow> None
      | Some ip \<Rightarrow> (case To4 ip of None \<Rightarrow> None | Some q \<Rightarrow> Some (native_u32 le q)))"

definition u32ToIP4 :: "bool \<Rightarrow> 32 word \<Rightarrow> string" where
  "u32ToIP4 le u = show_ipv4 (native_bytes le u)"

section \<open>settings.go\<close>

type_synonym nmSettings = "string \<rightharpoonup> (string \<rightharpoonup> variant)"

definition sGet :: "nmSettings \<Rightarrow> string \<Rightarrow> string \<Rightarrow> variant option" where
  "sGet s grp key = (case s grp of None \<Rightarrow> None | Some g \<Rightarrow> g key)"

definition sString :: "nmSettings \<Rightarrow> string \<Rightarrow> string \<Rightarrow> string" where
  "sString s grp key = variantString (sGet s grp key)"

definition sBool :: "nmSettings \<Rightarrow> string \<Rightarrow> string \<Rightarrow> bool \<Rightarrow> bool" where
  "sBool s grp key def = (case sGet s grp key of Some (VBool x) \<Rightarrow> x | _ \<Rightarrow> def)"

definition sBytes :: "nmSettings \<Rightarrow> string \<Rightarrow> string \<Rightarrow> string" where
  "sBytes s grp key = (case sGet s grp key of Some (VBytes x) \<Rightarrow> x | _ \<Rightarrow> [])"

text \<open>The 16 bytes of an IPv6 resolver that is no IPv4 address.\<close>

definition dns6_bytes :: "string \<Rightarrow> string list" where
  "dns6_bytes d =
     (case ParseIP d of
        Some ip \<Rightarrow> if To4 ip = None then (case To16 ip of Some b \<Rightarrow> [map char_of b] | None \<Rightarrow> []) else []
      | None \<Rightarrow> [])"

definition dns4_words :: "bool \<Rightarrow> string \<Rightarrow> 32 word list" where
  "dns4_words le d = (case ip4ToU32 le d of Some u \<Rightarrow> [u] | None \<Rightarrow> [])"

definition dnsVariant :: "bool \<Rightarrow> string \<Rightarrow> string list \<Rightarrow> variant option" where
  "dnsVariant le grp dns =
     (if grp = ''ipv6'' then
        (let arr = concat (map dns6_bytes dns) in if arr = [] then None else Some (VByteArrays arr))
      else
        (let arr = concat (map (dns4_words le) dns) in if arr = [] then None else Some (VU32s arr)))"

definition addr_entry :: "string \<Rightarrow> dict list" where
  "addr_entry c =
     (case splitCIDR c of
        None \<Rightarrow> []
      | Some (ip, prefix) \<Rightarrow> [[(''address'', VString ip), (''prefix'', VU32 prefix)]])"

definition method_only :: "string \<Rightarrow> (string \<rightharpoonup> variant)" where
  "method_only m = [''method'' \<mapsto> VString m]"

definition ipSection :: "bool \<Rightarrow> string \<Rightarrow> IPConfig option \<Rightarrow> (string \<rightharpoonup> variant)" where
  "ipSection le grp cfg =
     (case cfg of
        None \<Rightarrow> method_only ''auto''
      | Some c \<Rightarrow>
          (case ip_Method c of
             IPManual \<Rightarrow>
               let ad = concat (map addr_entry (ip_Addresses c)) in
               (method_only ''manual'')
                 (''address-data'' := if ad \<noteq> [] then Some (VDicts ad) else None,
                  ''gateway'' := if ip_Gateway c \<noteq> [] then Some (VString (ip_Gateway c)) else None,
                  ''dns'' := dnsVariant le grp (ip_DNS c),
                  ''dns-search'' := if ip_DNSSearch c \<noteq> [] then Some (VStrings (ip_DNSSearch c)) else None)
           | IPDisabled \<Rightarrow> method_only ''disabled''
           | IPAuto \<Rightarrow> method_only ''auto''
           | IPUnspecified \<Rightarrow> method_only ''auto''))"

definition buildSettings :: "bool \<Rightarrow> ProfileSpec \<Rightarrow> nmSettings" where
  "buildSettings le spec =
     (let i = (if ps_Name spec = [] then ps_SSID spec else ps_Name spec);
          wireless = [''ssid'' \<mapsto> VBytes (ps_SSID spec), ''mode'' \<mapsto> VString ''infrastructure''];
          s = [''connection'' \<mapsto> [''id'' \<mapsto> VString i, ''type'' \<mapsto> VString ''802-11-wireless'',
                  ''autoconnect'' \<mapsto> VBool (ps_Autoconnect spec)],
               ''802-11-wireless'' \<mapsto> (if ps_Hidden spec then wireless(''hidden'' \<mapsto> VBool True) else wireless),
               ''ipv4'' \<mapsto> ipSection le ''ipv4'' (ps_IPv4 spec),
               ''ipv6'' \<mapsto> ipSection le ''ipv6'' (ps_IPv6 spec)]
      in if sec_Kind (ps_Security spec) = SecPSK
         then s(''802-11-wireless-security'' \<mapsto>
                 [''key-mgmt'' \<mapsto> VString ''wpa-psk'', ''psk'' \<mapsto> VString (sec_Passphrase (ps_Security spec))])
         else s)"

definition dict_u32 :: "variant option \<Rightarrow> 32 word" where
  "dict_u32 v = (case v of Some (VU32 u) \<Rightarrow> u | _ \<Rightarrow> 0)"

text \<open>\<open>addr/prefix\<close> of the entries that have an address.\<close>

definition addr_data :: "dict list \<Rightarrow> string list" where
  "addr_data ad =
     concat (map (\<lambda>e. let addr = variantString (map_of e ''address'') in
        if addr \<noteq> [] then [addr @ ''/'' @ show_nat (unat (dict_u32 (map_of e ''prefix'')))] else []) ad)"

definition settings_dns :: "bool \<Rightarrow> string \<Rightarrow> variant option \<Rightarrow> string list" where
  "settings_dns le grp v =
     (if grp = ''ipv6'' then
        (case v of Some (VByteArrays arr) \<Rightarrow>
            concat (map (\<lambda>b. if length b = 16 then [IP_String (map byte b)] else []) arr) | _ \<Rightarrow> [])
      else (case v of Some (VU32s arr) \<Rightarrow> map (u32ToIP4 le) arr | _ \<Rightarrow> []))"

definition ipConfigFromSettings :: "bool \<Rightarrow> nmSettings \<Rightarrow> string \<Rightarrow> IPConfig" where
  "ipConfigFromSettings le s grp =
     \<lparr>ip_Method = (let m = sString s grp ''method'' in
          if m = ''auto'' then IPAuto else if m = ''manual'' then IPManual
          else if m = ''disabled'' then IPDisabled else IPUnspecified),
      ip_Addresses = (case sGet s grp ''address-data'' of Some (VDicts ad) \<Rightarrow> addr_data ad | _ \<Rightarrow> []),
      ip_Gateway = sString s grp ''gateway'',
      ip_DNS = settings_dns le grp (sGet s grp ''dns''),
      ip_DNSSearch = (case sGet s grp ''dns-search'' of Some (VStrings arr) \<Rightarrow> arr | _ \<Rightarrow> [])\<rparr>"

definition profileFromSettings :: "bool \<Rightarrow> nmSettings \<Rightarrow> Profile" where
  "profileFromSettings le s =
     \<lparr>pr_ID = sString s ''connection'' ''uuid'',
      pr_Name = sString s ''connection'' ''id'',
      pr_SSID = sBytes s ''802-11-wireless'' ''ssid'',
      pr_Hidden = sBool s ''802-11-wireless'' ''hidden'' False,
      pr_Autoconnect = sBool s ''connection'' ''autoconnect'' True,
      pr_Security = nmdbus_securityFromKeyMgmt (sString s ''802-11-wireless-security'' ''key-mgmt''),
      pr_IPv4 = ipConfigFromSettings le s ''ipv4'',
      pr_IPv6 = ipConfigFromSettings le s ''ipv6''\<rparr>"

section \<open>nmdbus.go: environment and properties\<close>

datatype nm_arg = AString string | APath string | AVariant variant | ASettings nmSettings

text \<open>The value a reply is stored into.\<close>

datatype nm_reply = RPath string | RPaths "string list" | RSettings nmSettings | RNone

text \<open>The number of a path in a signal, or the end of the signal channel.\<close>

datatype nm_signal = StateSignal string string | SignalEnd

record 's nb_env =
  nb_prop :: "string \<Rightarrow> string \<Rightarrow> string \<Rightarrow> 's \<Rightarrow> (dbus_err + variant) \<times> 's"
  nb_call :: "string \<Rightarrow> string \<Rightarrow> nm_arg list \<Rightarrow> 's \<Rightarrow> (dbus_err + nm_reply) \<times> 's"
  nb_now :: "'s \<Rightarrow> int \<times> 's"
  nb_wait :: "int \<Rightarrow> 's \<Rightarrow> string option \<times> 's"
  nb_match :: "string \<Rightarrow> 's \<Rightarrow> dbus_err option \<times> 's"
  nb_signals :: "'s \<Rightarrow> nm_signal list"
  nb_ifup :: "'s \<Rightarrow> string \<Rightarrow> bool"
  nb_readlink :: "'s \<Rightarrow> string \<Rightarrow> string option"
  nb_le :: bool

definition nmPath :: string where "nmPath = ''/org/freedesktop/NetworkManager''"
definition nmSettingsPath :: string where "nmSettingsPath = ''/org/freedesktop/NetworkManager/Settings''"
definition iNM :: string where "iNM = ''org.freedesktop.NetworkManager''"
definition iDevice :: string where "iDevice = ''org.freedesktop.NetworkManager.Device''"
definition iWireless :: string where "iWireless = ''org.freedesktop.NetworkManager.Device.Wireless''"
definition iAP :: string where "iAP = ''org.freedesktop.NetworkManager.AccessPoint''"
definition iSettings :: string where "iSettings = ''org.freedesktop.NetworkManager.Settings''"
definition iSettingsConn :: string where "iSettingsConn = ''org.freedesktop.NetworkManager.Settings.Connection''"
definition iActive :: string where "iActive = ''org.freedesktop.NetworkManager.Connection.Active''"
definition iIP4 :: string where "iIP4 = ''org.freedesktop.NetworkManager.IP4Config''"
definition nm_mPropsSet :: string where "nm_mPropsSet = ''org.freedesktop.DBus.Properties.Set''"
definition wsec :: string where "wsec = ''802-11-wireless-security''"

text \<open>The readers: the value when the property is there and has the type, else the zero value.\<close>

definition prop_opt :: "'s nb_env \<Rightarrow> string \<Rightarrow> string \<Rightarrow> string \<Rightarrow> 's \<Rightarrow> variant option \<times> 's" where
  "prop_opt E path iface name s =
     (case nb_prop E path iface name s of (Inl _, s') \<Rightarrow> (None, s') | (Inr v, s') \<Rightarrow> (Some v, s'))"

definition read_as :: "(variant option \<Rightarrow> 'a) \<Rightarrow> 's nb_env \<Rightarrow> string \<Rightarrow> string \<Rightarrow> string \<Rightarrow> 's \<Rightarrow> 'a \<times> 's" where
  "read_as f E path iface name s = (case prop_opt E path iface name s of (v, s') \<Rightarrow> (f v, s'))"

definition propStr :: "'s nb_env \<Rightarrow> string \<Rightarrow> string \<Rightarrow> string \<Rightarrow> 's \<Rightarrow> string \<times> 's" where
  "propStr = read_as variantString"

definition propU32 :: "'s nb_env \<Rightarrow> string \<Rightarrow> string \<Rightarrow> string \<Rightarrow> 's \<Rightarrow> 32 word \<times> 's" where
  "propU32 = read_as dict_u32"

definition propU8 :: "'s nb_env \<Rightarrow> string \<Rightarrow> string \<Rightarrow> string \<Rightarrow> 's \<Rightarrow> nat \<times> 's" where
  "propU8 = read_as (\<lambda>v. case v of Some (VByte b) \<Rightarrow> b | _ \<Rightarrow> 0)"

definition propI64 :: "'s nb_env \<Rightarrow> string \<Rightarrow> string \<Rightarrow> string \<Rightarrow> 's \<Rightarrow> int \<times> 's" where
  "propI64 = read_as (\<lambda>v. case v of Some (VInt64 x) \<Rightarrow> x | _ \<Rightarrow> 0)"

definition propBytes :: "'s nb_env \<Rightarrow> string \<Rightarrow> string \<Rightarrow> string \<Rightarrow> 's \<Rightarrow> string \<times> 's" where
  "propBytes = read_as (\<lambda>v. case v of Some (VBytes x) \<Rightarrow> x | _ \<Rightarrow> [])"

definition propPath :: "'s nb_env \<Rightarrow> string \<Rightarrow> string \<Rightarrow> string \<Rightarrow> 's \<Rightarrow> string \<times> 's" where
  "propPath = read_as variantPath"

definition propPaths :: "'s nb_env \<Rightarrow> string \<Rightarrow> string \<Rightarrow> string \<Rightarrow> 's \<Rightarrow> string list \<times> 's" where
  "propPaths = read_as (\<lambda>v. case v of Some (VPaths ps) \<Rightarrow> ps | _ \<Rightarrow> [])"

text \<open>A call whose reply is stored into a path, a list of paths or settings, or dropped.\<close>

definition call_path :: "'s nb_env \<Rightarrow> string \<Rightarrow> string \<Rightarrow> nm_arg list \<Rightarrow> ('s, string) op" where
  "call_path E path meth args s =
     (case nb_call E path meth args s of
        (Inl e, s') \<Rightarrow> (Inl (dbus_werr e), s')
      | (Inr (RPath p), s') \<Rightarrow> (Inr p, s')
      | (Inr _, s') \<Rightarrow> (Inl (ErrOther ''store''), s'))"

definition call_paths :: "'s nb_env \<Rightarrow> string \<Rightarrow> string \<Rightarrow> nm_arg list \<Rightarrow> ('s, string list) op" where
  "call_paths E path meth args s =
     (case nb_call E path meth args s of
        (Inl e, s') \<Rightarrow> (Inl (dbus_werr e), s')
      | (Inr (RPaths p), s') \<Rightarrow> (Inr p, s')
      | (Inr _, s') \<Rightarrow> (Inl (ErrOther ''store''), s'))"

definition call_settings :: "'s nb_env \<Rightarrow> string \<Rightarrow> string \<Rightarrow> nm_arg list \<Rightarrow> ('s, nmSettings) op" where
  "call_settings E path meth args s =
     (case nb_call E path meth args s of
        (Inl e, s') \<Rightarrow> (Inl (dbus_werr e), s')
      | (Inr (RSettings x), s') \<Rightarrow> (Inr x, s')
      | (Inr _, s') \<Rightarrow> (Inl (ErrOther ''store''), s'))"

definition call_unit :: "'s nb_env \<Rightarrow> string \<Rightarrow> string \<Rightarrow> nm_arg list \<Rightarrow> ('s, unit) op" where
  "call_unit E path meth args s =
     (case nb_call E path meth args s of (Inl e, s') \<Rightarrow> (Inl (dbus_werr e), s') | (Inr _, s') \<Rightarrow> (Inr (), s'))"

section \<open>nmdbus.go: interfaces\<close>

definition devicePaths :: "'s nb_env \<Rightarrow> ('s, string list) op" where
  "devicePaths E = call_paths E nmPath (iNM @ ''.GetDevices'') []"

text \<open>\<open>for _, p := range ps { if test(p) { out = append(out, p) } }\<close>.\<close>

definition filterS :: "('a \<Rightarrow> 's \<Rightarrow> bool \<times> 's) \<Rightarrow> 'a list \<Rightarrow> 's \<Rightarrow> 'a list \<times> 's" where
  "filterS t = filter_mapS (\<lambda>x s. case t x s of (b, s') \<Rightarrow> (if b then Some x else None, s'))"

definition mapS :: "('a \<Rightarrow> 's \<Rightarrow> 'b \<times> 's) \<Rightarrow> 'a list \<Rightarrow> 's \<Rightarrow> 'b list \<times> 's" where
  "mapS f = filter_mapS (\<lambda>x s. case f x s of (y, s') \<Rightarrow> (Some y, s'))"

definition okS :: "('s \<Rightarrow> 'a \<times> 's) \<Rightarrow> ('s, 'a) op" where
  "okS f s = (case f s of (a, s') \<Rightarrow> (Inr a, s'))"

definition wifiDevicePaths :: "'s nb_env \<Rightarrow> ('s, string list) op" where
  "wifiDevicePaths E =
     bindE (devicePaths E) (\<lambda>paths. okS (filterS (\<lambda>p s.
       case propU32 E p iDevice ''DeviceType'' s of (t, s') \<Rightarrow> (t = nmDeviceTypeWifi, s')) paths))"

definition nmdbus_deviceToIface :: "'s nb_env \<Rightarrow> string \<Rightarrow> 's \<Rightarrow> Interface \<times> 's" where
  "nmdbus_deviceToIface E path s =
     (case propStr E path iDevice ''Interface'' s of
        (name, s1) \<Rightarrow>
          (case propU32 E path iDevice ''State'' s1 of
             (state, s2) \<Rightarrow>
               (case propStr E path iDevice ''HwAddress'' s2 of
                  (mac, s3) \<Rightarrow>
                    (\<lparr>if_Name = name, if_Mac = ToLower mac, if_Pci = LocalPCI (nb_readlink E s3) name,
                      if_Powered = (nmStateDisconnected \<le> uint state), if_Up = nb_ifup E s3 name,
                      if_Desc = stateText state\<rparr>, s3))))"

definition nmdbus_Interfaces :: "'s nb_env \<Rightarrow> ('s, Interface list) op" where
  "nmdbus_Interfaces E = bindE (wifiDevicePaths E) (\<lambda>ps. okS (mapS (nmdbus_deviceToIface E) ps))"

definition deviceByName :: "'s nb_env \<Rightarrow> string \<Rightarrow> ('s, string) op" where
  "deviceByName E name =
     mapErr (\<lambda>_. ErrNotFound (''interface '' @ name))
       (call_path E nmPath (iNM @ ''.GetDeviceByIpIface'') [AString name])"

definition nmdbus_Interface :: "'s nb_env \<Rightarrow> string \<Rightarrow> ('s, Interface) op" where
  "nmdbus_Interface E name = bindE (deviceByName E name) (\<lambda>p. okS (nmdbus_deviceToIface E p))"

text \<open>\<open>select\<close> between the context and \<open>time.After(d)\<close>: \<open>Some r\<close> leaves the loop.\<close>

definition wait_leave :: "'s nb_env \<Rightarrow> int \<Rightarrow> (string \<Rightarrow> 'r) \<Rightarrow> 's \<Rightarrow> 'r option \<times> 's" where
  "wait_leave E d r s =
     (case nb_wait E d s of (None, s') \<Rightarrow> (None, s') | (Some e, s') \<Rightarrow> (Some (r e), s'))"

definition power_fuel :: nat where "power_fuel = 15"

definition waitPower :: "'s nb_env \<Rightarrow> string \<Rightarrow> bool \<Rightarrow> ('s, unit) op" where
  "waitPower E dev on s =
     (case nb_now E s of
        (t, s1) \<Rightarrow>
          poll power_fuel (nb_now E) (t + 2000000000)
            (\<lambda>s. case propU32 E dev iDevice ''State'' s of
                    (st, s') \<Rightarrow> (if (nmStateDisconnected \<le> uint st) = on then Some () else None, s'))
            (wait_leave E 150000000 (\<lambda>_. ())) () s1)"

definition nmdbus_SetPower :: "'s nb_env \<Rightarrow> string \<Rightarrow> bool \<Rightarrow> ('s, Interface) op" where
  "nmdbus_SetPower E name on =
     bindE (deviceByName E name) (\<lambda>p.
       bindE (mapErr (wrap_err ''set power'')
           (call_unit E p nm_mPropsSet [AString iDevice, AString ''Managed'', AVariant (VBool on)])) (\<lambda>_.
         bindE (waitPower E p on) (\<lambda>_. okS (nmdbus_deviceToIface E p))))"

section \<open>nmdbus.go: scan\<close>

definition waitscan_fuel :: nat where "waitscan_fuel = 28"

definition waitScan :: "'s nb_env \<Rightarrow> string \<Rightarrow> int \<Rightarrow> ('s, bool) op" where
  "waitScan E dev before s =
     (case nb_now E s of
        (t, s1) \<Rightarrow>
          poll waitscan_fuel (nb_now E) (t + 8000000000)
            (\<lambda>s. case propI64 E dev iWireless ''LastScan'' s of
                    (x, s') \<Rightarrow> (if before < x then Some True else None, s'))
            (wait_leave E 300000000 (\<lambda>_. False)) False s1)"

definition apToDomain :: "'s nb_env \<Rightarrow> string \<Rightarrow> 's \<Rightarrow> AP \<times> 's" where
  "apToDomain E ap s =
     (case propBytes E ap iAP ''Ssid'' s of (ssid, s1) \<Rightarrow>
      (case propStr E ap iAP ''HwAddress'' s1 of (bssid, s2) \<Rightarrow>
      (case propU8 E ap iAP ''Strength'' s2 of (strength, s3) \<Rightarrow>
      (case propU32 E ap iAP ''Frequency'' s3 of (freq, s4) \<Rightarrow>
      (case propU32 E ap iAP ''Flags'' s4 of (flags, s5) \<Rightarrow>
      (case propU32 E ap iAP ''WpaFlags'' s5 of (wpa, s6) \<Rightarrow>
      (case propU32 E ap iAP ''RsnFlags'' s6 of (rsn, s7) \<Rightarrow>
        (\<lparr>ap_SSID = ssid, ap_BSSID = bssid, ap_Signal = int strength, ap_FreqMHz = freq,
          ap_KeyMgmt = keyMgmtFromFlags flags wpa rsn\<rparr>, s7))))))))"

definition nmdbus_scanAttempts :: nat where "nmdbus_scanAttempts = 4"

fun nmdbus_scan_loop :: "'s nb_env \<Rightarrow> string \<Rightarrow> nat \<Rightarrow> AP list \<Rightarrow> ('s, AP list) op" where
  "nmdbus_scan_loop E dev 0 best s = (Inr best, s)"
| "nmdbus_scan_loop E dev (Suc n) best s =
     (case propI64 E dev iWireless ''LastScan'' s of
        (before, s1) \<Rightarrow>
          (case call_unit E dev (iWireless @ ''.RequestScan'') [] s1 of
             (_, s2) \<Rightarrow>
               (case waitScan E dev before s2 of
                  (Inl e, s3) \<Rightarrow> (Inl e, s3)
                | (Inr advanced, s3) \<Rightarrow>
                    (case call_paths E dev (iWireless @ ''.GetAllAccessPoints'') [] s3 of
                       (Inl e, s4) \<Rightarrow> (Inl (wrap_err ''get access points'' e), s4)
                     | (Inr aps, s4) \<Rightarrow>
                         (case mapS (apToDomain E) aps s4 of
                            (out, s5) \<Rightarrow>
                              let best' = (if length best < length out then out else best) in
                              (case propPath E dev iWireless ''ActiveAccessPoint'' s5 of
                                 (active, s6) \<Rightarrow>
                                   if 0 < length (filter (\<lambda>ap. ap \<noteq> active) aps) then (Inr best', s6)
                                   else if \<not> advanced then (Inr best', s6)
                                   else nmdbus_scan_loop E dev n best' s6))))))"

definition nmdbus_Scan :: "'s nb_env \<Rightarrow> string \<Rightarrow> ('s, AP list) op" where
  "nmdbus_Scan E iface = bindE (deviceByName E iface) (\<lambda>dev. nmdbus_scan_loop E dev nmdbus_scanAttempts [])"

section \<open>nmdbus.go: profiles\<close>

definition listConnections :: "'s nb_env \<Rightarrow> ('s, string list) op" where
  "listConnections E = call_paths E nmSettingsPath (iSettings @ ''.ListConnections'') []"

definition getSettings :: "'s nb_env \<Rightarrow> string \<Rightarrow> ('s, nmSettings) op" where
  "getSettings E conn = call_settings E conn (iSettingsConn @ ''.GetSettings'') []"

definition getSecrets :: "'s nb_env \<Rightarrow> string \<Rightarrow> string \<Rightarrow> ('s, nmSettings) op" where
  "getSecrets E conn name = call_settings E conn (iSettingsConn @ ''.GetSecrets'') [AString name]"

definition connByUUID :: "'s nb_env \<Rightarrow> string \<Rightarrow> ('s, string) op" where
  "connByUUID E uuid =
     mapErr (\<lambda>_. ErrNotFound (''profile '' @ uuid))
       (call_path E nmSettingsPath (iSettings @ ''.GetConnectionByUuid'') [AString uuid])"

definition nmdbus_Profiles :: "'s nb_env \<Rightarrow> ('s, Profile list) op" where
  "nmdbus_Profiles E =
     bindE (listConnections E) (\<lambda>paths. okS (filter_mapS (\<lambda>p s.
       case getSettings E p s of
         (Inl _, s') \<Rightarrow> (None, s')
       | (Inr x, s') \<Rightarrow>
           (if sString x ''connection'' ''type'' \<noteq> ''802-11-wireless'' then None
            else Some (profileFromSettings (nb_le E) x), s')) paths))"

definition nmdbus_Profile :: "'s nb_env \<Rightarrow> string \<Rightarrow> ('s, Profile) op" where
  "nmdbus_Profile E i =
     bindE (connByUUID E i) (\<lambda>conn. bindE (getSettings E conn) (\<lambda>x. retE (profileFromSettings (nb_le E) x)))"

definition nmdbus_AddProfile :: "'s nb_env \<Rightarrow> ProfileSpec \<Rightarrow> ('s, Profile) op" where
  "nmdbus_AddProfile E spec =
     (if ps_SSID spec = [] then failE (ErrOther ''ssid is required'')
      else if sec_Kind (ps_Security spec) = SecEnterprise then failE (ErrUnsupported ''enterprise security'')
      else
        bindE (call_path E nmSettingsPath (iSettings @ ''.AddConnection'') [ASettings (buildSettings (nb_le E) spec)]) (\<lambda>path.
          bindE (getSettings E path) (\<lambda>x. retE (profileFromSettings (nb_le E) x))))"

text \<open>\<open>ensure(g)[k] = v\<close>: the group is made when it is missing.\<close>

definition set_key :: "string \<Rightarrow> string \<Rightarrow> variant \<Rightarrow> nmSettings \<Rightarrow> nmSettings" where
  "set_key g k v s = s(g \<mapsto> (case s g of None \<Rightarrow> Map.empty | Some m \<Rightarrow> m)(k \<mapsto> v))"

definition set_opt :: "'a option \<Rightarrow> ('a \<Rightarrow> nmSettings \<Rightarrow> nmSettings) \<Rightarrow> nmSettings \<Rightarrow> nmSettings" where
  "set_opt x f s = (case x of None \<Rightarrow> s | Some v \<Rightarrow> f v s)"

text \<open>The plain fields of a patch, before security.\<close>

definition patch_fields :: "ProfilePatch \<Rightarrow> nmSettings \<Rightarrow> nmSettings" where
  "patch_fields patch s0 =
     set_opt (pp_Autoconnect patch) (\<lambda>v. set_key ''connection'' ''autoconnect'' (VBool v))
       (set_opt (pp_Hidden patch) (\<lambda>v. set_key ''802-11-wireless'' ''hidden'' (VBool v))
         (set_opt (pp_SSID patch) (\<lambda>v. set_key ''802-11-wireless'' ''ssid'' (VBytes v))
           (set_opt (pp_Name patch) (\<lambda>v. set_key ''connection'' ''id'' (VString v)) s0)))"

text \<open>The security part: a refused kind, a change, or the stored secrets put back.\<close>

definition patch_security :: "'s nb_env \<Rightarrow> string \<Rightarrow> ProfilePatch \<Rightarrow> nmSettings \<Rightarrow> ('s, nmSettings) op" where
  "patch_security E conn patch x s =
     (case pp_Security patch of
        Some sec \<Rightarrow>
          (case sec_Kind sec of
             SecPSK \<Rightarrow> (Inr (set_key wsec ''psk'' (VString (sec_Passphrase sec)) (set_key wsec ''key-mgmt'' (VString ''wpa-psk'') x)), s)
           | SecOpen \<Rightarrow> (Inr (x(wsec := None)), s)
           | SecEnterprise \<Rightarrow> (Inl (ErrUnsupported ''enterprise security''), s))
      | None \<Rightarrow>
          (case x wsec of
             None \<Rightarrow> (Inr x, s)
           | Some g \<Rightarrow>
               (case getSecrets E conn wsec s of
                  (Inl _, s') \<Rightarrow> (Inr x, s')
                | (Inr secrets, s') \<Rightarrow>
                    (Inr (x(wsec \<mapsto> g ++ (case secrets wsec of None \<Rightarrow> Map.empty | Some m \<Rightarrow> m))), s'))))"

text \<open>The IP groups, and the read-only time stamp dropped.\<close>

definition patch_rest :: "bool \<Rightarrow> ProfilePatch \<Rightarrow> nmSettings \<Rightarrow> nmSettings" where
  "patch_rest le patch x =
     (let x1 = set_opt (pp_IPv4 patch) (\<lambda>c s. s(''ipv4'' \<mapsto> ipSection le ''ipv4'' (Some c))) x;
          x2 = set_opt (pp_IPv6 patch) (\<lambda>c s. s(''ipv6'' \<mapsto> ipSection le ''ipv6'' (Some c))) x1
      in (case x2 ''connection'' of None \<Rightarrow> x2 | Some c \<Rightarrow> x2(''connection'' \<mapsto> c(''timestamp'' := None))))"

definition nmdbus_PatchProfile :: "'s nb_env \<Rightarrow> string \<Rightarrow> ProfilePatch \<Rightarrow> ('s, Profile) op" where
  "nmdbus_PatchProfile E i patch =
     bindE (connByUUID E i) (\<lambda>conn.
       bindE (getSettings E conn) (\<lambda>x.
         bindE (patch_security E conn patch (patch_fields patch x)) (\<lambda>x1.
           bindE (call_unit E conn (iSettingsConn @ ''.Update'') [ASettings (patch_rest (nb_le E) patch x1)]) (\<lambda>_.
             bindE (getSettings E conn) (\<lambda>ns. retE (profileFromSettings (nb_le E) ns))))))"

definition nmdbus_DeleteProfile :: "'s nb_env \<Rightarrow> string \<Rightarrow> ('s, unit) op" where
  "nmdbus_DeleteProfile E i = bindE (connByUUID E i) (\<lambda>conn. call_unit E conn (iSettingsConn @ ''.Delete'') [])"

section \<open>nmdbus.go: connections\<close>

definition activeConnPaths :: "'s nb_env \<Rightarrow> 's \<Rightarrow> string list \<times> 's" where
  "activeConnPaths E = propPaths E nmPath iNM ''ActiveConnections''"

definition activeToDomain :: "'s nb_env \<Rightarrow> string \<Rightarrow> 's \<Rightarrow> Active \<times> 's" where
  "activeToDomain E ac s =
     (case propStr E ac iActive ''Uuid'' s of (uuid, s1) \<Rightarrow>
      (case propPaths E ac iActive ''Devices'' s1 of (devs, s2) \<Rightarrow>
        let a = zero_Active\<lparr>ac_ID := uuid, ac_ProfileID := uuid\<rparr> in
        (case devs of
           [] \<Rightarrow> (a, s2)
         | dev # _ \<Rightarrow>
             (case propStr E dev iDevice ''Interface'' s2 of (iface, s3) \<Rightarrow>
              (case propPath E dev iWireless ''ActiveAccessPoint'' s3 of (ap, s4) \<Rightarrow>
                if ap \<noteq> [] \<and> ap \<noteq> ''/'' then
                  (case propBytes E ap iAP ''Ssid'' s4 of (ssid, s5) \<Rightarrow>
                   (case propStr E ap iAP ''HwAddress'' s5 of (bssid, s6) \<Rightarrow>
                     (a\<lparr>ac_Iface := iface, ac_SSID := ssid, ac_BSSID := bssid\<rparr>, s6)))
                else (a\<lparr>ac_Iface := iface\<rparr>, s4))))))"

definition findAP :: "'s nb_env \<Rightarrow> string \<Rightarrow> string \<Rightarrow> 's \<Rightarrow> string option \<times> 's" where
  "findAP E dev bssid s =
     (case call_paths E dev (iWireless @ ''.GetAllAccessPoints'') [] s of
        (Inl _, s') \<Rightarrow> (None, s')
      | (Inr aps, s') \<Rightarrow>
          findS (\<lambda>ap s. case propStr E ap iAP ''HwAddress'' s of (h, s') \<Rightarrow> (EqualFold h bssid, s')) aps s')"

definition activate_fuel :: nat where "activate_fuel = 201"

definition activated_body :: "'s nb_env \<Rightarrow> string \<Rightarrow> 's \<Rightarrow> unit res option \<times> 's" where
  "activated_body E dev s =
     (case propU32 E dev iDevice ''State'' s of
        (st, s1) \<Rightarrow>
          if uint st = nmStateActivated then (Some (Inr ()), s1)
          else if uint st = nmStateFailed then
            (case propU32 E dev iDevice ''State'' s1 of
               (st2, s2) \<Rightarrow> (Some (Inl (ErrOther (''activation failed: '' @ stateName st2))), s2))
          else (None, s1))"

definition waitActivated :: "'s nb_env \<Rightarrow> string \<Rightarrow> ('s, unit) op" where
  "waitActivated E dev s =
     (case nb_now E s of
        (t, s1) \<Rightarrow>
          (case poll activate_fuel (nb_now E) (t + 60000000000) (activated_body E dev)
                  (wait_leave E 300000000 (\<lambda>e. Inl (ErrOther e))) (Inl (ErrOther ''activation timed out'')) s1 of
             (Inl e, s2) \<Rightarrow> (Inl e, s2)
           | (Inr r, s2) \<Rightarrow> (r, s2)))"

text \<open>The first active connection with the id.\<close>

definition find_active :: "'s nb_env \<Rightarrow> string \<Rightarrow> 's \<Rightarrow> string option \<times> 's" where
  "find_active E uuid s =
     (case activeConnPaths E s of
        (acs, s') \<Rightarrow> findS (\<lambda>ac s. case propStr E ac iActive ''Uuid'' s of (u, s') \<Rightarrow> (u = uuid, s')) acs s')"

definition connectionByUUID :: "'s nb_env \<Rightarrow> string \<Rightarrow> ('s, Active) op" where
  "connectionByUUID E uuid s =
     (case find_active E uuid s of
        (Some ac, s') \<Rightarrow> okS (activeToDomain E ac) s'
      | (None, s') \<Rightarrow> (Inl (ErrNotFound (''connection '' @ uuid)), s'))"

definition nmdbus_Activate :: "'s nb_env \<Rightarrow> string \<Rightarrow> string \<Rightarrow> string \<Rightarrow> ('s, Active) op" where
  "nmdbus_Activate E iface profileID bssid =
     bindE (connByUUID E profileID) (\<lambda>conn.
       bindE (deviceByName E iface) (\<lambda>dev s.
         (case (if bssid \<noteq> [] then findAP E dev bssid s else (None, s)) of
            (ap, s1) \<Rightarrow>
              bindE (mapErr (wrap_err ''activate'')
                  (call_path E nmPath (iNM @ ''.ActivateConnection'')
                    [APath conn, APath dev, APath (case ap of Some p \<Rightarrow> p | None \<Rightarrow> ''/'')])) (\<lambda>_.
                bindE (waitActivated E dev) (\<lambda>_. connectionByUUID E profileID)) s1)))"

definition nmdbus_Deactivate :: "'s nb_env \<Rightarrow> string \<Rightarrow> ('s, unit) op" where
  "nmdbus_Deactivate E connID s =
     (case find_active E connID s of
        (Some ac, s') \<Rightarrow> call_unit E nmPath (iNM @ ''.DeactivateConnection'') [APath ac] s'
      | (None, s') \<Rightarrow> (Inl (ErrNotFound (''connection '' @ connID)), s'))"

definition nmdbus_Connections :: "'s nb_env \<Rightarrow> ('s, Active list) op" where
  "nmdbus_Connections E s =
     (case activeConnPaths E s of
        (acs, s1) \<Rightarrow>
          okS (filter_mapS (\<lambda>ac s. case propStr E ac iActive ''Type'' s of
              (t, s') \<Rightarrow>
                if t \<noteq> ''802-11-wireless'' then (None, s')
                else (case activeToDomain E ac s' of (a, s'') \<Rightarrow> (Some a, s''))) acs) s1)"

definition nmdbus_Connection :: "'s nb_env \<Rightarrow> string \<Rightarrow> ('s, Active) op" where
  "nmdbus_Connection E connID = connectionByUUID E connID"

section \<open>nmdbus.go: status and watch\<close>

fun first_device :: "'s nb_env \<Rightarrow> string \<Rightarrow> string list \<Rightarrow> ('s, string) op" where
  "first_device E connID [] s = (Inl (ErrNotFound (''connection '' @ connID)), s)"
| "first_device E connID (ac # acs) s =
     (case propStr E ac iActive ''Uuid'' s of
        (u, s1) \<Rightarrow>
          if u = connID then
            (case propPaths E ac iActive ''Devices'' s1 of
               (dev # _, s2) \<Rightarrow> (Inr dev, s2)
             | ([], s2) \<Rightarrow> first_device E connID acs s2)
          else first_device E connID acs s1)"

definition deviceForUUID :: "'s nb_env \<Rightarrow> string \<Rightarrow> ('s, string) op" where
  "deviceForUUID E connID s = (case activeConnPaths E s of (acs, s') \<Rightarrow> first_device E connID acs s')"

definition stateReason :: "'s nb_env \<Rightarrow> string \<Rightarrow> 's \<Rightarrow> 32 word \<times> 's" where
  "stateReason E dev =
     read_as (\<lambda>v. case v of Some (VStruct [_, VU32 r]) \<Rightarrow> r | _ \<Rightarrow> 0) E dev iDevice ''StateReason''"

definition readIP4 :: "'s nb_env \<Rightarrow> string \<Rightarrow> 's \<Rightarrow> (string list \<times> string \<times> string list) \<times> 's" where
  "readIP4 E ip4 s =
     (case prop_opt E ip4 iIP4 ''AddressData'' s of (a, s1) \<Rightarrow>
      (case propStr E ip4 iIP4 ''Gateway'' s1 of (gw, s2) \<Rightarrow>
      (case prop_opt E ip4 iIP4 ''NameserverData'' s2 of (n, s3) \<Rightarrow>
        ((case a of Some (VDicts ad) \<Rightarrow> addr_data ad | _ \<Rightarrow> [],
          gw,
          case n of Some (VDicts nd) \<Rightarrow>
              concat (map (\<lambda>e. let x = variantString (map_of e ''address'') in if x \<noteq> [] then [x] else []) nd)
            | _ \<Rightarrow> []), s3))))"

definition nmdbus_buildStatus :: "'s nb_env \<Rightarrow> string \<Rightarrow> 's \<Rightarrow> Status \<times> 's" where
  "nmdbus_buildStatus E dev s =
     (case propU32 E dev iDevice ''State'' s of (state, s1) \<Rightarrow>
      let st0 = zero_Status\<lparr>st_State := mapDeviceState (uint state)\<rparr> in
      (case (if st_State st0 = StateFailed then
               (case stateReason E dev s1 of
                  (r, s') \<Rightarrow> (st0\<lparr>st_Error := if r = nmReasonNoSecrets then ErrCAuthFailed else ErrCUnknown,
                               st_Detail := stateText state\<rparr>, s'))
             else (st0, s1)) of (st1, s2) \<Rightarrow>
      (case propPath E dev iWireless ''ActiveAccessPoint'' s2 of (ap, s3) \<Rightarrow>
      (case (if ap \<noteq> [] \<and> ap \<noteq> ''/'' then
               (case propStr E ap iAP ''HwAddress'' s3 of (h, s') \<Rightarrow>
                (case propU8 E ap iAP ''Strength'' s' of (q, s'') \<Rightarrow>
                  (st1\<lparr>st_BSSID := h, st_Signal := int q\<rparr>, s'')))
             else (st1, s3)) of (st2, s4) \<Rightarrow>
      (case propPath E dev iDevice ''Ip4Config'' s4 of (ip4, s5) \<Rightarrow>
        if ip4 \<noteq> [] \<and> ip4 \<noteq> ''/'' then
          (case readIP4 E ip4 s5 of
             ((as, gw, dns), s6) \<Rightarrow> (st2\<lparr>st_Addresses := as, st_Gateway := gw, st_DNS := dns\<rparr>, s6))
        else (st2, s5))))))"

definition nmdbus_Status :: "'s nb_env \<Rightarrow> string \<Rightarrow> ('s, Status) op" where
  "nmdbus_Status E connID = bindE (deviceForUUID E connID) (\<lambda>dev. okS (nmdbus_buildStatus E dev))"

text \<open>\<open>emit\<close>; the state of the goroutine is the last state sent.\<close>

definition nmdbus_emit ::
  "'s nb_env \<Rightarrow> string \<Rightarrow> ConnState option \<Rightarrow> 's \<Rightarrow> (Status option \<times> bool) \<times> ConnState option \<times> 's" where
  "nmdbus_emit E dev l s =
     (case nmdbus_buildStatus E dev s of
        (st, s') \<Rightarrow>
          if Some (st_State st) = l then ((None, False), l, s')
          else ((Some st, st_State st = StateConnected \<or> st_State st = StateFailed), Some (st_State st), s'))"

text \<open>\<open>None\<close> is the first call, before the loop.\<close>

definition nmdbus_round :: "'s nb_env \<Rightarrow> string \<Rightarrow> (nm_signal option, ConnState option, 's) round" where
  "nmdbus_round E dev e l s =
     (case e of
        None \<Rightarrow> nmdbus_emit E dev l s
      | Some SignalEnd \<Rightarrow> ((None, True), l, s)
      | Some (StateSignal path name) \<Rightarrow>
          if path \<noteq> dev \<or> name \<noteq> iDevice @ ''.StateChanged'' then ((None, False), l, s)
          else nmdbus_emit E dev l s)"

definition nmdbus_Watch :: "'s nb_env \<Rightarrow> string \<Rightarrow> ('s, Status list) op" where
  "nmdbus_Watch E connID =
     bindE (deviceForUUID E connID) (\<lambda>dev s.
       (case nb_match E dev s of
          (Some e, s1) \<Rightarrow> (Inl (dbus_werr e), s1)
        | (None, s1) \<Rightarrow> okS (watch_run (nmdbus_round E dev) (None # map Some (nb_signals E s1)) None) s1))"

definition nmdbus_backend :: "'s nb_env \<Rightarrow> 's Backend" where
  "nmdbus_backend E = \<lparr>
     b_Interfaces = nmdbus_Interfaces E, b_Interface = nmdbus_Interface E, b_SetPower = nmdbus_SetPower E,
     b_Scan = nmdbus_Scan E, b_Profiles = nmdbus_Profiles E, b_Profile = nmdbus_Profile E,
     b_AddProfile = nmdbus_AddProfile E, b_PatchProfile = nmdbus_PatchProfile E,
     b_DeleteProfile = nmdbus_DeleteProfile E, b_Activate = nmdbus_Activate E,
     b_Deactivate = nmdbus_Deactivate E, b_Connections = nmdbus_Connections E,
     b_Connection = nmdbus_Connection E, b_Status = nmdbus_Status E, b_Watch = nmdbus_Watch E\<rparr>"

section \<open>Lemmas: addresses and settings\<close>

definition quad4 :: "nat \<Rightarrow> nat \<Rightarrow> nat \<Rightarrow> nat \<Rightarrow> nat" where
  "quad4 a b c d = 256 * (256 * (256 * a + b) + c) + d"

lemma quad4_digits:
  assumes "a < 256" "b < 256" "c < 256" "d < 256"
  shows "quad4 a b c d < 4294967296" "quad4 a b c d div 16777216 = a" "quad4 a b c d div 65536 mod 256 = b"
    "quad4 a b c d div 256 mod 256 = c" "quad4 a b c d mod 256 = d"
proof -
  have step: "(256 * x + y) div 256 = x" "(256 * x + y) mod 256 = y" if "y < 256" for x y :: nat
    using that by simp_all
  have d1: "quad4 a b c d div 256 = 256 * (256 * a + b) + c" unfolding quad4_def by (rule step(1)) (rule assms)
  have "quad4 a b c d div 65536 = quad4 a b c d div 256 div 256" by (simp add: div_mult2_eq [symmetric])
  also have "\<dots> = 256 * a + b" unfolding d1 by (rule step(1)) (rule assms)
  finally have d2: "quad4 a b c d div 65536 = 256 * a + b" .
  have "quad4 a b c d div 16777216 = quad4 a b c d div 65536 div 256" by (simp add: div_mult2_eq [symmetric])
  also have "\<dots> = a" unfolding d2 by (rule step(1)) (rule assms)
  finally show "quad4 a b c d div 16777216 = a" .
  show "quad4 a b c d div 65536 mod 256 = b" unfolding d2 by (rule step(2)) (rule assms)
  show "quad4 a b c d div 256 mod 256 = c" unfolding d1 by (rule step(2)) (rule assms)
  show "quad4 a b c d mod 256 = d" unfolding quad4_def by (rule step(2)) (rule assms)
  show "quad4 a b c d < 4294967296" using assms by (simp add: quad4_def)
qed

lemma quad4_of: "(n::nat) < 4294967296 \<Longrightarrow> quad4 (n div 16777216) (n div 65536 mod 256) (n div 256 mod 256) (n mod 256) = n"
proof -
  have a: "n div 16777216 = n div 65536 div 256" "n div 65536 = n div 256 div 256"
    by (simp_all add: div_mult2_eq [symmetric])
  show ?thesis unfolding quad4_def a by simp
qed

lemma native_u32_quad: "native_u32 le (native_order le [a, b, c, d]) = word_of_nat (quad4 a b c d)"
  by (simp add: native_u32_def native_order_def quad4_def)

lemma native_bytes_quad:
  assumes "a < 256" "b < 256" "c < 256" "d < 256"
  shows "native_bytes le (word_of_nat (quad4 a b c d)) = native_order le [a, b, c, d]"
proof -
  have "unat (word_of_nat (quad4 a b c d) :: 32 word) = quad4 a b c d"
    using quad4_digits(1) [OF assms] by (subst unat_of_nat) simp
  then show ?thesis using quad4_digits [OF assms] by (simp add: native_bytes_def)
qed

lemma native_order_twice [simp]: "native_order le (native_order le q) = q"
  by (simp add: native_order_def)

lemma octets_order [simp]: "octets (native_order le q) = octets q"
  by (simp add: native_order_def octets_def)

lemma native_roundtrip [simp]:
  assumes "octets q"
  shows "native_bytes le (native_u32 le q) = q"
proof -
  from assms have "octets (native_order le q)" by simp
  then obtain a b c d where q: "native_order le q = [a, b, c, d]" and l: "a < 256" "b < 256" "c < 256" "d < 256"
    by (rule octetsE)
  from q have "q = native_order le [a, b, c, d]" by (metis native_order_twice)
  then show ?thesis using native_u32_quad native_bytes_quad [OF l] by simp
qed

lemma octets_native: "octets (native_bytes le u)"
proof -
  have "unat u < 4294967296" using unsigned_less [of u] by simp
  then show ?thesis by (auto simp: octets_def native_bytes_def native_order_def)
qed

lemma native_roundtrip2 [simp]: "native_u32 le (native_bytes le u) = u"
proof -
  have "unat u < 4294967296" using unsigned_less [of u] by simp
  then have "quad4 (unat u div 16777216) (unat u div 65536 mod 256) (unat u div 256 mod 256) (unat u mod 256) = unat u"
    by (rule quad4_of)
  then show ?thesis by (simp add: native_bytes_def native_u32_quad)
qed

lemma ip4ToU32_show [simp]: "octets q \<Longrightarrow> ip4ToU32 le (show_ipv4 q) = Some (native_u32 le q)"
  by (simp add: ip4ToU32_def) (simp add: octets_def)

text \<open>Configurations in the form in which NetworkManager's settings give them back.\<close>

definition canonical_cidr :: "string \<Rightarrow> bool" where
  "canonical_cidr c \<longleftrightarrow> (\<exists>ip p. splitCIDR c = Some (ip, p) \<and> ip \<noteq> [] \<and> c = ip @ ''/'' @ show_nat (unat p))"

definition canonical_dns6 :: "string \<Rightarrow> bool" where
  "canonical_dns6 d \<longleftrightarrow> (\<exists>b. ParseIP d = Some b \<and> length b = 16 \<and> To4 b = None \<and> (\<forall>x \<in> set b. x < 256) \<and> IP_String b = d)"

definition canonical_dns4 :: "string \<Rightarrow> bool" where
  "canonical_dns4 d \<longleftrightarrow> (\<exists>q. octets q \<and> d = show_ipv4 q)"

definition canonical_ip :: "string \<Rightarrow> IPConfig \<Rightarrow> bool" where
  "canonical_ip grp c \<longleftrightarrow>
     (\<forall>a \<in> set (ip_Addresses c). canonical_cidr a) \<and>
     (\<forall>d \<in> set (ip_DNS c). if grp = ''ipv6'' then canonical_dns6 d else canonical_dns4 d)"

text \<open>What the settings keep: details only with the manual method, and DHCP by default.\<close>

definition settled :: "IPConfig option \<Rightarrow> IPConfig" where
  "settled cfg =
     (case cfg of
        None \<Rightarrow> zero_IPConfig\<lparr>ip_Method := IPAuto\<rparr>
      | Some c \<Rightarrow>
          (case ip_Method c of
             IPManual \<Rightarrow> c
           | IPDisabled \<Rightarrow> zero_IPConfig\<lparr>ip_Method := IPDisabled\<rparr>
           | _ \<Rightarrow> zero_IPConfig\<lparr>ip_Method := IPAuto\<rparr>))"

lemma addr_entries: "\<forall>a \<in> set as. canonical_cidr a \<Longrightarrow> addr_data (concat (map addr_entry as)) = as"
proof (induction as)
  case (Cons a as)
  then obtain ip p where a: "splitCIDR a = Some (ip, p)" "ip \<noteq> []" "a = ip @ ''/'' @ show_nat (unat p)"
    by (auto simp: canonical_cidr_def)
  have "addr_data (addr_entry a @ es) = a # addr_data es" for es
    using a(2) by (simp add: addr_entry_def a(1) addr_data_def variantString_def dict_u32_def) (simp add: a(3))
  with Cons show ?case by simp
qed (simp add: addr_data_def)

lemma addr_entries_empty: "\<forall>a \<in> set as. canonical_cidr a \<Longrightarrow> concat (map addr_entry as) = [] \<longleftrightarrow> as = []"
  by (cases as) (auto simp: canonical_cidr_def addr_entry_def)

lemma dns6_back:
  assumes "\<forall>d \<in> set ds. canonical_dns6 d"
  shows "concat (map (\<lambda>b. if length b = 16 then [IP_String (map byte b)] else []) (concat (map dns6_bytes ds))) = ds"
  using assms
proof (induction ds)
  case (Cons d ds)
  then obtain b where b: "ParseIP d = Some b" "length b = 16" "To4 b = None" "\<forall>x \<in> set b. x < 256" "IP_String b = d"
    by (auto simp: canonical_dns6_def)
  have "map (\<lambda>x. byte (char_of x)) b = b" using b(4) by (simp add: map_idI)
  with b Cons show ?case by (simp add: dns6_bytes_def To16_def o_def)
qed simp

lemma dns4_back:
  assumes "\<forall>d \<in> set ds. canonical_dns4 d"
  shows "map (u32ToIP4 le) (concat (map (dns4_words le) ds)) = ds"
  using assms by (induction ds) (auto simp: canonical_dns4_def dns4_words_def u32ToIP4_def)

lemma dns_back:
  assumes "canonical_ip grp c"
  shows "settings_dns le grp (dnsVariant le grp (ip_DNS c)) = ip_DNS c"
proof (cases "grp = ''ipv6''")
  case True
  with assms have "\<forall>d \<in> set (ip_DNS c). canonical_dns6 d" by (simp add: canonical_ip_def)
  from dns6_back [OF this] True show ?thesis
    by (cases "concat (map dns6_bytes (ip_DNS c)) = []")
      (simp_all add: settings_dns_def dnsVariant_def Let_def del: concat_eq_Nil_conv)
next
  case False
  with assms have "\<forall>d \<in> set (ip_DNS c). canonical_dns4 d" by (simp add: canonical_ip_def)
  from dns4_back [OF this, of le] False show ?thesis
    by (cases "concat (map (dns4_words le) (ip_DNS c)) = []")
      (simp_all add: settings_dns_def dnsVariant_def Let_def del: concat_eq_Nil_conv)
qed

lemma ipSection_back:
  assumes s: "s grp = Some (ipSection le grp cfg)" and c: "\<And>c. cfg = Some c \<Longrightarrow> canonical_ip grp c"
  shows "ipConfigFromSettings le s grp = settled cfg"
proof (cases "\<exists>c. cfg = Some c \<and> ip_Method c = IPManual")
  case True
  then obtain c where cfg: "cfg = Some c" "ip_Method c = IPManual" by blast
  with assms(2) have can: "canonical_ip grp c" by blast
  then have as: "\<forall>a \<in> set (ip_Addresses c). canonical_cidr a" by (simp add: canonical_ip_def)
  note ad = addr_entries [OF as] addr_entries_empty [OF as]
  have "ipConfigFromSettings le s grp = c"
    using cfg dns_back [OF can, of le] ad
    by (cases "ip_Addresses c = []"; cases "ip_DNSSearch c = []")
      (simp_all add: ipConfigFromSettings_def sString_def sGet_def s ipSection_def method_only_def variantString_def Let_def)
  with cfg show ?thesis by (simp add: settled_def)
next
  case False
  then show ?thesis
    by (cases cfg; cases "ip_Method (the cfg)")
      (auto simp: ipConfigFromSettings_def sString_def sGet_def s ipSection_def method_only_def variantString_def
        Let_def settled_def settings_dns_def zero_IPConfig_def)
qed

end
