(* ===== verification/Nmdbus_Spec.thy ===== *)
theory Nmdbus_Spec
  imports Nmdbus
begin

text \<open>
  What the backend of \<open>internal/wnet/nmdbus\<close> promises: the settings it writes and reads back, the
  settings a patch sends, the order of statuses on a watch, and that its polling loops end.
\<close>

section \<open>Settings\<close>

lemma sGet_set_key: "sGet (set_key g k v x) g' k' = (if g' = g \<and> k' = k then Some v else sGet x g' k')"
  by (auto simp: sGet_def set_key_def split: option.splits)

lemma sGet_upd: "sGet (x(g \<mapsto> m)) g' k = (if g' = g then m k else sGet x g' k)"
  by (simp add: sGet_def)

lemma sGet_drop: "sGet (x(g := None)) g' k = (if g' = g then None else sGet x g' k)"
  by (simp add: sGet_def)

lemma sGet_set_opt:
  "sGet (set_opt o' (\<lambda>v. set_key g k (h v)) x) g' k' =
     (if g' = g \<and> k' = k then (case o' of None \<Rightarrow> sGet x g k | Some v \<Rightarrow> Some (h v)) else sGet x g' k')"
  by (simp add: set_opt_def sGet_set_key split: option.split)

lemmas settings_simps = sGet_set_key sGet_upd sGet_drop sGet_set_opt

text \<open>Reading settings looks at single values only.\<close>

lemma ipConfigFromSettings_cong:
  assumes "\<And>k. sGet y grp k = sGet x grp k"
  shows "ipConfigFromSettings le y grp = ipConfigFromSettings le x grp"
  unfolding ipConfigFromSettings_def sString_def assms ..

text \<open>What a profile keeps of a specification that is written and read back.\<close>

definition stored_profile :: "string \<Rightarrow> ProfileSpec \<Rightarrow> Profile" where
  "stored_profile uuid spec =
     \<lparr>pr_ID = uuid, pr_Name = (if ps_Name spec = [] then ps_SSID spec else ps_Name spec),
      pr_SSID = ps_SSID spec, pr_Hidden = ps_Hidden spec, pr_Autoconnect = ps_Autoconnect spec,
      pr_Security = \<lparr>sec_Kind = sec_Kind (ps_Security spec), sec_Passphrase = []\<rparr>,
      pr_IPv4 = settled (ps_IPv4 spec), pr_IPv6 = settled (ps_IPv6 spec)\<rparr>"

text \<open>
  \<open>y\<close> is what the service gives back for \<open>x\<close>: the same values, but for the uuid it assigns and
  the passphrase it leaves out.
\<close>

definition given_back :: "nmSettings \<Rightarrow> string \<Rightarrow> nmSettings \<Rightarrow> bool" where
  "given_back x uuid y \<longleftrightarrow>
     sGet y ''connection'' ''uuid'' = Some (VString uuid) \<and>
     (\<forall>g k. (g, k) \<notin> {(''connection'', ''uuid''), (wsec, ''psk'')} \<longrightarrow> sGet y g k = sGet x g k)"

definition canonical_opt :: "string \<Rightarrow> IPConfig option \<Rightarrow> bool" where
  "canonical_opt grp cfg = (case cfg of None \<Rightarrow> True | Some c \<Rightarrow> canonical_ip grp c)"

lemma buildSettings_back:
  assumes "given_back (buildSettings le spec) uuid y"
    and kind: "sec_Kind (ps_Security spec) \<noteq> SecEnterprise"
    and ip: "canonical_opt ''ipv4'' (ps_IPv4 spec)" "canonical_opt ''ipv6'' (ps_IPv6 spec)"
  shows "profileFromSettings le y = stored_profile uuid spec"
proof -
  let ?x = "buildSettings le spec"
  have eq: "sGet y g k = sGet ?x g k" if "(g, k) \<notin> {(''connection'', ''uuid''), (wsec, ''psk'')}" for g k
    using assms(1) that unfolding given_back_def by blast
  have u: "sGet y ''connection'' ''uuid'' = Some (VString uuid)" using assms(1) by (simp add: given_back_def)
  have grp: "?x ''ipv4'' = Some (ipSection le ''ipv4'' (ps_IPv4 spec))"
    "?x ''ipv6'' = Some (ipSection le ''ipv6'' (ps_IPv6 spec))"
    by (simp_all add: buildSettings_def Let_def)
  have ip4: "ipConfigFromSettings le y ''ipv4'' = settled (ps_IPv4 spec)"
  proof -
    have "ipConfigFromSettings le y ''ipv4'' = ipConfigFromSettings le ?x ''ipv4''"
      by (rule ipConfigFromSettings_cong) (rule eq, simp add: wsec_def)
    also have "\<dots> = settled (ps_IPv4 spec)"
      by (rule ipSection_back) (use ip(1) in \<open>simp_all add: grp canonical_opt_def\<close>)
    finally show ?thesis .
  qed
  have ip6: "ipConfigFromSettings le y ''ipv6'' = settled (ps_IPv6 spec)"
  proof -
    have "ipConfigFromSettings le y ''ipv6'' = ipConfigFromSettings le ?x ''ipv6''"
      by (rule ipConfigFromSettings_cong) (rule eq, simp add: wsec_def)
    also have "\<dots> = settled (ps_IPv6 spec)"
      by (rule ipSection_back) (use ip(2) in \<open>simp_all add: grp canonical_opt_def\<close>)
    finally show ?thesis .
  qed
  have vals: "sGet ?x ''connection'' ''id'' = Some (VString (if ps_Name spec = [] then ps_SSID spec else ps_Name spec))"
    "sGet ?x ''802-11-wireless'' ''ssid'' = Some (VBytes (ps_SSID spec))"
    "sGet ?x ''802-11-wireless'' ''hidden'' = (if ps_Hidden spec then Some (VBool True) else None)"
    "sGet ?x ''connection'' ''autoconnect'' = Some (VBool (ps_Autoconnect spec))"
    "sGet ?x ''802-11-wireless-security'' ''key-mgmt'' =
       (if sec_Kind (ps_Security spec) = SecPSK then Some (VString ''wpa-psk'') else None)"
    by (simp_all add: buildSettings_def sGet_def Let_def)
  show ?thesis
    using kind
    by (cases "sec_Kind (ps_Security spec)")
      (simp_all add: profileFromSettings_def sString_def sBytes_def sBool_def u eq vals wsec_def ip4 ip6
        variantString_def stored_profile_def nmdbus_securityFromKeyMgmt_def)
qed


section \<open>Patches\<close>

lemma patch_fields_group: "g \<noteq> ''connection'' \<Longrightarrow> g \<noteq> ''802-11-wireless'' \<Longrightarrow> patch_fields patch x g = x g"
  by (simp add: patch_fields_def set_opt_def set_key_def split: option.splits)

lemma sGet_patch_fields:
  "sGet (patch_fields patch x) g k =
     (if g = ''connection'' \<and> k = ''autoconnect'' then
        (case pp_Autoconnect patch of None \<Rightarrow> sGet x g k | Some v \<Rightarrow> Some (VBool v))
      else if g = ''802-11-wireless'' \<and> k = ''hidden'' then
        (case pp_Hidden patch of None \<Rightarrow> sGet x g k | Some v \<Rightarrow> Some (VBool v))
      else if g = ''802-11-wireless'' \<and> k = ''ssid'' then
        (case pp_SSID patch of None \<Rightarrow> sGet x g k | Some v \<Rightarrow> Some (VBytes v))
      else if g = ''connection'' \<and> k = ''id'' then
        (case pp_Name patch of None \<Rightarrow> sGet x g k | Some v \<Rightarrow> Some (VString v))
      else sGet x g k)"
  by (simp add: patch_fields_def sGet_set_opt split: option.split)

lemma sGet_patch_rest:
  "sGet (patch_rest le patch x) g k =
     (if g = ''connection'' \<and> k = ''timestamp'' then None
      else if g = ''ipv4'' \<and> pp_IPv4 patch \<noteq> None then ipSection le ''ipv4'' (pp_IPv4 patch) k
      else if g = ''ipv6'' \<and> pp_IPv6 patch \<noteq> None then ipSection le ''ipv6'' (pp_IPv6 patch) k
      else sGet x g k)"
  by (cases "pp_IPv4 patch"; cases "pp_IPv6 patch"; cases "x ''connection''")
    (auto simp: patch_rest_def set_opt_def Let_def sGet_def)

text \<open>The values a patch may change when it carries no security.\<close>

definition touched :: "ProfilePatch \<Rightarrow> string \<Rightarrow> string \<Rightarrow> bool" where
  "touched patch g k \<longleftrightarrow>
     g = ''connection'' \<and> (k = ''timestamp'' \<or> k = ''id'' \<and> pp_Name patch \<noteq> None \<or> k = ''autoconnect'' \<and> pp_Autoconnect patch \<noteq> None) \<or>
     g = ''802-11-wireless'' \<and> (k = ''ssid'' \<and> pp_SSID patch \<noteq> None \<or> k = ''hidden'' \<and> pp_Hidden patch \<noteq> None) \<or>
     g = ''ipv4'' \<and> pp_IPv4 patch \<noteq> None \<or> g = ''ipv6'' \<and> pp_IPv6 patch \<noteq> None"

text \<open>The rest of a patch, once its settings are known.\<close>

definition send_update :: "'s nb_env \<Rightarrow> string \<Rightarrow> nmSettings \<Rightarrow> ('s, Profile) op" where
  "send_update E conn z =
     bindE (call_unit E conn (iSettingsConn @ ''.Update'') [ASettings z]) (\<lambda>_.
       bindE (getSettings E conn) (\<lambda>ns. retE (profileFromSettings (nb_le E) ns)))"

lemma patch_sends:
  assumes "connByUUID E i s = (Inr conn, s1)" and "getSettings E conn s1 = (Inr x, s2)"
    and "patch_security E conn patch (patch_fields patch x) s2 = (Inr x', s3)"
  shows "nmdbus_PatchProfile E i patch s = send_update E conn (patch_rest (nb_le E) patch x') s3"
  using assms by (simp add: nmdbus_PatchProfile_def send_update_def)

lemma patch_security_keeps:
  assumes "pp_Security patch = None" "x wsec = Some grp" "getSecrets E conn wsec s = (Inr sec, s')"
  shows "patch_security E conn patch (patch_fields patch x) s =
     (Inr ((patch_fields patch x)(wsec \<mapsto> grp ++ (case sec wsec of None \<Rightarrow> Map.empty | Some m \<Rightarrow> m))), s')"
  using assms patch_fields_group [of wsec patch x] by (simp add: patch_security_def wsec_def)

lemma wsec_groups [simp]: "wsec \<noteq> ''connection''" "wsec \<noteq> ''802-11-wireless''" "wsec \<noteq> ''ipv4''" "wsec \<noteq> ''ipv6''"
  by (simp_all add: wsec_def)

section \<open>Clock\<close>

definition nmdbus_clock :: "'s nb_env \<Rightarrow> ('s \<Rightarrow> int) \<Rightarrow> bool" where
  "nmdbus_clock E clk \<longleftrightarrow>
     (\<forall>s. nb_now E s = (clk s, s)) \<and>
     (\<forall>d s r s'. nb_wait E d s = (r, s') \<longrightarrow> clk s \<le> clk s' \<and> (r = None \<longrightarrow> clk s + d \<le> clk s')) \<and>
     (\<forall>p i n s r s'. nb_prop E p i n s = (r, s') \<longrightarrow> clk s \<le> clk s')"

lemma clock_read_as:
  "nmdbus_clock E clk \<Longrightarrow> read_as f E p i n s = (a, s') \<Longrightarrow> clk s \<le> clk s'"
  unfolding nmdbus_clock_def by (fastforce simp: read_as_def prop_opt_def split: prod.splits sum.splits)

lemma clock_wait:
  "nmdbus_clock E clk \<Longrightarrow> wait_leave E d f s = (None, s') \<Longrightarrow> clk s + d \<le> clk s'"
  unfolding nmdbus_clock_def by (fastforce simp: wait_leave_def split: prod.splits option.splits)

text \<open>All three waits are polls whose body only reads properties.\<close>

lemma poll_ends:
  assumes E: "nmdbus_clock E clk"
    and body: "\<And>s r s'. body s = (r, s') \<Longrightarrow> clk s \<le> clk s'"
    and fuel: "w \<le> d * (int n - 1)" "0 < d" "0 < n"
  shows "\<exists>r s'. poll n (nb_now E) (clk s + w) body (wait_leave E d f) r0 s = (Inr r, s')"
proof (rule poll_enough_fuel [where clk = clk and d = d])
  show "\<And>s t s'. nb_now E s = (t, s') \<Longrightarrow> t = clk s \<and> clk s' = clk s"
    using E by (simp add: nmdbus_clock_def)
  show "\<And>s s'. wait_leave E d f s = (None, s') \<Longrightarrow> clk s + d \<le> clk s'"
    using clock_wait [OF E] .
qed (use body fuel in auto)

lemma nb_now_clock: "nmdbus_clock E clk \<Longrightarrow> nb_now E s = (clk s, s)"
  by (simp add: nmdbus_clock_def)

lemma waitPower_returns [returns_intros]:
  assumes "nmdbus_clock E clk"
  shows "returns (waitPower E dev on)"
proof
  fix s s'
  have "\<exists>r s'. waitPower E dev on s = (Inr r, s')"
    unfolding waitPower_def nb_now_clock [OF assms, of s] prod.case
    by (rule poll_ends [OF assms])
      (auto simp: propU32_def power_fuel_def split: prod.splits dest: clock_read_as [OF assms])
  then show "waitPower E dev on s \<noteq> (Inl OutOfFuel, s')" by auto
qed

lemma waitScan_returns [returns_intros]:
  assumes "nmdbus_clock E clk"
  shows "returns (waitScan E dev before)"
proof
  fix s s'
  have "\<exists>r s'. waitScan E dev before s = (Inr r, s')"
    unfolding waitScan_def nb_now_clock [OF assms, of s] prod.case
    by (rule poll_ends [OF assms])
      (auto simp: propI64_def waitscan_fuel_def split: prod.splits dest: clock_read_as [OF assms])
  then show "waitScan E dev before s \<noteq> (Inl OutOfFuel, s')" by auto
qed

lemma activated_body_clock:
  assumes "nmdbus_clock E clk" "activated_body E dev s = (r, s')"
  shows "clk s \<le> clk s'"
proof -
  obtain st s1 where 1: "propU32 E dev iDevice ''State'' s = (st, s1)" by force
  obtain st2 s2 where 2: "propU32 E dev iDevice ''State'' s1 = (st2, s2)" by force
  from 1 2 clock_read_as [OF assms(1)] have "clk s \<le> clk s1" "clk s1 \<le> clk s2"
    by (auto simp: propU32_def)
  with assms(2) 1 2 show ?thesis by (auto simp: activated_body_def split: if_splits)
qed


lemma poll_result:
  assumes "\<And>s r s'. body s = (Some (Inl r), s') \<Longrightarrow> r \<noteq> OutOfFuel"
    and "\<And>s r s'. wait s = (Some (Inl r), s') \<Longrightarrow> r \<noteq> OutOfFuel" and "r0 \<noteq> Inl OutOfFuel"
    and "poll n now dl body wait r0 s = (Inr r, s')"
  shows "r \<noteq> Inl OutOfFuel"
  using assms(4)
proof (induction n arbitrary: s)
  case (Suc n)
  obtain t s1 where n1: "now s = (t, s1)" by force
  obtain b s2 where b: "body s1 = (b, s2)" by force
  obtain q s3 where q: "wait s2 = (q, s3)" by force
  from Suc.prems Suc.IH n1 b q assms(1) [of s1 _ s2] assms(2) [of s2 _ s3] assms(3)
  show ?case by (auto split: if_splits option.splits)
qed simp

lemma waitActivated_returns [returns_intros]:
  assumes "nmdbus_clock E clk"
  shows "returns (waitActivated E dev)"
proof
  fix s s'
  let ?wait = "wait_leave E 300000000 (\<lambda>e. Inl (ErrOther e))"
  have "\<exists>r s'. poll activate_fuel (nb_now E) (clk s + 60000000000) (activated_body E dev)
      ?wait (Inl (ErrOther ''activation timed out'')) s = (Inr r, s')"
    by (rule poll_ends [OF assms]) (auto simp: activate_fuel_def dest: activated_body_clock [OF assms])
  then obtain r t where p: "poll activate_fuel (nb_now E) (clk s + 60000000000) (activated_body E dev)
      ?wait (Inl (ErrOther ''activation timed out'')) s = (Inr r, t)" by blast
  have "r \<noteq> Inl OutOfFuel"
    by (rule poll_result [OF _ _ _ p])
      (auto simp: activated_body_def wait_leave_def split: prod.splits if_splits option.splits)
  with p show "waitActivated E dev s \<noteq> (Inl OutOfFuel, s')"
    by (simp add: waitActivated_def nb_now_clock [OF assms, of s])
qed

lemma calls_return [returns_intros]:
  "returns (call_path E p m args)" "returns (call_paths E p m args)" "returns (call_settings E p m args)"
  "returns (call_unit E p m args)"
  by (rule returnsI, auto simp: call_path_def call_paths_def call_settings_def call_unit_def dbus_werr_def
      split: prod.splits sum.splits nm_reply.splits)+

lemma okS_returns [returns_intros]: "returns (okS f)"
  by (rule returnsI) (simp add: okS_def split: prod.split)

lemma lookups_return [returns_intros]:
  "returns (deviceByName E n)" "returns (connByUUID E u)" "returns (connectionByUUID E u)"
  by (rule returnsI, auto simp: deviceByName_def connByUUID_def connectionByUUID_def okS_def mapErr_def
      split: prod.splits sum.splits option.splits)+

lemma scan_loop_returns [returns_intros]:
  assumes "nmdbus_clock E clk"
  shows "returns (nmdbus_scan_loop E dev n best)"
proof (induction n arbitrary: best)
  case (Suc n)
  have w: "waitScan E dev b s \<noteq> (Inl OutOfFuel, s')" for b s s'
    using waitScan_returns [OF assms] unfolding returns_def by (metis fst_conv)
  have c: "call_paths E dev m [] s \<noteq> (Inl OutOfFuel, s')" for m s s'
    using calls_return(2) unfolding returns_def by (metis fst_conv)
  have l: "nmdbus_scan_loop E dev n b s \<noteq> (Inl OutOfFuel, s')" for b s s'
    using Suc.IH [of b] unfolding returns_def by (metis fst_conv)
  show ?case
    by (rule returnsI) (auto simp: Let_def w c l split: prod.splits sum.splits if_splits)
qed (simp add: returns_def)

section \<open>Watch\<close>

lemma nmdbus_emit_Some:
  "nmdbus_emit E dev l s = ((Some st, stop), l', s') \<Longrightarrow>
     l \<noteq> Some (st_State st) \<and> l' = Some (st_State st) \<and> stop = terminal (st_State st)"
  by (auto simp: nmdbus_emit_def terminal_def split: prod.splits if_splits)

lemma nmdbus_emit_None: "nmdbus_emit E dev l s = ((None, stop), l', s') \<Longrightarrow> l' = l"
  by (auto simp: nmdbus_emit_def split: prod.splits if_splits)

interpretation nmdbus_watch: watch_contract "nmdbus_round E dev" "\<lambda>l. l" for E :: "'s nb_env" and dev
proof
  fix e w st stop w' and s s' :: 's
  assume "nmdbus_round E dev e w s = ((Some st, stop), w', s')"
  then show "w \<noteq> Some (st_State st) \<and> w' = Some (st_State st)"
    by (auto simp: nmdbus_round_def split: option.splits nm_signal.splits if_splits dest: nmdbus_emit_Some)
next
  fix e w stop w' and s s' :: 's
  assume "nmdbus_round E dev e w s = ((None, stop), w', s')"
  then show "w' = w"
    by (auto simp: nmdbus_round_def split: option.splits nm_signal.splits if_splits dest: nmdbus_emit_None)
qed

lemma nmdbus_stops: "stops_at (nmdbus_round E dev) terminal"
  unfolding stops_at_def
  by (auto simp: nmdbus_round_def split: option.splits nm_signal.splits if_splits dest: nmdbus_emit_Some)


section \<open>A service to evaluate on\<close>

text \<open>
  A NetworkManager with one connection and one device: the state is the stored settings
  and the clock.  It stands for no code.
\<close>

definition demo_hide :: "nmSettings \<Rightarrow> nmSettings" where
  "demo_hide x = (case x wsec of None \<Rightarrow> x | Some g \<Rightarrow> x(wsec \<mapsto> g(''psk'' := None)))"

definition demo_call :: "string \<Rightarrow> nm_arg list \<Rightarrow> nmSettings \<Rightarrow> nm_reply \<times> nmSettings" where
  "demo_call m args x =
     (if m = iSettings @ ''.GetConnectionByUuid'' \<or> m = iNM @ ''.GetDeviceByIpIface'' then (RPath ''/c'', x)
      else if m = iSettings @ ''.AddConnection'' then
        (RPath ''/c'', case args of [ASettings y] \<Rightarrow> set_key ''connection'' ''uuid'' (VString ''u1'') y | _ \<Rightarrow> x)
      else if m = iSettingsConn @ ''.GetSettings'' then (RSettings (demo_hide x), x)
      else if m = iSettingsConn @ ''.GetSecrets'' then (RSettings [wsec \<mapsto> [''psk'' \<mapsto> VString (sString x wsec ''psk'')]], x)
      else if m = iSettingsConn @ ''.Update'' then (RNone, case args of [ASettings y] \<Rightarrow> y | _ \<Rightarrow> x)
      else (RNone, x))"

definition demo_nm :: "(nmSettings \<times> int) nb_env" where
  "demo_nm = \<lparr>
     nb_prop = (\<lambda>p i n s. (Inr (if n = ''State'' then VU32 100
        else if n = ''Uuid'' then VString ''u1''
        else if n = ''ActiveConnections'' \<or> n = ''Devices'' then VPaths [''/c''] else VOther), s)),
     nb_call = (\<lambda>p m args s. case demo_call m args (fst s) of (r, x) \<Rightarrow> (Inr r, (x, snd s))),
     nb_now = (\<lambda>s. (snd s, s)), nb_wait = (\<lambda>d s. (None, (fst s, snd s + \<bar>d\<bar>))),
     nb_match = (\<lambda>p s. (None, s)), nb_signals = (\<lambda>s. [StateSignal ''/c'' (iDevice @ ''.StateChanged'')]),
     nb_ifup = (\<lambda>s n. True), nb_readlink = (\<lambda>s n. None), nb_le = True\<rparr>"

definition demo_spec :: ProfileSpec where
  "demo_spec = \<lparr>ps_Name = ''Home'', ps_SSID = ''home'', ps_Hidden = True, ps_Autoconnect = False,
     ps_Security = \<lparr>sec_Kind = SecPSK, sec_Passphrase = ''correct horse''\<rparr>,
     ps_IPv4 = Some \<lparr>ip_Method = IPManual, ip_Addresses = [''10.0.0.7/24''], ip_Gateway = ''10.0.0.1'',
       ip_DNS = [''1.1.1.1''], ip_DNSSearch = [''lan'']\<rparr>,
     ps_IPv6 = None\<rparr>"

lemma demo_names [simp]:
  "iSettings @ ''.AddConnection'' \<noteq> iNM @ ''.GetDeviceByIpIface''"
  "iSettingsConn @ ''.GetSettings'' \<noteq> iNM @ ''.GetDeviceByIpIface''"
  "iSettingsConn @ ''.GetSettings'' \<noteq> iSettings @ ''.GetConnectionByUuid''"
  "iSettingsConn @ ''.GetSettings'' \<noteq> iSettings @ ''.AddConnection''"
  "iSettingsConn @ ''.GetSecrets'' \<noteq> iNM @ ''.GetDeviceByIpIface''"
  "iSettingsConn @ ''.GetSecrets'' \<noteq> iSettings @ ''.GetConnectionByUuid''"
  "iSettingsConn @ ''.GetSecrets'' \<noteq> iSettings @ ''.AddConnection''"
  by code_simp+

lemma demo_calls:
  "demo_call (iSettings @ ''.GetConnectionByUuid'') args x = (RPath ''/c'', x)"
  "demo_call (iSettings @ ''.AddConnection'') [ASettings y] x =
     (RPath ''/c'', set_key ''connection'' ''uuid'' (VString ''u1'') y)"
  "demo_call (iSettingsConn @ ''.GetSettings'') args x = (RSettings (demo_hide x), x)"
  "demo_call (iSettingsConn @ ''.GetSecrets'') args x =
     (RSettings [wsec \<mapsto> [''psk'' \<mapsto> VString (sString x wsec ''psk'')]], x)"
  by (simp_all add: demo_call_def)

lemma demo_nm_call: "nb_call demo_nm p m args (x, t) = (case demo_call m args x of (r, x') \<Rightarrow> (Inr r, (x', t)))"
  by (simp add: demo_nm_def)

lemma demo_clock: "nmdbus_clock demo_nm snd"
  by (auto simp: nmdbus_clock_def demo_nm_def split: prod.splits)

lemma canonical_cidr_v4:
  assumes "octets q" "n \<le> 32"
  shows "canonical_cidr (show_ipv4 q @ ''/'' @ show_nat n)"
proof -
  from assms(1) have l: "length q = 4" by (simp add: octets_def)
  from assms(1) have ne: "show_ipv4 q \<noteq> []" using dot_in_show_ipv4 by fastforce
  from assms(2) have u: "unat (word_of_nat n :: 32 word) = n" by (subst unat_of_nat) simp
  have m: "mask_size (CIDRMask n 32) = n" using assms(2) by (rule mask_size_CIDRMask)
  have "splitCIDR (show_ipv4 q @ ''/'' @ show_nat n) = Some (show_ipv4 q, word_of_nat n)"
    using ParseCIDR_show [OF assms] m l by (simp add: splitCIDR_def)
  with ne u show ?thesis unfolding canonical_cidr_def by metis
qed

lemma demo_canonical: "canonical_opt ''ipv4'' (ps_IPv4 demo_spec)" "canonical_opt ''ipv6'' (ps_IPv6 demo_spec)"
proof -
  have e: "show_ipv4 [10, 0, 0, 7] @ ''/'' @ show_nat 24 = ''10.0.0.7/24''" by code_simp
  have c: "canonical_cidr ''10.0.0.7/24''"
    using canonical_cidr_v4 [of "[10, 0, 0, 7]" 24] unfolding e by (simp add: octets_def)
  have d: "canonical_dns4 ''1.1.1.1''"
    unfolding canonical_dns4_def by (rule exI [of _ "[1, 1, 1, 1]"]) code_simp
  show "canonical_opt ''ipv4'' (ps_IPv4 demo_spec)" using c d
    by (simp add: demo_spec_def canonical_opt_def canonical_ip_def)
  show "canonical_opt ''ipv6'' (ps_IPv6 demo_spec)" by (simp add: demo_spec_def canonical_opt_def)
qed

lemma demo_given_back:
  "given_back x ''u1'' (demo_hide (set_key ''connection'' ''uuid'' (VString ''u1'') x))"
  by (cases "x wsec") (auto simp: given_back_def demo_hide_def sGet_set_key set_key_def sGet_def wsec_def
      split: option.splits)

section \<open>Properties\<close>




text \<open>A patch that names WPA-PSK without a passphrase, in contrast, stores the empty one.\<close>

lemma nmdbus_blank_psk_stored:
  assumes "connByUUID E i s = (Inr conn, s1)" and "getSettings E conn s1 = (Inr x, s2)"
    and "pp_Security patch = Some \<lparr>sec_Kind = SecPSK, sec_Passphrase = []\<rparr>"
  shows "\<exists>z. nmdbus_PatchProfile E i patch s = send_update E conn z s2 \<and> sGet z wsec ''psk'' = Some (VString [])"
proof -
  let ?x' = "set_key wsec ''psk'' (VString []) (set_key wsec ''key-mgmt'' (VString ''wpa-psk'') (patch_fields patch x))"
  have "patch_security E conn patch (patch_fields patch x) s2 = (Inr ?x', s2)"
    using assms(3) by (simp add: patch_security_def)
  from patch_sends [OF assms(1,2) this]
  have "nmdbus_PatchProfile E i patch s = send_update E conn (patch_rest (nb_le E) patch ?x') s2" .
  moreover have "sGet (patch_rest (nb_le E) patch ?x') wsec ''psk'' = Some (VString [])"
    by (simp add: sGet_patch_rest settings_simps)
  ultimately show ?thesis by blast
qed

definition rename_patch :: ProfilePatch where
  "rename_patch = \<lparr>pp_Name = Some ''Work'', pp_SSID = None, pp_Hidden = None, pp_Autoconnect = None,
     pp_Security = None, pp_IPv4 = None, pp_IPv6 = None\<rparr>"


text \<open>The calls that wait for NetworkManager end: as long as the clock runs on while the backend waits, switching the radio, scanning and activating use at most the fuel of their polling loops (15, 28 and 201 rounds), for whatever the service answers.\<close>

lemma nmdbus_waits_end:
  assumes "nmdbus_clock E clk"
  shows "fst (nmdbus_SetPower E n on s) \<noteq> Inl OutOfFuel \<and> fst (nmdbus_Scan E n s) \<noteq> Inl OutOfFuel \<and>
     fst (nmdbus_Activate E n p b s) \<noteq> Inl OutOfFuel"
proof -
  have act: "returns (\<lambda>s. case (if b \<noteq> [] then findAP E dev b s else (None, s)) of (ap, s1) \<Rightarrow> m ap s1)"
    if "\<And>ap. returns (m ap)" for dev and m :: "string option \<Rightarrow> ('a, Active) op"
    using that unfolding returns_def by (auto split: prod.split)
  have "returns (nmdbus_SetPower E n on)" "returns (nmdbus_Scan E n)" "returns (nmdbus_Activate E n p b)"
    unfolding nmdbus_SetPower_def nmdbus_Scan_def nmdbus_Activate_def
    by (intro returns_intros act assms waitPower_returns [OF assms] waitActivated_returns [OF assms]
        scan_loop_returns [OF assms]; simp)+
  then show ?thesis unfolding returns_def by blast
qed

text \<open>The statuses received on a watch never repeat the state of the one before, and a status with state connected or failed is the last one.\<close>

lemma nmdbus_stream:
  assumes "nmdbus_Watch E c s = (Inr sts, s')"
  shows "changes None sts \<and> ends_at terminal sts"
proof -
  from assms obtain dev es t where r: "watch_run (nmdbus_round E dev) es None t = (sts, s')"
    by (auto simp: nmdbus_Watch_def bindE_def okS_def simp del: watch_run.simps split: prod.splits sum.splits option.splits)
  from nmdbus_watch.run_changes [OF r] run_ends_at [OF nmdbus_stops r] show ?thesis by simp
qed

end
