(* ===== verification/Ubus_Frame.thy ===== *)
theory Ubus_Frame
  imports Ubus
begin

text \<open>
  What every operation of \<open>internal/wnet/ubus\<close> does to its surroundings, whatever the node
  answers: the contracts the backend shares with the other backends, the number of requests
  of a call, and a frame rule, that a relation on the node which no reading request and no
  wait breaks holds across every operation that only reads.
\<close>

section \<open>The contracts the backend shares with the others\<close>

interpretation ubus_named: named_backend "ubus_backend sha E" for sha and E :: "'s ubus_env"
proof
  fix n it and s s' :: "'s ubus_state"
  assume "b_Interface (ubus_backend sha E) n s = (Inr it, s')"
  then show "if_Name it = n"
    by (auto simp: ubus_backend_def ubus_Interface_def ubus_device_iface_def mapErr_def bindE_def ubus_toIface_def
        split: prod.splits sum.splits)
qed

lemma ubus_round_Some:
  "ubus_round sha E c dl e l s = ((Some st, stop), l', s') \<Longrightarrow>
     l \<noteq> Some (st_State st) \<and> l' = Some (st_State st) \<and> stop = terminal (st_State st)"
  unfolding ubus_round_def terminal_def
  by (auto simp: Let_def split: prod.splits sum.splits option.splits if_splits)

interpretation ubus_watch: watch_contract "ubus_round sha E c dl" "\<lambda>l. l" for sha and E :: "'s ubus_env" and c dl
proof
  fix e w st stop w' and s s' :: "'s ubus_state"
  assume "ubus_round sha E c dl e w s = ((Some st, stop), w', s')"
  from ubus_round_Some [OF this] show "w \<noteq> Some (st_State st) \<and> w' = Some (st_State st)" by blast
next
  fix e w stop w' and s s' :: "'s ubus_state"
  assume "ubus_round sha E c dl e w s = ((None, stop), w', s')"
  then show "w' = w"
    unfolding ubus_round_def by (auto simp: Let_def split: prod.splits sum.splits option.splits if_splits)
qed

lemma ubus_stops: "stops_at (ubus_round sha E c dl) terminal"
  unfolding stops_at_def by (metis ubus_round_Some)

section \<open>Requests\<close>

text \<open>The id of the last request counts the requests.\<close>

definition in_range :: "int \<Rightarrow> bool" where
  "in_range i \<longleftrightarrow> 0 \<le> i \<and> i + 4 < 2 ^ 63"

lemma wrap64_small: "0 \<le> i \<Longrightarrow> i < 2 ^ 63 \<Longrightarrow> wrap64 i = i"
  unfolding wrap64_def by (rule signed_take_bit_int_eq_self) simp_all

lemma rawCall_id:
  assumes "rawCall E ses obj meth args s = (r, s')" "0 \<le> us_id s" "us_id s + 1 < 2 ^ 63"
  shows "us_id s' = us_id s + 1" "us_session s' = us_session s"
  using assms by (auto simp: rawCall_def on_us_def Let_def wrap64_small split: prod.splits)

lemma login_id:
  assumes "ubus_login E s = (r, s')" "0 \<le> us_id s" "us_id s + 1 < 2 ^ 63"
  shows "us_id s' = us_id s + 1" "r = Inr () \<Longrightarrow> us_session s' \<noteq> []"
proof -
  obtain q t where raw: "rawCall E anonSession ''session'' ''login''
     (JObj [(''username'', JStr (uo_Username (ub_opts E))), (''password'', JStr (uo_Password (ub_opts E)))]) s = (q, t)"
    by force
  from rawCall_id [OF raw assms(2,3)] have t: "us_id t = us_id s + 1" by simp
  show "us_id s' = us_id s + 1"
    using assms(1) raw t
    by (auto simp: ubus_login_def bindE_def mapErr_def split: sum.splits prod.splits if_splits bool.splits)
  show "us_session s' \<noteq> []" if "r = Inr ()"
    using assms(1) raw that
    by (auto simp: ubus_login_def bindE_def mapErr_def split: sum.splits prod.splits if_splits bool.splits)
qed

lemma sessionID_id:
  assumes "sessionID E s = (r, s')" "0 \<le> us_id s" "us_id s + 1 < 2 ^ 63"
  shows "us_id s \<le> us_id s' \<and> us_id s' \<le> us_id s + 1"
  using assms by (auto simp: sessionID_def bindE_def split: if_splits prod.splits sum.splits dest: login_id(1))

lemma relogin_id:
  assumes "relogin E stale s = (r, s')" "0 \<le> us_id s" "us_id s + 1 < 2 ^ 63"
  shows "us_id s \<le> us_id s' \<and> us_id s' \<le> us_id s + 1"
  using assms by (auto simp: relogin_def bindE_def split: if_splits prod.splits sum.splits dest: login_id(1))

text \<open>The second half of a call: the request, the retry and the decoding.\<close>

lemma ubus_Call_id:
  assumes "ubus_Call E obj meth args d x0 s = (r, s')" "in_range (us_id s)"
  shows "us_id s < us_id s' \<or> us_session s = []" "us_id s \<le> us_id s'" "us_id s' \<le> us_id s + 4"
proof -
  from assms(2) have rg: "0 \<le> us_id s" "us_id s + 4 < 2 ^ 63" by (auto simp: in_range_def)
  obtain q1 s1 where 1: "sessionID E s = (q1, s1)" by force
  have i1: "us_id s \<le> us_id s1" "us_id s1 \<le> us_id s + 1" using sessionID_id [OF 1] rg by auto
  have ne: "us_session s \<noteq> [] \<Longrightarrow> q1 = Inr (us_session s) \<and> s1 = s" using 1 by (auto simp: sessionID_def)
  show "us_id s \<le> us_id s'" "us_id s' \<le> us_id s + 4" "us_id s < us_id s' \<or> us_session s = []"
  proof (atomize (full), cases q1)
    case (Inl e)
    with assms(1) 1 have "s' = s1" by (simp add: ubus_Call_def)
    with i1 ne Inl show "us_id s \<le> us_id s' \<and> us_id s' \<le> us_id s + 4 \<and> (us_id s < us_id s' \<or> us_session s = [])" by auto
  next
    case (Inr ses)
    obtain q2 s2 where 2: "rawCall E ses obj meth args s1 = (q2, s2)" by force
    have i2: "us_id s2 = us_id s1 + 1" using rawCall_id(1) [OF 2] i1 rg by auto
    obtain q3 s3 where 3: "relogin E ses s2 = (q3, s3)" by force
    have i3: "us_id s2 \<le> us_id s3" "us_id s3 \<le> us_id s2 + 1" using relogin_id [OF 3] i1 i2 rg by auto
    have i4: "us_id s4 = us_id s3 + 1" if "rawCall E ses' obj meth args s3 = (q4, s4)" for ses' q4 s4
      using rawCall_id(1) [OF that] i1 i2 i3 rg by auto
    have "us_id s' = us_id s2 \<or> us_id s' = us_id s3 \<or> us_id s' = us_id s3 + 1"
      using assms(1) 1 2 3 Inr i4 by (auto simp: ubus_Call_def bindE_def split: sum.splits prod.splits if_splits)
    with i1 i2 i3 show "us_id s \<le> us_id s' \<and> us_id s' \<le> us_id s + 4 \<and> (us_id s < us_id s' \<or> us_session s = [])" by auto
  qed
qed


section \<open>The frame rule\<close>

definition framed :: "('s \<Rightarrow> 's \<Rightarrow> bool) \<Rightarrow> ('s ubus_state \<Rightarrow> 'a \<times> 's ubus_state) \<Rightarrow> bool" where
  "framed R m \<longleftrightarrow> (\<forall>s r s'. m s = (r, s') \<longrightarrow> R (us_env s) (us_env s'))"

lemma framedD: "framed R m \<Longrightarrow> m s = (r, s') \<Longrightarrow> R (us_env s) (us_env s')"
  unfolding framed_def by blast

lemma framedI: "(\<And>s r s'. m s = (r, s') \<Longrightarrow> R (us_env s) (us_env s')) \<Longrightarrow> framed R m"
  unfolding framed_def by blast

text \<open>The requests that write the wireless configuration.\<close>

definition uci_write :: "string \<Rightarrow> string \<Rightarrow> bool" where
  "uci_write obj meth \<longleftrightarrow> obj = ''uci'' \<and> meth \<in> {''set'', ''add'', ''delete''}"

lemma not_uci_write [simp]:
  "\<not> uci_write ''session'' m" "\<not> uci_write ''uci'' ''get''" "\<not> uci_write ''uci'' ''commit''"
  "\<not> uci_write ''network'' m" "\<not> uci_write ''network.wireless'' m" "\<not> uci_write ''iwinfo'' m"
  by (simp_all add: uci_write_def)

locale ubus_frame =
  fixes E :: "'s ubus_env" and R :: "'s \<Rightarrow> 's \<Rightarrow> bool" and W :: "string \<Rightarrow> string \<Rightarrow> bool"
  assumes R_refl: "R e e"
    and R_trans: "R e1 e2 \<Longrightarrow> R e2 e3 \<Longrightarrow> R e1 e3"
    and post: "\<not> W obj meth \<Longrightarrow> ub_post E (rpcRequest i ses obj meth args) e = (r, e') \<Longrightarrow> R e e'"
    and now: "ub_now E e = (t, e') \<Longrightarrow> R e e'"
    and pause: "ub_wait E d e = (q, e') \<Longrightarrow> R e e'"
    and reads: "W obj meth \<Longrightarrow> uci_write obj meth"
begin

lemma f_ret: "framed R (retE a)" "framed R (failE e)"
  by (simp_all add: framed_def R_refl)

lemma f_read: "framed R (\<lambda>s. (f s, s))"
  by (simp add: framed_def R_refl)

lemma f_session: "framed R (\<lambda>s. (x, s\<lparr>us_session := y\<rparr>))"
  by (simp add: framed_def R_refl)

lemma f_bind:
  assumes m: "framed R m" and f: "\<And>a. framed R (f a)"
  shows "framed R (bindE m f)"
proof (rule framedI)
  fix s r s'
  assume b: "bindE m f s = (r, s')"
  obtain q t where 1: "m s = (q, t)" by force
  from framedD [OF m 1] have R1: "R (us_env s) (us_env t)" .
  show "R (us_env s) (us_env s')"
  proof (cases q)
    case (Inl e)
    with b 1 R1 show ?thesis by simp
  next
    case (Inr a)
    with b 1 have "f a t = (r, s')" by simp
    from R_trans [OF R1 framedD [OF f this]] show ?thesis .
  qed
qed

lemma f_mapErr: "framed R m \<Longrightarrow> framed R (mapErr g m)"
  unfolding framed_def mapErr_def by (auto split: prod.splits sum.splits)

lemma f_if: "framed R m \<Longrightarrow> framed R n \<Longrightarrow> framed R (if b then m else n)"
  by simp

lemma f_option: "framed R m \<Longrightarrow> (\<And>a. framed R (f a)) \<Longrightarrow> framed R (case x of None \<Rightarrow> m | Some a \<Rightarrow> f a)"
  by (cases x) simp_all

lemma f_prod: "(\<And>a b. framed R (f a b)) \<Longrightarrow> framed R (case p of (a, b) \<Rightarrow> f a b)"
  by (cases p) simp

lemma f_bool: "framed R m \<Longrightarrow> framed R n \<Longrightarrow> framed R (case b of True \<Rightarrow> m | False \<Rightarrow> n)"
  by (cases b) simp_all

lemmas f_rules = f_bind f_if f_option f_prod f_bool f_ret f_read f_session f_mapErr

lemma f_rawCall: "\<not> W obj meth \<Longrightarrow> framed R (rawCall E ses obj meth args)"
  by (rule framedI) (auto simp: rawCall_def on_us_def Let_def split: prod.splits dest: post)

lemma not_W [simp]: "\<not> uci_write obj meth \<Longrightarrow> \<not> W obj meth"
  using reads by blast

lemma f_login: "framed R (ubus_login E)"
  unfolding ubus_login_def by (intro f_rules f_rawCall not_W not_uci_write)

lemma f_sessionID: "framed R (sessionID E)"
proof (rule framedI)
  fix s r s'
  assume a: "sessionID E s = (r, s')"
  have "framed R (bindE (ubus_login E) (\<lambda>_ s. (Inr (us_session s) :: string res, s)))"
    by (intro f_rules f_login)
  from framedD [OF this, of s r s'] a show "R (us_env s) (us_env s')"
    by (auto simp: sessionID_def R_refl split: if_splits)
qed

lemma f_relogin: "framed R (relogin E stale)"
proof (rule framedI)
  fix s r s'
  assume a: "relogin E stale s = (r, s')"
  have "framed R (bindE (ubus_login E) (\<lambda>_ s. (Inr (us_session s) :: string res, s)))"
    by (intro f_rules f_login)
  from framedD [OF this, of "s\<lparr>us_session := []\<rparr>" r s'] a show "R (us_env s) (us_env s')"
    by (auto simp: relogin_def R_refl split: if_splits)
qed

lemma f_Call: "\<not> W obj meth \<Longrightarrow> framed R (ubus_Call E obj meth args d x0)"
  unfolding ubus_Call_def by (intro f_rules f_sessionID f_relogin f_rawCall)

lemma f_values: "framed R (uci_values E)"
  unfolding uci_values_def by (intro f_rules f_Call not_W not_uci_write)

lemma f_find: "framed R (findByID sha E i)"
  unfolding findByID_def staIfaces_def wifiIfaces_def by (intro f_rules f_values)

lemma f_status: "framed R (wirelessStatus E)"
  unfolding wirelessStatus_def by (intro f_rules f_Call not_W not_uci_write)

lemma f_info: "framed R (ubus_info E n)"
  unfolding ubus_info_def by (intro f_rules f_Call not_W not_uci_write)

lemma f_pickRadio: "framed R (pickRadio E)"
  unfolding pickRadio_def by (intro f_rules f_values)

lemma f_profile: "framed R (ubus_Profile sha E i)"
  unfolding ubus_Profile_def found_or_def by (intro f_rules f_find)

lemma f_runtime: "framed R (runtimeByID sha E i)"
  unfolding runtimeByID_def by (intro f_rules f_find f_status)

lemma f_connection: "framed R (ubus_connectionByID sha E i)"
  unfolding ubus_connectionByID_def by (intro f_rules f_runtime f_info)

lemma f_commit: "framed R (ubus_commit E)"
  unfolding ubus_commit_def by (intro f_Call not_W not_uci_write)

lemma f_reload: "framed R (reloadWifi E)"
  unfolding reloadWifi_def by (intro f_Call not_W not_uci_write)

lemma f_assoc: "framed R (assoc_check sha E i)"
proof (rule framedI)
  fix s b s'
  assume a: "assoc_check sha E i s = (b, s')"
  obtain r s1 where 1: "runtimeByID sha E i s = (r, s1)" by force
  have "s' = s1 \<or> (\<exists>n q. ubus_info E n s1 = (q, s'))"
    using a 1 by (auto simp: assoc_check_def split: sum.splits option.splits if_splits prod.splits)
  with framedD [OF f_runtime 1] show "R (us_env s) (us_env s')"
    using R_trans framedD [OF f_info] by metis
qed

lemma f_now: "framed R (on_us (ub_now E))"
  by (rule framedI) (auto simp: on_us_def split: prod.splits dest: now)

lemma f_pause: "framed R (on_us (ub_wait E d))"
  by (rule framedI) (auto simp: on_us_def split: prod.splits dest: pause)

lemma f_wait: "framed R (wait_assoc n sha E i dl)"
proof (rule framedI)
  show "wait_assoc n sha E i dl s = (r, s') \<Longrightarrow> R (us_env s) (us_env s')" for s r s'
  proof (induction n arbitrary: s)
    case (Suc n)
    obtain b s1 where 1: "assoc_check sha E i s = (b, s1)" by force
    obtain t s2 where 2: "on_us (ub_now E) s1 = (t, s2)" by force
    obtain q s3 where 3: "on_us (ub_wait E 500000000) s2 = (q, s3)" by force
    from framedD [OF f_assoc 1] framedD [OF f_now 2] framedD [OF f_pause 3]
    have "R (us_env s) (us_env s1)" "R (us_env s) (us_env s2)" "R (us_env s) (us_env s3)"
      by (blast intro: R_trans)+
    with Suc 1 2 3 show ?case by (auto split: bool.splits option.splits if_splits intro: R_trans)
  qed (simp add: R_refl)
qed

lemma f_waitAssociated: "framed R (waitAssociated sha E i timeout)"
proof (rule framedI)
  fix s r s'
  assume w: "waitAssociated sha E i timeout s = (r, s')"
  obtain t s1 where 1: "on_us (ub_now E) s = (t, s1)" by force
  with w have "wait_assoc assoc_fuel sha E i (t + timeout) s1 = (r, s')" by (simp add: waitAssociated_def)
  from R_trans [OF framedD [OF f_now 1] framedD [OF f_wait this]] show "R (us_env s) (us_env s')" .
qed

end

end
