(* ===== verification/Ubus_Spec.thy ===== *)
theory Ubus_Spec
  imports Ubus_Frame
begin

text \<open>
  What the backend of \<open>internal/wnet/ubus\<close> promises: how often a call is tried, what it leaves
  in the node's wireless configuration, the order of statuses on a watch, and that
  activation ends.
\<close>

section \<open>The wireless configuration of the node\<close>

text \<open>
  The abstract node: its \<open>wifi-iface\<close> sections, and what the requests do to them.  \<open>uci set\<close>
  changes the named section, \<open>uci delete\<close> removes it; adding a section under a new name
  appends it.  No other request changes the configuration.
\<close>

definition json_str :: "json \<Rightarrow> string" where
  "json_str j = (case j of JStr s \<Rightarrow> s | _ \<Rightarrow> [])"

definition set_option :: "string \<times> json \<Rightarrow> wifiIface \<Rightarrow> wifiIface" where
  "set_option kv w =
     (let v = snd kv in
      if fst kv = ''disabled'' then w\<lparr>wi_Disabled := uciBool v\<rparr>
      else if fst kv = ''bssid'' then w\<lparr>wi_BSSID := json_str v\<rparr>
      else if fst kv = ''mode'' then w\<lparr>wi_Mode := json_str v\<rparr>
      else if fst kv = ''ssid'' then w\<lparr>wi_SSID := json_str v\<rparr>
      else if fst kv = ''encryption'' then w\<lparr>wi_Encryption := json_str v\<rparr>
      else if fst kv = ''key'' then w\<lparr>wi_Key := json_str v\<rparr>
      else if fst kv = ''network'' then w\<lparr>wi_Network := firstString v\<rparr>
      else if fst kv = ''device'' then w\<lparr>wi_Device := json_str v\<rparr>
      else w)"

definition blank_section :: "string \<Rightarrow> wifiIface" where
  "blank_section n = \<lparr>wi_Section = n, wi_Device = [], wi_Mode = [], wi_SSID = [], wi_Encryption = [], wi_Key = [],
     wi_Network = [], wi_BSSID = [], wi_Disabled = False\<rparr>"

definition uci_set :: "string \<Rightarrow> (string \<times> json) list \<Rightarrow> wifiIface list \<Rightarrow> wifiIface list" where
  "uci_set sect vals ws = map (\<lambda>w. if wi_Section w = sect then fold set_option vals w else w) ws"

definition uci_add :: "string \<Rightarrow> (string \<times> json) list \<Rightarrow> wifiIface list \<Rightarrow> wifiIface list" where
  "uci_add name vals ws =
     (if name \<in> wi_Section ` set ws then uci_set name vals ws else ws @ [fold set_option vals (blank_section name)])"

definition uci_effect :: "string \<Rightarrow> string \<Rightarrow> json \<Rightarrow> wifiIface list \<Rightarrow> wifiIface list" where
  "uci_effect obj meth args ws =
     (if obj \<noteq> ''uci'' then ws
      else
        (case args of
           JObj [(_, _), (_, JStr sect), (_, JObj vals)] \<Rightarrow> if meth = ''set'' then uci_set sect vals ws else ws
         | JObj [(_, _), (_, _), (_, JStr name), (_, JObj vals)] \<Rightarrow> if meth = ''add'' then uci_add name vals ws else ws
         | JObj [(_, _), (_, JStr sect)] \<Rightarrow> if meth = ''delete'' then filter (\<lambda>w. wi_Section w \<noteq> sect) ws else ws
         | _ \<Rightarrow> ws))"

definition accepted :: "int \<Rightarrow> bool" where
  "accepted code \<longleftrightarrow> code = ubusOK \<or> code = ubusNoData"

definition uci_node :: "'s ubus_env \<Rightarrow> ('s \<Rightarrow> wifiIface list) \<Rightarrow> bool" where
  "uci_node E cfg \<longleftrightarrow>
     (\<forall>i ses obj meth args e r e'. ub_post E (rpcRequest i ses obj meth args) e = (r, e') \<longrightarrow>
        (case rpc_reply r of
           Inl _ \<Rightarrow> uci_write obj meth \<or> cfg e' = cfg e
         | Inr (code, data) \<Rightarrow>
             cfg e' = (if accepted code then uci_effect obj meth args (cfg e) else cfg e) \<and>
             (accepted code \<and> obj = ''uci'' \<and> meth = ''get'' \<longrightarrow>
                (\<exists>vs. data = Some (JObj [(''values'', JObj vs)]) \<and> distinct (map fst vs) \<and>
                      set (parseWifiIfaces vs) = set (cfg e))))) \<and>
     (\<forall>e vs. set (ub_order E e vs) = set vs) \<and>
     (\<forall>e t e'. ub_now E e = (t, e') \<longrightarrow> cfg e' = cfg e) \<and>
     (\<forall>d e r e'. ub_wait E d e = (r, e') \<longrightarrow> cfg e' = cfg e)"

lemma uci_effect_other: "\<not> uci_write obj meth \<Longrightarrow> uci_effect obj meth args ws = ws"
  by (auto simp: uci_effect_def uci_write_def split: json.splits list.splits prod.splits)

lemma statusErr_accepted: "statusErr a code = None \<longleftrightarrow> accepted code"
  by (simp add: statusErr_def accepted_def)

interpretation cfg_frame: ubus_frame E "\<lambda>e e'. uci_node E cfg \<longrightarrow> cfg e' = cfg e" uci_write
  for E :: "'s ubus_env" and cfg
proof
  fix obj meth i ses args and e e' :: 's and r
  assume nw: "\<not> uci_write obj meth" and p: "ub_post E (rpcRequest i ses obj meth args) e = (r, e')"
  show "uci_node E cfg \<longrightarrow> cfg e' = cfg e"
  proof
    assume "uci_node E cfg"
    with p have "case rpc_reply r of
        Inl _ \<Rightarrow> uci_write obj meth \<or> cfg e' = cfg e
      | Inr (code, data) \<Rightarrow> cfg e' = (if accepted code then uci_effect obj meth args (cfg e) else cfg e)"
      unfolding uci_node_def by (fastforce split: sum.split)
    with nw show "cfg e' = cfg e" by (auto simp: uci_effect_other split: sum.splits prod.splits if_splits)
  qed
qed (auto simp: uci_node_def)

text \<open>An operation that only reads keeps the configuration.\<close>

lemma cfg_kept:
  "uci_node E cfg \<Longrightarrow> framed (\<lambda>e e'. uci_node E cfg \<longrightarrow> cfg e' = cfg e) m \<Longrightarrow> m s = (r, s') \<Longrightarrow>
     cfg (us_env s') = cfg (us_env s)"
  unfolding framed_def by blast

lemma rawCall_node:
  assumes "uci_node E cfg" "rawCall E ses obj meth args s = (r, s')"
  shows "case r of
       Inl _ \<Rightarrow> uci_write obj meth \<or> cfg (us_env s') = cfg (us_env s)
     | Inr (code, data) \<Rightarrow>
         cfg (us_env s') = (if accepted code then uci_effect obj meth args (cfg (us_env s)) else cfg (us_env s)) \<and>
         (accepted code \<and> obj = ''uci'' \<and> meth = ''get'' \<longrightarrow>
            (\<exists>vs. data = Some (JObj [(''values'', JObj vs)]) \<and> distinct (map fst vs) \<and>
                  set (parseWifiIfaces vs) = set (cfg (us_env s))))"
proof -
  obtain q e' where p: "ub_post E (rpcRequest (wrap64 (us_id s + 1)) ses obj meth args) (us_env s) = (q, e')" by force
  with assms(2) have eq: "r = rpc_reply q" "us_env s' = e'"
    by (auto simp: rawCall_def on_us_def Let_def)
  from assms(1) p have "case rpc_reply q of
       Inl _ \<Rightarrow> uci_write obj meth \<or> cfg e' = cfg (us_env s)
     | Inr (code, data) \<Rightarrow>
         cfg e' = (if accepted code then uci_effect obj meth args (cfg (us_env s)) else cfg (us_env s)) \<and>
         (accepted code \<and> obj = ''uci'' \<and> meth = ''get'' \<longrightarrow>
            (\<exists>vs. data = Some (JObj [(''values'', JObj vs)]) \<and> distinct (map fst vs) \<and>
                  set (parseWifiIfaces vs) = set (cfg (us_env s))))"
    unfolding uci_node_def by blast
  then show ?thesis unfolding eq .
qed

text \<open>A call that succeeds took effect once, and a read of the configuration returned it.\<close>

definition took_effect ::
  "('s \<Rightarrow> wifiIface list) \<Rightarrow> string \<Rightarrow> string \<Rightarrow> json \<Rightarrow> 's \<Rightarrow> 's \<Rightarrow> json option \<Rightarrow> bool" where
  "took_effect cfg obj meth args e e' data \<longleftrightarrow>
     cfg e' = uci_effect obj meth args (cfg e) \<and>
     (obj = ''uci'' \<and> meth = ''get'' \<longrightarrow>
        (\<exists>vs. data = Some (JObj [(''values'', JObj vs)]) \<and> distinct (map fst vs) \<and>
              set (parseWifiIfaces vs) = set (cfg e)))"

lemma rawCall_took_effect:
  assumes "uci_node E cfg" "rawCall E ses obj meth args s = (Inr q, s')"
  shows "accepted (fst q) \<Longrightarrow> took_effect cfg obj meth args (us_env s) (us_env s') (snd q)"
    and "\<not> accepted (fst q) \<Longrightarrow> cfg (us_env s') = cfg (us_env s)"
  using rawCall_node [OF assms] by (auto simp: took_effect_def split: prod.splits)

lemma finish_call_accepted: "finish_call a d x0 q = Inr v \<Longrightarrow> accepted (fst q)"
  by (auto simp: finish_call_def statusErr_accepted split: option.splits)

lemma ubus_Call_effect:
  assumes E: "uci_node E cfg" and call: "ubus_Call E obj meth args d x0 s = (Inr v, s')"
  obtains q where "took_effect cfg obj meth args (us_env s) (us_env s') (snd q)"
    "finish_call (obj @ ''.'' @ meth) d x0 q = Inr v"
proof -
  from call obtain ses s1 r1 s2 q where 1: "sessionID E s = (Inr ses, s1)"
    and 2: "rawCall E ses obj meth args s1 = (Inr r1, s2)"
    and 3: "(if fst r1 = ubusPermissionDenie then bindE (relogin E ses) (\<lambda>ses'. rawCall E ses' obj meth args)
             else retE r1) s2 = (Inr q, s')"
    and fin: "finish_call (obj @ ''.'' @ meth) d x0 q = Inr v"
    unfolding ubus_Call_def by (fastforce elim!: bindE_InrE)
  from finish_call_accepted [OF fin] have acc: "accepted (fst q)" .
  have c1: "cfg (us_env s1) = cfg (us_env s)" by (rule cfg_kept [OF E cfg_frame.f_sessionID 1])
  have "took_effect cfg obj meth args (us_env s) (us_env s') (snd q)"
  proof (cases "fst r1 = ubusPermissionDenie")
    case False
    with 3 have "r1 = q" "s' = s2" by auto
    with rawCall_took_effect(1) [OF E 2] acc c1 show ?thesis by (simp add: took_effect_def)
  next
    case True
    then have "\<not> accepted (fst r1)" by (simp add: accepted_def ubus_codes)
    with rawCall_took_effect(2) [OF E 2] c1 have c2: "cfg (us_env s2) = cfg (us_env s)" by simp
    from 3 True obtain ses' s3 where 4: "relogin E ses s2 = (Inr ses', s3)"
      and 5: "rawCall E ses' obj meth args s3 = (Inr q, s')" by (auto elim!: bindE_InrE)
    have "cfg (us_env s3) = cfg (us_env s)" using cfg_kept [OF E cfg_frame.f_relogin 4] c2 by simp
    with rawCall_took_effect(1) [OF E 5] acc show ?thesis by (simp add: took_effect_def)
  qed
  with fin that show thesis by blast
qed

section \<open>Reading and writing stations\<close>

definition stations :: "wifiIface list \<Rightarrow> wifiIface set" where
  "stations ws = {w \<in> set ws. EqualFold (wi_Mode w) ''sta''}"

lemma alist_update_new: "k \<notin> fst ` set m \<Longrightarrow> AList.update k v m = m @ [(k, v)]"
  by (induction m) auto

lemma uci_values_read:
  assumes E: "uci_node E cfg" and "uci_values E s = (Inr vs, s')"
  shows "set (parseWifiIfaces vs) = set (cfg (us_env s))" "cfg (us_env s') = cfg (us_env s)"
proof -
  from assms(2) obtain ws s1 where call: "ubus_Call E ''uci'' ''get'' (str_obj [(''config'', ''wireless'')]) dec_values [] s = (Inr ws, s1)"
    and vs: "vs = ub_order E (us_env s1) ws" "s' = s1"
    unfolding uci_values_def by (auto elim!: bindE_InrE)
  from E call obtain q where eff: "took_effect cfg ''uci'' ''get'' (str_obj [(''config'', ''wireless'')]) (us_env s) (us_env s1) (snd q)"
    and fin: "finish_call (''uci'' @ ''.'' @ ''get'') dec_values [] q = Inr ws" by (rule ubus_Call_effect)
  from eff obtain us where q: "snd q = Some (JObj [(''values'', JObj us)])" and d: "distinct (map fst us)"
    and us: "set (parseWifiIfaces us) = set (cfg (us_env s))" by (auto simp: took_effect_def)
  have fold_new: "fold (\<lambda>(k, v) m. AList.update k (fst (dec_any v JNull)) m) us m = m @ us"
    if "distinct (map fst m @ map fst us)" for m
    using that
  proof (induction us arbitrary: m)
    case (Cons kv us)
    obtain k v where kv: "kv = (k, v)" by force
    from Cons.prems kv have "k \<notin> fst ` set m" by auto
    then have "AList.update k v m = m @ [kv]" by (simp add: kv alist_update_new)
    with Cons.IH [of "m @ [kv]"] Cons.prems show ?case by (simp add: kv dec_any_def)
  qed simp
  have "ws = us"
    using fin q fold_new [of "[]"] d
    by (auto simp: finish_call_def dec_values_def dec_struct_def dec_field_def find_field_def dec_map_def
        split: option.splits if_splits prod.splits)
  moreover have "set (ub_order E (us_env s1) ws) = set ws" using E by (simp add: uci_node_def)
  ultimately have "set vs = set us" using vs by simp
  then show "set (parseWifiIfaces vs) = set (cfg (us_env s))"
    using us by (simp add: parseWifiIfaces_def map_filter_def)
  show "cfg (us_env s') = cfg (us_env s)"
    using eff vs by (simp add: took_effect_def uci_effect_other uci_write_def)
qed

lemma staIfaces_read:
  assumes "uci_node E cfg" "staIfaces E s = (Inr ws, s')"
  shows "set ws = stations (cfg (us_env s))" "cfg (us_env s') = cfg (us_env s)"
proof -
  from assms(2) obtain vs where "uci_values E s = (Inr vs, s')"
    and "ws = filter (\<lambda>w. EqualFold (wi_Mode w) ''sta'') (parseWifiIfaces vs)"
    unfolding staIfaces_def wifiIfaces_def by (auto elim!: bindE_InrE)
  with uci_values_read [OF assms(1)] show "set ws = stations (cfg (us_env s))" "cfg (us_env s') = cfg (us_env s)"
    by (auto simp: stations_def)
qed

lemma findByID_read:
  assumes "uci_node E cfg" "findByID sha E i s = (Inr r, s')"
  shows "cfg (us_env s') = cfg (us_env s)"
    and "r = Some w \<Longrightarrow> w \<in> stations (cfg (us_env s)) \<and>
           ubus_profileID sha (wi_SSID w) (encStrToSecKind (wi_Encryption w)) = i"
proof -
  from assms(2) obtain ws where ws: "staIfaces E s = (Inr ws, s')"
    and r: "r = find (\<lambda>w. ubus_profileID sha (wi_SSID w) (encStrToSecKind (wi_Encryption w)) = i) ws"
    unfolding findByID_def by (auto elim!: bindE_InrE)
  note sta = staIfaces_read [OF assms(1) ws]
  show "cfg (us_env s') = cfg (us_env s)" by (rule sta(2))
  show "w \<in> stations (cfg (us_env s)) \<and> ubus_profileID sha (wi_SSID w) (encStrToSecKind (wi_Encryption w)) = i"
    if "r = Some w"
    using that r sta(1) by (auto simp: find_Some_iff)
qed


text \<open>The writes: one section set and committed.\<close>

abbreviation json_values :: "(string \<times> string) list \<Rightarrow> (string \<times> json) list" where
  "json_values vals \<equiv> map (\<lambda>(k, v). (k, JStr v)) vals"

lemma uci_effect_set:
  "uci_effect ''uci'' ''set'' (JObj [(a, b), (c, JStr sect), (d, str_obj vals)]) ws = uci_set sect (json_values vals) ws"
  by (simp add: uci_effect_def str_obj_def)

lemma setAndCommit_effect:
  assumes "uci_node E cfg" "setAndCommit E sect vals s = (Inr u, s')"
  shows "cfg (us_env s') = uci_set sect (json_values vals) (cfg (us_env s))"
proof -
  from assms(2) obtain x s1 where 1: "ubus_Call E ''uci'' ''set''
       (JObj [(''config'', JStr ''wireless''), (''section'', JStr sect), (''values'', str_obj vals)]) dec_nil () s = (Inr x, s1)"
    and 2: "ubus_commit E s1 = (Inr u, s')"
    unfolding setAndCommit_def by (auto elim!: bindE_InrE)
  from ubus_Call_effect [OF assms(1) 1] have "cfg (us_env s1) = uci_set sect (json_values vals) (cfg (us_env s))"
    unfolding took_effect_def uci_effect_set by metis
  with cfg_kept [OF assms(1) cfg_frame.f_commit 2] show ?thesis by simp
qed

definition switch_off :: "string set \<Rightarrow> wifiIface list \<Rightarrow> wifiIface list" where
  "switch_off S ws = map (\<lambda>w. if wi_Section w \<in> S then w\<lparr>wi_Disabled := True\<rparr> else w) ws"

lemma switch_off_twice: "switch_off S (switch_off T ws) = switch_off (S \<union> T) ws"
  by (auto simp: switch_off_def)

lemma switch_off_none [simp]: "switch_off {} ws = ws"
  by (simp add: switch_off_def)

lemma uciBool_digits [simp]: "uciBool (JStr ''1'')" "\<not> uciBool (JStr ''0'')"
  by code_simp+

lemma uci_set_disabled: "uci_set sect (json_values [(''disabled'', ''1'')]) ws = switch_off {sect} ws"
  by (simp add: uci_set_def switch_off_def set_option_def)

text \<open>The stations that compete with \<open>cur\<close> for its radio.\<close>

definition rival :: "wifiIface \<Rightarrow> wifiIface \<Rightarrow> bool" where
  "rival cur w \<longleftrightarrow> wi_Section w \<noteq> wi_Section cur \<and> wi_Device w = wi_Device cur \<and> \<not> wi_Disabled w"

lemma disable_peer_effect:
  assumes "uci_node E cfg" "disable_peer E cur w s = (Inr u, s')"
  shows "cfg (us_env s') = switch_off (if rival cur w then {wi_Section w} else {}) (cfg (us_env s))"
proof (cases "rival cur w")
  case True
  with assms(2) have 1: "ubus_Call E ''uci'' ''set''
      (JObj [(''config'', JStr ''wireless''), (''section'', JStr (wi_Section w)),
             (''values'', str_obj [(''disabled'', ''1'')])]) dec_nil () s = (Inr u, s')"
    by (simp add: disable_peer_def rival_def)
  from ubus_Call_effect [OF assms(1) 1]
  have "cfg (us_env s') = uci_set (wi_Section w) (json_values [(''disabled'', ''1'')]) (cfg (us_env s))"
    unfolding took_effect_def uci_effect_set by metis
  with True show ?thesis by (simp only: uci_set_disabled if_True)
next
  case False
  with assms(2) have "s' = s" by (auto simp: disable_peer_def rival_def)
  with False show ?thesis by simp
qed

lemma disable_peers_effect:
  assumes "uci_node E cfg"
  shows "eachE (disable_peer E cur) ws s = (Inr u, s') \<Longrightarrow>
    cfg (us_env s') = switch_off (wi_Section ` {w \<in> set ws. rival cur w}) (cfg (us_env s))"
proof (induction ws arbitrary: s)
  case (Cons w ws)
  from Cons.prems obtain s1 where 1: "disable_peer E cur w s = (Inr (), s1)"
    and 2: "eachE (disable_peer E cur) ws s1 = (Inr u, s')" by (auto elim!: bindE_InrE)
  show ?case
    unfolding Cons.IH [OF 2] disable_peer_effect [OF assms 1] switch_off_twice
    by (rule arg_cong [where f = "\<lambda>S. switch_off S (cfg (us_env s))"]) auto
qed simp

text \<open>What an activation leaves in the configuration.\<close>

lemma ubus_Activate_effect:
  assumes E: "uci_node E cfg" and act: "ubus_Activate sha E iface i bssid s = (Inr a, s')"
  obtains cur where "cur \<in> stations (cfg (us_env s))"
    "ubus_profileID sha (wi_SSID cur) (encStrToSecKind (wi_Encryption cur)) = i"
    "cfg (us_env s') = uci_set (wi_Section cur) (json_values [(''disabled'', ''0''), (''bssid'', ToLower bssid)])
       (switch_off (wi_Section ` {w \<in> stations (cfg (us_env s)). rival cur w}) (cfg (us_env s)))"
proof -
  from act obtain r cur s1 ws s2 s3 s4 s5 s6 where 1: "findByID sha E i s = (Inr r, s1)" and r: "r = Some cur"
    and 2: "staIfaces E s1 = (Inr ws, s2)" and 3: "eachE (disable_peer E cur) ws s2 = (Inr (), s3)"
    and 4: "setAndCommit E (wi_Section cur) [(''disabled'', ''0''), (''bssid'', ToLower bssid)] s3 = (Inr (), s4)"
    and 5: "reloadWifi E s4 = (Inr (), s5)" and 6: "waitAssociated sha E i 25000000000 s5 = (Inr (), s6)"
    and 7: "ubus_connectionByID sha E i s6 = (Inr a, s')"
    unfolding ubus_Activate_def by (auto elim!: bindE_InrE simp: found_or_def split: option.splits)
  note find = findByID_read [OF E 1]
  from staIfaces_read [OF E 2] find(1)
  have c2: "set ws = stations (cfg (us_env s))" "cfg (us_env s2) = cfg (us_env s)" by simp_all
  have c3: "cfg (us_env s3) = switch_off (wi_Section ` {w \<in> stations (cfg (us_env s)). rival cur w}) (cfg (us_env s))"
    using disable_peers_effect [OF E 3] c2 by simp
  have "cfg (us_env s') = cfg (us_env s4)"
    using cfg_kept [OF E cfg_frame.f_reload 5] cfg_kept [OF E cfg_frame.f_waitAssociated 6]
      cfg_kept [OF E cfg_frame.f_connection 7] by simp
  then have "cfg (us_env s') = uci_set (wi_Section cur) (json_values [(''disabled'', ''0''), (''bssid'', ToLower bssid)])
       (switch_off (wi_Section ` {w \<in> stations (cfg (us_env s)). rival cur w}) (cfg (us_env s)))"
    unfolding setAndCommit_effect [OF E 4] c3 .
  with find(2) [OF r] show thesis by (intro that [of cur]) blast+
qed


section \<open>Profiles in the configuration\<close>

lemma uci_effect_add:
  "uci_effect ''uci'' ''add'' (JObj [(a, b), (c, d), (e, JStr n), (f, str_obj vals)]) ws = uci_add n (json_values vals) ws"
  by (cases d) (simp_all add: uci_effect_def str_obj_def)

lemma uci_effect_delete:
  "uci_effect ''uci'' ''delete'' (str_obj [(a, b), (c, sect)]) ws = filter (\<lambda>w. wi_Section w \<noteq> sect) ws"
  by (simp add: uci_effect_def str_obj_def)

lemma deleteSection_effect:
  assumes "uci_node E cfg" "deleteSection E sect s = (Inr u, s')"
  shows "cfg (us_env s') = filter (\<lambda>w. wi_Section w \<noteq> sect) (cfg (us_env s))"
proof -
  from assms(2) obtain x s1 where 1: "ubus_Call E ''uci'' ''delete''
       (str_obj [(''config'', ''wireless''), (''section'', sect)]) dec_nil () s = (Inr x, s1)"
    and 2: "ubus_commit E s1 = (Inr u, s')"
    unfolding deleteSection_def by (auto elim!: bindE_InrE)
  from ubus_Call_effect [OF assms(1) 1] have "cfg (us_env s1) = filter (\<lambda>w. wi_Section w \<noteq> sect) (cfg (us_env s))"
    unfolding took_effect_def uci_effect_delete by metis
  with cfg_kept [OF assms(1) cfg_frame.f_commit 2] show ?thesis by simp
qed

lemma writeStation_new:
  assumes E: "uci_node E cfg" and w: "writeStation E ssid sec ac None s = (Inr u, s')"
  obtains radio where "cfg (us_env s') = uci_add (sectionName ssid (sec_Kind sec))
     (json_values (station_values E ssid sec ac None @ [(''device'', radio)])) (cfg (us_env s))"
proof -
  let ?vals = "station_values E ssid sec ac None"
  from w obtain radio s1 x s2 where 1: "pickRadio E s = (Inr radio, s1)"
    and 2: "ubus_Call E ''uci'' ''add''
       (JObj [(''config'', JStr ''wireless''), (''type'', JStr ''wifi-iface''),
              (''name'', JStr (sectionName ssid (sec_Kind sec))), (''values'', str_obj (?vals @ [(''device'', radio)]))])
       dec_nil () s1 = (Inr x, s2)"
    and 3: "ubus_commit E s2 = (Inr u, s')"
    unfolding writeStation_def Let_def by (auto elim!: bindE_InrE)
  from ubus_Call_effect [OF E 2]
  have "cfg (us_env s2) = uci_add (sectionName ssid (sec_Kind sec)) (json_values (?vals @ [(''device'', radio)])) (cfg (us_env s1))"
    unfolding took_effect_def uci_effect_add by metis
  moreover have "cfg (us_env s1) = cfg (us_env s)" "cfg (us_env s') = cfg (us_env s2)"
    using cfg_kept [OF E cfg_frame.f_pickRadio 1] cfg_kept [OF E cfg_frame.f_commit 3] by simp_all
  ultimately show thesis using that by simp
qed

text \<open>A section once the options of a station are set.\<close>

lemma uciBool_boolToUCI [simp]: "uciBool (JStr (boolToUCI b)) = b"
  by (cases b) (simp_all add: boolToUCI_def)

lemma set_station_values:
  assumes "sec_Kind sec = SecPSK"
  shows "fold set_option (json_values (station_values E ssid sec ac ex)) w =
     w\<lparr>wi_Mode := ''sta'', wi_SSID := ssid, wi_Encryption := ''psk2'', wi_Disabled := \<not> ac,
       wi_Network := ubus_network E,
       wi_Key := (if sec_Passphrase sec \<noteq> [] then sec_Passphrase sec
                  else case ex of None \<Rightarrow> wi_Key w | Some e \<Rightarrow> if wi_Key e \<noteq> [] then wi_Key e else wi_Key w)\<rparr>"
proof -
  have net: "ubus_network E \<noteq> []" by (simp add: ubus_network_def defaultNetwork_def)
  show ?thesis
    using assms net
    by (simp add: station_values_def set_option_def json_str_def firstString_def secKindToEnc_def split: option.split)
qed

lemma length_sectionName: "length (sectionName ssid k) = 16"
proof -
  have "length (hex_encode x) = 2 * length x" for x by (induction x) auto
  then show ?thesis by (simp add: sectionName_def)
qed

section \<open>A node to evaluate on\<close>

text \<open>
  A node in memory: its stations and a clock.  It answers every request with status 0 (9
  when its sections do not have names of their own), and the first enabled station is the
  one associated.  It stands for no code.
\<close>

record node =
  nd_ifaces :: "wifiIface list"
  nd_clock :: int

definition section_json :: "wifiIface \<Rightarrow> json" where
  "section_json w = JObj [
     (''.type'', JStr ''wifi-iface''), (''device'', JStr (wi_Device w)), (''mode'', JStr (wi_Mode w)),
     (''ssid'', JStr (wi_SSID w)), (''encryption'', JStr (wi_Encryption w)), (''key'', JStr (wi_Key w)),
     (''network'', JStr (wi_Network w)), (''bssid'', JStr (wi_BSSID w)),
     (''disabled'', JStr (boolToUCI (wi_Disabled w)))]"

definition node_info :: "wifiIface list \<Rightarrow> json" where
  "node_info ws = JObj [(''mode'', JStr ''Client''), (''bssid'', JStr ''02:00:00:00:01:00''),
     (''ssid'', JStr (case find (\<lambda>w. \<not> wi_Disabled w) ws of None \<Rightarrow> [] | Some w \<Rightarrow> wi_SSID w))]"

definition node_status :: "wifiIface list \<Rightarrow> json" where
  "node_status ws = JObj [(''radio0'', JObj [(''interfaces'',
     JArr (map (\<lambda>w. str_obj [(''section'', wi_Section w), (''ifname'', if wi_Disabled w then [] else ''wlan0'')]) ws))])]"

definition node_data :: "string \<Rightarrow> string \<Rightarrow> wifiIface list \<Rightarrow> json list" where
  "node_data obj meth ws =
     (if obj = ''session'' then [str_obj [(''ubus_rpc_session'', ''s1'')]]
      else if obj = ''uci'' \<and> meth = ''get'' then [JObj [(''values'', JObj (map (\<lambda>w. (wi_Section w, section_json w)) ws))]]
      else if obj = ''network.wireless'' then [node_status ws]
      else if obj = ''iwinfo'' \<and> meth = ''info'' then [node_info ws]
      else if obj = ''iwinfo'' then
        [JObj [(''results'', JArr [JObj [(''mac'', JStr ''02:00:00:00:01:00''), (''authorized'', JBool True)]])]]
      else [])"

definition rpc_of :: "json \<Rightarrow> (string \<times> string \<times> json) option" where
  "rpc_of body =
     (case body of
        JObj [_, _, _, (_, JArr [_, JStr obj, JStr meth, args])] \<Rightarrow> Some (obj, meth, args)
      | _ \<Rightarrow> None)"

definition node_post :: "json \<Rightarrow> node \<Rightarrow> http_result \<times> node" where
  "node_post body n =
     (case rpc_of body of
        Some (obj, meth, args) \<Rightarrow>
          if distinct (map wi_Section (nd_ifaces n)) then
            (HttpResp 200 (Some (JObj [(''result'', JArr (JNum 0 # node_data obj meth (nd_ifaces n)))])),
             n\<lparr>nd_ifaces := uci_effect obj meth args (nd_ifaces n)\<rparr>)
          else (HttpResp 200 (Some (JObj [(''result'', JArr [JNum 9])])), n)
      | None \<Rightarrow> (HttpErr ''bad request'', n))"

definition node_env :: "node ubus_env" where
  "node_env = \<lparr>ub_post = node_post, ub_order = (\<lambda>n vs. vs), ub_now = (\<lambda>n. (nd_clock n, n)),
     ub_wait = (\<lambda>d n. (None, n\<lparr>nd_clock := nd_clock n + \<bar>d\<bar>\<rparr>)), ub_ticks = (\<lambda>n. 1),
     ub_opts = \<lparr>uo_Username = ''root'', uo_Password = ''pw'', uo_Radio = [], uo_Network = []\<rparr>\<rparr>"

text \<open>The configuration as the node stores it is read back as it is.\<close>

lemma parse_section_json [simp]: "parseWifiIface (wi_Section w, section_json w) = Some w"
  by (simp add: parseWifiIface_def section_json_def dec_uciSection_def dec_struct_def dec_field_def find_field_def
      into_def dec_string_def dec_any_def zero_uciSection_def firstString_def)

lemma parse_sections_json: "parseWifiIfaces (map (\<lambda>w. (wi_Section w, section_json w)) ws) = ws"
  by (simp add: parseWifiIfaces_def map_filter_def o_def)

lemma node_rpc:
  "rpc_reply (HttpResp 200 (Some (JObj [(''result'', JArr (JNum 0 # ps))]))) =
     Inr (0, case ps of [] \<Rightarrow> None | d # _ \<Rightarrow> Some d)"
  "rpc_reply (HttpResp 200 (Some (JObj [(''result'', JArr [JNum 9])]))) = Inr (9, None)"
  by (cases ps) (simp_all add: rpc_reply_def dec_rpcResponse_def Unmarshal_def dec_struct_def dec_field_def
      find_field_def into_def dec_raw_def rpc_result_def dec_list_def dec_any_def dec_int_def list.pred_True)

lemma node_is_uci_node: "uci_node node_env nd_ifaces"
proof -
  have post: "case rpc_reply r of
      Inl _ \<Rightarrow> uci_write obj meth \<or> nd_ifaces n' = nd_ifaces n
    | Inr (code, data) \<Rightarrow>
        nd_ifaces n' = (if accepted code then uci_effect obj meth args (nd_ifaces n) else nd_ifaces n) \<and>
        (accepted code \<and> obj = ''uci'' \<and> meth = ''get'' \<longrightarrow>
          (\<exists>vs. data = Some (JObj [(''values'', JObj vs)]) \<and> distinct (map fst vs) \<and>
                set (parseWifiIfaces vs) = set (nd_ifaces n)))"
    if "node_post (rpcRequest i ses obj meth args) n = (r, n')" for i ses obj meth args n r n'
  proof (cases "distinct (map wi_Section (nd_ifaces n))")
    case True
    with that have r: "r = HttpResp 200 (Some (JObj [(''result'', JArr (JNum 0 # node_data obj meth (nd_ifaces n)))]))"
      and n': "nd_ifaces n' = uci_effect obj meth args (nd_ifaces n)"
      by (auto simp: node_post_def rpc_of_def rpcRequest_def)
    have "accepted 0" by (simp add: accepted_def ubus_codes)
    with True show ?thesis
      unfolding r node_rpc n' by (simp add: node_data_def parse_sections_json o_def)
  next
    case False
    with that have r: "r = HttpResp 200 (Some (JObj [(''result'', JArr [JNum 9])]))" and n': "n' = n"
      by (auto simp: node_post_def rpc_of_def rpcRequest_def)
    have "\<not> accepted 9" by (simp add: accepted_def ubus_codes)
    then show ?thesis unfolding r node_rpc n' by simp
  qed
  then show ?thesis by (auto simp: uci_node_def node_env_def)
qed

section \<open>Properties\<close>


definition demo_station :: "string \<Rightarrow> string \<Rightarrow> bool \<Rightarrow> wifiIface" where
  "demo_station n ssid off = \<lparr>wi_Section = n, wi_Device = ''radio0'', wi_Mode = ''sta'', wi_SSID = ssid,
     wi_Encryption = ''psk2'', wi_Key = ''secret'', wi_Network = ''wwan'', wi_BSSID = [], wi_Disabled = off\<rparr>"

definition demo_node :: "node ubus_state" where
  "demo_node = \<lparr>us_id = 0, us_session = [],
     us_env = \<lparr>nd_ifaces = [demo_station ''a'' ''home'' True, demo_station ''b'' ''work'' False], nd_clock = 0\<rparr>\<rparr>"




definition pause_patch :: ProfilePatch where
  "pause_patch = \<lparr>pp_Name = None, pp_SSID = None, pp_Hidden = None, pp_Autoconnect = Some False,
     pp_Security = None, pp_IPv4 = None, pp_IPv6 = None\<rparr>"


text \<open>
  When the section of the patched station already has the name that its new SSID gives (a
  section made for that SSID whose SSID was edited on the node), the rename writes the
  section and then deletes it.
\<close>

lemma ubus_rename_drops_section:
  assumes E: "uci_node E cfg" and name: "sectionName ssid (sec_Kind sec) = wi_Section cur"
    and ok: "bindE (writeStation E ssid sec ac None) (\<lambda>_. deleteSection E (wi_Section cur)) s = (Inr (), s')"
  shows "sectionName ssid (sec_Kind sec) \<notin> wi_Section ` set (cfg (us_env s'))"
  using ok by (auto elim!: bindE_InrE simp: name deleteSection_effect [OF E])

text \<open>A call to the node is tried at most twice: it sends at most four requests (a login, the call, a login when the session was refused, the call again), at least one when there is a session, and a client whose session another call has refreshed in the meantime does not log in again.\<close>

theorem ubus_call_bounded_retry:
  assumes "in_range (us_id s)" and "ubus_Call E obj meth args d x0 s = (r, s')"
  shows "us_id s \<le> us_id s' \<and> us_id s' \<le> us_id s + 4 \<and> (us_session s \<noteq> [] \<longrightarrow> us_id s < us_id s') \<and>
     (us_session t \<noteq> stale \<longrightarrow> relogin E stale t = (Inr (us_session t), t))"
  using ubus_Call_id [OF assms(2,1)] by (auto simp: relogin_def)

lemma ubus_call_bounded_retry_witness:
  "us_id (snd (ubus_Call node_env ''uci'' ''get'' no_args dec_nil () demo_node)) \<le> 4"
proof -
  obtain r s' where c: "ubus_Call node_env ''uci'' ''get'' no_args dec_nil () demo_node = (r, s')" by force
  have "in_range (us_id demo_node)" by (simp add: in_range_def demo_node_def)
  from ubus_call_bounded_retry [OF this c] show ?thesis unfolding c by (simp add: demo_node_def)
qed

text \<open>What a reader of the ubus watch sees: no status repeats the state before it, and a status with state connected or failed is the last one.\<close>

lemma ubus_stream:
  assumes "ubus_Watch sha E c s = (Inr sts, s')"
  shows "changes None sts \<and> ends_at terminal sts"
proof -
  from assms obtain dl es t where r: "watch_run (ubus_round sha E c dl) es None t = (sts, s')"
    unfolding ubus_Watch_def found_or_def
    by (auto elim!: bindE_InrE simp del: watch_run.simps split: prod.splits option.splits)
  from ubus_watch.run_changes [OF r] run_ends_at [OF ubus_stops r] show ?thesis by simp
qed

section \<open>Waiting for the association\<close>

definition ubus_clock :: "'s ubus_env \<Rightarrow> ('s \<Rightarrow> int) \<Rightarrow> bool" where
  "ubus_clock E clk \<longleftrightarrow>
     (\<forall>e. ub_now E e = (clk e, e)) \<and>
     (\<forall>d e r e'. ub_wait E d e = (r, e') \<longrightarrow> clk e \<le> clk e' \<and> (r = None \<longrightarrow> clk e + d \<le> clk e')) \<and>
     (\<forall>b e r e'. ub_post E b e = (r, e') \<longrightarrow> clk e \<le> clk e')"

interpretation clock_frame: ubus_frame E "\<lambda>e e'. ubus_clock E clk \<longrightarrow> clk e \<le> clk e'" "\<lambda>_ _. False"
  for E :: "'s ubus_env" and clk
proof
  fix e1 e2 e3 :: 's
  assume "ubus_clock E clk \<longrightarrow> clk e1 \<le> clk e2" "ubus_clock E clk \<longrightarrow> clk e2 \<le> clk e3"
  then show "ubus_clock E clk \<longrightarrow> clk e1 \<le> clk e3" by auto
qed (auto simp: ubus_clock_def)

lemma wait_assoc_ends:
  assumes E: "ubus_clock E clk"
  shows "dl - clk (us_env s) < 500000000 * (int n - 1) \<Longrightarrow> 0 < n \<Longrightarrow> fst (wait_assoc n sha E i dl s) \<noteq> Inl OutOfFuel"
proof (induction n arbitrary: s)
  case (Suc n)
  obtain b s1 where 1: "assoc_check sha E i s = (b, s1)" by force
  from framedD [OF clock_frame.f_assoc 1] E have le: "clk (us_env s) \<le> clk (us_env s1)" by blast
  have 2: "on_us (ub_now E) s1 = (clk (us_env s1), s1)" using E by (simp add: ubus_clock_def on_us_def)
  obtain q s3 where 3: "on_us (ub_wait E 500000000) s1 = (q, s3)" by force
  have adv: "clk (us_env s1) + 500000000 \<le> clk (us_env s3)" if "q = None"
    using E 3 that unfolding ubus_clock_def by (auto simp: on_us_def split: prod.splits)
  show ?case
  proof (cases "b \<or> dl < clk (us_env s1) \<or> q \<noteq> None")
    case True
    then show ?thesis using 1 2 3 by (auto split: bool.splits option.splits)
  next
    case False
    with adv le have "clk (us_env s) + 500000000 \<le> clk (us_env s3)" by simp
    with Suc.prems(1) have bound: "dl - clk (us_env s3) < 500000000 * (int n - 1)" by (simp add: algebra_simps)
    from False le Suc.prems(1) have "0 < n" by (cases n) auto
    from Suc.IH [OF bound this] False 1 2 3 show ?thesis by simp
  qed
qed simp

lemma waitAssociated_returns:
  assumes "ubus_clock E clk"
  shows "returns (waitAssociated sha E i 25000000000)"
  unfolding returns_def
proof
  fix s
  have "on_us (ub_now E) s = (clk (us_env s), s)" using assms by (simp add: ubus_clock_def on_us_def)
  with wait_assoc_ends [OF assms, of "clk (us_env s) + 25000000000" s assoc_fuel sha i]
  show "fst (waitAssociated sha E i 25000000000 s) \<noteq> Inl OutOfFuel"
    by (simp add: waitAssociated_def assoc_fuel_def)
qed

lemma res_returns: "(\<And>s. fst (m s) = r) \<Longrightarrow> r \<noteq> Inl OutOfFuel \<Longrightarrow> returns m"
  by (simp add: returns_def)

lemma rpc_reply_no_fuel: "rpc_reply r \<noteq> Inl OutOfFuel"
  by (auto simp: rpc_reply_def rpc_result_def split: http_result.splits prod.splits bool.splits option.splits list.splits)

lemma rawCall_returns [returns_intros]: "returns (rawCall E ses obj meth args)"
  by (auto simp: returns_def rawCall_def Let_def rpc_reply_no_fuel split: prod.split)

lemma login_returns [returns_intros]: "returns (ubus_login E)"
  unfolding ubus_login_def by (intro returns_intros) (auto simp: returns_def)

lemma session_returns [returns_intros]: "returns (sessionID E)" "returns (relogin E stale)"
proof -
  have l: "returns (bindE (ubus_login E) (\<lambda>_ s. (Inr (us_session s) :: string res, s)))"
    by (intro returns_intros)
  show "returns (sessionID E)" "returns (relogin E stale)"
    using l unfolding returns_def sessionID_def relogin_def by simp_all
qed

lemma statusErr_no_fuel: "statusErr a code \<noteq> Some OutOfFuel"
  by (simp add: statusErr_def)

lemma finish_no_fuel: "finish_call a d x q \<noteq> Inl OutOfFuel"
  using statusErr_no_fuel by (auto simp: finish_call_def split: option.split prod.split)

lemma finish_returns [returns_intros]: "returns (\<lambda>s. (finish_call a d x q, s))"
  by (simp add: returns_def finish_no_fuel)

lemma ubus_Call_returns [returns_intros]: "returns (ubus_Call E obj meth args d x0)"
  unfolding ubus_Call_def by (intro returns_intros)

lemma ubus_reads_return [returns_intros]:
  "returns (uci_values E)" "returns (staIfaces E)" "returns (findByID sha E i)" "returns (wirelessStatus E)"
  "returns (ubus_info E n)" "returns (runtimeByID sha E i)" "returns (setAndCommit E n vals)" "returns (reloadWifi E)"
  "returns (disable_peer E cur w)" "returns (ubus_connectionByID sha E i)" "returns (found_or what x)"
  unfolding uci_values_def staIfaces_def wifiIfaces_def findByID_def wirelessStatus_def ubus_info_def runtimeByID_def
    setAndCommit_def ubus_commit_def reloadWifi_def disable_peer_def ubus_connectionByID_def found_or_def
  by (intro returns_intros; simp)+

text \<open>Activation ends: as long as the clock runs on while the backend waits, the wait for the association (25 seconds in steps of half a second) uses at most its 52 rounds of fuel, for whatever the node answers.\<close>

lemma ubus_wait_ends:
  assumes "ubus_clock E clk"
  shows "fst (ubus_Activate sha E iface i bssid s) \<noteq> Inl OutOfFuel"
proof -
  have "returns (ubus_Activate sha E iface i bssid)"
    unfolding ubus_Activate_def by (intro returns_intros waitAssociated_returns [OF assms])
  then show ?thesis by (simp add: returns_def)
qed

lemma node_clock: "ubus_clock node_env nd_clock"
  by (auto simp: ubus_clock_def node_env_def node_post_def split: option.splits if_splits)

section \<open>Conversions\<close>

text \<open>The signal quality reported for a node is always between 0 and 100, whatever numbers the node sends (also when the product overflows 64 bits), and is the exact percentage, rounded down, for a quality between 0 and its maximum.\<close>

theorem signal_quality_bounds:
  "0 \<le> ubus_signalQuality q m \<and> ubus_signalQuality q m \<le> 100 \<and>
   (0 \<le> q \<and> q \<le> m \<and> 0 < m \<and> m * 100 < 2 ^ 63 \<longrightarrow> ubus_signalQuality q m = q * 100 div m)"
proof -
  have "ubus_signalQuality q m = q * 100 div m" if "0 \<le> q" "q \<le> m" "0 < m" "m * 100 < 2 ^ 63"
  proof -
    from that have w: "wrap64 (q * 100) = q * 100" by (intro wrap64_small) auto
    have t: "tdiv (q * 100) m = q * 100 div m"
    proof (cases "q = 0")
      case False
      with that show ?thesis by (simp add: tdiv_def sgn_if)
    qed (simp add: tdiv_def)
    have "q * 100 div m \<le> m * 100 div m" using that by (intro zdiv_mono1) auto
    then have "q * 100 div m \<le> 100" using that by simp
    moreover have "0 \<le> q * 100 div m" using that by (simp add: pos_imp_zdiv_nonneg_iff)
    ultimately show ?thesis using that by (simp add: ubus_signalQuality_def w t Let_def)
  qed
  then show ?thesis by (auto simp: ubus_signalQuality_def Let_def)
qed

lemma signal_quality_bounds_witness: "ubus_signalQuality 35 70 = 50"
  using signal_quality_bounds [of 35 70] by simp

text \<open>The encryption string written for a kind of security is read back as that kind exactly when it is not enterprise: the string the code has for enterprise security, and every spelling of it without an EAP suffix, is classified as WPA-PSK.\<close>

lemma encryption_kind_roundtrip: "encStrToSecKind (secKindToEnc k) = k \<longleftrightarrow> k \<noteq> SecEnterprise"
proof (cases k)
  case SecPSK
  have "encStrToSecKind ''psk2'' = SecPSK" by code_simp
  with SecPSK show ?thesis by (simp add: secKindToEnc_def)
next
  case SecOpen
  have "encStrToSecKind ''none'' = SecOpen" by code_simp
  with SecOpen show ?thesis by (simp add: secKindToEnc_def)
next
  case SecEnterprise
  have "encStrToSecKind ''wpa2'' = SecPSK" by code_simp
  with SecEnterprise show ?thesis by (simp add: secKindToEnc_def)
qed

text \<open>The name of the section made for a profile is always wfm_ followed by twelve hexadecimal digits, whatever bytes the SSID has, so that no SSID can name another section or break the syntax of the configuration.\<close>

theorem sectionName_wellformed:
  "length (sectionName ssid k) = 16 \<and> take 4 (sectionName ssid k) = ''wfm_'' \<and>
   byte ` set (drop 4 (sectionName ssid k)) \<subseteq> {48..57} \<union> {97..102}"
  unfolding image_subset_iff using length_sectionName [of ssid k] set_hex_encode by (auto simp: sectionName_def)

text \<open>The order in which Go walks over the sections does not matter for which stations there are.\<close>

lemma parseWifiIfaces_order: "set vs = set us \<Longrightarrow> set (parseWifiIfaces vs) = set (parseWifiIfaces us)"
  by (simp add: parseWifiIfaces_def map_filter_def)

end
