(* ===== verification/System.thy ===== *)
theory System
  imports Server Iwd_Store Nmcli Nmdbus_Spec Ubus_Spec
begin

text \<open>
  The parts put together: what holds for all four backends, behind the exclusion wrapper of
  \<open>internal/wnet/exclude.go\<close> and the services of \<open>internal/server\<close>.
\<close>

section \<open>Watching, from the backend to the client\<close>

definition streams_ok :: "'s Backend \<Rightarrow> bool" where
  "streams_ok B \<longleftrightarrow>
     (\<forall>c s sts s'. b_Watch B c s = (Inr sts, s') \<longrightarrow> changes None sts \<and> ends_at terminal sts)"

text \<open>What a client of a backend may rely on, and what the layers above it keep of it.\<close>

locale watching_backend =
  fixes B :: "'s Backend"
  assumes watch_stream: "b_Watch B c s = (Inr sts, s') \<Longrightarrow> changes None sts \<and> ends_at terminal sts"
begin

lemma streams: "streams_ok B"
  using watch_stream by (simp add: streams_ok_def)

lemma excluded_streams: "streams_ok (WithExcluded B rules)"
proof -
  have "changes None sts \<and> ends_at terminal sts" if "f_Watch B ex c s = (Inr sts, s')" for ex c s sts s'
    using that watch_stream unfolding f_Watch_def by (auto elim!: bindE_InrE)
  then have "streams_ok (filteredBackend B ex)" for ex
    unfolding streams_ok_def filteredBackend_sel by blast
  with streams show ?thesis by (simp add: WithExcluded_def Let_def)
qed

end

interpretation iwd_watching: watching_backend "iwd_backend E" for E :: "'s iwd_env"
proof
  fix c sts and s s' :: "'s iwd_state"
  assume "b_Watch (iwd_backend E) c s = (Inr sts, s')"
  then have w: "iwd_Watch E c s = (Inr sts, s')" by (simp add: iwd_backend_def)
  show "changes None sts \<and> ends_at terminal sts" using iwd_stream_facts [OF w] by blast
qed

interpretation nmcli_watching: watching_backend "nmcli_backend E" for E :: "'s nm_env"
proof
  fix c sts and s s' :: 's
  assume "b_Watch (nmcli_backend E) c s = (Inr sts, s')"
  then show "changes None sts \<and> ends_at terminal sts" by (intro nmcli_stream) (simp add: nmcli_backend_def)
qed

interpretation nmdbus_watching: watching_backend "nmdbus_backend E" for E :: "'s nb_env"
proof
  fix c sts and s s' :: 's
  assume "b_Watch (nmdbus_backend E) c s = (Inr sts, s')"
  then show "changes None sts \<and> ends_at terminal sts" by (intro nmdbus_stream) (simp add: nmdbus_backend_def)
qed

interpretation ubus_watching: watching_backend "ubus_backend sha E" for sha and E :: "'s ubus_env"
proof
  fix c sts and s s' :: "'s ubus_state"
  assume "b_Watch (ubus_backend sha E) c s = (Inr sts, s')"
  then show "changes None sts \<and> ends_at terminal sts" by (intro ubus_stream) (simp add: ubus_backend_def)
qed

lemma changes_take: "changes l sts \<Longrightarrow> changes l (take n sts)"
  by (induction sts arbitrary: l n) (auto simp: take_Cons split: nat.split)

lemma ends_at_take: "ends_at f sts \<Longrightarrow> ends_at f (take n sts)"
  by (induction sts arbitrary: n) (auto simp: take_Cons split: nat.split)

section \<open>Properties\<close>

text \<open>C4: Every backend keeps the contract of Watch, also behind any exclusion rules: no status on the channel repeats the state of the one before it, and a status with state Connected or Failed is the last one.\<close>

theorem backends_watch_contract:
  "streams_ok (WithExcluded (iwd_backend E1) rules) \<and> streams_ok (WithExcluded (nmcli_backend E2) rules) \<and>
   streams_ok (WithExcluded (nmdbus_backend E3) rules) \<and> streams_ok (WithExcluded (ubus_backend sha E4) rules)"
  by (intro conjI iwd_watching.excluded_streams nmcli_watching.excluded_streams nmdbus_watching.excluded_streams
      ubus_watching.excluded_streams)

text \<open>C9: What a client of the watch service receives over a backend that keeps the contract of Watch, whatever sends fail: messages of statuses of which no one repeats the state before it, and after Connected or Failed no further message.\<close>

theorem client_watch_stream:
  assumes "streams_ok B" and "Connection_Watch B U send ref s = ((e, ms), s')"
  shows "\<exists>sts. ms = map pbStatus sts \<and> changes None sts \<and> ends_at terminal sts"
proof (cases "uuidFromBytes U ref = []")
  case True
  with assms(2) have "ms = map pbStatus []" by (simp add: Connection_Watch_def)
  then show ?thesis by (intro exI [of _ "[]"]) simp
next
  case False
  obtain r s1 where w: "b_Watch B (uuidFromBytes U ref) s = (r, s1)" by force
  show ?thesis
  proof (cases r)
    case (Inl err)
    with False w assms(2) have "ms = map pbStatus []" by (simp add: Connection_Watch_def)
    then show ?thesis by (intro exI [of _ "[]"]) simp
  next
    case (Inr sts)
    with assms(1) w have ok: "changes None sts \<and> ends_at terminal sts" unfolding streams_ok_def by blast
    from False w Inr assms(2) have "send_all send sts s1 = ((e, ms), s')" by (simp add: Connection_Watch_def)
    from send_all_prefix [OF this] have "ms = map pbStatus (take (length ms) sts)" by simp
    with ok changes_take ends_at_take show ?thesis by blast
  qed
qed

lemma client_watch_stream_witness:
  "\<exists>sts. [pbStatus h_status] = map pbStatus sts \<and> changes None sts \<and> ends_at terminal sts"
proof -
  let ?r = "Connection_Watch host_backend hex_uuid (\<lambda>_ s. (None, s)) (replicate 16 (CHR ''c'')) the_host"
  have "fst ?r = (None, [pbStatus h_status])" by code_simp
  then obtain s' where r: "?r = ((None, [pbStatus h_status]), s')" by (metis prod.collapse)
  have "streams_ok host_backend" by (simp add: streams_ok_def host_backend_def)
  from client_watch_stream [OF this r] show ?thesis .
qed

text \<open>C10: The calls that wait for a service end, over every backend that waits: as long as the clock runs on while it waits, no polling loop uses up its fuel, whatever the service answers (iwd: scan; NetworkManager: switching the radio, scan, activation; ubus: activation).\<close>

theorem backend_waits_end:
  assumes "iwd_clock E1 clk1" and "nmdbus_clock E2 clk2" and "ubus_clock E3 clk3"
  shows "fst (iwd_Scan E1 n s1) \<noteq> Inl OutOfFuel \<and>
     fst (nmdbus_SetPower E2 n on s2) \<noteq> Inl OutOfFuel \<and> fst (nmdbus_Scan E2 n s2) \<noteq> Inl OutOfFuel \<and>
     fst (nmdbus_Activate E2 n p b s2) \<noteq> Inl OutOfFuel \<and>
     fst (ubus_Activate sha E3 n p b s3) \<noteq> Inl OutOfFuel"
  using iwd_scan_ends [OF assms(1)] nmdbus_waits_end [OF assms(2)] ubus_wait_ends [OF assms(3)] by blast

lemma backend_waits_end_witness:
  "fst (iwd_Scan env0 ''wlan0'' state0) \<noteq> Inl OutOfFuel \<and>
   fst (nmdbus_Scan demo_nm ''wlan0'' (Map.empty, 0)) \<noteq> Inl OutOfFuel \<and>
   fst (ubus_Activate (\<lambda>x. x) node_env ''wlan0'' [] [] demo_node) \<noteq> Inl OutOfFuel"
  using backend_waits_end [OF env0_clock demo_clock node_clock] by blast

end
