(* ===== verification/Commands_Spec.thy ===== *)
theory Commands_Spec
  imports Commands System
begin

text \<open>
  What the command line guarantees: the addresses of client and server agree, the
  configuration is searched, checked and applied to every backend, and what \<open>connect\<close>
  leaves behind when the activation fails.
\<close>

section \<open>Addresses\<close>

lemma HasPrefix_iff: "HasPrefix s p \<longleftrightarrow> (\<exists>t. s = p @ t)"
  by (metis HasPrefix_def append_eq_conv_conj append_take_drop_id)

section \<open>Properties\<close>

text \<open>Client and server mean the same socket by the same address: an address a server serves on a unix socket (a path, or unix:// and a path) is dialled as unix:// followed by that socket, and every other address, on which the server listens by TCP, is dialled as it is given.  The default socket, when it is an absolute path, is one the server serves as a unix socket, and a client without an address dials it as that when a server answers there.\<close>

theorem address_agreement:
  "dialTarget addr = (case listen_sock addr of Some sock \<Rightarrow> ''unix://'' @ sock | None \<Rightarrow> addr) \<and>
   (HasPrefix (defaultSocketPath X) ''/'' \<and> co_listening X (defaultSocketPath X) \<longrightarrow>
      listen_sock (defaultSocketPath X) = Some (defaultSocketPath X) \<and>
      dial X None backend = Remote (dialTarget (defaultSocketPath X)))"
proof
  show "dialTarget addr = (case listen_sock addr of Some sock \<Rightarrow> ''unix://'' @ sock | None \<Rightarrow> addr)"
  proof (cases "HasPrefix addr ''unix://''")
    case True
    then obtain t where t: "addr = ''unix://'' @ t" by (auto simp: HasPrefix_iff)
    have "HasPrefix addr ''unix:''" by (simp add: t HasPrefix_def)
    moreover have "listen_sock addr = Some (TrimPrefix addr ''unix://'')" using True by (simp add: listen_sock_def isUnixAddr_def)
    moreover have "''unix://'' @ TrimPrefix addr ''unix://'' = addr" using True by (simp add: TrimPrefix_def t)
    ultimately show ?thesis by (simp only: dialTarget_def if_True option.case)
  next
    case False
    then have "TrimPrefix addr ''unix://'' = addr" by (simp add: TrimPrefix_def)
    with False show ?thesis
      by (auto simp: HasPrefix_iff dialTarget_def listen_sock_def isUnixAddr_def)
  qed
qed (auto simp: HasPrefix_iff dial_def serverAddr_def dialTarget_def listen_sock_def isUnixAddr_def TrimPrefix_def)

text \<open>A relative default socket, as \<open>WFM_SOCKET\<close> may give it: the server takes it for a TCP address.\<close>

lemma relative_default_socket:
  assumes "defaultSocketPath X = ''wfm.sock''"
  shows "listen X L [] s = lo_listen L ''tcp'' ''wfm.sock'' s"
    and "co_listening X ''wfm.sock'' \<Longrightarrow> dial X None backend = Remote ''unix://wfm.sock''"
  by (simp_all add: assms listen_def listen_sock_def isUnixAddr_def HasPrefix_def dial_def serverAddr_def)

text \<open>A flag that does not parse is found out only after the socket of the running server is gone.\<close>

lemma serve_bad_ttl:
  assumes "newBackend X K c name = Inr b" "name \<noteq> []" "listen X L addr s = (Inr lis, s')"
  shows "cmd_serve X K L c read unmarshal uid now addr name (Some (Inl e)) path s
     = (Inl (Failed (''invalid --scan-cache-ttl: '' @ e)), s')"
  using assms by (simp add: cmd_serve_def scanCacheOpts_def)

text \<open>C19: Whatever backend is chosen, the interface listing served under a configuration is the one of the backend itself without exactly the interfaces a rule of the configuration excludes, in the same order.\<close>

theorem served_interfaces:
  assumes "newBackend X K (Some c) name = Inr B"
  shows "\<exists>raw. newRawBackend X K name (Some c) = Inr raw \<and>
     Interface_List B s =
       (case b_Interfaces raw s of
          (Inl e, s') \<Rightarrow> (Inl (errToStatusList e), s')
        | (Inr its, s') \<Rightarrow> (Inr (map pbInterface (filter (\<lambda>it. \<not> excluded_by (cf_Exclude c) it) its)), s'))"
proof -
  from assms obtain raw where raw: "newRawBackend X K name (Some c) = Inr raw"
    and B: "B = WithExcluded raw (cf_Exclude c)"
    by (auto simp: newBackend_def split: sum.splits)
  then show ?thesis
    by (auto simp: raw WithExcluded_Interfaces Interface_List_def reply_def split: prod.splits sum.splits)
qed

section \<open>A configuration and its backends\<close>

definition demo_os :: cmd_os where
  "demo_os = \<lparr>
     co_file = (\<lambda>p. if p = ''wfm.yml'' then FileContent ''yaml'' else FileMissing),
     co_yaml = (\<lambda>_. YamlConfig (zero_Config\<lparr>cf_Exclude :=
       [\<lparr>er_Name = ''wlan1'', er_Mac = [], er_Pci = []\<rparr>]\<rparr>)),
     co_env_socket = [], co_home = Some ''/home/u'', co_temp = ''/tmp'', co_listening = (\<lambda>_. False),
     co_bus = None, co_quote = (\<lambda>s. s), co_uuid = hex_uuid,
     co_resolver = \<lparr>rs_NewConfig = zero_OtelConfig, rs_Tracer = (\<lambda>_. Inl OtelNotExist), rs_Meter = (\<lambda>_. Inl OtelNotExist),
       rs_Logger = (\<lambda>_. Inr ''logger'')\<rparr>,
     co_otel_start = (\<lambda>_. None)\<rparr>"

definition demo_backends :: "host backends" where
  "demo_backends = \<lparr>k_nmcli = host_backend, k_nmdbus = Inl (Failed ''no bus''), k_iwd = Inl (Failed ''no bus''),
     k_ubus = (\<lambda>_ _ _. Inl (Failed ''no node''))\<rparr>"

definition demo_config :: Config where
  "demo_config = zero_Config\<lparr>cf_path := ''wfm.yml'', cf_Exclude := [\<lparr>er_Name = ''wlan1'', er_Mac = [], er_Pci = []\<rparr>]\<rparr>"

lemma address_agreement_witness:
  "dial (demo_os\<lparr>co_listening := (\<lambda>_. True)\<rparr>) None [] = Remote ''unix:///home/u/.wfm/wfm.sock''"
proof -
  let ?X = "demo_os\<lparr>co_listening := (\<lambda>_. True)\<rparr>"
  have p: "defaultSocketPath ?X = ''/home/u/.wfm/wfm.sock''" by code_simp
  then have "HasPrefix (defaultSocketPath ?X) ''/''" "co_listening ?X (defaultSocketPath ?X)"
    by (simp_all add: HasPrefix_def)
  with address_agreement [of "defaultSocketPath ?X" ?X "[]"]
  have "dial ?X None [] = Remote (''unix://'' @ defaultSocketPath ?X)" by (metis option.case(2))
  then show ?thesis unfolding p by (simp only: append.simps)
qed

lemma demo_excluded:
  "\<not> excluded_by (cf_Exclude demo_config) (radio ''wlan0'' a b)"
  "excluded_by (cf_Exclude demo_config) (radio ''wlan1'' a b)"
proof -
  have rule: "rule_spec \<lparr>er_Name = n, er_Mac = [], er_Pci = []\<rparr> it \<longleftrightarrow> n \<noteq> [] \<and> n = if_Name it" for n it
    by (auto simp: rule_spec_def isEmpty_def)
  have rules: "cf_Exclude demo_config = [\<lparr>er_Name = ''wlan1'', er_Mac = [], er_Pci = []\<rparr>]"
    by (simp add: demo_config_def)
  have name: "if_Name (radio n a b) = n" for n by (simp add: radio_def)
  show "\<not> excluded_by (cf_Exclude demo_config) (radio ''wlan0'' a b)" "excluded_by (cf_Exclude demo_config) (radio ''wlan1'' a b)"
    unfolding rules excluded_by_def by (simp_all add: rule name)
qed

lemma served_interfaces_witness:
  "map pif_Id (projr (fst (Interface_List
     (projr (newBackend demo_os demo_backends (Some demo_config) ''nmcli'')) the_host))) = [''wlan0'']"
proof -
  have raw: "newRawBackend demo_os demo_backends ''nmcli'' (Some demo_config) = Inr host_backend"
    by (simp add: newRawBackend_def demo_backends_def)
  then have "newBackend demo_os demo_backends (Some demo_config) ''nmcli''
      = Inr (WithExcluded host_backend (cf_Exclude demo_config))"
    by (simp add: newBackend_def)
  note nb = this
  have its: "b_Interfaces host_backend the_host = (Inr (h_ifaces the_host), h_log ''Interfaces'' the_host)"
    by (simp add: host_backend_def)
  from served_interfaces [OF nb, of the_host] raw its
  have "fst (Interface_List (WithExcluded host_backend (cf_Exclude demo_config)) the_host)
      = Inr (map pbInterface (filter (\<lambda>it. \<not> excluded_by (cf_Exclude demo_config) it) (h_ifaces the_host)))"
    by simp
  moreover note demo_excluded
  moreover have "h_ifaces the_host = [radio ''wlan0'' ''02:AA:00:00:00:01'' ''0000:02:00.0'',
      radio ''wlan1'' ''02:bb:00:00:00:02'' ''0000:03:00.0'']"
    by (simp add: the_host_def)
  ultimately have "fst (Interface_List (WithExcluded host_backend (cf_Exclude demo_config)) the_host)
      = Inr [pbInterface (radio ''wlan0'' ''02:AA:00:00:00:01'' ''0000:02:00.0'')]"
    by (simp only: filter.simps list.map if_True if_False not_False_eq_True simp_thms)
  then show ?thesis unfolding nb sum.sel
    by (simp only: sum.sel list.map) (simp add: pbInterface_def radio_def)
qed

lemma missing: "(\<exists>e. ReadFromFile X p = Inl (NotExist e)) \<longleftrightarrow> co_file X p = FileMissing"
  by (auto simp: ReadFromFile_def split: file_result.splits yaml_result.splits)

lemma search_config_find:
  "search_config X ps = Inr r \<Longrightarrow>
     (case find (\<lambda>p. co_file X p \<noteq> FileMissing) ps of
        Some p \<Rightarrow> \<exists>c. r = Some c \<and> ReadFromFile X p = Inr c
      | None \<Rightarrow> r = None)"
proof (induction ps)
  case (Cons p ps)
  from Cons missing [of X p] show ?case
    by (cases "ReadFromFile X p") (auto split: cmd_error.splits)
qed simp

lemma evaluate_rules_valid: "evaluate_rules i rs = Inr () \<Longrightarrow> valid_rules rs"
  by (induction rs arbitrary: i) (auto simp: valid_rules_def split: sum.splits)

text \<open>C26: A configuration the program starts with has only rules that pass the check, and but for the telemetry defaults it is the content of the file named on the command line, or else of the first default path that exists, or else the empty one; a default file that exists but cannot be read or decoded stops the program.\<close>

theorem config_checked:
  assumes "UseConfigInit X flag = Inr c"
  shows "valid_rules (cf_Exclude c) \<and> (\<exists>c0. c = c0\<lparr>cf_Otel := otel_defaults (cf_Otel c0)\<rparr> \<and>
    (case flag of
       Some p \<Rightarrow> ReadFromFile X p = Inr c0
     | None \<Rightarrow>
         (case find (\<lambda>p. co_file X p \<noteq> FileMissing) DefaultConfigPaths of
            Some p \<Rightarrow> ReadFromFile X p = Inr c0
          | None \<Rightarrow> c0 = zero_Config)))"
proof -
  from assms obtain c0 o1 otc where load: "load_config X flag = Inr c0"
    and build: "otel_Build (co_resolver X) (Some (cf_Otel c0)) = (Inr o1, otc)"
    and c: "c = c0\<lparr>cf_Otel := otc\<rparr>" "Evaluate c = Inr ()"
    by (auto simp: UseConfigInit_def split: sum.splits prod.splits option.splits)
  from build have "otc = otel_defaults (cf_Otel c0)" by (auto simp: otel_Build_def Let_def split: sum.splits)
  moreover from load have "case flag of Some p \<Rightarrow> ReadFromFile X p = Inr c0
     | None \<Rightarrow> (case find (\<lambda>p. co_file X p \<noteq> FileMissing) DefaultConfigPaths of
            Some p \<Rightarrow> ReadFromFile X p = Inr c0 | None \<Rightarrow> c0 = zero_Config)"
    using search_config_find [of X DefaultConfigPaths]
    by (auto simp: load_config_def split: option.splits sum.splits)
  moreover have "valid_rules (cf_Exclude c)" using c(2) evaluate_rules_valid by (simp add: Evaluate_def)
  ultimately show ?thesis using c(1) by blast
qed

lemma config_checked_witness:
  "\<exists>c0. ReadFromFile demo_os ''wfm.yml'' = Inr c0 \<and> valid_rules (cf_Exclude c0)"
proof -
  have start: "UseConfigInit demo_os None = Inr (demo_config\<lparr>cf_Otel := otel_defaults zero_OtelConfig\<rparr>)" by code_simp
  have path: "find (\<lambda>p. co_file demo_os p \<noteq> FileMissing) DefaultConfigPaths = Some ''wfm.yml''" by code_simp
  from config_checked [OF start, unfolded option.case path] obtain c0 where "valid_rules (cf_Exclude (demo_config\<lparr>cf_Otel := otel_defaults zero_OtelConfig\<rparr>))"
    and c0: "demo_config\<lparr>cf_Otel := otel_defaults zero_OtelConfig\<rparr> = c0\<lparr>cf_Otel := otel_defaults (cf_Otel c0)\<rparr>"
    and "ReadFromFile demo_os ''wfm.yml'' = Inr c0"
    by blast
  moreover from arg_cong [OF c0, of cf_Exclude] have "cf_Exclude (demo_config\<lparr>cf_Otel := otel_defaults zero_OtelConfig\<rparr>) = cf_Exclude c0"
    by simp
  ultimately show ?thesis by metis
qed

text \<open>Over \<open>ubus.New\<close> itself, a configured endpoint gives a backend whenever its password can be read.\<close>

lemma ubus_backend_built:
  assumes "k_ubus K = (\<lambda>ep ins o1. case ubus_New sha http ep ins o1 of Inl e \<Rightarrow> Inl (Failed ''ubus'') | Inr b \<Rightarrow> Inr b)"
    and "uc_Endpoint (cf_Ubus c) \<noteq> []" "ResolvePassword X (cf_Ubus c) = Inr pass"
  shows "newUbusBackend X K (Some c) = Inr (ubus_backend sha ((http (uc_Endpoint (cf_Ubus c)) (uc_Insecure (cf_Ubus c)))
      \<lparr>ub_opts := \<lparr>uo_Username = uc_Username (cf_Ubus c), uo_Password = pass,
         uo_Radio = uc_Radio (cf_Ubus c), uo_Network = uc_Network (cf_Ubus c)\<rparr>\<rparr>))"
  using assms by (simp add: newUbusBackend_def ubus_New_def NewClient_def)

section \<open>Connecting with iwd\<close>

text \<open>The network \<open>connect\<close> adds a profile for.\<close>

definition connect_key :: "string \<Rightarrow> string \<Rightarrow> string \<times> string" where
  "connect_key ssid psk = (ssid, if psk \<noteq> [] then ''psk'' else ''open'')"

lemma connect_spec:
  "spec_key (add_spec (connect_request ssid psk)) = connect_key ssid psk"
  "ps_SSID (add_spec (connect_request ssid psk)) = ssid"
  "sec_Kind (ps_Security (add_spec (connect_request ssid psk))) \<noteq> SecEnterprise"
  by (simp_all add: spec_key_def add_spec_def connect_request_def psk_or_open_def reqSecurity_def connect_key_def)

lemma uuid_back:
  assumes "uuid_law U" "length b = 16"
  shows "uuidFromBytes U (uuidToBytes U (uuid_String U b)) = uuid_String U b" "uuid_String U b \<noteq> []"
  using assms by (simp_all add: uuidToBytes_String uuidFromBytes_law) (simp add: uuid_law_def)

text \<open>The failing activation: the profile just added is erased, whatever comes of that.\<close>

lemma cmd_connect_failed:
  assumes names: "ifname \<noteq> []" "ssid \<noteq> []"
    and add: "c_Profile_Add cl (connect_request ssid psk) s = (Inr prof, s1)"
    and fails: "c_Connection_Add cl
        \<lparr>car_Interface = ifname, car_Profile = ppr_Id prof, car_AccessPoint = None\<rparr> s1 = (Inl e, s2)"
    and erase: "c_Profile_Erase cl (ppr_Id prof) s2 = (r, s3)"
  shows "\<exists>out. cmd_connect X (Inr cl) ifname ssid psk s
     = ((out, Some (FailedRpc ''connect failed (profile rolled back)'' e)), s3)"
  using names
  by (simp only: cmd_connect_def with_conn_def Let_def if_False simp_thms sum.case prod.case add fails erase
      prod.inject ex_simps)


text \<open>The directory with one network, on a host whose ids are UUIDs and whose radio \<open>wlan9\<close> is missing.\<close>

definition uuid_env :: "int iwd_env" where
  "uuid_env = env0\<lparr>ie_sha := (\<lambda>_. hex_encode (replicate 16 CHR ''a''))\<rparr>"

definition home_state :: "int iwd_state scan_state" where
  "home_state = \<lparr>ss_backend = state0, ss_cache = None, ss_files = Map.empty\<rparr>"

definition home_env :: "int iwd_state scan_env" where
  "home_env = \<lparr>se_now = (\<lambda>s. (iw_env s, s)),
     se_disk = (\<lambda>s. ((\<lparr>create_fails = None, write_fails = None, close_fails = None, rename_fails = None,
                 remove_fails = False\<rparr>, ''tmp''), s)),
     se_marshal = (\<lambda>_. Some [])\<rparr>"

lemma state0_dom: "dom (known (iw_store state0)) \<subseteq> {(''HomeNet'', ''psk'')}"
proof
  fix k assume "k \<in> dom (known (iw_store state0))"
  then obtain c where "known (iw_store state0) (fst k, snd k) = Some c" by auto
  from known_node [OF this] have n: "profileFilename (fst k) (snd k) = ''HomeNet.psk''"
    and t: "snd k \<in> set profileTypes" by (auto simp: state0_def)
  from parse_profileFilename [OF t, of "fst k"] have "(fst k, snd k) = (''HomeNet'', ''psk'')"
    unfolding n home_name by simp
  then show "k \<in> {(''HomeNet'', ''psk'')}" by simp
qed

lemma no_wlan9: "isl (fst (iwd_Activate uuid_env ''wlan9'' i b t))"
proof -
  have dev: "\<exists>t'. devicePath uuid_env ''wlan9'' t = (None, t')" for t
  proof -
    have "find_device ''wlan9'' objects0 = None" by code_simp
    then show ?thesis by (simp add: devicePath_def managed_def on_env_def uuid_env_def env0_def)
  qed
  obtain r s1 where p: "iwd_Profile uuid_env i t = (r, s1)" by force
  show ?thesis using p dev [of s1] by (cases r) (auto simp: iwd_Activate_def bindE_def)
qed


end
