(* ===== verification/Tui.thy ===== *)
theory Tui
  imports Client "HOL-Library.Multiset"
begin

text \<open>
  \<open>internal/tui\<close>: the state of the terminal UI, its update function (\<open>model.go\<close>) and the
  commands it hands to the runtime (\<open>commands.go\<close>).  A command is its name and argument;
  \<open>run_cmd\<close> is what it does when the runtime calls it, over the client of the wifi
  services.  \<open>tea.Batch\<close> is the list of its commands, a nil command the empty list.
  Counters are unbounded integers.

  \<open>return m, tea.Batch(m.triggerScan(...), ...)\<close> copies \<open>m\<close> after the call has run: the
  language leaves that order open, the compiler in use and the tests of the package settle it.
\<close>

section \<open>State, messages and commands\<close>

definition scrollOff :: int where
  "scrollOff = 5"

record model =
  m_width :: int
  m_height :: int
  m_ifaces :: "PbInterface list"
  m_ifIndex :: int
  m_ifAddr :: string
  m_connAP :: "PbAccessPoint option"
  m_profiles :: "PbProfile list"
  m_aps :: "PbAccessPoint list"
  m_apIndex :: int
  m_top :: int
  m_scanning :: bool
  m_spinner :: int
  m_err :: "rpc_error option"

definition newModel :: model where
  "newModel = \<lparr>m_width = 0, m_height = 0, m_ifaces = [], m_ifIndex = 0, m_ifAddr = [],
     m_connAP = None, m_profiles = [], m_aps = [], m_apIndex = 0, m_top = 0,
     m_scanning = False, m_spinner = 0, m_err = None\<rparr>"

datatype tui_msg =
    WindowSizeMsg int int
  | KeyMsg string
  | interfacesLoadedMsg "PbInterface list" "rpc_error option"
  | ifaceStatusMsg string string "PbAccessPoint option" "rpc_error option"
  | spinnerTickMsg
  | scanTickMsg
  | profilesLoadedMsg "PbProfile list" "rpc_error option"
  | scanResultMsg string "PbAccessPoint list" "rpc_error option"
  | QuitMsg

datatype tui_cmd =
    Quit
  | scanCmd string
  | spinnerTickCmd
  | scanTickCmd
  | listProfilesCmd
  | listInterfacesCmd
  | ifaceStatusCmd string

section \<open>Reading the state\<close>

definition selectedIface :: "model \<Rightarrow> PbInterface option" where
  "selectedIface m =
     (if m_ifIndex m < 0 \<or> m_ifIndex m \<ge> int (length (m_ifaces m)) then None
      else Some (m_ifaces m ! nat (m_ifIndex m)))"

definition selectedAP :: "model \<Rightarrow> PbAccessPoint option" where
  "selectedAP m =
     (if m_apIndex m < 0 \<or> m_apIndex m \<ge> int (length (m_aps m)) then None
      else Some (m_aps m ! nat (m_apIndex m)))"

definition isConnected :: "model \<Rightarrow> PbAccessPoint option \<Rightarrow> bool" where
  "isConnected m ap =
     (case (m_connAP m, ap) of
        (Some c, Some a) \<Rightarrow>
          if pap_Id c \<noteq> [] \<and> pap_Id c = pap_Id a then True
          else if pap_Bssid c \<noteq> [] \<and> pap_Bssid c = pap_Bssid a then True
          else False
      | _ \<Rightarrow> False)"

definition profileFor :: "model \<Rightarrow> PbAccessPoint option \<Rightarrow> PbProfile option" where
  "profileFor m ap =
     (case ap of
        None \<Rightarrow> None
      | Some a \<Rightarrow>
          if pap_Ssid a = [] then None
          else find (\<lambda>p. ppr_Ssid p = pap_Ssid a) (m_profiles m))"

text \<open>The number of list rows the layout of \<open>View\<close> leaves.\<close>

definition visibleRows :: "model \<Rightarrow> int" where
  "visibleRows m =
     (let bodyH = m_height m - 1;
          bodyH = (if bodyH < 3 then 3 else bodyH);
          rows = bodyH - 3
      in if rows < 1 then 1 else rows)"

section \<open>Changing the state\<close>

definition tui_triggerScan :: "string \<Rightarrow> bool \<Rightarrow> model \<Rightarrow> model \<times> tui_cmd list" where
  "tui_triggerScan ifID clear m =
     (if m_scanning m then (m, [])
      else
        (let m = m\<lparr>m_scanning := True, m_err := None\<rparr>;
             m = (if clear then m\<lparr>m_aps := [], m_apIndex := 0, m_top := 0, m_connAP := None\<rparr> else m)
         in (m, [scanCmd ifID, spinnerTickCmd])))"

text \<open>
  \<open>scroll\<close>: the rows of context ahead of a moving cursor, then the cursor kept inside the
  viewport and the position inside the list.  \<open>n\<close> is the length of the list, \<open>i\<close> the cursor.
\<close>

definition scroll_ahead :: "int \<Rightarrow> int \<Rightarrow> int \<Rightarrow> int \<Rightarrow> int \<Rightarrow> int" where
  "scroll_ahead n rows dir i pos =
     (let off = (if scrollOff > rows - 1 then rows - 1 else scrollOff) in
      if dir > 0 then
        (let want = i + off;
             want = (if want > n - 1 then n - 1 else want)
         in if pos + rows - 1 < want then want - rows + 1 else pos)
      else if dir < 0 then
        (let want = i - off;
             want = (if want < 0 then 0 else want)
         in if pos > want then want else pos)
      else pos)"

definition scroll_clamp :: "int \<Rightarrow> int \<Rightarrow> int \<Rightarrow> int \<Rightarrow> int" where
  "scroll_clamp n rows i pos =
     (let pos = (if i < pos then i else pos);
          pos = (if i > pos + rows - 1 then i - rows + 1 else pos);
          pos = (if pos > n - rows then n - rows else pos)
      in if pos < 0 then 0 else pos)"

definition scroll :: "int \<Rightarrow> int \<Rightarrow> model \<Rightarrow> model" where
  "scroll rows dir m =
     (let n = int (length (m_aps m)) in
      if n = 0 then m\<lparr>m_top := 0\<rparr>
      else
        (let rows = (if rows < 1 then 1 else rows);
             i = (if m_apIndex m < 0 then 0 else m_apIndex m);
             i = (if i > n - 1 then n - 1 else i)
         in m\<lparr>m_apIndex := i, m_top := scroll_clamp n rows i (scroll_ahead n rows dir i (m_top m))\<rparr>))"

text \<open>The position of the first access point with a given id.\<close>

fun index_of :: "string \<Rightarrow> PbAccessPoint list \<Rightarrow> int option" where
  "index_of selID [] = None"
| "index_of selID (ap # aps) =
     (if pap_Id ap = selID then Some 0 else map_option (\<lambda>i. i + 1) (index_of selID aps))"

text \<open>Where the cursor goes when \<open>items\<close> replace the list: the entry selected before, by id.\<close>

definition next_cursor :: "PbAccessPoint list \<Rightarrow> model \<Rightarrow> int" where
  "next_cursor items m =
     (let selID = (case selectedAP m of None \<Rightarrow> [] | Some ap \<Rightarrow> pap_Id ap);
          idx = m_apIndex m;
          idx = (if selID \<noteq> [] then (case index_of selID items of Some i \<Rightarrow> i | None \<Rightarrow> idx) else idx);
          idx = (if idx > int (length items) - 1 then int (length items) - 1 else idx)
      in if idx < 0 then 0 else idx)"

definition applyScan :: "PbAccessPoint list \<Rightarrow> model \<Rightarrow> model" where
  "applyScan items m =
     (let items = sort_key (\<lambda>ap. - pap_Signal ap) items;
          m = m\<lparr>m_apIndex := next_cursor items m, m_aps := items\<rparr>
      in scroll (visibleRows m) 0 m)"

text \<open>Go's remainder has the sign of the dividend.\<close>

definition tmod :: "int \<Rightarrow> int \<Rightarrow> int" where
  "tmod a b = a - b * tdiv a b"

definition press_tab :: "model \<Rightarrow> model \<times> tui_cmd list" where
  "press_tab m =
     (if m_ifaces m = [] then (m, [])
      else
        (let m = m\<lparr>m_ifIndex := tmod (m_ifIndex m + 1) (int (length (m_ifaces m))), m_ifAddr := []\<rparr>;
             id = (case selectedIface m of None \<Rightarrow> [] | Some it \<Rightarrow> pif_Id it)
         in (case tui_triggerScan id True m of (m, cs) \<Rightarrow> (m, cs @ [ifaceStatusCmd id]))))"

definition press_r :: "model \<Rightarrow> model \<times> tui_cmd list" where
  "press_r m =
     (case selectedIface m of
        Some it \<Rightarrow> tui_triggerScan (pif_Id it) False m
      | None \<Rightarrow> (m, []))"

definition press_up :: "model \<Rightarrow> model" where
  "press_up m =
     (if m_apIndex m > 0
      then (let m = m\<lparr>m_apIndex := m_apIndex m - 1\<rparr> in scroll (visibleRows m) (- 1) m)
      else m)"

definition press_down :: "model \<Rightarrow> model" where
  "press_down m =
     (if m_apIndex m < int (length (m_aps m)) - 1
      then (let m = m\<lparr>m_apIndex := m_apIndex m + 1\<rparr> in scroll (visibleRows m) 1 m)
      else m)"

definition handleKey :: "string \<Rightarrow> model \<Rightarrow> model \<times> tui_cmd list" where
  "handleKey key m =
     (if key = ''ctrl+c'' \<or> key = ''q'' then (m, [Quit])
      else if key = ''tab'' then press_tab m
      else if key = ''r'' then press_r m
      else if key = ''up'' \<or> key = ''k'' then (press_up m, [])
      else if key = ''down'' \<or> key = ''j'' then (press_down m, [])
      else (m, []))"

definition Init :: "tui_cmd list" where
  "Init = [listInterfacesCmd, listProfilesCmd, scanTickCmd]"

definition Update :: "tui_msg \<Rightarrow> model \<Rightarrow> model \<times> tui_cmd list" where
  "Update msg m =
     (case msg of
        WindowSizeMsg w h \<Rightarrow>
          (let m = m\<lparr>m_width := w, m_height := h\<rparr> in (scroll (visibleRows m) 0 m, []))
      | KeyMsg key \<Rightarrow> handleKey key m
      | interfacesLoadedMsg items err \<Rightarrow>
          (let m = m\<lparr>m_err := err, m_ifaces := items\<rparr>;
               m = (if m_ifIndex m \<ge> int (length (m_ifaces m)) then m\<lparr>m_ifIndex := 0\<rparr> else m)
           in (case selectedIface m of
                 Some it \<Rightarrow>
                   (case tui_triggerScan (pif_Id it) True (m\<lparr>m_ifAddr := []\<rparr>) of
                      (m, cs) \<Rightarrow> (m, cs @ [ifaceStatusCmd (pif_Id it)]))
               | None \<Rightarrow> (m, [])))
      | ifaceStatusMsg ifID addr ap err \<Rightarrow>
          (case selectedIface m of
             None \<Rightarrow> (m, [])
           | Some it \<Rightarrow>
               if pif_Id it \<noteq> ifID then (m, [])
               else
                 (let m = m\<lparr>m_ifAddr := addr, m_connAP := ap\<rparr>
                  in (case ap of
                        Some a \<Rightarrow>
                          if m_scanning m \<and> length (m_aps m) = 0
                          then (m\<lparr>m_aps := [a], m_apIndex := 0, m_top := 0\<rparr>, [])
                          else (m, [])
                      | None \<Rightarrow> (m, []))))
      | spinnerTickMsg \<Rightarrow>
          (if \<not> m_scanning m then (m, [])
           else (m\<lparr>m_spinner := m_spinner m + 1\<rparr>, [spinnerTickCmd]))
      | scanTickMsg \<Rightarrow>
          (let cmds = [scanTickCmd, listProfilesCmd]
           in (case selectedIface m of
                 Some it \<Rightarrow>
                   (case tui_triggerScan (pif_Id it) False m of
                      (m, c) \<Rightarrow> (m, cmds @ c @ [ifaceStatusCmd (pif_Id it)]))
               | None \<Rightarrow> (m, cmds)))
      | profilesLoadedMsg items err \<Rightarrow>
          (if err = None then (m\<lparr>m_profiles := items\<rparr>, []) else (m, []))
      | scanResultMsg ifID items err \<Rightarrow>
          (case selectedIface m of
             None \<Rightarrow> (m, [])
           | Some it \<Rightarrow>
               if pif_Id it \<noteq> ifID then (m, [])
               else (applyScan items (m\<lparr>m_scanning := False, m_err := err\<rparr>), []))
      | QuitMsg \<Rightarrow> (m, []))"

section \<open>Commands\<close>

definition connectedAP :: "PbConnection \<Rightarrow> PbConnectionStatus \<Rightarrow> PbAccessPoint option" where
  "connectedAP c st =
     (let overlay = (\<lambda>ap.
            let ap = (if get_str (pcs_Bssid st) \<noteq> [] then ap\<lparr>pap_Bssid := get_str (pcs_Bssid st)\<rparr> else ap);
                ap = (if get_int (pcs_Signal st) > 0 then ap\<lparr>pap_Signal := get_int (pcs_Signal st)\<rparr> else ap)
            in if pap_Id ap = [] then ap\<lparr>pap_Id := pap_Bssid ap\<rparr> else ap)
      in (case pcn_AccessPoint c of
            None \<Rightarrow>
              if get_str (pcs_Bssid st) = [] \<and> get_int (pcs_Signal st) = 0 then None
              else Some (overlay zero_PbAccessPoint)
          | Some ap \<Rightarrow> Some (overlay ap)))"

definition pickAddr :: "string list \<Rightarrow> string" where
  "pickAddr addrs =
     (case addrs of
        [] \<Rightarrow> []
      | first # _ \<Rightarrow>
          (let pick = (case find (\<lambda>a. Contains a ''.'') addrs of Some a \<Rightarrow> a | None \<Rightarrow> first)
           in (case IndexByte pick CHR ''/'' of Some i \<Rightarrow> take i pick | None \<Rightarrow> pick)))"

text \<open>The loop of \<open>ifaceStatusCmd\<close>: the first connection whose live status is connected.\<close>

fun first_connected ::
  "'s wifi_client \<Rightarrow> PbConnection list \<Rightarrow> 's \<Rightarrow> (PbConnection \<times> PbConnectionStatus) option \<times> 's" where
  "first_connected cl [] s = (None, s)"
| "first_connected cl (c # cs) s =
     (case c_Connection_GetStatus cl (pcn_Id c) s of
        (Inl _, s') \<Rightarrow> first_connected cl cs s'
      | (Inr st, s') \<Rightarrow>
          if pcs_State st \<noteq> CONNECTION_STATE_CONNECTED then first_connected cl cs s'
          else (Some (c, st), s'))"

definition iface_status :: "'s wifi_client \<Rightarrow> string \<Rightarrow> 's \<Rightarrow> tui_msg \<times> 's" where
  "iface_status cl ifID s =
     (case c_Connection_List cl ifID s of
        (Inl e, s') \<Rightarrow> (ifaceStatusMsg ifID [] None (Some e), s')
      | (Inr items, s') \<Rightarrow>
          (case first_connected cl items s' of
             (Some (c, st), s'') \<Rightarrow>
               (ifaceStatusMsg ifID (pickAddr (pcs_Addresses st)) (connectedAP c st) None, s'')
           | (None, s'') \<Rightarrow> (ifaceStatusMsg ifID [] None None, s'')))"

text \<open>What a call answers: its items, or none and the error.\<close>

definition answer :: "('a list \<Rightarrow> rpc_error option \<Rightarrow> tui_msg) \<Rightarrow> (rpc_error + 'a list) \<times> 's \<Rightarrow> tui_msg \<times> 's" where
  "answer msg r = (case r of (Inl e, s) \<Rightarrow> (msg [] (Some e), s) | (Inr xs, s) \<Rightarrow> (msg xs None, s))"

fun run_cmd :: "'s wifi_client \<Rightarrow> tui_cmd \<Rightarrow> 's \<Rightarrow> tui_msg \<times> 's" where
  "run_cmd cl Quit s = (QuitMsg, s)"
| "run_cmd cl (scanCmd ifID) s = answer (scanResultMsg ifID) (c_AccessPoint_Scan cl ifID s)"
| "run_cmd cl spinnerTickCmd s = (spinnerTickMsg, s)"
| "run_cmd cl scanTickCmd s = (scanTickMsg, s)"
| "run_cmd cl listProfilesCmd s = answer profilesLoadedMsg (c_Profile_List cl s)"
| "run_cmd cl listInterfacesCmd s = answer interfacesLoadedMsg (c_Interface_List cl s)"
| "run_cmd cl (ifaceStatusCmd ifID) s = iface_status cl ifID s"

section \<open>The running program\<close>

text \<open>
  The runtime of bubbletea: a batch starts its commands concurrently, a command that ends
  leaves a message, the loop takes one message at a time, in any order, and the user may
  type or resize at any time; other clients may change the server.  \<open>QuitMsg\<close> ends the loop.
\<close>

record 's program =
  p_model :: model
  p_cmds :: "tui_cmd multiset"
  p_msgs :: "tui_msg multiset"
  p_server :: 's
  p_quit :: bool

definition launch :: "'s \<Rightarrow> 's program" where
  "launch s = \<lparr>p_model = newModel, p_cmds = mset Init, p_msgs = {#}, p_server = s, p_quit = False\<rparr>"

definition dispatch :: "tui_msg \<Rightarrow> 's program \<Rightarrow> 's program" where
  "dispatch msg p =
     (if msg = QuitMsg then p\<lparr>p_quit := True\<rparr>
      else (case Update msg (p_model p) of
              (m, cs) \<Rightarrow> p\<lparr>p_model := m, p_cmds := p_cmds p + mset cs\<rparr>))"

definition finish :: "'s wifi_client \<Rightarrow> tui_cmd \<Rightarrow> 's program \<Rightarrow> 's program" where
  "finish cl c p =
     (case run_cmd cl c (p_server p) of
        (msg, s) \<Rightarrow> p\<lparr>p_cmds := p_cmds p - {#c#}, p_msgs := p_msgs p + {#msg#}, p_server := s\<rparr>)"

inductive tui_step :: "'s wifi_client \<Rightarrow> 's program \<Rightarrow> 's program \<Rightarrow> bool" for cl where
  key: "\<not> p_quit p \<Longrightarrow> tui_step cl p (dispatch (KeyMsg k) p)"
| resize: "\<not> p_quit p \<Longrightarrow> tui_step cl p (dispatch (WindowSizeMsg w h) p)"
| run: "\<not> p_quit p \<Longrightarrow> c \<in># p_cmds p \<Longrightarrow> tui_step cl p (finish cl c p)"
| deliver: "\<not> p_quit p \<Longrightarrow> msg \<in># p_msgs p \<Longrightarrow>
    tui_step cl p (dispatch msg (p\<lparr>p_msgs := p_msgs p - {#msg#}\<rparr>))"
| others: "\<not> p_quit p \<Longrightarrow> tui_step cl p (p\<lparr>p_server := s\<rparr>)"

definition tui_reachable :: "'s wifi_client \<Rightarrow> 's program \<Rightarrow> bool" where
  "tui_reachable cl p \<longleftrightarrow> (\<exists>s. (tui_step cl)\<^sup>*\<^sup>* (launch s) p)"

end
