(* ===== verification/Tui_Spec.thy ===== *)
theory Tui_Spec
  imports Tui
begin

text \<open>
  What the terminal UI guarantees: the invariant of its state in every reachable program,
  the scroll margin, how a scan result is installed, and the life of its background
  commands (at most one scan, exactly one periodic tick).
\<close>

section \<open>Scrolling\<close>

text \<open>The cursor is on the list and inside the viewport, and the viewport inside the list.\<close>

definition in_view :: "int \<Rightarrow> int \<Rightarrow> int \<Rightarrow> int \<Rightarrow> bool" where
  "in_view n rows i pos \<longleftrightarrow>
     0 \<le> i \<and> i < max 1 n \<and> 0 \<le> pos \<and> pos \<le> i \<and> i < pos + rows \<and> pos \<le> max 0 (n - rows)"

lemma scroll_clamp_view:
  "0 \<le> i \<Longrightarrow> i < n \<Longrightarrow> 1 \<le> rows \<Longrightarrow> in_view n rows i (scroll_clamp n rows i pos)"
  unfolding in_view_def scroll_clamp_def Let_def by auto

lemma scroll_clamp_id: "in_view n rows i pos \<Longrightarrow> 0 < n \<Longrightarrow> scroll_clamp n rows i pos = pos"
  unfolding in_view_def scroll_clamp_def Let_def by auto

lemma scroll_aps [simp]: "m_aps (scroll rows dir m) = m_aps m"
  by (simp add: scroll_def Let_def)

lemma scroll_other [simp]:
  "m_height (scroll rows dir m) = m_height m" "m_width (scroll rows dir m) = m_width m"
  "m_ifaces (scroll rows dir m) = m_ifaces m" "m_ifIndex (scroll rows dir m) = m_ifIndex m"
  "m_scanning (scroll rows dir m) = m_scanning m" "m_ifAddr (scroll rows dir m) = m_ifAddr m"
  "visibleRows (scroll rows dir m) = visibleRows m"
  by (simp_all add: scroll_def visibleRows_def Let_def)

lemma scroll_view:
  assumes "1 \<le> rows" "m_aps m = [] \<Longrightarrow> m_apIndex m = 0"
  shows "in_view (int (length (m_aps m))) rows (m_apIndex (scroll rows dir m)) (m_top (scroll rows dir m))"
proof (cases "m_aps m")
  case Nil
  with assms show ?thesis by (simp add: scroll_def in_view_def)
next
  case Cons
  then have "0 < int (length (m_aps m))" by simp
  with assms(1) show ?thesis unfolding scroll_def Let_def by (auto intro!: scroll_clamp_view)
qed

lemma visibleRows_pos [simp]: "1 \<le> visibleRows m" "0 < visibleRows m"
  by (simp_all add: visibleRows_def Let_def)

text \<open>Context ahead of the cursor after a step down or up.\<close>

lemma ahead_down:
  assumes "0 \<le> i" "i < n" "1 \<le> rows" and t: "t = scroll_clamp n rows i (scroll_ahead n rows 1 i pos)"
  shows "min (min scrollOff (rows - 1)) (n - 1 - i) \<le> min (t + rows) n - 1 - i"
  using assms(1-3) unfolding t scroll_clamp_def scroll_ahead_def Let_def scrollOff_def by auto

lemma ahead_up:
  assumes "0 \<le> i" "i < n" "1 \<le> rows" and t: "t = scroll_clamp n rows i (scroll_ahead n rows (- 1) i pos)"
  shows "min (min scrollOff (rows - 1)) i \<le> i - t"
  using assms(1-3) unfolding t scroll_clamp_def scroll_ahead_def Let_def scrollOff_def by auto

section \<open>Installing a scan\<close>

lemma index_of_Some:
  "index_of selID aps = Some i \<Longrightarrow>
     0 \<le> i \<and> i < int (length aps) \<and> pap_Id (aps ! nat i) = selID"
  by (induction aps arbitrary: i) (auto split: if_splits simp: nat_add_distrib)

lemma index_of_None: "index_of selID aps = None \<longleftrightarrow> selID \<notin> pap_Id ` set aps"
  by (induction aps) auto

lemma next_cursor_Nil: "next_cursor [] m = 0"
  by (simp add: next_cursor_def Let_def split: option.splits)

lemma applyScan_aps [simp]: "m_aps (applyScan items m) = sort_key (\<lambda>ap. - pap_Signal ap) items"
  by (simp add: applyScan_def Let_def)

lemma applyScan_other [simp]:
  "m_height (applyScan items m) = m_height m" "m_ifaces (applyScan items m) = m_ifaces m"
  "m_ifIndex (applyScan items m) = m_ifIndex m" "m_scanning (applyScan items m) = m_scanning m"
  "visibleRows (applyScan items m) = visibleRows m"
  by (simp_all add: applyScan_def Let_def) (simp add: visibleRows_def)

lemma selectedAP_eq: "selectedAP m = Some a \<longleftrightarrow>
    0 \<le> m_apIndex m \<and> m_apIndex m < int (length (m_aps m)) \<and> a = m_aps m ! nat (m_apIndex m)"
  by (auto simp: selectedAP_def)

lemma scroll_keeps_cursor:
  "0 \<le> m_apIndex m \<Longrightarrow> m_apIndex m < int (length (m_aps m)) \<Longrightarrow> m_apIndex (scroll rows dir m) = m_apIndex m"
  by (auto simp: scroll_def Let_def)

lemma applyScan_follows:
  assumes sel: "selectedAP m = Some a" and id: "pap_Id a \<noteq> []" "pap_Id a \<in> pap_Id ` set items"
  shows "\<exists>b. selectedAP (applyScan items m) = Some b \<and> pap_Id b = pap_Id a"
proof -
  let ?its = "sort_key (\<lambda>ap. - pap_Signal ap) items"
  have "index_of (pap_Id a) ?its \<noteq> None" using id by (simp add: index_of_None)
  then obtain i where i: "index_of (pap_Id a) ?its = Some i" by blast
  note at = index_of_Some [OF i]
  have "m_apIndex (applyScan items m) = i"
    using at sel id i by (simp add: applyScan_def next_cursor_def Let_def scroll_keeps_cursor)
  with at show ?thesis by (simp add: selectedAP_eq)
qed

section \<open>The invariant\<close>

definition tui_inv :: "model \<Rightarrow> bool" where
  "tui_inv m \<longleftrightarrow>
     0 \<le> m_ifIndex m \<and> m_ifIndex m < max 1 (int (length (m_ifaces m))) \<and>
     in_view (int (length (m_aps m))) (visibleRows m) (m_apIndex m) (m_top m) \<and>
     sorted (map (\<lambda>ap. - pap_Signal ap) (m_aps m))"

lemma in_view_empty [simp]: "in_view 0 (visibleRows m) 0 0" "in_view 1 (visibleRows m) 0 0"
  by (simp_all add: in_view_def)

lemma tui_inv_empty: "tui_inv m \<Longrightarrow> m_aps m = [] \<Longrightarrow> m_apIndex m = 0"
  by (simp add: tui_inv_def in_view_def)

lemma visibleRows_upd [simp]:
  "visibleRows (m\<lparr>m_aps := a\<rparr>) = visibleRows m" "visibleRows (m\<lparr>m_apIndex := i\<rparr>) = visibleRows m"
  "visibleRows (m\<lparr>m_top := i\<rparr>) = visibleRows m" "visibleRows (m\<lparr>m_connAP := c\<rparr>) = visibleRows m"
  "visibleRows (m\<lparr>m_err := e\<rparr>) = visibleRows m" "visibleRows (m\<lparr>m_scanning := b\<rparr>) = visibleRows m"
  "visibleRows (m\<lparr>m_ifAddr := s\<rparr>) = visibleRows m" "visibleRows (m\<lparr>m_ifIndex := i\<rparr>) = visibleRows m"
  "visibleRows (m\<lparr>m_ifaces := its\<rparr>) = visibleRows m" "visibleRows (m\<lparr>m_profiles := ps\<rparr>) = visibleRows m"
  "visibleRows (m\<lparr>m_spinner := i\<rparr>) = visibleRows m" "visibleRows (m\<lparr>m_width := i\<rparr>) = visibleRows m"
  by (simp_all add: visibleRows_def)

lemma tmod_nonneg: "0 \<le> a \<Longrightarrow> 0 < b \<Longrightarrow> tmod a b = a mod b"
  by (cases "a = 0") (simp_all add: tmod_def tdiv_def minus_mult_div_eq_mod)

lemma triggerScan_inv: "tui_inv m \<Longrightarrow> tui_inv (fst (tui_triggerScan i clear m))"
  by (auto simp: tui_triggerScan_def tui_inv_def Let_def)

lemma tui_inv_scroll:
  assumes "0 \<le> m_ifIndex m" "m_ifIndex m < max 1 (int (length (m_ifaces m)))"
    "sorted (map (\<lambda>ap. - pap_Signal ap) (m_aps m))" "m_aps m = [] \<Longrightarrow> m_apIndex m = 0"
  shows "tui_inv (scroll (visibleRows m) dir m)"
  using assms scroll_view [of "visibleRows m" m dir] by (simp add: tui_inv_def)

lemma applyScan_inv: "tui_inv m \<Longrightarrow> tui_inv (applyScan items m)"
  unfolding applyScan_def Let_def
  using tui_inv_scroll [of "m\<lparr>m_apIndex := next_cursor (sort_key (\<lambda>ap. - pap_Signal ap) items) m,
      m_aps := sort_key (\<lambda>ap. - pap_Signal ap) items\<rparr>" 0]
  by (simp add: tui_inv_def next_cursor_Nil)

lemma fst_prod: "fst (case p of (m, cs) \<Rightarrow> (m, f cs)) = fst p"
  by (cases p) simp

lemma next_iface_inv:
  "tui_inv m \<Longrightarrow> m_ifaces m \<noteq> [] \<Longrightarrow>
     tui_inv (m\<lparr>m_ifIndex := tmod (m_ifIndex m + 1) (int (length (m_ifaces m))), m_ifAddr := []\<rparr>)"
  by (simp add: tui_inv_def tmod_nonneg max_def Suc_le_eq)

lemma press_tab_inv: "tui_inv m \<Longrightarrow> tui_inv (fst (press_tab m))"
  unfolding press_tab_def Let_def by (simp add: fst_prod triggerScan_inv next_iface_inv)

lemma press_r_inv: "tui_inv m \<Longrightarrow> tui_inv (fst (press_r m))"
  by (simp add: press_r_def triggerScan_inv split: option.split)

lemma move_inv:
  "tui_inv m \<Longrightarrow> m_aps m \<noteq> [] \<Longrightarrow>
     tui_inv (scroll (visibleRows m) dir (m\<lparr>m_apIndex := i\<rparr>))"
  using tui_inv_scroll [of "m\<lparr>m_apIndex := i\<rparr>" dir] by (simp add: tui_inv_def)

lemma press_up_inv:
  assumes "tui_inv m"
  shows "tui_inv (press_up m)"
proof (cases "m_aps m = []")
  case False
  with assms show ?thesis by (simp add: press_up_def Let_def move_inv)
qed (use assms tui_inv_empty [OF assms] in \<open>simp add: press_up_def\<close>)

lemma press_down_inv:
  assumes "tui_inv m"
  shows "tui_inv (press_down m)"
proof (cases "m_aps m = []")
  case False
  with assms show ?thesis by (simp add: press_down_def Let_def move_inv)
qed (use assms tui_inv_empty [OF assms] in \<open>simp add: press_down_def\<close>)

lemma handleKey_inv: "tui_inv m \<Longrightarrow> tui_inv (fst (handleKey k m))"
  unfolding handleKey_def
  by (simp add: press_tab_inv press_r_inv press_up_inv press_down_inv)

lemma Update_inv:
  assumes inv: "tui_inv m"
  shows "tui_inv (fst (Update msg m))"
proof (cases msg)
  case (WindowSizeMsg w h)
  let ?m = "m\<lparr>m_width := w, m_height := h\<rparr>"
  have "tui_inv (scroll (visibleRows ?m) 0 ?m)"
    using inv tui_inv_empty [OF inv] by (intro tui_inv_scroll) (simp_all add: tui_inv_def)
  then show ?thesis by (simp add: WindowSizeMsg Update_def Let_def)
next
  case (interfacesLoadedMsg items err)
  define m1 where "m1 = (let m = m\<lparr>m_err := err, m_ifaces := items\<rparr> in
    if m_ifIndex m \<ge> int (length (m_ifaces m)) then m\<lparr>m_ifIndex := 0\<rparr> else m)"
  have "tui_inv m1" using inv by (auto simp: m1_def tui_inv_def Let_def max_def Suc_le_eq)
  then have "tui_inv (m1\<lparr>m_ifAddr := []\<rparr>)" by (simp add: tui_inv_def)
  with \<open>tui_inv m1\<close> show ?thesis
    unfolding interfacesLoadedMsg Update_def tui_msg.case Let_def m1_def [unfolded Let_def, symmetric]
    by (auto simp: fst_prod intro!: triggerScan_inv split: option.split)
next
  case (scanResultMsg ifID items err)
  have "tui_inv (m\<lparr>m_scanning := False, m_err := err\<rparr>)" using inv by (simp add: tui_inv_def)
  then show ?thesis using inv
    by (simp add: scanResultMsg Update_def applyScan_inv split: option.split)
next
  case scanTickMsg
  then show ?thesis using inv
    by (auto simp: Update_def fst_prod Let_def intro!: triggerScan_inv split: option.split)
next
  case (KeyMsg k)
  then show ?thesis using inv by (simp add: Update_def handleKey_inv)
qed (use inv in \<open>auto simp: Update_def tui_inv_def Let_def split: option.split\<close>)

section \<open>Commands in flight\<close>

fun is_scanCmd :: "tui_cmd \<Rightarrow> bool" where
  "is_scanCmd (scanCmd _) = True"
| "is_scanCmd _ = False"

fun is_scanResult :: "tui_msg \<Rightarrow> bool" where
  "is_scanResult (scanResultMsg _ _ _) = True"
| "is_scanResult _ = False"

text \<open>A kind of command in flight: handed to the runtime, or ended with its message waiting.\<close>

definition in_flight :: "(tui_cmd \<Rightarrow> bool) \<Rightarrow> (tui_msg \<Rightarrow> bool) \<Rightarrow> 's program \<Rightarrow> nat" where
  "in_flight pc pm p = size (filter_mset pc (p_cmds p)) + size (filter_mset pm (p_msgs p))"

abbreviation scans_in_flight :: "'s program \<Rightarrow> nat" where
  "scans_in_flight \<equiv> in_flight is_scanCmd is_scanResult"

abbreviation ticks_in_flight :: "'s program \<Rightarrow> nat" where
  "ticks_in_flight \<equiv> in_flight (\<lambda>c. c = scanTickCmd) (\<lambda>msg. msg = scanTickMsg)"

lemma size_filter_remove:
  "c \<in># M \<Longrightarrow> size (filter_mset P (M - {#c#})) = size (filter_mset P M) - (if P c then 1 else 0)"
  by (auto dest!: multi_member_split)

lemma size_filter_pos: "c \<in># M \<Longrightarrow> P c \<Longrightarrow> 0 < size (filter_mset P M)"
  by (auto dest!: multi_member_split)

lemma run_cmd_kind [simp]:
  "is_scanResult (fst (run_cmd cl c s)) = is_scanCmd c"
  "fst (run_cmd cl c s) = scanTickMsg \<longleftrightarrow> c = scanTickCmd"
  by (cases c; auto simp: answer_def iface_status_def split: sum.split prod.split option.split)+

text \<open>
  The contract of such a kind: running a command of it leaves a message of it, and nothing
  else does.  So running commands never changes how many are in flight.
\<close>

locale command_kind =
  fixes cl :: "'s wifi_client" and pc :: "tui_cmd \<Rightarrow> bool" and pm :: "tui_msg \<Rightarrow> bool"
  assumes run_kind: "pm (fst (run_cmd cl c s)) = pc c"
begin

lemma finish_in_flight:
  assumes "c \<in># p_cmds p"
  shows "in_flight pc pm (finish cl c p) = in_flight pc pm p"
proof -
  obtain msg s where r: "run_cmd cl c (p_server p) = (msg, s)" by force
  then have "pm msg = pc c" using run_kind [of c "p_server p"] by simp
  with r assms size_filter_pos [OF assms, of pc] show ?thesis
    by (auto simp: in_flight_def finish_def size_filter_remove simp del: filter_diff_mset)
qed

end

interpretation scans: command_kind cl is_scanCmd is_scanResult for cl :: "'s wifi_client"
  by unfold_locales simp

interpretation ticks: command_kind cl "\<lambda>c. c = scanTickCmd" "\<lambda>msg. msg = scanTickMsg" for cl :: "'s wifi_client"
  by unfold_locales simp

lemma dispatch_in_flight:
  "in_flight pc pm (dispatch msg p) =
     in_flight pc pm p + (if msg = QuitMsg then 0 else length (filter pc (snd (Update msg (p_model p)))))"
  by (auto simp: in_flight_def dispatch_def split: prod.split simp flip: mset_filter size_mset)

text \<open>When the update function starts a scan and when it stops waiting for one.\<close>

definition scan_rule :: "tui_msg \<Rightarrow> model \<Rightarrow> model \<times> tui_cmd list \<Rightarrow> bool" where
  "scan_rule msg m r \<longleftrightarrow>
     length (filter is_scanCmd (snd r)) = (if \<not> m_scanning m \<and> m_scanning (fst r) then 1 else 0) \<and>
     (m_scanning m \<and> \<not> m_scanning (fst r) \<longrightarrow> is_scanResult msg)"

lemma scan_rule_trigger:
  assumes "m_scanning m' = m_scanning m" "filter is_scanCmd cs = []" "filter is_scanCmd ds = []"
  shows "scan_rule msg m (case tui_triggerScan i c m' of (m, c) \<Rightarrow> (m, cs @ c @ ds))"
  using assms by (simp add: scan_rule_def tui_triggerScan_def Let_def)

lemma scan_rule_keep:
  "m_scanning m' = m_scanning m \<Longrightarrow> filter is_scanCmd cs = [] \<Longrightarrow> scan_rule msg m (m', cs)"
  by (simp add: scan_rule_def)

lemma scan_rule_tab: "scan_rule msg m (press_tab m)"
  using scan_rule_trigger [where cs = "[]" and m = m]
  by (auto simp: press_tab_def Let_def intro!: scan_rule_keep)

lemma scan_rule_r: "scan_rule msg m (press_r m)"
  using scan_rule_trigger [where cs = "[]" and ds = "[]" and m = m]
  by (auto simp: press_r_def intro!: scan_rule_keep split: option.split)

lemma press_scanning [simp]: "m_scanning (press_up m) = m_scanning m" "m_scanning (press_down m) = m_scanning m"
  by (simp_all add: press_up_def press_down_def Let_def)

lemma scan_rule_key: "scan_rule msg m (handleKey k m)"
  by (simp add: handleKey_def scan_rule_tab scan_rule_r scan_rule_keep)

lemma scan_rule_Update: "scan_rule msg m (Update msg m)"
proof (cases msg)
  case (interfacesLoadedMsg items err)
  show ?thesis
    using scan_rule_trigger [where cs = "[]" and m = m]
    by (auto simp: interfacesLoadedMsg Update_def Let_def intro!: scan_rule_keep split: option.split)
next
  case scanTickMsg
  show ?thesis
    using scan_rule_trigger [where cs = "[scanTickCmd, listProfilesCmd]" and m = m and m' = m]
    by (auto simp: scanTickMsg Update_def Let_def intro!: scan_rule_keep split: option.split)
next
  case (KeyMsg k)
  then show ?thesis by (simp add: Update_def scan_rule_key)
qed (auto simp: Update_def Let_def scan_rule_def split: option.split)

lemma tick_trigger: "filter (\<lambda>c. c = scanTickCmd) (snd (tui_triggerScan i c m)) = []"
  by (simp add: tui_triggerScan_def Let_def)

lemma snd_prod: "snd (case p of (m, cs) \<Rightarrow> (m, f cs)) = f (snd p)"
  by (cases p) simp

lemma Update_ticks:
  "length (filter (\<lambda>c. c = scanTickCmd) (snd (Update msg m))) = (if msg = scanTickMsg then 1 else 0)"
  by (cases msg)
    (auto simp: Update_def handleKey_def press_tab_def press_r_def Let_def snd_prod tick_trigger split: option.split)

section \<open>Reachable programs\<close>

lemma in_flight_upd [simp]:
  "in_flight pc pm (p\<lparr>p_server := s\<rparr>) = in_flight pc pm p"
  by (simp add: in_flight_def)

lemma deliver_in_flight:
  "msg \<in># p_msgs p \<Longrightarrow>
     in_flight pc pm (p\<lparr>p_msgs := p_msgs p - {#msg#}\<rparr>) = in_flight pc pm p - (if pm msg then 1 else 0)"
  using size_filter_pos [of msg "p_msgs p" pm]
  by (auto simp: in_flight_def size_filter_remove simp del: filter_diff_mset)

lemma in_flight_msg: "msg \<in># p_msgs p \<Longrightarrow> pm msg \<Longrightarrow> 1 \<le> in_flight pc pm p"
  using size_filter_pos [of msg "p_msgs p" pm] by (simp add: in_flight_def)

lemma dispatch_model:
  "p_model (dispatch msg p) = (if msg = QuitMsg then p_model p else fst (Update msg (p_model p)))"
  by (simp add: dispatch_def split: prod.split)

lemma finish_model [simp]: "p_model (finish cl c p) = p_model p"
  by (simp add: finish_def split: prod.split)

lemma finish_other [simp]:
  "p_quit (finish cl c p) = p_quit p" "fst (run_cmd cl c (p_server p)) \<in># p_msgs (finish cl c p)"
  by (simp_all add: finish_def split: prod.split)

text \<open>The state, the scan and the periodic tick in every reachable program.\<close>

definition program_ok :: "'s program \<Rightarrow> bool" where
  "program_ok p \<longleftrightarrow>
     tui_inv (p_model p) \<and>
     scans_in_flight p \<le> (if m_scanning (p_model p) then 1 else 0) \<and>
     ticks_in_flight p = 1"

lemma dispatch_scans:
  assumes "scans_in_flight p + (if is_scanResult msg then 1 else 0)
             \<le> (if m_scanning (p_model p) then 1 else (0::nat))"
  shows "scans_in_flight (dispatch msg p) \<le> (if m_scanning (p_model (dispatch msg p)) then 1 else 0)"
  using assms scan_rule_Update [of msg "p_model p"]
  by (auto simp: dispatch_in_flight dispatch_model scan_rule_def split: if_splits)

lemma program_ok_input:
  assumes "program_ok p" "\<not> is_scanResult msg" "msg \<noteq> scanTickMsg"
  shows "program_ok (dispatch msg p)"
  using assms dispatch_scans [of p msg] Update_inv [of "p_model p" msg]
  by (auto simp: program_ok_def dispatch_model dispatch_in_flight [of "\<lambda>c. c = scanTickCmd"] Update_ticks)

lemma program_ok_deliver:
  assumes ok: "program_ok p" and msg: "msg \<in># p_msgs p"
  shows "program_ok (dispatch msg (p\<lparr>p_msgs := p_msgs p - {#msg#}\<rparr>))"
proof -
  let ?q = "p\<lparr>p_msgs := p_msgs p - {#msg#}\<rparr>"
  have "scans_in_flight ?q + (if is_scanResult msg then 1 else 0) = scans_in_flight p"
    using in_flight_msg [OF msg, of is_scanResult is_scanCmd] by (auto simp: deliver_in_flight [OF msg])
  moreover have "ticks_in_flight ?q + (if msg = scanTickMsg then 1 else 0) = ticks_in_flight p"
    using in_flight_msg [OF msg, of "\<lambda>msg. msg = scanTickMsg" "\<lambda>c. c = scanTickCmd"]
    by (auto simp: deliver_in_flight [OF msg])
  ultimately show ?thesis
    using ok dispatch_scans [of ?q msg] Update_inv [of "p_model p" msg]
    by (auto simp: program_ok_def dispatch_model dispatch_in_flight [of "\<lambda>c. c = scanTickCmd"] Update_ticks)
qed

lemma program_ok_run: "program_ok p \<Longrightarrow> c \<in># p_cmds p \<Longrightarrow> program_ok (finish cl c p)"
  by (simp add: program_ok_def scans.finish_in_flight ticks.finish_in_flight)

lemma program_ok_others: "program_ok p \<Longrightarrow> program_ok (p\<lparr>p_server := s\<rparr>)"
  by (simp add: program_ok_def)

inductive_cases tui_stepE: "tui_step cl p q"

lemma program_ok_step: "tui_step cl p q \<Longrightarrow> program_ok p \<Longrightarrow> program_ok q"
  by (erule tui_stepE)
    (simp_all add: program_ok_input program_ok_deliver program_ok_run program_ok_others)

lemma program_ok_launch: "program_ok (launch s)"
  by (simp add: program_ok_def launch_def newModel_def Init_def tui_inv_def in_flight_def in_view_def
      visibleRows_def)

lemma program_ok_reachable: "tui_reachable cl p \<Longrightarrow> program_ok p"
  unfolding tui_reachable_def
  by (elim exE, erule rtranclp_induct) (auto intro: program_ok_launch program_ok_step)


text \<open>A scan awaited that nothing in the program will ever end.\<close>

definition scan_lost :: "'s program \<Rightarrow> bool" where
  "scan_lost p \<longleftrightarrow> m_scanning (p_model p) \<and> scans_in_flight p = 0"

lemma scan_lost_dispatch:
  assumes "scan_lost p" "\<not> is_scanResult msg"
  shows "scan_lost (dispatch msg p)"
  using assms scan_rule_Update [of msg "p_model p"]
  by (auto simp: scan_lost_def dispatch_in_flight dispatch_model scan_rule_def)

lemma scan_lost_step: "tui_step cl p q \<Longrightarrow> scan_lost p \<Longrightarrow> scan_lost q"
proof (induction rule: tui_step.induct)
  case (run p c)
  then show ?case by (simp add: scan_lost_def scans.finish_in_flight)
next
  case (deliver p msg)
  then have "\<not> is_scanResult msg"
    using in_flight_msg [of msg p is_scanResult is_scanCmd] by (auto simp: scan_lost_def)
  with deliver show ?case
    by (intro scan_lost_dispatch) (simp_all add: scan_lost_def deliver_in_flight)
next
  case (others p s)
  then show ?case by (simp add: scan_lost_def)
qed (simp_all add: scan_lost_dispatch)

lemma three_steps: "R a b \<Longrightarrow> R b c \<Longrightarrow> R c d \<Longrightarrow> R\<^sup>*\<^sup>* a d"
  by (meson rtranclp.rtrancl_into_rtrancl rtranclp.rtrancl_refl)

lemma scan_lost_forever: "(tui_step cl)\<^sup>*\<^sup>* p q \<Longrightarrow> scan_lost p \<Longrightarrow> scan_lost q"
  by (induction rule: rtranclp_induct) (auto intro: scan_lost_step)

section \<open>Properties\<close>

text \<open>The server on the small host, and the UI once it has listed its two radios.\<close>

definition demo_client :: "host scan_state wifi_client" where
  "demo_client = server_client host_backend hex_uuid quiet_env"

definition demo_listed :: "host scan_state program" where
  "demo_listed =
     (let p = finish demo_client listInterfacesCmd (launch cached_host);
          msg = fst (run_cmd demo_client listInterfacesCmd cached_host)
      in dispatch msg (p\<lparr>p_msgs := p_msgs p - {#msg#}\<rparr>))"

lemma demo_reachable: "tui_reachable demo_client demo_listed"
proof -
  let ?p = "finish demo_client listInterfacesCmd (launch cached_host)"
  let ?msg = "fst (run_cmd demo_client listInterfacesCmd cached_host)"
  have "tui_step demo_client (launch cached_host) ?p"
    by (rule tui_step.run) (simp_all add: launch_def Init_def)
  moreover have "tui_step demo_client ?p demo_listed"
    unfolding demo_listed_def Let_def
    by (rule tui_step.deliver) (simp_all add: finish_def launch_def split: prod.split)
  ultimately show ?thesis unfolding tui_reachable_def by (meson rtranclp.simps)
qed

lemma demo_interfaces:
  "run_cmd demo_client listInterfacesCmd cached_host =
     (interfacesLoadedMsg (map pbInterface (h_ifaces the_host)) None,
      cached_host\<lparr>ss_backend := h_log ''Interfaces'' the_host\<rparr>)"
  by (simp add: demo_client_def server_client_def on_backend_def Interface_List_def reply_def
      host_backend_def cached_host_def answer_def)

lemma demo_listed_eq:
  "p_model demo_listed = newModel\<lparr>m_ifaces := map pbInterface (h_ifaces the_host), m_scanning := True\<rparr>"
  "p_cmds demo_listed =
     {#listProfilesCmd, scanTickCmd, scanCmd ''wlan0'', spinnerTickCmd, ifaceStatusCmd ''wlan0''#}"
  "\<not> p_quit demo_listed"
  unfolding demo_listed_def Let_def finish_def
  by (simp_all add: launch_def Init_def demo_interfaces dispatch_def Update_def newModel_def selectedIface_def
      tui_triggerScan_def the_host_def radio_def pbInterface_def del: run_cmd.simps)

text \<open>C18: In every program the terminal UI can reach, whatever the keys, window sizes, server answers and order of messages: the selected interface and the cursor are on their lists, the cursor is inside the viewport and the viewport inside the list, the access points are sorted by descending signal, at most one scan is in flight, and exactly one periodic refresh is pending.\<close>

theorem tui_reachable_ok:
  assumes "tui_reachable cl p"
  shows "tui_inv (p_model p) \<and> scans_in_flight p \<le> 1 \<and> ticks_in_flight p = 1"
  using program_ok_reachable [OF assms] by (auto simp: program_ok_def split: if_splits)

lemma tui_reachable_ok_witness: "tui_inv (p_model demo_listed) \<and> m_scanning (p_model demo_listed)"
  using tui_reachable_ok [OF demo_reachable] by (simp add: demo_listed_eq)

text \<open>A cursor key keeps context ahead of the cursor: after a step down, as many of the entries below the cursor as fit the margin and the viewport are shown (five, or up to the end of the list), and after a step up as many above; also when the cursor is already at the end.\<close>

theorem tui_scroll_margin:
  assumes "tui_inv m"
  shows "(let d = press_down m; n = int (length (m_aps m)); rows = visibleRows m in
            min (min scrollOff (rows - 1)) (n - 1 - m_apIndex d) \<le> min (m_top d + rows) n - 1 - m_apIndex d)
       \<and> (let u = press_up m; rows = visibleRows m in
            min (min scrollOff (rows - 1)) (m_apIndex u) \<le> m_apIndex u - m_top u)"
proof (cases "m_aps m")
  case Nil
  with tui_inv_empty [OF assms] assms show ?thesis
    by (simp add: press_down_def press_up_def tui_inv_def in_view_def Let_def min_def)
next
  case Cons
  let ?n = "int (length (m_aps m))"
  from assms Cons have i: "0 \<le> m_apIndex m" "m_apIndex m < ?n" "m_top m \<le> m_apIndex m"
    "m_apIndex m < m_top m + visibleRows m" "0 \<le> m_top m" "0 < ?n"
    by (auto simp: tui_inv_def in_view_def)
  have moved: "m_top (scroll r dir (m\<lparr>m_apIndex := j\<rparr>)) = scroll_clamp ?n r j (scroll_ahead ?n r dir j (m_top m))"
    "m_apIndex (scroll r dir (m\<lparr>m_apIndex := j\<rparr>)) = j"
    if "0 \<le> j" "j < ?n" "1 \<le> r" for r dir j
    using that i by (auto simp: scroll_def Let_def)
  have "(let d = press_down m; rows = visibleRows m in
      min (min scrollOff (rows - 1)) (?n - 1 - m_apIndex d) \<le> min (m_top d + rows) ?n - 1 - m_apIndex d)"
    using i ahead_down [of "m_apIndex m + 1" ?n "visibleRows m" _ "m_top m", OF _ _ _ refl]
    by (auto simp: press_down_def Let_def moved)
  moreover have "(let u = press_up m; rows = visibleRows m in
      min (min scrollOff (rows - 1)) (m_apIndex u) \<le> m_apIndex u - m_top u)"
    using i ahead_up [of "m_apIndex m - 1" ?n "visibleRows m" _ "m_top m", OF _ _ _ refl]
    by (auto simp: press_up_def Let_def moved)
  ultimately show ?thesis by (simp add: Let_def)
qed

text \<open>Twenty entries in a window of ten rows, the cursor at the last row shown.\<close>

definition demo_list :: model where
  "demo_list = newModel\<lparr>m_height := 14, m_apIndex := 9,
     m_aps := map (\<lambda>i. zero_PbAccessPoint\<lparr>pap_Id := show_nat i, pap_Signal := 50 - int i\<rparr>) [0..<20]\<rparr>"

lemma tui_scroll_margin_witness:
  "tui_inv demo_list \<and> m_apIndex (press_down demo_list) = 10 \<and> 5 \<le> m_top (press_down demo_list) + 10 - 1 - 10"
proof -
  have "tui_inv demo_list" "m_apIndex (press_down demo_list) = 10" "visibleRows demo_list = 10"
    "length (m_aps demo_list) = 20"
    by code_simp+
  with tui_scroll_margin [of demo_list] show ?thesis by (simp add: Let_def scrollOff_def)
qed



text \<open>C38: Switching interface while its scan runs can leave the UI scanning for ever: from every reachable program with a scan pending, if Tab selects an interface with another id, the program can reach a state from which, until it quits, the scanning flag is never cleared and no scan, periodic or asked for, is ever sent again.\<close>

theorem tui_tab_loses_scan:
  assumes reach: "tui_reachable cl p" and run: "\<not> p_quit p" and pending: "scanCmd a \<in># p_cmds p"
    and other: "selectedIface (fst (press_tab (p_model p))) = Some it" "pif_Id it \<noteq> a"
  shows "\<exists>q. (tui_step cl)\<^sup>*\<^sup>* p q \<and> \<not> p_quit q \<and>
    (\<forall>r. (tui_step cl)\<^sup>*\<^sup>* q r \<longrightarrow> m_scanning (p_model r) \<and> scans_in_flight r = 0)"
proof -
  define p1 where "p1 = dispatch (KeyMsg ''tab'') p"
  define msg where "msg = fst (run_cmd cl (scanCmd a) (p_server p1))"
  define p2 where "p2 = finish cl (scanCmd a) p1"
  define q where "q = dispatch msg (p2\<lparr>p_msgs := p_msgs p2 - {#msg#}\<rparr>)"
  have key: "Update (KeyMsg ''tab'') m = press_tab m" for m by (simp add: Update_def handleKey_def)
  have p1: "p_model p1 = fst (press_tab (p_model p))" "\<not> p_quit p1" "scanCmd a \<in># p_cmds p1"
    using run pending by (simp_all add: p1_def dispatch_def key split: prod.split)
  have "program_ok p1"
    using program_ok_reachable [OF reach] by (simp add: p1_def program_ok_input)
  then have one: "m_scanning (p_model p1)" "scans_in_flight p1 = 1"
    using size_filter_pos [OF p1(3), of is_scanCmd] by (auto simp: program_ok_def in_flight_def split: if_splits)
  obtain r s where "c_AccessPoint_Scan cl a (p_server p1) = (r, s)" by force
  then obtain items err where msg: "msg = scanResultMsg a items err"
    unfolding msg_def by (cases r) (auto simp: answer_def)
  have p2: "p_model p2 = p_model p1" "\<not> p_quit p2" "msg \<in># p_msgs p2" "scans_in_flight p2 = 1"
    using p1 one unfolding p2_def msg_def by (simp_all add: scans.finish_in_flight del: run_cmd.simps)
  have "Update msg (p_model p1) = (p_model p1, [])"
    using other p1 by (simp add: msg Update_def)
  then have "scan_lost q"
    using p2 one by (simp add: scan_lost_def q_def msg dispatch_model dispatch_in_flight deliver_in_flight)
  moreover have "tui_step cl p p1" unfolding p1_def by (rule tui_step.key [OF run])
  moreover have "tui_step cl p1 p2" unfolding p2_def by (rule tui_step.run [OF p1(2,3)])
  moreover have "tui_step cl p2 q" unfolding q_def by (rule tui_step.deliver [OF p2(2,3)])
  moreover have "\<not> p_quit q" using p2 by (simp add: q_def msg dispatch_def split: prod.split)
  ultimately show ?thesis
    using three_steps [of "tui_step cl" p p1 p2 q] scan_lost_forever [of cl q]
    unfolding scan_lost_def by blast
qed

lemma tui_tab_loses_scan_witness:
  "\<exists>q. (tui_step demo_client)\<^sup>*\<^sup>* demo_listed q \<and> \<not> p_quit q \<and>
    (\<forall>r. (tui_step demo_client)\<^sup>*\<^sup>* q r \<longrightarrow> m_scanning (p_model r) \<and> scans_in_flight r = 0)"
proof (rule tui_tab_loses_scan [OF demo_reachable])
  show "\<not> p_quit demo_listed" "scanCmd ''wlan0'' \<in># p_cmds demo_listed" by (simp_all add: demo_listed_eq)
  show "selectedIface (fst (press_tab (p_model demo_listed)))
      = Some (pbInterface (radio ''wlan1'' ''02:bb:00:00:00:02'' ''0000:03:00.0''))"
    by (simp add: demo_listed_eq press_tab_def tui_triggerScan_def selectedIface_def newModel_def the_host_def
        tmod_def tdiv_def)
qed (simp add: pbInterface_def radio_def)

end
