(* ===== verification/Tui_View.thy ===== *)
theory Tui_View
  imports Tui_Spec
begin

text \<open>
  \<open>internal/tui/view.go\<close>: the layout arithmetic and the text of the terminal UI.  The
  library \<open>lipgloss\<close> is a parameter: the width of a text in cells, the rendering of a text
  in one of the styles of the file, and the joining of two blocks; \<open>lg_Error\<close> is the text of
  a gRPC error.  Text is bytes of UTF-8, as in Go; glyphs are written as their bytes.
\<close>

datatype style =
    headerStyle
  | dividerStyle
  | colHeadStyle
  | faintStyle
  | labelStyle
  | selectedStyle int
  | connectedStyle
  | savedStyle
  | foreground string
  | leftPanelStyle int int
  | rightPanelStyle int int

record lipgloss =
  lg_Width :: "string \<Rightarrow> int"
  lg_Render :: "style \<Rightarrow> string \<Rightarrow> string"
  lg_JoinHorizontal :: "string \<Rightarrow> string \<Rightarrow> string"
  lg_Error :: "rpc_error \<Rightarrow> string"

section \<open>Glyphs and columns\<close>

definition spinnerFrames :: "string list" where
  "spinnerFrames = map (\<lambda>b. utf8 [226, 160, b]) [139, 153, 185, 184, 188, 180, 166, 167, 135, 143]"

definition idleBullet :: string where "idleBullet = utf8 [226, 151, 143]"
definition markConnected :: string where "markConnected = utf8 [226, 154, 185]"
definition markSaved :: string where "markSaved = utf8 [226, 128, 162]"
definition ellipsis :: string where "ellipsis = utf8 [226, 128, 166]"
definition rule_glyph :: string where "rule_glyph = utf8 [226, 148, 128]"

definition colMark :: int where "colMark = 1"
definition colChan :: int where "colChan = 4"
definition colSig :: int where "colSig = 6"
definition colSec :: int where "colSec = 8"
definition colFixed :: int where "colFixed = colMark + colChan + colSig + colSec + 4 + 1"
definition minLeftOuter :: int where "minLeftOuter = colFixed + 12"

text \<open>\<open>strings.Repeat\<close>; the counts of the file are never negative.\<close>

definition Repeat :: "string \<Rightarrow> int \<Rightarrow> string" where
  "Repeat s n = concat (replicate (nat n) s)"

section \<open>Fitting text\<close>

text \<open>\<open>for len(r) > 0 && lipgloss.Width(string(r)) > w { r = r[:len(r)-1] }\<close>\<close>

function shrink :: "(string \<Rightarrow> int) \<Rightarrow> int \<Rightarrow> string list \<Rightarrow> string list" where
  "shrink width w r = (if r \<noteq> [] \<and> width (concat r) > w then shrink width w (butlast r) else r)"
  by pat_completeness auto
termination by (relation "measure (\<lambda>(_, _, r). length r)") auto

declare shrink.simps [simp del]

definition clip :: "lipgloss \<Rightarrow> string \<Rightarrow> int \<Rightarrow> string" where
  "clip L s w = (if lg_Width L s \<le> w then s else concat (shrink (lg_Width L) w (runes s)))"

definition truncate :: "lipgloss \<Rightarrow> string \<Rightarrow> int \<Rightarrow> string" where
  "truncate L s w =
     (if w \<le> 0 then []
      else if lg_Width L s \<le> w then s
      else if w = 1 then ellipsis
      else concat (shrink (\<lambda>t. lg_Width L t + 1) w (runes s)) @ ellipsis)"

definition padRight :: "lipgloss \<Rightarrow> string \<Rightarrow> int \<Rightarrow> string" where
  "padRight L s w =
     (let s = clip L s w; gap = w - lg_Width L s
      in if gap > 0 then s @ Repeat '' '' gap else s)"

definition padLeft :: "lipgloss \<Rightarrow> string \<Rightarrow> int \<Rightarrow> string" where
  "padLeft L s w =
     (let s = clip L s w; gap = w - lg_Width L s
      in if gap > 0 then Repeat '' '' gap @ s else s)"

definition alignEnds :: "lipgloss \<Rightarrow> string \<Rightarrow> string \<Rightarrow> int \<Rightarrow> string" where
  "alignEnds L left right w =
     (let gap = w - lg_Width L left - lg_Width L right
      in if gap < 1 then
           (let left = truncate L left (w - lg_Width L right - 1);
                gap = w - lg_Width L left - lg_Width L right;
                gap = (if gap < 1 then 1 else gap)
            in left @ Repeat '' '' gap @ right)
         else left @ Repeat '' '' gap @ right)"

section \<open>Fields\<close>

definition yesNo :: "bool \<Rightarrow> string" where
  "yesNo v = (if v then ''yes'' else ''no'')"

definition profileSecurity :: "Credential option \<Rightarrow> string" where
  "profileSecurity s =
     (case s of
        None \<Rightarrow> ''-''
      | Some (PskCred _) \<Rightarrow> ''WPA/PSK''
      | Some EnterpriseCred \<Rightarrow> ''802.1X''
      | Some OpenCred \<Rightarrow> ''open''
      | Some CredNotSet \<Rightarrow> ''-'')"

definition ipMethod :: "PbIpConfig option \<Rightarrow> string" where
  "ipMethod c =
     (case c of
        None \<Rightarrow> ''auto''
      | Some c \<Rightarrow>
          (case pip_Method c of
             METHOD_MANUAL \<Rightarrow>
               (case pip_Addresses c of
                  a # _ \<Rightarrow> ''manual '' @ markSaved @ '' '' @ a
                | [] \<Rightarrow> ''manual'')
           | METHOD_DISABLED \<Rightarrow> ''disabled''
           | _ \<Rightarrow> ''auto''))"

definition fieldLabelW :: nat where
  "fieldLabelW = 11"

definition field_line :: "lipgloss \<Rightarrow> string \<Rightarrow> string \<Rightarrow> string" where
  "field_line L label val =
     (let label = (if length label > fieldLabelW then take fieldLabelW label else label)
      in lg_Render L labelStyle label @ Repeat '' '' (int fieldLabelW - int (length label) + 1) @ val @ [newline])"

definition ifaceMeta :: "PbInterface \<Rightarrow> string \<Rightarrow> string" where
  "ifaceMeta it ip =
     Join ((if pif_Mac it \<noteq> [] then [pif_Mac it] else []) @ (if ip \<noteq> [] then [ip] else []))
       ('' '' @ markSaved @ '' '')"

definition channelStr :: "32 word \<Rightarrow> string" where
  "channelStr freq =
     (if freq = 2484 then show_nat 14
      else if freq \<ge> 2412 \<and> freq \<le> 2472 then show_nat (unat ((freq - 2407) div 5))
      else if freq \<ge> 5160 \<and> freq \<le> 5885 then show_nat (unat ((freq - 5000) div 5))
      else if freq \<ge> 5955 \<and> freq \<le> 7115 then show_nat (unat ((freq - 5950) div 5))
      else ''--'')"

definition signalMeters :: "string list" where
  "signalMeters = [utf8 [226, 160, 128, 226, 160, 128], utf8 [226, 161, 128, 226, 160, 128],
     utf8 [226, 163, 160, 226, 160, 128], utf8 [226, 163, 160, 226, 161, 134],
     utf8 [226, 163, 160, 226, 163, 190]]"

definition signalPalette :: "string list" where
  "signalPalette = [''#FF0000'', ''#FF3800'', ''#FF7100'', ''#FFAA00'', ''#FFE200'',
     ''#E2FF00'', ''#A9FF00'', ''#71FF00'', ''#38FF00'', ''#00FF00'']"

definition signal_step :: "int \<Rightarrow> int" where
  "signal_step sig =
     (let i = tdiv sig 10;
          i = (if i < 0 then 0 else i)
      in if i > 9 then 9 else i)"

definition signalColor :: "int \<Rightarrow> string" where
  "signalColor sig = signalPalette ! nat (signal_step sig)"

definition signalMeter :: "int \<Rightarrow> string" where
  "signalMeter sig =
     (if sig \<ge> 80 then signalMeters ! 4
      else if sig \<ge> 55 then signalMeters ! 3
      else if sig \<ge> 30 then signalMeters ! 2
      else if sig \<ge> 5 then signalMeters ! 1
      else signalMeters ! 0)"

fun keyMgmtLabel :: "KeyManagement \<Rightarrow> string option" where
  "keyMgmtLabel KEY_MANAGEMENT_NONE = Some ''open''"
| "keyMgmtLabel KEY_MANAGEMENT_WPA_PSK = Some ''WPA2''"
| "keyMgmtLabel KEY_MANAGEMENT_SAE = Some ''WPA3''"
| "keyMgmtLabel KEY_MANAGEMENT_WPA_EAP = Some ''802.1X''"
| "keyMgmtLabel KEY_MANAGEMENT_OWE = Some ''OWE''"
| "keyMgmtLabel KEY_MANAGEMENT_UNSPECIFIED = None"

definition km_label :: "KeyManagement \<Rightarrow> string" where
  "km_label k = (case keyMgmtLabel k of Some s \<Rightarrow> s | None \<Rightarrow> KeyManagement_String k)"

text \<open>The UI has a table and a \<open>kmStr\<close> of its own, with the entries of the command line's.\<close>

definition tui_keyMgmtShort :: "(KeyManagement \<times> string) list" where
  "tui_keyMgmtShort = [(KEY_MANAGEMENT_NONE, ''open''), (KEY_MANAGEMENT_WPA_PSK, ''wpa-psk''),
     (KEY_MANAGEMENT_SAE, ''sae''), (KEY_MANAGEMENT_WPA_EAP, ''eap''), (KEY_MANAGEMENT_OWE, ''owe'')]"

definition tui_kmStr :: "KeyManagement list \<Rightarrow> string" where
  "tui_kmStr ks =
     (if ks = [] then ''-''
      else Join (map (\<lambda>k. case map_of tui_keyMgmtShort k of Some s \<Rightarrow> s | None \<Rightarrow> KeyManagement_String k) ks) '','')"

text \<open>The loop of \<open>securityLabel\<close>: labels in order of first appearance.\<close>

fun label_parts :: "string list \<Rightarrow> KeyManagement list \<Rightarrow> string list" where
  "label_parts parts [] = parts"
| "label_parts parts (k # ks) =
     label_parts (if km_label k \<in> set parts then parts else parts @ [km_label k]) ks"

definition securityLabel :: "KeyManagement list \<Rightarrow> string" where
  "securityLabel ks = (if ks = [] then ''--'' else Join (label_parts [] ks) ''/'')"

section \<open>The access point table\<close>

definition apLine :: "lipgloss \<Rightarrow> int \<Rightarrow> string \<Rightarrow> string \<Rightarrow> string \<Rightarrow> string \<Rightarrow> string \<Rightarrow> string" where
  "apLine L ssidW mark ssid chn sig sec =
     '' '' @ padRight L mark colMark @ '' '' @ padRight L ssid ssidW @ '' '' @
     padLeft L chn colChan @ '' '' @ padRight L sig colSig @ '' '' @ padRight L sec colSec"

definition apMark :: "lipgloss \<Rightarrow> model \<Rightarrow> PbAccessPoint \<Rightarrow> bool \<Rightarrow> string" where
  "apMark L m ap selected =
     (if isConnected m (Some ap) then
        (if selected then markConnected else lg_Render L connectedStyle markConnected)
      else if profileFor m (Some ap) \<noteq> None then
        (if selected then markSaved else lg_Render L savedStyle markSaved)
      else '' '')"

text \<open>The half-open window of the list that a table of \<open>rows\<close> lines shows.\<close>

definition ap_window :: "model \<Rightarrow> int \<Rightarrow> int \<times> int" where
  "ap_window m rows =
     (let listRows = rows - 1;
          listRows = (if listRows < 1 then 1 else listRows);
          start = m_top m;
          start = (if start > m_apIndex m then m_apIndex m else start);
          start = (if m_apIndex m \<ge> start + listRows then m_apIndex m - listRows + 1 else start);
          start = (if start < 0 then 0 else start);
          stop = start + listRows;
          stop = (if stop > int (length (m_aps m)) then int (length (m_aps m)) else stop)
      in (start, stop))"

definition ap_row :: "lipgloss \<Rightarrow> model \<Rightarrow> int \<Rightarrow> int \<Rightarrow> int \<Rightarrow> string" where
  "ap_row L m w ssidW i =
     (let ap = m_aps m ! nat i;
          ssid = (if pap_Ssid ap = [] then ''--'' else pap_Ssid ap);
          selected = (i = m_apIndex m);
          sig = pad_left 3 (show_int (pap_Signal ap)) @ '' '' @ signalMeter (pap_Signal ap);
          mark = apMark L m ap selected;
          sig = (if \<not> selected then lg_Render L (foreground (signalColor (pap_Signal ap))) sig else sig);
          line = apLine L ssidW mark ssid (channelStr (pap_Frequency ap)) sig
                   (securityLabel (pap_KeyManagement ap))
      in if selected then lg_Render L (selectedStyle w) (clip L line w) else clip L line w)"

definition apTable :: "lipgloss \<Rightarrow> model \<Rightarrow> int \<Rightarrow> int \<Rightarrow> string" where
  "apTable L m w rows =
     (if m_aps m = [] then
        lg_Render L faintStyle (if m_scanning m then ''scanning'' @ ellipsis else ''no access points'')
      else
        (let ssidW = w - colFixed;
             ssidW = (if ssidW < 4 then 4 else ssidW);
             head = lg_Render L colHeadStyle
               (clip L (apLine L ssidW '' '' ''SSID'' ''CHAN'' ''SIGNAL'' ''SECURITY'') w)
         in (case ap_window m rows of
               (start, stop) \<Rightarrow> Join (head # map (ap_row L m w ssidW) [start..stop - 1]) [newline])))"

section \<open>Panels\<close>

definition body_height :: "model \<Rightarrow> int" where
  "body_height m = (let bodyH = m_height m - 1 in if bodyH < 3 then 3 else bodyH)"

text \<open>The rows \<open>leftContent\<close> leaves to the table below the header and the divider.\<close>

definition table_rows :: "int \<Rightarrow> int" where
  "table_rows h = (let rows = h - 2 in if rows < 1 then 1 else rows)"

definition leftContent :: "lipgloss \<Rightarrow> model \<Rightarrow> int \<Rightarrow> int \<Rightarrow> string" where
  "leftContent L m w h =
     (let indicator = (if m_scanning m
            then spinnerFrames ! nat (tmod (m_spinner m) (int (length spinnerFrames))) else idleBullet);
          left = (case selectedIface m of
              None \<Rightarrow> lg_Render L headerStyle (indicator @ '' '' @ ''(no interface)'')
            | Some it \<Rightarrow>
                (let left = lg_Render L headerStyle (indicator @ '' '' @ pif_Id it);
                     meta = ifaceMeta it (m_ifAddr m)
                 in if meta \<noteq> [] then left @ lg_Render L faintStyle (''  '' @ meta) else left));
          counter = (if length (m_ifaces m) > 0
            then show_int (m_ifIndex m + 1) @ ''/'' @ show_nat (length (m_ifaces m)) else [])
      in alignEnds L left counter w @ [newline] @
         lg_Render L dividerStyle (Repeat rule_glyph w) @ [newline] @
         apTable L m w (table_rows h))"

definition profile_fields :: "lipgloss \<Rightarrow> int \<Rightarrow> PbProfile \<Rightarrow> string" where
  "profile_fields L w p =
     [newline] @ lg_Render L dividerStyle (Repeat rule_glyph w) @ [newline] @
     lg_Render L headerStyle ''Profile'' @ [newline, newline] @
     (if ppr_Name p \<noteq> [] then field_line L ''Name'' (ppr_Name p) else []) @
     (if ppr_Desc p \<noteq> [] then field_line L ''Desc'' (ppr_Desc p) else []) @
     field_line L ''Autoconnect'' (yesNo (ppr_Autoconnect p)) @
     (if ppr_Hidden p then field_line L ''Hidden'' ''yes'' else []) @
     field_line L ''Security'' (profileSecurity (ppr_Security p)) @
     field_line L ''IPv4'' (ipMethod (ppr_Ipv4 p)) @
     field_line L ''IPv6'' (ipMethod (ppr_Ipv6 p))"

definition rightContent :: "lipgloss \<Rightarrow> model \<Rightarrow> int \<Rightarrow> string" where
  "rightContent L m w =
     (case selectedAP m of
        None \<Rightarrow> lg_Render L faintStyle ''no access point selected''
      | Some ap \<Rightarrow>
          (let ssid = (if pap_Ssid ap = [] then ''<hidden>'' else pap_Ssid ap);
               sig = show_int (pap_Signal ap) @ ''  '' @ signalMeter (pap_Signal ap)
           in lg_Render L headerStyle (truncate L ssid w) @ [newline, newline] @
              field_line L ''BSSID'' (pap_Bssid ap) @
              field_line L ''Signal'' (lg_Render L (foreground (signalColor (pap_Signal ap))) sig) @
              field_line L ''Channel'' (channelStr (pap_Frequency ap)) @
              field_line L ''Frequency'' (show_nat (unat (pap_Frequency ap)) @ '' MHz'') @
              field_line L ''Security'' (tui_kmStr (pap_KeyManagement ap)) @
              (if pap_Id ap \<noteq> [] \<and> pap_Id ap \<noteq> pap_Bssid ap then field_line L ''ID'' (pap_Id ap) else []) @
              (case profileFor m (Some ap) of
                 Some p \<Rightarrow> profile_fields L w p
               | None \<Rightarrow> [])))"

definition statusBar :: "lipgloss \<Rightarrow> model \<Rightarrow> int \<Rightarrow> string" where
  "statusBar L m w =
     (case m_err m of
        Some e \<Rightarrow> clip L (lg_Render L faintStyle (''error: '' @ lg_Error L e)) w
      | None \<Rightarrow>
          clip L (lg_Render L faintStyle
            (''tab: next interface   '' @ utf8 [226, 134, 145] @ ''/'' @ utf8 [226, 134, 147] @
             '': select AP   r: rescan   q: quit'')) w)"

section \<open>View\<close>

definition right_outer :: "int \<Rightarrow> int" where
  "right_outer width =
     (let r = tdiv width 3;
          r = (if r < 32 then 32 else r);
          r = (if r > 40 then 40 else r)
      in if r > tdiv width 2 then tdiv width 2 else r)"

definition show_right :: "int \<Rightarrow> bool" where
  "show_right width \<longleftrightarrow> width - right_outer width \<ge> minLeftOuter"

definition left_outer :: "int \<Rightarrow> int" where
  "left_outer width = (if show_right width then width - right_outer width else width)"

definition at_least_1 :: "int \<Rightarrow> int" where
  "at_least_1 v = (if v < 1 then 1 else v)"

definition View :: "lipgloss \<Rightarrow> model \<Rightarrow> string" where
  "View L m =
     (if m_width m = 0 \<or> m_height m = 0 then ''loading'' @ ellipsis
      else
        (let bodyH = body_height m;
             leftOuter = left_outer (m_width m);
             rightOuter = right_outer (m_width m);
             left = lg_Render L (leftPanelStyle leftOuter bodyH)
                      (leftContent L m (at_least_1 (leftOuter - 1)) bodyH);
             body = (if show_right (m_width m)
               then lg_JoinHorizontal L left
                 (lg_Render L (rightPanelStyle (at_least_1 (rightOuter - 2)) (at_least_1 (bodyH - 2)))
                   (rightContent L m (at_least_1 (rightOuter - 4))))
               else left)
         in body @ [newline] @ statusBar L m (m_width m)))"

section \<open>Lemmas\<close>

text \<open>The layout: the panels fill the width, and the list keeps its fixed columns.\<close>

lemma layout_fills:
  assumes "0 \<le> width"
  shows "left_outer width + (if show_right width then right_outer width else 0) = width"
    and "0 \<le> right_outer width" and "show_right width \<Longrightarrow> minLeftOuter \<le> left_outer width"
  using assms by (cases "width = 0"; simp add: left_outer_def show_right_def right_outer_def tdiv_def Let_def)+

lemma signal_step_range: "0 \<le> signal_step sig \<and> signal_step sig < int (length signalPalette)"
  by (simp add: signal_step_def signalPalette_def Let_def)

text \<open>What the code relies on of \<open>lipgloss.Width\<close>: no text has negative width, and a blank is one cell.\<close>

definition width_law :: "lipgloss \<Rightarrow> bool" where
  "width_law L \<longleftrightarrow> lg_Width L [] = 0 \<and>
     (\<forall>s n. lg_Width L (s @ replicate n CHR '' '') = lg_Width L s + int n)"

lemma Repeat_blank [simp]: "Repeat '' '' n = replicate (nat n) CHR '' ''"
proof -
  have "concat (replicate k [c]) = replicate k c" for k and c :: char by (induction k) auto
  then show ?thesis by (simp add: Repeat_def)
qed

lemma shrink_fits: "width [] \<le> w \<Longrightarrow> width (concat (shrink width w r)) \<le> w"
proof (induction width w r rule: shrink.induct)
  case (1 width w r)
  then show ?case by (subst shrink.simps) (auto simp: not_less)
qed

lemma clip_fits: "width_law L \<Longrightarrow> 0 \<le> w \<Longrightarrow> lg_Width L (clip L s w) \<le> w"
  by (simp add: clip_def shrink_fits width_law_def)

lemma padRight_exact: "width_law L \<Longrightarrow> 0 \<le> w \<Longrightarrow> lg_Width L (padRight L s w) = w"
  using clip_fits [of L w s] by (simp add: padRight_def Let_def width_law_def)

lemma label_parts_props:
  "distinct parts \<Longrightarrow> distinct (label_parts parts ks) \<and> set (label_parts parts ks) = set parts \<union> km_label ` set ks"
  by (induction ks arbitrary: parts) auto

lemma tui_kmStr_eq: "tui_kmStr = kmStr"
proof -
  have "map_of tui_keyMgmtShort k = keyMgmtShort k" for k by (cases k) (simp_all add: tui_keyMgmtShort_def)
  then show ?thesis unfolding tui_kmStr_def kmStr_def km_name_def fun_eq_iff by simp
qed

section \<open>Properties\<close>

text \<open>C25: The table the view draws is the window the scroll position was computed for: in every state satisfying the invariant of the UI with a non-empty list, the rows drawn start exactly at the scroll position, are as many as the scroll code believes to be visible (or end with the list), and contain the cursor; so no row index is out of range.\<close>

theorem view_window_synced:
  assumes "tui_inv m" and "m_aps m \<noteq> []"
  shows "\<exists>stop. ap_window m (table_rows (body_height m)) = (m_top m, stop)
       \<and> stop = min (m_top m + visibleRows m) (int (length (m_aps m)))
       \<and> 0 \<le> m_top m \<and> m_top m \<le> m_apIndex m \<and> m_apIndex m < stop"
proof -
  have rows: "visibleRows m = (let r = table_rows (body_height m) - 1 in if r < 1 then 1 else r)"
    by (simp add: visibleRows_def table_rows_def body_height_def Let_def)
  have "0 \<le> m_top m" "m_top m \<le> m_apIndex m" "m_apIndex m < m_top m + visibleRows m"
    "m_apIndex m < int (length (m_aps m))"
    using assms by (auto simp: tui_inv_def in_view_def max_def Suc_le_eq split: if_splits)
  then show ?thesis unfolding ap_window_def Let_def rows by (auto simp: min_def)
qed

lemma view_window_synced_witness:
  "fst (ap_window demo_list (table_rows (body_height demo_list))) = 0"
proof -
  have "tui_inv demo_list" "m_aps demo_list \<noteq> []" "m_top demo_list = 0" by code_simp+
  with view_window_synced [of demo_list] show ?thesis by auto
qed

text \<open>A frequency as a number.\<close>

lemma channelStr_nat:
  assumes "n < 2 ^ 32"
  shows "channelStr (of_nat n) =
     (if n = 2484 then show_nat 14
      else if 2412 \<le> n \<and> n \<le> 2472 then show_nat ((n - 2407) div 5)
      else if 5160 \<le> n \<and> n \<le> 5885 then show_nat ((n - 5000) div 5)
      else if 5955 \<le> n \<and> n \<le> 7115 then show_nat ((n - 5950) div 5)
      else ''--'')"
proof -
  have u: "unat (of_nat n :: 32 word) = n" using assms by (simp add: unat_of_nat take_bit_nat_eq_self)
  have eq: "(of_nat n :: 32 word) = 2484 \<longleftrightarrow> n = 2484" by (simp add: word_unat_eq_iff u)
  show ?thesis
    unfolding channelStr_def eq
    by (simp add: word_le_nat_alt u unat_div unat_sub)
qed

lemma channel_ranges:
  "c \<in> set [1..<14] \<Longrightarrow> channelStr (of_nat (2407 + 5 * c)) = show_nat c"
  "c \<in> set [32..<178] \<Longrightarrow> channelStr (of_nat (5000 + 5 * c)) = show_nat c"
  "c \<in> set [1..<234] \<Longrightarrow> channelStr (of_nat (5950 + 5 * c)) = show_nat c"
  unfolding set_upt atLeastLessThan_iff by (subst channelStr_nat; simp)+

text \<open>The channel shown for a frequency is the one of the 2.4, 5 and 6 GHz plans: 2407+5c is channel c for c = 1..13 and 2484 is 14, 5000+5c is channel c for c = 32..177, 5950+5c is channel c for c = 1..233.\<close>

theorem channel_plan:
  "map (\<lambda>c. channelStr (of_nat (2407 + 5 * c))) [1..<14] = map show_nat [1..<14]
   \<and> channelStr 2484 = show_nat 14
   \<and> map (\<lambda>c. channelStr (of_nat (5000 + 5 * c))) [32..<178] = map show_nat [32..<178]
   \<and> map (\<lambda>c. channelStr (of_nat (5950 + 5 * c))) [1..<234] = map show_nat [1..<234]"
proof (intro conjI)
  show "channelStr 2484 = show_nat 14" by (simp add: channelStr_def)
qed (rule map_cong [OF refl], erule channel_ranges)+

end
