(* ===== verification/End_To_End.thy ===== *)
theory End_To_End
  imports Commands_Spec Tui_View
begin

text \<open>
  The clients over the whole stack: a terminal UI whose server is the one its own process
  starts over a configured backend.
\<close>

section \<open>What the UI shows comes from the listing\<close>

definition only_listed :: "(PbInterface \<Rightarrow> bool) \<Rightarrow> 's program \<Rightarrow> bool" where
  "only_listed P p \<longleftrightarrow>
     (\<forall>it \<in> set (m_ifaces (p_model p)). P it) \<and>
     (\<forall>items err. interfacesLoadedMsg items err \<in># p_msgs p \<longrightarrow> (\<forall>it \<in> set items. P it))"

lemma Update_ifaces:
  "m_ifaces (fst (Update msg m)) = (case msg of interfacesLoadedMsg items err \<Rightarrow> items | _ \<Rightarrow> m_ifaces m)"
proof -
  have trig: "m_ifaces (fst (tui_triggerScan i b m)) = m_ifaces m" for i b and m :: model
    by (simp add: tui_triggerScan_def Let_def)
  have key: "m_ifaces (fst (handleKey k m)) = m_ifaces m" for k
    by (simp add: handleKey_def press_tab_def press_r_def press_up_def press_down_def Let_def fst_prod trig
        split: option.split)
  show ?thesis
    by (cases msg) (simp_all add: Update_def key trig fst_prod Let_def split: option.split)
qed

text \<open>A client whose listing only ever names interfaces of a kind.\<close>

locale listing_client =
  fixes cl :: "'s wifi_client" and P :: "PbInterface \<Rightarrow> bool"
  assumes listed: "c_Interface_List cl s = (Inr its, s') \<Longrightarrow> it \<in> set its \<Longrightarrow> P it"
begin

lemma listed_msg:
  assumes "fst (run_cmd cl c s) = interfacesLoadedMsg items err" "it \<in> set items"
  shows "P it"
proof (cases c)
  case listInterfacesCmd
  obtain r s' where "c_Interface_List cl s = (r, s')" by force
  with assms listInterfacesCmd show ?thesis by (cases r) (auto simp: answer_def dest: listed)
qed (use assms in \<open>auto simp: answer_def iface_status_def split: prod.splits sum.splits option.splits\<close>)

lemma dispatch_listed:
  assumes "only_listed P p" and "\<And>items err it. msg = interfacesLoadedMsg items err \<Longrightarrow> it \<in> set items \<Longrightarrow> P it"
  shows "only_listed P (dispatch msg p)"
proof -
  have "p_msgs (dispatch msg p) = p_msgs p" by (simp add: dispatch_def split: prod.split)
  with assms show ?thesis
    by (auto simp: only_listed_def dispatch_model Update_ifaces split: tui_msg.splits)
qed

lemma only_listed_step: "tui_step cl p q \<Longrightarrow> only_listed P p \<Longrightarrow> only_listed P q"
proof (erule tui_stepE)
  fix c assume "q = finish cl c p" and "only_listed P p"
  then show "only_listed P q" using listed_msg [of c "p_server p"]
    by (auto simp: only_listed_def finish_def split: prod.splits)
next
  fix msg
  assume q: "q = dispatch msg (p\<lparr>p_msgs := p_msgs p - {#msg#}\<rparr>)" and msg: "msg \<in># p_msgs p"
    and only: "only_listed P p"
  have "only_listed P (p\<lparr>p_msgs := p_msgs p - {#msg#}\<rparr>)"
    using only by (auto simp: only_listed_def dest: in_diffD)
  then show "only_listed P q" unfolding q
    by (rule dispatch_listed) (use only msg in \<open>auto simp: only_listed_def\<close>)
next
  fix s assume "q = p\<lparr>p_server := s\<rparr>" "only_listed P p"
  then show "only_listed P q" by (simp add: only_listed_def)
qed (auto intro: dispatch_listed)

lemma only_listed_steps: "(tui_step cl)\<^sup>*\<^sup>* p q \<Longrightarrow> only_listed P p \<Longrightarrow> only_listed P q"
proof (induction rule: rtranclp_induct)
  case (step q r)
  then show ?case using only_listed_step by blast
qed

lemma reachable_listed:
  assumes "tui_reachable cl p" "it \<in> set (m_ifaces (p_model p))"
  shows "P it"
proof -
  have "only_listed P (launch s)" for s :: 's by (simp add: only_listed_def launch_def newModel_def)
  with assms(1) have "only_listed P p" unfolding tui_reachable_def using only_listed_steps by blast
  with assms(2) show ?thesis by (simp add: only_listed_def)
qed

end

text \<open>The kind of interface a configuration leaves visible, and the in-process client that lists only those.\<close>

definition visible :: "ExcludeRule list \<Rightarrow> PbInterface \<Rightarrow> bool" where
  "visible rules it \<longleftrightarrow> (\<exists>raw. it = pbInterface raw \<and> \<not> excluded_by rules raw)"

interpretation excluding: listing_client "server_client (WithExcluded B rules) U E" "visible rules"
  for B :: "'s Backend" and rules U E
proof
  fix s s' :: "'s scan_state" and its it
  assume l: "c_Interface_List (server_client (WithExcluded B rules) U E) s = (Inr its, s')" and it: "it \<in> set its"
  obtain r b where "b_Interfaces B (ss_backend s) = (r, b)" by force
  with l it show "visible rules it"
    by (cases r) (auto simp: server_client_def on_backend_def Interface_List_def reply_def
        WithExcluded_Interfaces visible_def)
qed

section \<open>Properties\<close>


lemma demo_InProc:
  "connect_client demo_os demo_backends quiet_env (\<lambda>_. Inl (Failed ''no server'')) (Some demo_config) (InProc ''nmcli'')
     = Inr (server_client (WithExcluded host_backend (cf_Exclude demo_config)) hex_uuid quiet_env)"
  by (simp add: connect_client_def newBackend_def newRawBackend_def demo_backends_def demo_os_def)

lemma visible_listing_shown:
  assumes "run_cmd cl listInterfacesCmd s = (interfacesLoadedMsg items None, s')"
  obtains p where "tui_reachable cl p" "m_ifaces (p_model p) = items"
proof
  let ?p = "finish cl listInterfacesCmd (launch s)" and ?msg = "interfacesLoadedMsg items None"
  let ?q = "dispatch ?msg (?p\<lparr>p_msgs := p_msgs ?p - {#?msg#}\<rparr>)"
  have p: "tui_step cl (launch s) ?p" by (rule tui_step.run) (simp_all add: launch_def Init_def)
  have "p_server (launch s) = s" "\<not> p_quit (launch s)" by (simp_all add: launch_def)
  with assms have "?msg \<in># p_msgs ?p" "\<not> p_quit ?p" by (simp_all add: finish_def)
  then have "tui_step cl ?p ?q" by (intro tui_step.deliver) simp_all
  with p show "tui_reachable cl ?q"
    unfolding tui_reachable_def by (meson rtranclp.rtrancl_into_rtrancl rtranclp.rtrancl_refl)
  show "m_ifaces (p_model ?q) = items" by (simp add: dispatch_model Update_ifaces)
qed

lemma demo_visible_listing:
  "run_cmd (server_client (WithExcluded host_backend (cf_Exclude demo_config)) hex_uuid quiet_env) listInterfacesCmd cached_host =
     (interfacesLoadedMsg (map pbInterface (filter (\<lambda>it. \<not> excluded_by (cf_Exclude demo_config) it) (h_ifaces the_host))) None,
      cached_host\<lparr>ss_backend := h_log ''Interfaces'' the_host\<rparr>)"
proof -
  have "b_Interfaces host_backend the_host = (Inr (h_ifaces the_host), h_log ''Interfaces'' the_host)"
    by (simp add: host_backend_def)
  then show ?thesis
    by (simp add: server_client_def on_backend_def Interface_List_def reply_def WithExcluded_Interfaces
        cached_host_def answer_def)
qed


end
