(* ===== verification/Interleave.thy ===== *)
theory Interleave
  imports Wfm_Prelude "HOL-Library.Multiset"
begin

text \<open>
  Goroutines that share a state.  A goroutine is a program counter with its local variables;
  \<open>act\<close> is its next step, or \<open>None\<close> when it has returned or waits for a lock.  Any goroutine
  that can step may be the next to do so, and between their steps the environment may change
  the state.  The locale \<open>threads\<close> states when assertions at the program counters survive the
  steps of all others, and \<open>progressing\<close> when every run ends with all goroutines returned.
\<close>

section \<open>Runs\<close>

type_synonym ('p, 's) action = "nat \<Rightarrow> 'p \<Rightarrow> 's \<Rightarrow> ('p \<times> 's) option"

inductive interleave :: "('p, 's) action \<Rightarrow> ('s \<Rightarrow> 's \<Rightarrow> bool) \<Rightarrow> 'p list \<times> 's \<Rightarrow> 'p list \<times> 's \<Rightarrow> bool"
  for act env where
  run: "interleave act env (ps, s) (ps[i := p], s')" if "i < length ps" "act i (ps ! i) s = Some (p, s')"
| outside: "interleave act env (ps, s) (ps, s')" if "env s s'"

inductive_cases interleaveE: "interleave act env (ps, s) c"

definition interleaved :: "('p, 's) action \<Rightarrow> ('s \<Rightarrow> 's \<Rightarrow> bool) \<Rightarrow> 'p list \<times> 's \<Rightarrow> 'p list \<times> 's \<Rightarrow> bool" where
  "interleaved act env = (interleave act env)\<^sup>*\<^sup>*"

text \<open>A schedule names the goroutine that makes each step; one that cannot step lets its turn pass.\<close>

definition turn :: "('p, 's) action \<Rightarrow> nat \<Rightarrow> 'p list \<times> 's \<Rightarrow> 'p list \<times> 's" where
  "turn act i c =
     (if i < length (fst c)
      then (case act i (fst c ! i) (snd c) of None \<Rightarrow> c | Some (p, s') \<Rightarrow> ((fst c)[i := p], s'))
      else c)"

definition schedule :: "('p, 's) action \<Rightarrow> nat list \<Rightarrow> 'p list \<times> 's \<Rightarrow> 'p list \<times> 's" where
  "schedule act is c = fold (turn act) is c"

lemma schedule_simps [simp]:
  "schedule act [] c = c" "schedule act (i # is) c = schedule act is (turn act i c)"
  "schedule act (is @ js) c = schedule act js (schedule act is c)"
  by (simp_all add: schedule_def)

lemma turn_interleaved: "interleaved act env c (turn act i c)"
proof (cases c)
  case (Pair ps s)
  show ?thesis
  proof (cases "i < length ps \<and> act i (ps ! i) s \<noteq> None")
    case True
    then obtain p s' where "i < length ps" "act i (ps ! i) s = Some (p, s')" by auto
    then show ?thesis using interleave.run [of i ps act s p s' env]
      by (simp add: Pair turn_def interleaved_def)
  next
    case False
    then have "turn act i c = c" by (cases "act i (ps ! i) s") (auto simp: Pair turn_def)
    then show ?thesis by (simp add: interleaved_def)
  qed
qed

lemma schedule_interleaved: "interleaved act env c (schedule act is c)"
proof (induction "is" arbitrary: c)
  case (Cons i "is")
  from turn_interleaved Cons show ?case unfolding interleaved_def schedule_simps
    by (rule rtranclp_trans)
qed (simp add: interleaved_def)

text \<open>The run of one goroutine by itself.\<close>

definition alone_step :: "('p, 's) action \<Rightarrow> 'p \<times> 's \<Rightarrow> 'p \<times> 's \<Rightarrow> bool" where
  "alone_step act x y \<longleftrightarrow> act 0 (fst x) (snd x) = Some y"

abbreviation alone :: "('p, 's) action \<Rightarrow> 'p \<times> 's \<Rightarrow> 'p \<times> 's \<Rightarrow> bool" where
  "alone act \<equiv> (alone_step act)\<^sup>*\<^sup>*"

lemma alone_next: "act 0 p s = Some y \<Longrightarrow> alone act y z \<Longrightarrow> alone act (p, s) z"
  by (rule converse_rtranclp_into_rtranclp) (simp_all add: alone_step_def)

lemma alone_schedule:
  assumes "alone act x y" "act 0 (fst y) (snd y) = None"
  shows "\<exists>n. \<forall>m \<ge> n. schedule act (replicate m 0) ([fst x], snd x) = ([fst y], snd y)"
  using assms
proof (induction rule: converse_rtranclp_induct)
  case base
  have "schedule act (replicate m 0) ([fst y], snd y) = ([fst y], snd y)" for m
    using base by (induction m) (simp_all add: turn_def)
  then show ?case by blast
next
  case (step x z)
  then obtain n where n: "\<forall>m \<ge> n. schedule act (replicate m 0) ([fst z], snd z) = ([fst y], snd y)" by blast
  from step(1) have turn: "turn act 0 ([fst x], snd x) = ([fst z], snd z)"
    by (simp add: alone_step_def turn_def split: prod.split)
  have "schedule act (replicate m 0) ([fst x], snd x) = ([fst y], snd y)" if "Suc n \<le> m" for m
    using that n turn by (cases m) simp_all
  then show ?case by blast
qed

section \<open>Assertions that nobody else breaks\<close>

text \<open>
  \<open>G\<close> holds of the shared state, \<open>L s i p\<close> at program counter \<open>p\<close> of goroutine \<open>i\<close>, and \<open>R\<close> between
  the program counters of any two goroutines.
\<close>

locale threads =
  fixes act :: "('p, 's) action" and env :: "'s \<Rightarrow> 's \<Rightarrow> bool"
    and G :: "'s \<Rightarrow> bool" and L :: "'s \<Rightarrow> nat \<Rightarrow> 'p \<Rightarrow> bool" and R :: "'p \<Rightarrow> 'p \<Rightarrow> bool"
  assumes R_sym: "R p q \<Longrightarrow> R q p"
    and own: "G s \<Longrightarrow> L s i p \<Longrightarrow> act i p s = Some (p', s') \<Longrightarrow> G s' \<and> L s' i p'"
    and others: "i \<noteq> j \<Longrightarrow> G s \<Longrightarrow> L s i p \<Longrightarrow> L s j q \<Longrightarrow> R p q \<Longrightarrow> act i p s = Some (p', s')
      \<Longrightarrow> L s' j q \<and> R p' q"
    and env_keeps: "G s \<Longrightarrow> env s s' \<Longrightarrow> G s'" "G s \<Longrightarrow> L s j q \<Longrightarrow> env s s' \<Longrightarrow> L s' j q"
begin

definition holds :: "'p list \<times> 's \<Rightarrow> bool" where
  "holds c \<longleftrightarrow> G (snd c) \<and> (\<forall>i < length (fst c). L (snd c) i (fst c ! i)) \<and>
     (\<forall>i < length (fst c). \<forall>j < length (fst c). i \<noteq> j \<longrightarrow> R (fst c ! i) (fst c ! j))"

lemma holds_step:
  assumes "interleave act env c c'" "holds c"
  shows "holds c'"
  using assms(1)
proof cases
  case (run i ps s p s')
  from assms(2) have G: "G s" and L: "\<And>j. j < length ps \<Longrightarrow> L s j (ps ! j)"
    and R: "\<And>j k. j < length ps \<Longrightarrow> k < length ps \<Longrightarrow> j \<noteq> k \<Longrightarrow> R (ps ! j) (ps ! k)"
    unfolding run(1) holds_def by auto
  note mine = own [OF G L [OF run(3)] run(4)]
  have its: "L s' j (ps ! j) \<and> R p (ps ! j)" if "j < length ps" "j \<noteq> i" for j
    using others [OF _ G L [OF run(3)] L [OF that(1)] R [OF run(3) that(1)] run(4)] that by auto
  have "L s' j (ps[i := p] ! j)" if "j < length ps" for j
    using mine its that by (cases "j = i") simp_all
  moreover have "R (ps[i := p] ! j) (ps[i := p] ! k)" if "j < length ps" "k < length ps" "j \<noteq> k" for j k
    using its [OF that(1)] its [OF that(2)] R that by (cases "j = i"; cases "k = i") (auto intro: R_sym)
  ultimately show ?thesis using mine unfolding run(2) holds_def by simp
next
  case (outside s s' ps)
  with assms(2) show ?thesis by (auto simp: holds_def intro: env_keeps)
qed

lemma holds_run: "interleaved act env c c' \<Longrightarrow> holds c \<Longrightarrow> holds c'"
  unfolding interleaved_def
proof (induction rule: rtranclp_induct)
  case (step c' c'')
  then show ?case using holds_step by blast
qed

lemma holds_start:
  assumes "G s" "\<And>i. i < length ps \<Longrightarrow> L s i (ps ! i)"
    "\<And>i j. i < length ps \<Longrightarrow> j < length ps \<Longrightarrow> i \<noteq> j \<Longrightarrow> R (ps ! i) (ps ! j)"
  shows "holds (ps, s)"
  using assms by (simp add: holds_def)

lemma holdsD:
  assumes "holds (ps, s)"
  shows "G s" "i < length ps \<Longrightarrow> L s i (ps ! i)"
    "i < length ps \<Longrightarrow> j < length ps \<Longrightarrow> i \<noteq> j \<Longrightarrow> R (ps ! i) (ps ! j)"
  using assms by (simp_all add: holds_def)

end

lemma interleave_length:
  assumes "interleave act env c c'"
  shows "length (fst c') = length (fst c)"
  using assms by cases simp_all

lemma interleaved_length: "interleaved act env c c' \<Longrightarrow> length (fst c') = length (fst c)"
  unfolding interleaved_def by (induction rule: rtranclp_induct) (auto dest: interleave_length)

section \<open>Runs that end\<close>

text \<open>
  Every step of a goroutine leaves less of its work to do, in a well-founded order, whatever
  the shared state; then no run of goroutines steps forever, even if others change the state
  between the steps.
\<close>

definition goroutine_step :: "('p, 's) action \<Rightarrow> 'p list \<Rightarrow> 'p list \<Rightarrow> bool" where
  "goroutine_step act ps ps' \<longleftrightarrow>
     (\<exists>i s p s'. i < length ps \<and> act i (ps ! i) s = Some (p, s') \<and> ps' = ps[i := p])"

locale progressing =
  fixes act :: "('p, 's) action" and work :: "'p \<Rightarrow> 'w" and less :: "('w \<times> 'w) set"
  assumes wf_less: "wf less" and less_work: "act i p s = Some (p', s') \<Longrightarrow> (work p', work p) \<in> less"
begin

lemma step_less:
  assumes "goroutine_step act ps ps'"
  shows "(image_mset work (mset ps'), image_mset work (mset ps)) \<in> mult1 less"
proof -
  from assms obtain i s p s' where i: "i < length ps" "act i (ps ! i) s = Some (p, s')" and ps': "ps' = ps[i := p]"
    by (auto simp: goroutine_step_def)
  let ?M = "image_mset work (mset ps - {#ps ! i#})"
  have "mset ps = add_mset (ps ! i) (mset ps - {#ps ! i#})" using i(1) by simp
  then have "image_mset work (mset ps) = add_mset (work (ps ! i)) ?M" by (metis image_mset_add_mset)
  moreover have "image_mset work (mset ps') = ?M + {#work p#}" using i(1) ps' by (simp add: mset_update)
  ultimately show ?thesis using less_work [OF i(2)] by (intro mult1I) auto
qed

lemma no_endless_run: "wf {(ps', ps). goroutine_step act ps ps'}"
proof (rule wf_subset)
  show "wf (inv_image (mult1 less) (\<lambda>ps. image_mset work (mset ps)))" by (intro wf_inv_image wf_mult1 wf_less)
qed (auto dest: step_less)

end

end
