(* ===== verification/Scan_Concurrent.thy ===== *)
theory Scan_Concurrent
  imports Server Interleave
begin

text \<open>
  Concurrent scan requests (\<open>internal/server/access_point.go\<close>, \<open>scan_cache.go\<close>).  gRPC runs every
  request in a goroutine of its own, and all share one cache and its file.  \<open>Put\<close> releases the
  mutex before it writes the file, so that writers of the file may overtake each other.  Here
  a request is a sequence of steps: each reading of the clock, each use of the cache under its
  mutex, the scan of the radio and every system call of \<open>writeFileAtomic\<close> is one.  A request that
  runs alone does what \<open>AccessPoint_Scan\<close> does in one step.
\<close>

section \<open>A request in steps\<close>

text \<open>
  \<open>Lookup i t\<close>: about to look \<open>i\<close> up in the cache, the clock read as \<open>t\<close>.  \<open>Storing i t items\<close>: about to
  put the scan.  \<open>Saving\<close> and the program counters after it: in \<open>writeFileAtomic\<close>, with the faults
  of this write, the temporary name and the data.
\<close>

datatype request =
    Arrived string
  | Lookup string int
  | Radio string
  | Scanned string "PbAccessPoint list"
  | Storing string int "PbAccessPoint list"
  | Saving string "PbAccessPoint list" string
  | Filling string "PbAccessPoint list" os_faults string string nat
  | Closing string "PbAccessPoint list" os_faults string string
  | Renaming string "PbAccessPoint list" os_faults string string
  | Removing string "PbAccessPoint list" os_faults string
  | Refused rpc_error
  | FromCache string int "PbAccessPoint list"
  | FromRadio string "PbAccessPoint list"

text \<open>
  The shared state, with two histories that no step reads: the scans the radio has completed,
  with the time, and the contents the cache has had.
\<close>

record 's serving = "'s scan_state" +
  sv_scans :: "(string \<times> int \<times> PbAccessPoint list) list"
  sv_contents :: "ScanCacheMsg list"

definition path_of :: "'s serving \<Rightarrow> string" where
  "path_of s = (case ss_cache s of None \<Rightarrow> [] | Some c \<Rightarrow> sc_path c)"

fun request_step :: "'s Backend \<Rightarrow> 's scan_env \<Rightarrow> ('s \<Rightarrow> int) \<Rightarrow> request \<Rightarrow> 's serving \<Rightarrow> (request \<times> 's serving) option" where
  "request_step B E clk (Arrived i) s =
     (if i = [] then Some (Refused (InvalidArgument, ''interface id required''), s)
      else (case ss_cache s of
              None \<Rightarrow> Some (Radio i, s)
            | Some _ \<Rightarrow> (case se_now E (ss_backend s) of (t, b) \<Rightarrow> Some (Lookup i t, s\<lparr>ss_backend := b\<rparr>))))"
| "request_step B E clk (Lookup i t) s =
     (case ss_cache s of
        None \<Rightarrow> Some (Radio i, s)
      | Some c \<Rightarrow> (case cache_Get c i t of
                    Some items \<Rightarrow> Some (FromCache i t items, s)
                  | None \<Rightarrow> Some (Radio i, s)))"
| "request_step B E clk (Radio i) s =
     (case b_Scan B i (ss_backend s) of
        (Inl e, b) \<Rightarrow> Some (Refused (errToStatus ''scan'' e), s\<lparr>ss_backend := b\<rparr>)
      | (Inr aps, b) \<Rightarrow>
          Some (Scanned i (map pbAccessPoint aps),
                s\<lparr>ss_backend := b, sv_scans := (i, clk b, map pbAccessPoint aps) # sv_scans s\<rparr>))"
| "request_step B E clk (Scanned i items) s =
     (case ss_cache s of
        None \<Rightarrow> Some (FromRadio i items, s)
      | Some _ \<Rightarrow> (case se_now E (ss_backend s) of (t, b) \<Rightarrow> Some (Storing i t items, s\<lparr>ss_backend := b\<rparr>)))"
| "request_step B E clk (Storing i t items) s =
     (case ss_cache s of
        None \<Rightarrow> Some (FromRadio i items, s)
      | Some c \<Rightarrow>
          (let data = putScan (sc_data c) i t items;
               s' = s\<lparr>ss_cache := Some (c\<lparr>sc_data := data\<rparr>), sv_contents := data # sv_contents s\<rparr>
           in (case se_marshal E data of
                 None \<Rightarrow> Some (FromRadio i items, s')
               | Some blob \<Rightarrow> Some (Saving i items blob, s'))))"
| "request_step B E clk (Saving i items blob) s =
     (case se_disk E (ss_backend s) of
        ((F, tmp), b) \<Rightarrow>
          (if create_fails F \<noteq> None \<or> tmp \<in> dom (ss_files s) then Some (FromRadio i items, s\<lparr>ss_backend := b\<rparr>)
           else Some (Filling i items F tmp blob 0, s\<lparr>ss_backend := b, ss_files := (ss_files s)(tmp \<mapsto> [])\<rparr>)))"
| "request_step B E clk (Filling i items F tmp blob n) s =
     (if (case write_fails F of None \<Rightarrow> False | Some (k, _) \<Rightarrow> min k (length blob) \<le> n)
      then Some (Removing i items F tmp, s)
      else if length blob \<le> n then Some (Closing i items F tmp blob, s)
      else Some (Filling i items F tmp blob (Suc n), s\<lparr>ss_files := (ss_files s)(tmp \<mapsto> take (Suc n) blob)\<rparr>))"
| "request_step B E clk (Closing i items F tmp blob) s =
     Some (if close_fails F \<noteq> None then Removing i items F tmp else Renaming i items F tmp blob, s)"
| "request_step B E clk (Renaming i items F tmp blob) s =
     (if rename_fails F \<noteq> None then Some (Removing i items F tmp, s)
      else Some (FromRadio i items, s\<lparr>ss_files := (ss_files s)(path_of s := ss_files s tmp, tmp := None)\<rparr>))"
| "request_step B E clk (Removing i items F tmp) s =
     Some (FromRadio i items, s\<lparr>ss_files := removed F tmp (ss_files s)\<rparr>)"
| "request_step B E clk _ s = None"

definition requests :: "'s Backend \<Rightarrow> 's scan_env \<Rightarrow> ('s \<Rightarrow> int) \<Rightarrow> (request, 's serving) action" where
  "requests B E clk k p s = request_step B E clk p s"

text \<open>Outside the server, time passes and the radio's surroundings change.\<close>

definition elsewhere :: "('s \<Rightarrow> int) \<Rightarrow> 's serving \<Rightarrow> 's serving \<Rightarrow> bool" where
  "elsewhere clk s s' \<longleftrightarrow> (\<exists>b. clk (ss_backend s) \<le> clk b \<and> s' = s\<lparr>ss_backend := b\<rparr>)"

text \<open>The answer of a request that has returned.\<close>

fun answer :: "request \<Rightarrow> (rpc_error + PbAccessPoint list) option" where
  "answer (Refused e) = Some (Inl e)"
| "answer (FromCache i t items) = Some (Inr items)"
| "answer (FromRadio i items) = Some (Inr items)"
| "answer _ = None"

definition opened :: "'s scan_state \<Rightarrow> 's serving" where
  "opened s = scan_state.extend s \<lparr>sv_scans = [], sv_contents = (case ss_cache s of None \<Rightarrow> [] | Some c \<Rightarrow> [sc_data c])\<rparr>"

section \<open>Assertions at the steps\<close>

text \<open>The clock reads no earlier time later on, and \<open>os.CreateTemp\<close> does not pick the cache file itself.\<close>

definition serving_laws :: "'s Backend \<Rightarrow> 's scan_env \<Rightarrow> ('s \<Rightarrow> int) \<Rightarrow> string \<Rightarrow> bool" where
  "serving_laws B E clk path \<longleftrightarrow>
     (\<forall>b t b'. se_now E b = (t, b') \<longrightarrow> t = clk b' \<and> clk b \<le> clk b') \<and>
     (\<forall>b F tmp b'. se_disk E b = ((F, tmp), b') \<longrightarrow> clk b \<le> clk b' \<and> tmp \<noteq> path) \<and>
     (\<forall>i b r b'. b_Scan B i b = (r, b') \<longrightarrow> clk b \<le> clk b')"

lemma serving_lawsD:
  assumes "serving_laws B E clk path"
  shows "se_now E b = (t, b') \<Longrightarrow> t = clk b' \<and> clk b \<le> clk b'"
    and "se_disk E b = ((F, tmp), b') \<Longrightarrow> clk b \<le> clk b' \<and> tmp \<noteq> path"
    and "b_Scan B i b = (r, b') \<Longrightarrow> clk b \<le> clk b'"
  using assms unfolding serving_laws_def by blast+

text \<open>A scan of \<open>i\<close> was completed by the time \<open>at\<close>; or \<open>c0\<close>, the cache at the start, already had it.\<close>

definition completed :: "'s serving \<Rightarrow> string \<Rightarrow> int \<Rightarrow> PbAccessPoint list \<Rightarrow> bool" where
  "completed s i at items \<longleftrightarrow> (\<exists>t \<le> at. (i, t, items) \<in> set (sv_scans s))"

definition recorded :: "ScanCache \<Rightarrow> 's serving \<Rightarrow> string \<Rightarrow> int \<Rightarrow> PbAccessPoint list \<Rightarrow> bool" where
  "recorded c0 s i at items \<longleftrightarrow> completed s i at items \<or>
     (\<exists>e \<in> set (sc_data c0). is_InterfaceId e = i \<and> is_ScannedAt e = Some at \<and> is_AccessPoints e = items)"

definition snapshot :: "'s scan_env \<Rightarrow> 's serving \<Rightarrow> string \<Rightarrow> bool" where
  "snapshot E s blob \<longleftrightarrow> (\<exists>m \<in> set (sv_contents s). se_marshal E m = Some blob)"

definition cache_ok :: "ScanCache \<Rightarrow> 's serving \<Rightarrow> bool" where
  "cache_ok c0 s \<longleftrightarrow> (\<exists>c. ss_cache s = Some c \<and> sc_path c = sc_path c0 \<and> sc_ttl c = sc_ttl c0 \<and>
     (\<forall>e \<in> set (sc_data c). \<forall>at. is_ScannedAt e = Some at \<longrightarrow>
        recorded c0 s (is_InterfaceId e) at (is_AccessPoints e)))"

definition file_ok :: "'s scan_env \<Rightarrow> string \<Rightarrow> string option \<Rightarrow> 's serving \<Rightarrow> bool" where
  "file_ok E path f0 s \<longleftrightarrow>
     ss_files s path = f0 \<or> (\<exists>blob. snapshot E s blob \<and> ss_files s path = Some blob)"

definition shared_ok :: "'s Backend \<Rightarrow> 's scan_env \<Rightarrow> ('s \<Rightarrow> int) \<Rightarrow> ScanCache \<Rightarrow> string option \<Rightarrow> 's serving \<Rightarrow> bool" where
  "shared_ok B E clk c0 f0 s \<longleftrightarrow>
     serving_laws B E clk (sc_path c0) \<and> cache_ok c0 s \<and> file_ok E (sc_path c0) f0 s"

fun iface_of :: "request \<Rightarrow> string option" where
  "iface_of (Arrived i) = Some i" | "iface_of (Lookup i _) = Some i" | "iface_of (Radio i) = Some i"
| "iface_of (Scanned i _) = Some i" | "iface_of (Storing i _ _) = Some i" | "iface_of (Saving i _ _) = Some i"
| "iface_of (Filling i _ _ _ _ _) = Some i" | "iface_of (Closing i _ _ _ _) = Some i"
| "iface_of (Renaming i _ _ _ _) = Some i" | "iface_of (Removing i _ _ _) = Some i"
| "iface_of (Refused _) = None" | "iface_of (FromCache i _ _) = Some i" | "iface_of (FromRadio i _) = Some i"

text \<open>The temporary file a request works on.\<close>

fun temp_of :: "request \<Rightarrow> string option" where
  "temp_of (Filling _ _ _ tmp _ _) = Some tmp" | "temp_of (Closing _ _ _ tmp _) = Some tmp"
| "temp_of (Renaming _ _ _ tmp _) = Some tmp" | "temp_of (Removing _ _ _ tmp) = Some tmp"
| "temp_of _ = None"

text \<open>What a request may rely on at each of its steps.\<close>

fun relies :: "'s scan_env \<Rightarrow> ('s \<Rightarrow> int) \<Rightarrow> ScanCache \<Rightarrow> 's serving \<Rightarrow> request \<Rightarrow> bool" where
  "relies E clk c0 s (Scanned i items) = completed s i (clk (ss_backend s)) items"
| "relies E clk c0 s (Storing i t items) = (completed s i t items \<and> t \<le> clk (ss_backend s))"
| "relies E clk c0 s (Saving i items blob) = (completed s i (clk (ss_backend s)) items \<and> snapshot E s blob)"
| "relies E clk c0 s (Filling i items F tmp blob n) =
     (completed s i (clk (ss_backend s)) items \<and> snapshot E s blob \<and> tmp \<noteq> sc_path c0 \<and>
      ss_files s tmp = Some (take n blob))"
| "relies E clk c0 s (Closing i items F tmp blob) =
     (completed s i (clk (ss_backend s)) items \<and> snapshot E s blob \<and> tmp \<noteq> sc_path c0 \<and> ss_files s tmp = Some blob)"
| "relies E clk c0 s (Renaming i items F tmp blob) =
     (completed s i (clk (ss_backend s)) items \<and> snapshot E s blob \<and> tmp \<noteq> sc_path c0 \<and> ss_files s tmp = Some blob)"
| "relies E clk c0 s (Removing i items F tmp) =
     (completed s i (clk (ss_backend s)) items \<and> tmp \<noteq> sc_path c0 \<and> tmp \<in> dom (ss_files s))"
| "relies E clk c0 s (FromCache i now items) = (\<exists>at. recorded c0 s i at items \<and> time_Sub now at \<le> sc_ttl c0)"
| "relies E clk c0 s (FromRadio i items) = completed s i (clk (ss_backend s)) items"
| "relies E clk c0 s _ = True"

definition request_ok :: "'s scan_env \<Rightarrow> ('s \<Rightarrow> int) \<Rightarrow> ScanCache \<Rightarrow> string list \<Rightarrow> 's serving \<Rightarrow> nat \<Rightarrow> request \<Rightarrow> bool" where
  "request_ok E clk c0 ids s k p \<longleftrightarrow> relies E clk c0 s p \<and> (\<forall>i. iface_of p = Some i \<longrightarrow> i = ids ! k)"

definition apart :: "request \<Rightarrow> request \<Rightarrow> bool" where
  "apart p q \<longleftrightarrow> temp_of p = None \<or> temp_of p \<noteq> temp_of q"

section \<open>The assertions hold\<close>

text \<open>What any step leaves of the histories, the clock and the files: it removes and rewrites only its own.\<close>

definition grows :: "('s \<Rightarrow> int) \<Rightarrow> 's serving \<Rightarrow> 's serving \<Rightarrow> bool" where
  "grows clk s s' \<longleftrightarrow> set (sv_scans s) \<subseteq> set (sv_scans s') \<and> set (sv_contents s) \<subseteq> set (sv_contents s') \<and>
     clk (ss_backend s) \<le> clk (ss_backend s')"

lemma completed_mono: "grows clk s s' \<Longrightarrow> completed s i at items \<Longrightarrow> at \<le> at' \<Longrightarrow> completed s' i at' items"
  unfolding grows_def completed_def by (meson order_trans subsetD)

lemma recorded_mono: "grows clk s s' \<Longrightarrow> recorded c0 s i at items \<Longrightarrow> recorded c0 s' i at items"
  unfolding recorded_def using completed_mono by blast

lemma snapshot_mono: "grows clk s s' \<Longrightarrow> snapshot E s blob \<Longrightarrow> snapshot E s' blob"
  unfolding grows_def snapshot_def by blast

lemma completed_clk:
  "grows clk s s' \<Longrightarrow> completed s i (clk (ss_backend s)) items \<Longrightarrow> completed s' i (clk (ss_backend s')) items"
  by (meson completed_mono grows_def)

lemma relies_grows:
  assumes "grows clk s s'" "relies E clk c0 s p"
    and "\<And>tmp. temp_of p = Some tmp \<Longrightarrow> ss_files s' tmp = ss_files s tmp"
  shows "relies E clk c0 s' p"
proof -
  note mono = completed_clk [OF assms(1)] completed_mono [OF assms(1)] recorded_mono [OF assms(1)]
    snapshot_mono [OF assms(1)]
  have "clk (ss_backend s) \<le> clk (ss_backend s')" using assms(1) by (simp add: grows_def)
  with assms(2,3) mono show ?thesis
    by (cases p) (auto simp: domIff intro: order_trans, blast+)
qed

lemma step_grows:
  assumes laws: "serving_laws B E clk path" and step: "request_step B E clk p s = Some (p', s')"
  shows "grows clk s s'"
proof (cases p)
  case (Radio i)
  obtain r b where "b_Scan B i (ss_backend s) = (r, b)" by force
  with serving_lawsD(3) [OF laws this] step Radio show ?thesis
    by (cases r) (auto simp: grows_def)
next
  case (Saving i items blob)
  obtain F tmp b where "se_disk E (ss_backend s) = ((F, tmp), b)" by (metis prod.exhaust)
  with serving_lawsD(2) [OF laws this] step Saving show ?thesis
    by (auto simp: grows_def split: if_splits)
qed (use step in \<open>auto simp: grows_def Let_def dest: serving_lawsD(1) [OF laws]
      split: if_splits option.splits prod.splits\<close>)

text \<open>The files that are not the cache file and not the temporary file of the request stay.\<close>

lemma step_files:
  assumes step: "request_step B E clk p s = Some (p', s')" and c: "ss_cache s = Some c"
    and tmp: "temp_of p \<noteq> Some tmp" "tmp \<noteq> sc_path c" "tmp \<in> dom (ss_files s)"
  shows "ss_files s' tmp = ss_files s tmp" and "temp_of p' \<noteq> Some tmp"
  using step c tmp
  by (cases p; auto simp: Let_def removed_def path_of_def split: if_splits option.splits prod.splits sum.splits)+

lemma relies_temp: "relies E clk c0 s p \<Longrightarrow> temp_of p = Some tmp \<Longrightarrow> tmp \<in> dom (ss_files s) \<and> tmp \<noteq> sc_path c0"
  by (cases p) auto

lemma cache_Get_recorded:
  assumes "cache_ok c0 s" "ss_cache s = Some c" "cache_Get c i now = Some items"
  shows "\<exists>at. recorded c0 s i at items \<and> time_Sub now at \<le> sc_ttl c0"
proof -
  from assms(3) obtain e where e: "findScan (sc_data c) i = Some e" "fresh c e now" "items = is_AccessPoints e"
    by (auto simp: cache_Get_def split: option.splits if_splits)
  then obtain at where at: "is_ScannedAt e = Some at" "time_Sub now at \<le> sc_ttl c"
    by (auto simp: fresh_def split: option.splits)
  from assms(1,2) findScan_set [OF e(1)] findScan_id [OF e(1)] at e(3) show ?thesis
    unfolding cache_ok_def by auto
qed

lemma set_replace: "set (replace_or_append xs e) \<subseteq> insert e (set xs)"
  by (induction xs) auto

lemma cache_ok_grows: "grows clk s s' \<Longrightarrow> cache_ok c0 s \<Longrightarrow> ss_cache s' = ss_cache s \<Longrightarrow> cache_ok c0 s'"
  unfolding cache_ok_def using recorded_mono by fastforce

lemma cache_ok_put:
  assumes ok: "cache_ok c0 s" and c: "ss_cache s = Some c" and new: "completed s i t items"
    and grow: "grows clk s s'" and s': "ss_cache s' = Some (c\<lparr>sc_data := putScan (sc_data c) i t items\<rparr>)"
  shows "cache_ok c0 s'"
proof -
  have "recorded c0 s' (is_InterfaceId e) at (is_AccessPoints e)"
    if "e \<in> set (putScan (sc_data c) i t items)" "is_ScannedAt e = Some at" for e at
  proof -
    have "e = scan_entry i t items \<or> e \<in> set (sc_data c)"
      using that(1) set_replace [of "sc_data c" "scan_entry i t items"] by (auto simp: putScan_def)
    then have "recorded c0 s (is_InterfaceId e) at (is_AccessPoints e)"
    proof
      assume "e = scan_entry i t items"
      with new that(2) show ?thesis by (simp add: recorded_def)
    next
      assume "e \<in> set (sc_data c)"
      with ok c that(2) show ?thesis by (simp add: cache_ok_def)
    qed
    then show ?thesis by (rule recorded_mono [OF grow])
  qed
  with ok c s' show ?thesis by (auto simp: cache_ok_def)
qed

lemma cache_ok_step:
  assumes "request_step B E clk p s = Some (p', s')" "serving_laws B E clk (sc_path c0)"
    "cache_ok c0 s" "relies E clk c0 s p"
  shows "cache_ok c0 s'"
proof -
  note grow = step_grows [OF assms(2,1)]
  show ?thesis
  proof (cases "ss_cache s' = ss_cache s")
    case True
    with cache_ok_grows [OF grow assms(3)] show ?thesis .
  next
    case False
    with assms(1,4) obtain i t items c where "completed s i t items" "ss_cache s = Some c"
      "ss_cache s' = Some (c\<lparr>sc_data := putScan (sc_data c) i t items\<rparr>)"
      by (cases p) (auto simp: Let_def split: if_splits option.splits prod.splits sum.splits)
    with cache_ok_put [OF assms(3) _ _ grow] show ?thesis by blast
  qed
qed

lemma file_ok_grows: "grows clk s s' \<Longrightarrow> file_ok E path f0 s \<Longrightarrow> ss_files s' path = ss_files s path \<Longrightarrow> file_ok E path f0 s'"
  unfolding file_ok_def using snapshot_mono by fastforce

lemma file_ok_step:
  assumes "request_step B E clk p s = Some (p', s')" "serving_laws B E clk (sc_path c0)"
    "cache_ok c0 s" "relies E clk c0 s p" "file_ok E (sc_path c0) f0 s"
  shows "file_ok E (sc_path c0) f0 s'"
proof (cases "\<exists>i items F tmp blob. p = Renaming i items F tmp blob \<and> rename_fails F = None")
  case True
  then obtain i items F tmp blob where "p = Renaming i items F tmp blob" "rename_fails F = None" by blast
  with assms(1,3,4) have "snapshot E s' blob" "ss_files s' (sc_path c0) = Some blob"
    by (auto simp: path_of_def cache_ok_def snapshot_def)
  then show ?thesis unfolding file_ok_def by blast
next
  case False
  with assms(1,3,4) serving_lawsD(2) [OF assms(2)] have "ss_files s' (sc_path c0) = ss_files s (sc_path c0)"
    by (cases p; auto simp: Let_def removed_def split: if_splits option.splits prod.splits sum.splits; blast)
  with file_ok_grows [OF step_grows [OF assms(2,1)] assms(5)] show ?thesis by blast
qed

lemma relies_step:
  assumes step: "request_step B E clk p s = Some (p', s')" and laws: "serving_laws B E clk (sc_path c0)"
    and ok: "cache_ok c0 s" and rel: "relies E clk c0 s p"
  shows "relies E clk c0 s' p'"
proof -
  note grow = completed_clk [OF step_grows [OF laws step]] completed_mono [OF step_grows [OF laws step]]
    snapshot_mono [OF step_grows [OF laws step]]
  obtain c where c: "ss_cache s = Some c" using ok by (auto simp: cache_ok_def)
  show ?thesis
  proof (cases p)
    case (Lookup i t)
    with step c cache_Get_recorded [OF ok c, of i t] show ?thesis by (auto split: option.splits)
  next
    case (Radio i)
    with step show ?thesis by (auto simp: completed_def split: prod.splits sum.splits)
  next
    case (Scanned i items)
    with step rel c show ?thesis
      by (auto dest!: serving_lawsD(1) [OF laws] simp: completed_def split: prod.splits) (meson order_trans)
  next
    case (Storing i t items)
    with rel have "completed s i (clk (ss_backend s)) items" by (auto simp: completed_def intro: order_trans)
    with step Storing c show ?thesis
      by (auto simp: Let_def snapshot_def completed_def split: option.splits)
  next
    case (Saving i items blob)
    obtain F tmp b where d: "se_disk E (ss_backend s) = ((F, tmp), b)" by (metis prod.exhaust)
    from rel Saving have "completed s' i (clk (ss_backend s')) items" "snapshot E s' blob" using grow by simp_all
    with step Saving d serving_lawsD(2) [OF laws d] show ?thesis by (auto split: if_splits)
  qed (use step rel c in \<open>auto split: if_splits option.splits prod.splits simp: completed_def snapshot_def removed_def\<close>)
qed

text \<open>The assertions of all requests are free of interference.\<close>

interpretation serving: threads "requests B E clk" "elsewhere clk" "shared_ok B E clk c0 f0"
    "request_ok E clk c0 ids" apart
  for B :: "'s Backend" and E clk c0 f0 ids
proof
  show "apart q p" if "apart p q" for p q using that by (auto simp: apart_def)
next
  fix s s' :: "'s serving" and k p p'
  assume ok: "shared_ok B E clk c0 f0 s" "request_ok E clk c0 ids s k p" "requests B E clk k p s = Some (p', s')"
  then have step: "request_step B E clk p s = Some (p', s')" by (simp add: requests_def)
  have "iface_of p' = None \<or> iface_of p' = iface_of p"
    using step by (cases p) (auto simp: Let_def split: if_splits option.splits prod.splits sum.splits)
  moreover have "serving_laws B E clk (sc_path c0)" "cache_ok c0 s" "file_ok E (sc_path c0) f0 s" "relies E clk c0 s p"
    using ok by (simp_all add: shared_ok_def request_ok_def)
  note here = cache_ok_step [OF step this(1,2,4)] file_ok_step [OF step this(1,2,4,3)] relies_step [OF step this(1,2,4)]
  ultimately show "shared_ok B E clk c0 f0 s' \<and> request_ok E clk c0 ids s' k p'"
    using here ok by (auto simp: shared_ok_def request_ok_def)
next
  fix s s' :: "'s serving" and k j :: nat and p p' q
  assume ok: "shared_ok B E clk c0 f0 s" "request_ok E clk c0 ids s k p" "request_ok E clk c0 ids s j q" "apart p q"
    and step: "requests B E clk k p s = Some (p', s')"
  from step have step: "request_step B E clk p s = Some (p', s')" by (simp add: requests_def)
  from ok obtain c where c: "ss_cache s = Some c" "sc_path c = sc_path c0" by (auto simp: shared_ok_def cache_ok_def)
  have grow: "grows clk s s'" using ok(1) step_grows [OF _ step] unfolding shared_ok_def by blast
  have kept: "ss_files s' tmp = ss_files s tmp" "temp_of p' \<noteq> Some tmp" if "temp_of q = Some tmp" for tmp
    using step_files [OF step c(1), of tmp] relies_temp [of E clk c0 s q tmp] that ok(3,4) c(2)
    by (auto simp: request_ok_def apart_def)
  show "request_ok E clk c0 ids s' j q \<and> apart p' q"
  proof
    show "request_ok E clk c0 ids s' j q"
      using ok(3) relies_grows [OF grow _ kept(1)] by (simp add: request_ok_def)
    show "apart p' q" using kept(2) by (cases "temp_of q") (auto simp: apart_def)
  qed
next
  fix s s' :: "'s serving" and j q
  assume ok: "shared_ok B E clk c0 f0 s" and env: "elsewhere clk s s'"
  then have grow: "grows clk s s'" by (auto simp: elsewhere_def grows_def)
  have same: "ss_cache s' = ss_cache s" "ss_files s' = ss_files s" using env by (auto simp: elsewhere_def)
  show "shared_ok B E clk c0 f0 s'"
    using ok cache_ok_grows [OF grow] file_ok_grows [OF grow] same by (simp add: shared_ok_def)
  show "request_ok E clk c0 ids s' j q" if "request_ok E clk c0 ids s j q"
    using that relies_grows [OF grow] same by (simp add: request_ok_def)
qed

lemma opened_sel:
  "ss_cache (opened s) = ss_cache s" "ss_files (opened s) = ss_files s" "ss_backend (opened s) = ss_backend s"
  by (simp_all add: opened_def scan_state.defs)

lemma serving_reaches:
  assumes "serving_laws B E clk (sc_path c0)" "ss_cache s0 = Some c0"
    and "interleaved (requests B E clk) (elsewhere clk) (map Arrived ids, opened s0) (ps, s)"
  shows "serving.holds B E clk c0 (ss_files s0 (sc_path c0)) ids (ps, s)"
proof (rule serving.holds_run [OF assms(3)], rule serving.holds_start)
  show "shared_ok B E clk c0 (ss_files s0 (sc_path c0)) (opened s0)"
    using assms(1,2) by (auto simp: shared_ok_def cache_ok_def file_ok_def opened_sel recorded_def)
qed (simp_all add: request_ok_def apart_def)

section \<open>Requests return\<close>

text \<open>The stage of a request, and the bytes it has left to write.\<close>

fun request_work :: "request \<Rightarrow> nat \<times> nat" where
  "request_work (Arrived _) = (10, 0)" | "request_work (Lookup _ _) = (9, 0)" | "request_work (Radio _) = (8, 0)"
| "request_work (Scanned _ _) = (7, 0)" | "request_work (Storing _ _ _) = (6, 0)"
| "request_work (Saving _ _ _) = (5, 0)"
| "request_work (Filling _ _ _ _ blob n) = (4, length blob - n)"
| "request_work (Closing _ _ _ _ _) = (3, 0)" | "request_work (Renaming _ _ _ _ _) = (2, 0)"
| "request_work (Removing _ _ _ _) = (1, 0)" | "request_work _ = (0, 0)"

interpretation serving_ends: progressing "requests B E clk" request_work "less_than <*lex*> less_than"
  for B :: "'s Backend" and E clk
proof
  show "wf (less_than <*lex*> less_than)" by (intro wf_lex_prod wf_less_than)
  show "(request_work p', request_work p) \<in> less_than <*lex*> less_than"
    if "requests B E clk k p s = Some (p', s')" for k p s p' s'
    using that by (cases p) (auto simp: requests_def Let_def split: if_splits option.splits prod.splits sum.splits)
qed

lemma request_never_waits: "request_step B E clk p s = None \<longleftrightarrow> answer p \<noteq> None"
  by (cases p) (auto simp: Let_def split: option.splits prod.splits sum.splits)

section \<open>A request alone\<close>

lemma request_next:
  "request_step B E clk p s = Some y \<Longrightarrow> alone (requests B E clk) y z \<Longrightarrow> alone (requests B E clk) (p, s) z"
  by (rule alone_next) (simp_all add: requests_def)

definition written :: "os_faults \<Rightarrow> string \<Rightarrow> nat" where
  "written F blob = (case write_fails F of None \<Rightarrow> length blob | Some (k, _) \<Rightarrow> min k (length blob))"

lemma fill_alone:
  assumes "n \<le> written F blob" "ss_files s tmp = Some (take n blob)"
  shows "alone (requests B E clk) (Filling i items F tmp blob n, s)
    (Filling i items F tmp blob (written F blob), s\<lparr>ss_files := (ss_files s)(tmp \<mapsto> take (written F blob) blob)\<rparr>)"
  using assms
proof (induction "written F blob - n" arbitrary: n s)
  case 0
  then have "n = written F blob" "(ss_files s)(tmp \<mapsto> take n blob) = ss_files s" by (simp_all add: fun_upd_idem)
  then show ?case by simp
next
  case (Suc d)
  let ?s = "s\<lparr>ss_files := (ss_files s)(tmp \<mapsto> take (Suc n) blob)\<rparr>"
  from Suc(2,3) have n: "n < written F blob" by simp
  then have "request_step B E clk (Filling i items F tmp blob n) s = Some (Filling i items F tmp blob (Suc n), ?s)"
    by (auto simp: written_def split: option.splits prod.splits)
  moreover have "alone (requests B E clk) (Filling i items F tmp blob (Suc n), ?s)
      (Filling i items F tmp blob (written F blob), s\<lparr>ss_files := (ss_files s)(tmp \<mapsto> take (written F blob) blob)\<rparr>)"
    using Suc(1) [of "Suc n" ?s] Suc(2) n by simp
  ultimately show ?case by (rule request_next)
qed

lemma last_writeFileAtomic:
  "last (snd (writeFileAtomic F tmp path blob fs)) =
     (if create_fails F \<noteq> None then fs
      else if write_fails F = None \<and> close_fails F = None \<and> rename_fails F = None
      then (fs(tmp \<mapsto> blob))(path \<mapsto> blob, tmp := None)
      else removed F tmp (fs(tmp \<mapsto> take (written F blob) blob)))"
  by (auto simp: writeFileAtomic_def written_def Let_def split: option.split)

lemma save_alone:
  assumes disk: "se_disk E (ss_backend s) = ((F, tmp), b)" and new: "tmp \<notin> dom (ss_files s)"
    and c: "ss_cache s = Some c" "tmp \<noteq> sc_path c"
  shows "alone (requests B E clk) (Saving i items blob, s)
    (FromRadio i items, s\<lparr>ss_backend := b,
       ss_files := last (snd (writeFileAtomic F tmp (sc_path c) blob (ss_files s)))\<rparr>)"
proof (cases "create_fails F = None")
  case False
  then have "request_step B E clk (Saving i items blob) s = Some (FromRadio i items, s\<lparr>ss_backend := b\<rparr>)"
    by (simp add: disk)
  then have "alone (requests B E clk) (Saving i items blob, s) (FromRadio i items, s\<lparr>ss_backend := b\<rparr>)"
    by (rule request_next) simp
  with False show ?thesis by (simp add: last_writeFileAtomic)
next
  case True
  let ?m = "written F blob"
  let ?s = "\<lambda>fs. s\<lparr>ss_backend := b, ss_files := fs\<rparr>" and ?fs = "(ss_files s)(tmp \<mapsto> take ?m blob)"
  have create: "request_step B E clk (Saving i items blob) s
      = Some (Filling i items F tmp blob 0, ?s ((ss_files s)(tmp \<mapsto> [])))"
    using True new by (simp add: disk)
  have fill: "alone (requests B E clk) (Filling i items F tmp blob 0, ?s ((ss_files s)(tmp \<mapsto> []))) (Filling i items F tmp blob ?m, ?s ?fs)"
    using fill_alone [of 0 F blob "?s ((ss_files s)(tmp \<mapsto> []))" tmp B E clk i items] by simp
  have remove: "alone (requests B E clk) (Removing i items F tmp, ?s ?fs) (FromRadio i items, ?s (removed F tmp ?fs))"
    by (rule request_next [OF _ rtranclp.rtrancl_refl]) simp
  have "alone (requests B E clk) (Filling i items F tmp blob ?m, ?s ?fs)
      (FromRadio i items, ?s (last (snd (writeFileAtomic F tmp (sc_path c) blob (ss_files s)))))"
  proof (cases "write_fails F")
    case (Some k)
    then have "request_step B E clk (Filling i items F tmp blob ?m) (?s ?fs) = Some (Removing i items F tmp, ?s ?fs)"
      by (auto simp: written_def split: prod.splits)
    with remove Some True show ?thesis unfolding last_writeFileAtomic by (auto intro: request_next)
  next
    case None
    then have m: "?m = length blob" by (simp add: written_def)
    have fill: "request_step B E clk (Filling i items F tmp blob ?m) (?s ?fs) = Some (Closing i items F tmp blob, ?s ?fs)"
      using None m by simp
    show ?thesis
    proof (cases "close_fails F = None \<and> rename_fails F = None")
      case False
      then have "alone (requests B E clk) (Closing i items F tmp blob, ?s ?fs) (FromRadio i items, ?s (removed F tmp ?fs))"
        using remove by (cases "close_fails F") (auto intro!: request_next)
      with False None True fill show ?thesis unfolding last_writeFileAtomic by (auto intro: request_next)
    next
      case closed: True
      have "alone (requests B E clk) (Renaming i items F tmp blob, ?s ?fs)
          (FromRadio i items, ?s (?fs(sc_path c \<mapsto> blob, tmp := None)))"
        by (rule request_next [OF _ rtranclp.rtrancl_refl]) (simp add: closed path_of_def c m)
      then have "alone (requests B E clk) (Closing i items F tmp blob, ?s ?fs)
          (FromRadio i items, ?s (?fs(sc_path c \<mapsto> blob, tmp := None)))"
        using closed by (auto intro!: request_next)
      with closed None True fill m show ?thesis unfolding last_writeFileAtomic by (auto intro: request_next)
    qed
  qed
  with fill have "alone (requests B E clk) (Filling i items F tmp blob 0, ?s ((ss_files s)(tmp \<mapsto> [])))
      (FromRadio i items, ?s (last (snd (writeFileAtomic F tmp (sc_path c) blob (ss_files s)))))" by (rule rtranclp_trans)
  with create show ?thesis by (rule request_next)
qed

text \<open>The part of the state that the program has.\<close>

definition program_part :: "'s serving \<Rightarrow> 's scan_state" where
  "program_part s = \<lparr>ss_backend = ss_backend s, ss_cache = ss_cache s, ss_files = ss_files s\<rparr>"

lemma store_alone:
  assumes names: "\<And>b F tmp b'. se_disk E b = ((F, tmp), b') \<Longrightarrow> tmp \<notin> dom (ss_files s) \<and> (\<forall>c. ss_cache s = Some c \<longrightarrow> tmp \<noteq> sc_path c)"
    and marshal: "\<And>m. \<exists>blob. se_marshal E m = Some blob"
  shows "\<exists>s'. alone (requests B E clk) (Scanned i items, s) (FromRadio i items, s') \<and>
    program_part s' = cache_store E i items (program_part s)"
proof (cases "ss_cache s")
  case None
  then have "alone (requests B E clk) (Scanned i items, s) (FromRadio i items, s)"
    by (intro request_next [OF _ rtranclp.rtrancl_refl]) simp
  with None show ?thesis by (auto simp: cache_store_def program_part_def)
next
  case c: (Some c)
  obtain t b where t: "se_now E (ss_backend s) = (t, b)" by force
  let ?data = "putScan (sc_data c) i t items"
  let ?c = "c\<lparr>sc_data := ?data\<rparr>"
  let ?s = "s\<lparr>ss_backend := b, ss_cache := Some ?c, sv_contents := ?data # sv_contents s\<rparr>"
  have now: "request_step B E clk (Scanned i items) s = Some (Storing i t items, s\<lparr>ss_backend := b\<rparr>)"
    by (simp add: c t)
  obtain F tmp b' where d: "se_disk E b = ((F, tmp), b')" by (metis prod.exhaust)
  obtain blob where Some: "se_marshal E ?data = Some blob" using marshal by blast
  let ?fs = "last (snd (writeFileAtomic F tmp (sc_path c) blob (ss_files s)))"
  have "request_step B E clk (Storing i t items) (s\<lparr>ss_backend := b\<rparr>) = Some (Saving i items blob, ?s)"
    using Some by (simp add: c Let_def)
  moreover have "alone (requests B E clk) (Saving i items blob, ?s) (FromRadio i items, ?s\<lparr>ss_backend := b', ss_files := ?fs\<rparr>)"
    using save_alone [of E ?s F tmp b' ?c B clk i items blob] d names [OF d] c by simp
  ultimately have "alone (requests B E clk) (Scanned i items, s) (FromRadio i items, ?s\<lparr>ss_backend := b', ss_files := ?fs\<rparr>)"
    using now by (blast intro: request_next)
  moreover have "program_part (?s\<lparr>ss_backend := b', ss_files := ?fs\<rparr>) = cache_store E i items (program_part s)"
    using c t d Some by (simp add: cache_store_def program_part_def cache_Put_def Let_def split: prod.split)
  ultimately show ?thesis by blast
qed

lemma scan_alone:
  assumes names: "\<And>b F tmp b'. se_disk E b = ((F, tmp), b') \<Longrightarrow> tmp \<notin> dom (ss_files s) \<and> (\<forall>c. ss_cache s = Some c \<longrightarrow> tmp \<noteq> sc_path c)"
    and marshal: "\<And>m. \<exists>blob. se_marshal E m = Some blob"
  shows "\<exists>p s'. alone (requests B E clk) (Arrived i, s) (p, s') \<and> answer p = Some (fst (AccessPoint_Scan B E i (program_part s))) \<and>
    program_part s' = snd (AccessPoint_Scan B E i (program_part s))"
proof (cases "i = []")
  case True
  then have "alone (requests B E clk) (Arrived i, s) (Refused (InvalidArgument, ''interface id required''), s)"
    by (intro request_next [OF _ rtranclp.rtrancl_refl]) simp
  with True show ?thesis
    by (intro exI [of _ "Refused (InvalidArgument, ''interface id required'')"] exI [of _ s])
      (simp add: AccessPoint_Scan_def invalid_def)
next
  case i: False
  obtain hit t0 s1 where hit: "cache_hit E i (program_part s) = (hit, program_part s1)"
    and same: "ss_cache s1 = ss_cache s" "ss_files s1 = ss_files s"
    and look: "alone (requests B E clk) (Arrived i, s) (case hit of None \<Rightarrow> Radio i | Some items \<Rightarrow> FromCache i t0 items, s1)"
  proof (cases "ss_cache s")
    case None
    then have "alone (requests B E clk) (Arrived i, s) (Radio i, s)"
      using i by (intro request_next [OF _ rtranclp.rtrancl_refl]) simp
    with None that [of None s 0] show ?thesis by (simp add: cache_hit_def program_part_def)
  next
    case (Some c)
    obtain t b where t: "se_now E (ss_backend s) = (t, b)" by force
    let ?s = "s\<lparr>ss_backend := b\<rparr>"
    have "request_step B E clk (Arrived i) s = Some (Lookup i t, ?s)" using i Some t by simp
    moreover have "alone (requests B E clk) (Lookup i t, ?s) (case cache_Get c i t of None \<Rightarrow> Radio i | Some items \<Rightarrow> FromCache i t items, ?s)"
      using Some by (intro request_next [OF _ rtranclp.rtrancl_refl]) (simp split: option.split)
    ultimately have "alone (requests B E clk) (Arrived i, s) (case cache_Get c i t of None \<Rightarrow> Radio i | Some items \<Rightarrow> FromCache i t items, ?s)"
      by (rule request_next)
    with Some t that [of "cache_Get c i t" ?s t] show ?thesis by (simp add: cache_hit_def program_part_def)
  qed
  show ?thesis
  proof (cases hit)
    case (Some items)
    with hit look i show ?thesis
      by (intro exI [of _ "FromCache i t0 items"] exI [of _ s1]) (simp add: AccessPoint_Scan_def)
  next
    case None
    obtain r b where r: "b_Scan B i (ss_backend s1) = (r, b)" by force
    show ?thesis
    proof (cases r)
      case (Inl e)
      then have "alone (requests B E clk) (Radio i, s1) (Refused (errToStatus ''scan'' e), s1\<lparr>ss_backend := b\<rparr>)"
        using r by (intro request_next [OF _ rtranclp.rtrancl_refl]) simp
      with look None have "alone (requests B E clk) (Arrived i, s) (Refused (errToStatus ''scan'' e), s1\<lparr>ss_backend := b\<rparr>)"
        by (simp add: rtranclp_trans)
      with i hit None r Inl show ?thesis
        by (intro exI [of _ "Refused (errToStatus ''scan'' e)"] exI [of _ "s1\<lparr>ss_backend := b\<rparr>"])
          (simp add: AccessPoint_Scan_def program_part_def)
    next
      case (Inr aps)
      let ?items = "map pbAccessPoint aps"
      let ?s = "s1\<lparr>ss_backend := b, sv_scans := (i, clk b, ?items) # sv_scans s1\<rparr>"
      have radio: "request_step B E clk (Radio i) s1 = Some (Scanned i ?items, ?s)" using r Inr by simp
      obtain s' where "alone (requests B E clk) (Scanned i ?items, ?s) (FromRadio i ?items, s')"
        and s': "program_part s' = cache_store E i ?items (program_part ?s)"
        using store_alone [of E ?s B clk i ?items, OF _ marshal] names same by auto
      with radio have "alone (requests B E clk) (Radio i, s1) (FromRadio i ?items, s')" by (blast intro: request_next)
      with look None have "alone (requests B E clk) (Arrived i, s) (FromRadio i ?items, s')" by (simp add: rtranclp_trans)
      with i hit None r Inr s' show ?thesis
        by (intro exI [of _ "FromRadio i ?items"] exI [of _ s']) (simp add: AccessPoint_Scan_def program_part_def Let_def)
    qed
  qed
qed

section \<open>A server with two requests\<close>

text \<open>A disk that works, a temporary name per call, and a marshalled form of one byte per entry.\<close>

definition no_faults :: os_faults where
  "no_faults = \<lparr>create_fails = None, write_fails = None, close_fails = None, rename_fails = None, remove_fails = False\<rparr>"

definition disk_env :: "host scan_env" where
  "disk_env = \<lparr>se_now = (\<lambda>h. (int (length (h_calls h)), h)),
     se_disk = (\<lambda>h. ((no_faults, CHR ''t'' # replicate (length (h_calls h)) CHR ''i''), h_log ''CreateTemp'' h)),
     se_marshal = (\<lambda>m. Some (replicate (length m) CHR ''x''))\<rparr>"

definition host_clock :: "host \<Rightarrow> int" where
  "host_clock h = int (length (h_calls h))"

definition new_server :: "host scan_state" where
  "new_server = \<lparr>ss_backend = the_host\<lparr>h_calls := []\<rparr>, ss_cache = Some (NewScanCache ''cache'' 10), ss_files = Map.empty\<rparr>"

lemma disk_laws: "serving_laws host_backend disk_env host_clock ''cache''"
  by (auto simp: serving_laws_def disk_env_def host_clock_def h_log_def host_backend_def)

text \<open>Two requests for one interface, the first of which is done with the radio when the second looks.\<close>

definition demo_pair :: "request list \<times> host serving" where
  "demo_pair = schedule (requests host_backend disk_env host_clock) [0, 0, 0, 0, 0, 1, 1]
     (map Arrived [''wlan0'', ''wlan0''], opened new_server)"

lemma demo_pair_hit: "answer (fst demo_pair ! 1) = Some (Inr [pbAccessPoint \<lparr>ap_SSID = ''net'', ap_BSSID = ''02:00:00:00:01:00'', ap_Signal = -50,
                 ap_FreqMHz = 2412, ap_KeyMgmt = [KeyWPAPSK]\<rparr>])"
  by code_simp

lemma demo_pair_cached: "(case fst demo_pair ! 1 of FromCache i t items \<Rightarrow> i = ''wlan0'' \<and> t = 1 | _ \<Rightarrow> False)"
  by code_simp

lemma demo_pair_reached:
  "interleaved (requests host_backend disk_env host_clock) (elsewhere host_clock)
     (map Arrived [''wlan0'', ''wlan0''], opened new_server) demo_pair"
  unfolding demo_pair_def by (rule schedule_interleaved)

text \<open>Two requests for two interfaces, the second of which writes the file while the first waits to.\<close>

definition demo_overtake :: "request list \<times> host serving" where
  "demo_overtake = schedule (requests host_backend disk_env host_clock)
     ([0, 0, 0, 0, 0] @ replicate 12 1 @ replicate 5 0) (map Arrived [''wlan0'', ''wlan1''], opened new_server)"

section \<open>Properties\<close>



text \<open>C6: However concurrent requests interleave, and whichever file operations fail or are cut off: at every moment the cache file is the one the server started with or one complete snapshot of a content that the cache has had, never a mixture or a part of one.\<close>

theorem cache_file_never_torn:
  assumes "serving_laws B E clk (sc_path c0)" "ss_cache s0 = Some c0"
    and "interleaved (requests B E clk) (elsewhere clk) (map Arrived ids, opened s0) (ps, s)"
  shows "ss_files s (sc_path c0) = ss_files s0 (sc_path c0) \<or>
    (\<exists>m \<in> set (sv_contents s). se_marshal E m \<noteq> None \<and> ss_files s (sc_path c0) = se_marshal E m)"
  using serving.holdsD(1) [OF serving_reaches [OF assms]]
  by (auto simp: shared_ok_def file_ok_def snapshot_def)

lemma cache_file_never_torn_witness:
  "\<exists>m \<in> set (sv_contents (snd demo_overtake)). ss_files (snd demo_overtake) ''cache'' = se_marshal disk_env m"
proof -
  have "ss_files (snd demo_overtake) ''cache'' = Some ''x''" by code_simp
  moreover have "interleaved (requests host_backend disk_env host_clock) (elsewhere host_clock)
      (map Arrived [''wlan0'', ''wlan1''], opened new_server) (fst demo_overtake, snd demo_overtake)"
    unfolding prod.collapse demo_overtake_def by (rule schedule_interleaved)
  ultimately show ?thesis
    using cache_file_never_torn [of host_backend disk_env host_clock "NewScanCache ''cache'' 10" new_server
        "[''wlan0'', ''wlan1'']" "fst demo_overtake" "snd demo_overtake"] disk_laws
    by (auto simp: new_server_def NewScanCache_def)
qed




text \<open>Every scan request returns: none of its steps waits for another request, and no run of requests goes on forever, whatever backend, clock and disk do in between.\<close>

theorem scan_requests_return:
  "wf {(ps', ps). goroutine_step (requests B E clk) ps ps'} \<and>
   (request_step B E clk p s = None \<longleftrightarrow> answer p \<noteq> None)"
  by (rule conjI [OF serving_ends.no_endless_run request_never_waits])

end
