(* ===== verification/Ubus_Concurrent.thy ===== *)
theory Ubus_Concurrent
  imports Ubus_Frame Interleave
begin

text \<open>
  Concurrent calls of one ubus client (\<open>internal/wnet/ubus/client.go\<close>).  The handlers of the
  server, and the watch loops, call the node through one client; its mutex guards the
  session only, and is held while the client logs in.  Here a call is a sequence of steps, of
  which each HTTP request is one.  A call that runs alone does what \<open>ubus_Call\<close> does.
\<close>

section \<open>A call in steps\<close>

text \<open>
  \<open>Waiting ses\<close>: the node refused \<open>ses\<close>, and \<open>relogin\<close> is to be entered.  \<open>LoggingIn\<close> and \<open>Renewing\<close>
  hold the mutex.
\<close>

datatype call =
    Entering
  | LoggingIn
  | Requesting string
  | Waiting string
  | Renewing
  | Retrying string
  | Returned "(int \<times> json option) res"

text \<open>
  The client with its mutex, and as a history no step reads, the refused sessions for which a
  call of \<open>relogin\<close> logged in again.
\<close>

record 's client =
  cl_state :: "'s ubus_state"
  cl_lock :: "nat option"
  cl_renewed :: "string list"

type_synonym rpc_args = "string \<times> string \<times> json"

text \<open>The end of the critical section: the mutex is released on every path.\<close>

definition logged_in :: "'s ubus_env \<Rightarrow> (string \<Rightarrow> call) \<Rightarrow> 's client \<Rightarrow> call \<times> 's client" where
  "logged_in E next s =
     (case ubus_login E (cl_state s) of
        (Inl e, u) \<Rightarrow> (Returned (Inl e), s\<lparr>cl_state := u, cl_lock := None\<rparr>)
      | (Inr _, u) \<Rightarrow> (next (us_session u), s\<lparr>cl_state := u, cl_lock := None\<rparr>))"

definition requested :: "'s ubus_env \<Rightarrow> rpc_args \<Rightarrow> string \<Rightarrow> 's client \<Rightarrow> (int \<times> json option) res \<times> 's client" where
  "requested E c ses s =
     (case c of (object, meth, args) \<Rightarrow>
        (case rawCall E ses object meth args (cl_state s) of (r, u) \<Rightarrow> (r, s\<lparr>cl_state := u\<rparr>)))"

fun call_step :: "'s ubus_env \<Rightarrow> rpc_args \<Rightarrow> nat \<Rightarrow> call \<Rightarrow> 's client \<Rightarrow> (call \<times> 's client) option" where
  "call_step E c k Entering s =
     (if cl_lock s \<noteq> None then None
      else if us_session (cl_state s) = [] then Some (LoggingIn, s\<lparr>cl_lock := Some k\<rparr>)
      else Some (Requesting (us_session (cl_state s)), s))"
| "call_step E c k LoggingIn s = Some (logged_in E Requesting s)"
| "call_step E c k (Requesting ses) s =
     (case requested E c ses s of
        (Inl e, s') \<Rightarrow> Some (Returned (Inl e), s')
      | (Inr r, s') \<Rightarrow> Some (if fst r = ubusPermissionDenie then Waiting ses else Returned (Inr r), s'))"
| "call_step E c k (Waiting ses) s =
     (if cl_lock s \<noteq> None then None
      else if us_session (cl_state s) \<noteq> ses then Some (Retrying (us_session (cl_state s)), s)
      else Some (Renewing, s\<lparr>cl_state := (cl_state s)\<lparr>us_session := []\<rparr>, cl_lock := Some k,
                             cl_renewed := ses # cl_renewed s\<rparr>))"
| "call_step E c k Renewing s = Some (logged_in E Retrying s)"
| "call_step E c k (Retrying ses) s = (case requested E c ses s of (r, s') \<Rightarrow> Some (Returned r, s'))"
| "call_step E c k (Returned r) s = None"

definition calls :: "'s ubus_env \<Rightarrow> rpc_args list \<Rightarrow> (call, 's client) action" where
  "calls E cs k p s = (if k < length cs then call_step E (cs ! k) k p s else None)"

text \<open>Outside the client, the node and time go on.\<close>

definition node_moves :: "('s \<Rightarrow> string set) \<Rightarrow> 's client \<Rightarrow> 's client \<Rightarrow> bool" where
  "node_moves past s s' \<longleftrightarrow> (\<exists>e. past (us_env (cl_state s)) \<subseteq> past e \<and>
     s' = s\<lparr>cl_state := (cl_state s)\<lparr>us_env := e\<rparr>\<rparr>)"

definition connected :: "'s ubus_state \<Rightarrow> 's client" where
  "connected u = \<lparr>cl_state = u, cl_lock = None, cl_renewed = []\<rparr>"

section \<open>The mutex and the sessions\<close>

text \<open>
  The node never issues a session a second time: \<open>past\<close> are the sessions it has issued so far.
\<close>

definition issues_fresh :: "'s ubus_env \<Rightarrow> ('s \<Rightarrow> string set) \<Rightarrow> bool" where
  "issues_fresh E past \<longleftrightarrow>
     (\<forall>b e r e'. ub_post E b e = (r, e') \<longrightarrow> past e \<subseteq> past e') \<and>
     (\<forall>u u'. ubus_login E u = (Inr (), u') \<longrightarrow>
        us_session u' \<notin> past (us_env u) \<and> us_session u' \<in> past (us_env u'))"

fun holding :: "call \<Rightarrow> bool" where
  "holding LoggingIn = True" | "holding Renewing = True" | "holding _ = False"

definition client_ok :: "'s ubus_env \<Rightarrow> ('s \<Rightarrow> string set) \<Rightarrow> nat \<Rightarrow> 's client \<Rightarrow> bool" where
  "client_ok E past n s \<longleftrightarrow> issues_fresh E past \<and> (\<forall>k. cl_lock s = Some k \<longrightarrow> k < n) \<and>
     distinct (cl_renewed s) \<and> set (cl_renewed s) \<subseteq> past (us_env (cl_state s)) \<and> [] \<notin> set (cl_renewed s) \<and>
     us_session (cl_state s) \<notin> set (cl_renewed s) \<and>
     (us_session (cl_state s) \<noteq> [] \<longrightarrow> us_session (cl_state s) \<in> past (us_env (cl_state s)))"

fun call_relies :: "('s \<Rightarrow> string set) \<Rightarrow> 's client \<Rightarrow> call \<Rightarrow> bool" where
  "call_relies past s (Requesting ses) = (ses \<noteq> [] \<and> ses \<in> past (us_env (cl_state s)))"
| "call_relies past s (Waiting ses) = (ses \<noteq> [] \<and> ses \<in> past (us_env (cl_state s)))"
| "call_relies past s _ = True"

definition call_ok :: "('s \<Rightarrow> string set) \<Rightarrow> 's client \<Rightarrow> nat \<Rightarrow> call \<Rightarrow> bool" where
  "call_ok past s k p \<longleftrightarrow> call_relies past s p \<and> (holding p \<longleftrightarrow> cl_lock s = Some k)"

lemma rawCall_session: "rawCall E ses obj meth args u = (r, u') \<Longrightarrow> us_session u' = us_session u"
  by (auto simp: rawCall_def on_us_def Let_def split: prod.splits)

lemma rawCall_past:
  "issues_fresh E past \<Longrightarrow> rawCall E ses obj meth args u = (r, u') \<Longrightarrow> past (us_env u) \<subseteq> past (us_env u')"
  unfolding issues_fresh_def rawCall_def on_us_def Let_def by (auto split: prod.splits) blast

lemma login_past:
  assumes "issues_fresh E past" "ubus_login E u = (r, u')"
  shows "past (us_env u) \<subseteq> past (us_env u')"
proof -
  obtain q t where raw: "rawCall E anonSession ''session'' ''login''
     (JObj [(''username'', JStr (uo_Username (ub_opts E))), (''password'', JStr (uo_Password (ub_opts E)))]) u = (q, t)"
    by force
  have "us_env u' = us_env t"
    using assms(2) raw by (auto simp: ubus_login_def bindE_def mapErr_def split: sum.splits prod.splits if_splits bool.splits)
  with rawCall_past [OF assms(1) raw] show ?thesis by simp
qed

lemma requested_keeps:
  assumes "issues_fresh E past" "requested E c ses s = (r, s')"
  shows "us_session (cl_state s') = us_session (cl_state s)" "cl_lock s' = cl_lock s" "cl_renewed s' = cl_renewed s"
    "past (us_env (cl_state s)) \<subseteq> past (us_env (cl_state s'))"
  using assms(2) rawCall_past [OF assms(1)] unfolding requested_def
  by (auto dest: rawCall_session split: prod.splits) blast

lemma login_cases:
  assumes "ubus_login E u = (r, u')"
  shows "r = Inr () \<and> us_session u' \<noteq> [] \<or> (\<exists>e. r = Inl e) \<and> us_session u' = us_session u"
  using assms rawCall_session
  by (fastforce simp: ubus_login_def bindE_def mapErr_def split: sum.splits prod.splits if_splits bool.splits)

lemma step_past:
  assumes fresh: "issues_fresh E past" and step: "call_step E c k p s = Some (p', s')"
  shows "past (us_env (cl_state s)) \<subseteq> past (us_env (cl_state s'))"
proof -
  have login: "past (us_env (cl_state s)) \<subseteq> past (us_env (cl_state t))" if "logged_in E f s = (q, t)" for f q t
    using that login_past [OF fresh] by (auto simp: logged_in_def split: prod.splits sum.splits) blast+
  show ?thesis
    using step login requested_keeps(4) [OF fresh]
    by (cases p; auto split: if_splits prod.splits sum.splits; blast)
qed

text \<open>Who steps, and whether the mutex is taken or given back.\<close>

lemma step_lock:
  assumes "call_step E c k p s = Some (p', s')"
  shows "cl_lock s' = cl_lock s \<and> holding p' = holding p \<and> \<not> holding p \<or>
    cl_lock s = None \<and> cl_lock s' = Some k \<and> holding p' \<and> \<not> holding p \<or>
    cl_lock s' = None \<and> holding p \<and> \<not> holding p'"
  using assms by (cases p) (auto simp: logged_in_def requested_def split: if_splits prod.splits sum.splits)

lemma login_ok:
  assumes ok: "client_ok E past n s" and l: "logged_in E f s = (p', s')" and f: "f = Requesting \<or> f = Retrying"
  shows "client_ok E past n s' \<and> call_relies past s' p'"
proof -
  obtain r u where u: "ubus_login E (cl_state s) = (r, u)" by force
  have fresh: "issues_fresh E past" using ok by (simp add: client_ok_def)
  have grow: "past (us_env (cl_state s)) \<subseteq> past (us_env u)" using login_past [OF fresh u] .
  from login_cases [OF u] show ?thesis
  proof
    assume r: "r = Inr () \<and> us_session u \<noteq> []"
    with fresh u have "us_session u \<notin> past (us_env (cl_state s))" "us_session u \<in> past (us_env u)"
      unfolding issues_fresh_def by blast+
    with ok l u r f grow show ?thesis by (auto simp: client_ok_def logged_in_def; blast)
  next
    assume "(\<exists>e. r = Inl e) \<and> us_session u = us_session (cl_state s)"
    with ok l u f grow show ?thesis by (auto simp: client_ok_def logged_in_def; blast)
  qed
qed

lemma client_ok_same:
  assumes "client_ok E past n s" "past (us_env (cl_state s)) \<subseteq> past (us_env (cl_state s'))"
    and "us_session (cl_state s') = us_session (cl_state s)" "cl_renewed s' = cl_renewed s"
    and "\<And>k. cl_lock s' = Some k \<Longrightarrow> k < n"
  shows "client_ok E past n s'"
  using assms by (auto simp: client_ok_def)

lemma step_client_ok:
  assumes ok: "client_ok E past n s" and rel: "call_relies past s p" and k: "k < n"
    and step: "call_step E c k p s = Some (p', s')"
  shows "client_ok E past n s' \<and> call_relies past s' p'"
proof -
  have fresh: "issues_fresh E past" and lock: "\<And>j. cl_lock s = Some j \<Longrightarrow> j < n" using ok by (simp_all add: client_ok_def)
  have req: "client_ok E past n t" if "requested E c ses s = (r, t)" for ses r t
    using client_ok_same [OF ok] requested_keeps [OF fresh that] lock by metis
  show ?thesis
  proof (cases p)
    case Entering
    with step ok k show ?thesis by (auto simp: client_ok_def split: if_splits)
  next
    case LoggingIn
    with step login_ok [OF ok] show ?thesis by auto
  next
    case Renewing
    with step login_ok [OF ok] show ?thesis by auto
  next
    case (Requesting ses)
    obtain r t where t: "requested E c ses s = (r, t)" by force
    have "ses \<in> past (us_env (cl_state t))" using rel Requesting requested_keeps(4) [OF fresh t] by auto
    with step rel req [OF t] t Requesting show ?thesis by (auto split: sum.splits)
  next
    case (Waiting ses)
    with step ok rel k show ?thesis by (auto simp: client_ok_def split: if_splits)
  next
    case (Retrying ses)
    with step req show ?thesis by (auto split: prod.splits)
  qed (use step in simp)
qed

lemma call_relies_past:
  "call_relies past s p \<Longrightarrow> past (us_env (cl_state s)) \<subseteq> past (us_env (cl_state s')) \<Longrightarrow> call_relies past s' p"
  by (cases p) auto

interpretation client: threads "calls E cs" "node_moves past" "client_ok E past (length cs)" "call_ok past" "\<lambda>p q. True"
  for E :: "'s ubus_env" and past cs
proof
  fix s s' :: "'s client" and k p p'
  assume ok: "client_ok E past (length cs) s" "call_ok past s k p" "calls E cs k p s = Some (p', s')"
  then have step: "call_step E (cs ! k) k p s = Some (p', s')" "k < length cs" by (auto simp: calls_def split: if_splits)
  from step_client_ok [OF ok(1) _ step(2,1)] step_lock [OF step(1)] ok(2)
  show "client_ok E past (length cs) s' \<and> call_ok past s' k p'" by (auto simp: call_ok_def)
next
  fix s s' :: "'s client" and k j :: nat and p p' q
  assume ne: "k \<noteq> j" and ok: "client_ok E past (length cs) s" "call_ok past s k p" "call_ok past s j q"
    and "calls E cs k p s = Some (p', s')"
  then have step: "call_step E (cs ! k) k p s = Some (p', s')" by (auto simp: calls_def split: if_splits)
  have "issues_fresh E past" using ok(1) by (simp add: client_ok_def)
  from call_relies_past [OF _ step_past [OF this step]] step_lock [OF step] ok(2,3) ne
  show "call_ok past s' j q \<and> True" by (auto simp: call_ok_def)
next
  fix s s' :: "'s client" and j q
  assume ok: "client_ok E past (length cs) s" and env: "node_moves past s s'"
  then show "client_ok E past (length cs) s'" by (auto simp: client_ok_def node_moves_def; blast)
  show "call_ok past s' j q" if "call_ok past s j q"
    using that env call_relies_past [of past s q s'] by (auto simp: call_ok_def node_moves_def)
qed auto

fun call_work :: "call \<Rightarrow> nat" where
  "call_work Entering = 6" | "call_work LoggingIn = 5" | "call_work (Requesting _) = 4" | "call_work (Waiting _) = 3"
| "call_work Renewing = 2" | "call_work (Retrying _) = 1" | "call_work (Returned _) = 0"

interpretation client_ends: progressing "calls E cs" call_work less_than for E :: "'s ubus_env" and cs
proof
  show "(call_work p', call_work p) \<in> less_than" if "calls E cs k p s = Some (p', s')" for k p s p' s'
    using that by (cases p) (auto simp: calls_def logged_in_def requested_def split: if_splits prod.splits sum.splits)
qed simp

text \<open>The mutex alone, whatever the sessions are.\<close>

interpretation mutex: threads "calls E cs" "node_moves past" "\<lambda>s. \<forall>k. cl_lock s = Some k \<longrightarrow> k < length cs"
    "\<lambda>s k p. holding p \<longleftrightarrow> cl_lock s = Some k" "\<lambda>p q. True"
  for E :: "'s ubus_env" and past cs
proof
  fix s s' :: "'s client" and k p p'
  assume "\<forall>k. cl_lock s = Some k \<longrightarrow> k < length cs" "holding p \<longleftrightarrow> cl_lock s = Some k" and
    step: "calls E cs k p s = Some (p', s')"
  moreover from step have "call_step E (cs ! k) k p s = Some (p', s')" "k < length cs"
    by (auto simp: calls_def split: if_splits)
  ultimately show "(\<forall>k. cl_lock s' = Some k \<longrightarrow> k < length cs) \<and> (holding p' \<longleftrightarrow> cl_lock s' = Some k)"
    using step_lock by fastforce
next
  fix s s' :: "'s client" and k j :: nat and p p' q
  assume "k \<noteq> j" "holding p \<longleftrightarrow> cl_lock s = Some k" "holding q \<longleftrightarrow> cl_lock s = Some j"
    and step: "calls E cs k p s = Some (p', s')"
  moreover from step have "call_step E (cs ! k) k p s = Some (p', s')" by (auto simp: calls_def split: if_splits)
  ultimately show "(holding q \<longleftrightarrow> cl_lock s' = Some j) \<and> True" using step_lock by fastforce
qed (auto simp: node_moves_def)

lemma mutex_reaches:
  assumes "interleaved (calls E cs) (node_moves past) (replicate (length cs) Entering, connected u) (ps, s)"
  shows "mutex.holds cs (ps, s)"
  by (rule mutex.holds_run [OF assms], rule mutex.holds_start) (simp_all add: connected_def)

lemma client_reaches:
  assumes "issues_fresh E past" "us_session u = [] \<or> us_session u \<in> past (us_env u)"
    and "interleaved (calls E cs) (node_moves past) (replicate (length cs) Entering, connected u) (ps, s)"
  shows "client.holds E past cs (ps, s)"
  by (rule client.holds_run [OF assms(3)], rule client.holds_start)
    (use assms(1,2) in \<open>auto simp: connected_def client_ok_def call_ok_def\<close>)

lemma free_steps: "cl_lock s = None \<Longrightarrow> (\<nexists>r. p = Returned r) \<Longrightarrow> \<exists>y. call_step E c k p s = Some y"
  by (cases p) (auto split: prod.splits sum.splits)

lemma holding_steps: "holding p \<Longrightarrow> \<exists>y. call_step E c k p s = Some y"
  by (cases p) auto

section \<open>A call alone\<close>

lemma call_next:
  "call_step E c 0 p s = Some y \<Longrightarrow> alone (calls E [c]) y z \<Longrightarrow> alone (calls E [c]) (p, s) z"
  by (rule alone_next) (simp_all add: calls_def)

text \<open>What \<open>Call\<close> makes of the answer to its last request.\<close>

definition decoded :: "rpc_args \<Rightarrow> 'a dec \<Rightarrow> 'a \<Rightarrow> (int \<times> json option) res \<Rightarrow> 'a res" where
  "decoded c d x0 r = (case r of Inl e \<Rightarrow> Inl e | Inr q \<Rightarrow> finish_call (fst c @ ''.'' @ fst (snd c)) d x0 q)"

text \<open>\<open>Call\<close> from its first request on.\<close>

definition retried :: "'s ubus_env \<Rightarrow> rpc_args \<Rightarrow> string \<Rightarrow> ('s ubus_state, int \<times> json option) op" where
  "retried E c ses =
     bindE (rawCall E ses (fst c) (fst (snd c)) (snd (snd c))) (\<lambda>r1.
       if fst r1 = ubusPermissionDenie
       then bindE (relogin E ses) (\<lambda>ses'. rawCall E ses' (fst c) (fst (snd c)) (snd (snd c)))
       else retE r1)"

lemma ubus_Call_parts:
  "ubus_Call E (fst c) (fst (snd c)) (snd (snd c)) d x0 u =
     (case bindE (sessionID E) (retried E c) u of (r, u') \<Rightarrow> (decoded c d x0 r, u'))"
  by (simp add: ubus_Call_def retried_def decoded_def bindE_def retE_def split: sum.split prod.split)

lemma requested_eq:
  "requested E c ses s = (case rawCall E ses (fst c) (fst (snd c)) (snd (snd c)) (cl_state s) of (r, u) \<Rightarrow> (r, s\<lparr>cl_state := u\<rparr>))"
  by (simp add: requested_def split: prod.split)

lemma retry_alone:
  assumes "rawCall E ses (fst c) (fst (snd c)) (snd (snd c)) (cl_state s) = (r, u)"
  shows "alone (calls E [c]) (Retrying ses, s) (Returned r, s\<lparr>cl_state := u\<rparr>)"
  by (rule call_next [OF _ rtranclp.rtrancl_refl]) (simp add: requested_eq assms)

lemma renew_alone:
  assumes lock: "cl_lock s = None" and r: "bindE (relogin E ses) (\<lambda>ses'. rawCall E ses' (fst c) (fst (snd c)) (snd (snd c))) (cl_state s) = (r, u)"
  shows "\<exists>s'. alone (calls E [c]) (Waiting ses, s) (Returned r, s') \<and> cl_state s' = u"
proof (cases "us_session (cl_state s) = ses")
  case False
  with lock have "call_step E c 0 (Waiting ses) s = Some (Retrying (us_session (cl_state s)), s)" by simp
  moreover from r False have "rawCall E (us_session (cl_state s)) (fst c) (fst (snd c)) (snd (snd c)) (cl_state s) = (r, u)"
    by (simp add: relogin_def bindE_def)
  note retry_alone [OF this]
  ultimately have "alone (calls E [c]) (Waiting ses, s) (Returned r, s\<lparr>cl_state := u\<rparr>)" by (rule call_next)
  then show ?thesis by (intro exI [of _ "s\<lparr>cl_state := u\<rparr>"]) simp
next
  case True
  let ?s = "s\<lparr>cl_state := (cl_state s)\<lparr>us_session := []\<rparr>, cl_lock := Some 0, cl_renewed := ses # cl_renewed s\<rparr>"
  from True lock have wait: "call_step E c 0 (Waiting ses) s = Some (Renewing, ?s)" by simp
  obtain q v where l: "ubus_login E ((cl_state s)\<lparr>us_session := []\<rparr>) = (q, v)" by force
  let ?t = "?s\<lparr>cl_state := v, cl_lock := None\<rparr>"
  show ?thesis
  proof (cases q)
    case (Inl e)
    with r True l have "r = Inl e" "u = v" by (simp_all add: relogin_def bindE_def)
    moreover have "alone (calls E [c]) (Renewing, ?s) (Returned (Inl e), ?t)"
      by (rule call_next [OF _ rtranclp.rtrancl_refl]) (simp add: logged_in_def l Inl)
    ultimately show ?thesis using call_next [OF wait] by (intro exI [of _ ?t]) simp
  next
    case (Inr x)
    with r True l have "rawCall E (us_session v) (fst c) (fst (snd c)) (snd (snd c)) (cl_state ?t) = (r, u)"
      by (simp add: relogin_def bindE_def)
    note retry_alone [OF this]
    moreover have "call_step E c 0 Renewing ?s = Some (Retrying (us_session v), ?t)" by (simp add: logged_in_def l Inr)
    ultimately show ?thesis using call_next [OF wait call_next] by (intro exI [of _ "?t\<lparr>cl_state := u\<rparr>"]) simp
  qed
qed

lemma request_alone:
  assumes lock: "cl_lock s = None" and r: "retried E c ses (cl_state s) = (r, u)"
  shows "\<exists>s'. alone (calls E [c]) (Requesting ses, s) (Returned r, s') \<and> cl_state s' = u"
proof -
  obtain q v where raw: "rawCall E ses (fst c) (fst (snd c)) (snd (snd c)) (cl_state s) = (q, v)" by force
  let ?s = "s\<lparr>cl_state := v\<rparr>"
  show ?thesis
  proof (cases "\<exists>a. q = Inr a \<and> fst a = ubusPermissionDenie")
    case True
    then have "call_step E c 0 (Requesting ses) s = Some (Waiting ses, ?s)" by (auto simp: requested_eq raw)
    moreover from True r raw have "bindE (relogin E ses) (\<lambda>ses'. rawCall E ses' (fst c) (fst (snd c)) (snd (snd c))) (cl_state ?s) = (r, u)"
      by (auto simp: retried_def bindE_def)
    from renew_alone [OF _ this] lock obtain s' where "alone (calls E [c]) (Waiting ses, ?s) (Returned r, s')" "cl_state s' = u"
      by auto
    ultimately show ?thesis using call_next by blast
  next
    case False
    then have "call_step E c 0 (Requesting ses) s = Some (Returned q, ?s)"
      by (cases q) (auto simp: requested_eq raw)
    then have "alone (calls E [c]) (Requesting ses, s) (Returned q, ?s)" by (rule call_next) simp
    moreover have "r = q \<and> u = v" using False r raw by (cases q) (auto simp: retried_def bindE_def)
    ultimately show ?thesis by auto
  qed
qed

lemma whole_call_alone:
  assumes lock: "cl_lock s = None" and r: "bindE (sessionID E) (retried E c) (cl_state s) = (r, u)"
  shows "\<exists>s'. alone (calls E [c]) (Entering, s) (Returned r, s') \<and> cl_state s' = u"
proof (cases "us_session (cl_state s) = []")
  case False
  with lock have "call_step E c 0 Entering s = Some (Requesting (us_session (cl_state s)), s)" by simp
  moreover from r False have "retried E c (us_session (cl_state s)) (cl_state s) = (r, u)" by (simp add: sessionID_def bindE_def)
  ultimately show ?thesis using request_alone [OF lock] call_next by blast
next
  case True
  let ?s = "s\<lparr>cl_lock := Some 0\<rparr>"
  from True lock have enter: "call_step E c 0 Entering s = Some (LoggingIn, ?s)" by simp
  obtain q v where l: "ubus_login E (cl_state s) = (q, v)" by force
  let ?t = "?s\<lparr>cl_state := v, cl_lock := None\<rparr>"
  show ?thesis
  proof (cases q)
    case (Inl e)
    with r True l have "r = Inl e" "u = v" by (simp_all add: sessionID_def bindE_def)
    moreover have "alone (calls E [c]) (LoggingIn, ?s) (Returned (Inl e), ?t)"
      by (rule call_next [OF _ rtranclp.rtrancl_refl]) (simp add: logged_in_def l Inl)
    ultimately show ?thesis using call_next [OF enter] by (intro exI [of _ ?t]) simp
  next
    case (Inr x)
    with r True l have "retried E c (us_session v) (cl_state ?t) = (r, u)" by (simp add: sessionID_def bindE_def)
    from request_alone [OF _ this] obtain s' where "alone (calls E [c]) (Requesting (us_session v), ?t) (Returned r, s')" "cl_state s' = u"
      by auto
    moreover have "call_step E c 0 LoggingIn ?s = Some (Requesting (us_session v), ?t)" by (simp add: logged_in_def l Inr)
    ultimately show ?thesis using call_next [OF enter call_next] by blast
  qed
qed

section \<open>A node that takes one session\<close>

text \<open>
  A node with a counter: it refuses every request, whatever the session, and answers the
  first \<open>good\<close> logins with a new session.
\<close>

definition session_reply :: "nat \<Rightarrow> json" where
  "session_reply k = JObj [(''result'', JArr [JNum 0, JObj [(''ubus_rpc_session'', JStr (CHR ''s'' # show_nat k))]])]"

definition refusal :: json where
  "refusal = JObj [(''result'', JArr [JNum 6])]"

fun is_login :: "json \<Rightarrow> bool" where
  "is_login (JObj [a, b, c, (n, JArr [s, JStr object, JStr meth, args])]) = (object = ''session'' \<and> meth = ''login'')"
| "is_login _ = False"

definition strict_env :: "nat \<Rightarrow> nat ubus_env" where
  "strict_env good = \<lparr>
     ub_post = (\<lambda>b k. if is_login b \<and> k < good then (HttpResp 200 (Some (session_reply k)), Suc k)
                      else (HttpResp 200 (Some refusal), k)),
     ub_order = (\<lambda>_ x. x), ub_now = (\<lambda>k. (0, k)), ub_wait = (\<lambda>_ k. (None, k)), ub_ticks = (\<lambda>_. 0),
     ub_opts = \<lparr>uo_Username = ''u'', uo_Password = ''p'', uo_Radio = [], uo_Network = []\<rparr>\<rparr>"

definition issued :: "nat \<Rightarrow> string set" where
  "issued k = (\<lambda>i. CHR ''s'' # show_nat i) ` {..<k}"

definition new_client :: "nat ubus_state" where
  "new_client = \<lparr>us_id = 0, us_session = [], us_env = 0\<rparr>"

definition a_call :: rpc_args where "a_call = (''uci'', ''get'', no_args)"

text \<open>Two calls: both are refused with the same session before either logs in again.\<close>

definition two_refused :: "nat \<Rightarrow> call list \<times> nat client" where
  "two_refused good = schedule (calls (strict_env good) [a_call, a_call]) [0, 0, 0, 1, 1, 0, 0, 1]
     (replicate 2 Entering, connected new_client)"

lemma two_refused_reached:
  "interleaved (calls (strict_env good) [a_call, a_call]) (node_moves past)
     (replicate (length [a_call, a_call]) Entering, connected new_client) (fst (two_refused good), snd (two_refused good))"
  unfolding prod.collapse two_refused_def by (simp add: numeral_2_eq_2 schedule_interleaved del: replicate_Suc schedule_simps)

lemma strict_login:
  assumes "ubus_login (strict_env good) u = (Inr (), u')"
  shows "us_env u < good \<and> us_env u' = Suc (us_env u) \<and> us_session u' = CHR ''s'' # show_nat (us_env u)"
proof -
  let ?j = "rpcRequest (wrap64 (us_id u + 1)) anonSession ''session'' ''login''
     (JObj [(''username'', JStr ''u''), (''password'', JStr ''p'')])"
  have j: "is_login ?j" by (simp add: rpcRequest_def)
  have good: "rpc_reply (HttpResp 200 (Some (session_reply k))) = Inr (0, Some (JObj [(''ubus_rpc_session'', JStr (CHR ''s'' # show_nat k))]))" for k
    by code_simp
  have bad: "rpc_reply (HttpResp 200 (Some refusal)) = Inr (6, None)" by code_simp
  have dec: "Unmarshal dec_session (Some (JObj [(''ubus_rpc_session'', JStr x)])) [] = (x, True)" for x
    by code_simp
  show ?thesis
    using assms j by (auto simp: ubus_login_def strict_env_def rawCall_def on_us_def Let_def bindE_def mapErr_def
        good bad dec ubus_codes split: if_splits prod.splits sum.splits bool.splits)
qed

lemma strict_issues_fresh: "issues_fresh (strict_env good) issued"
proof -
  have "issued e \<subseteq> issued e'" if "ub_post (strict_env good) b e = (r, e')" for b e r e'
    using that by (auto simp: strict_env_def issued_def split: if_splits)
  moreover have "us_session u' \<notin> issued (us_env u) \<and> us_session u' \<in> issued (us_env u')"
    if "ubus_login (strict_env good) u = (Inr (), u')" for u u'
    using strict_login [OF that] show_nat_inj by (auto simp: issued_def)
  ultimately show ?thesis by (auto simp: issues_fresh_def)
qed

section \<open>Properties\<close>

text \<open>C7: However concurrent calls of one ubus client interleave: if the node never issues a session twice, every session that expires is renewed by at most one login, no matter how many calls were refused with it, and the session in use is never one that was renewed before.\<close>

theorem session_renewed_once:
  assumes "issues_fresh E past" "us_session u = [] \<or> us_session u \<in> past (us_env u)"
    and "interleaved (calls E cs) (node_moves past) (replicate (length cs) Entering, connected u) (ps, s)"
  shows "distinct (cl_renewed s) \<and> us_session (cl_state s) \<notin> set (cl_renewed s)"
  using client.holdsD(1) [OF client_reaches [OF assms]] by (simp add: client_ok_def)

lemma session_renewed_once_witness:
  "cl_renewed (snd (two_refused 2)) = [''s0''] \<and> distinct (cl_renewed (snd (two_refused 2))) \<and>
   fst (two_refused 2) = [Retrying ''s1'', Retrying ''s1'']"
proof -
  have "distinct (cl_renewed (snd (two_refused 2)))"
    using session_renewed_once [OF strict_issues_fresh _ two_refused_reached, of 2] by (simp add: new_client_def)
  moreover have "cl_renewed (snd (two_refused 2)) = [''s0'']" "fst (two_refused 2) = [Retrying ''s1'', Retrying ''s1'']"
    by code_simp+
  ultimately show ?thesis by blast
qed

text \<open>C8: Concurrent calls of one ubus client exclude each other from logging in, and always return: at most one call holds the mutex, as long as any call has not returned some call can make its next step, and no run of calls goes on forever, whatever the node answers.\<close>

theorem calls_exclude_and_return:
  assumes "interleaved (calls E cs) (node_moves past) (replicate (length cs) Entering, connected u) (ps, s)"
  shows "(\<forall>i < length ps. \<forall>j < length ps. holding (ps ! i) \<and> holding (ps ! j) \<longrightarrow> i = j) \<and>
    ((\<exists>k < length ps. \<exists>y. calls E cs k (ps ! k) s = Some y) \<or> (\<forall>k < length ps. \<exists>r. ps ! k = Returned r)) \<and>
    wf {(qs', qs). goroutine_step (calls E cs) qs qs'}"
proof (intro conjI)
  note ok = mutex_reaches [OF assms]
  have len: "length ps = length cs" using interleaved_length [OF assms] by simp
  note lock = mutex.holdsD(1) [OF ok] and held = mutex.holdsD(2) [OF ok]
  show "\<forall>i < length ps. \<forall>j < length ps. holding (ps ! i) \<and> holding (ps ! j) \<longrightarrow> i = j" using held by fastforce
  show "(\<exists>k < length ps. \<exists>y. calls E cs k (ps ! k) s = Some y) \<or> (\<forall>k < length ps. \<exists>r. ps ! k = Returned r)"
  proof (cases "cl_lock s")
    case None
    have "\<exists>y. calls E cs k (ps ! k) s = Some y" if "k < length ps" "\<nexists>r. ps ! k = Returned r" for k
      using free_steps [OF None that(2)] that(1) by (simp add: calls_def len)
    then show ?thesis by blast
  next
    case (Some k)
    with lock have k: "k < length ps" by (simp add: len)
    with held [OF k] Some have "holding (ps ! k)" by simp
    then have "\<exists>y. calls E cs k (ps ! k) s = Some y" using holding_steps k by (simp add: calls_def len)
    with k show ?thesis by blast
  qed
qed (rule client_ends.no_endless_run)

lemma calls_exclude_and_return_witness:
  "\<exists>k < length (fst (two_refused 1)). \<exists>y. calls (strict_env 1) [a_call, a_call] k (fst (two_refused 1) ! k) (snd (two_refused 1)) = Some y"
proof -
  have "\<not> (\<forall>k < length (fst (two_refused 1)). \<exists>r. fst (two_refused 1) ! k = Returned r)"
  proof
    assume "\<forall>k < length (fst (two_refused 1)). \<exists>r. fst (two_refused 1) ! k = Returned r"
    moreover have "fst (two_refused 1) ! 1 = Retrying []" "1 < length (fst (two_refused 1))" by code_simp+
    ultimately show False by (metis call.distinct(41))
  qed
  then show ?thesis using calls_exclude_and_return [OF two_refused_reached, of 1] by blast
qed



end
