(* ===== verification/Nmdbus_Types.thy ===== *)
theory Nmdbus_Types
  imports Nmdbus_Spec
begin

text \<open>
  The D-Bus types of connection settings.  NetworkManager documents a signature for every
  setting and refuses an update with a value of another type, so what the backend sends has to
  keep to them, also for the settings it read and passes on.
\<close>

section \<open>Signatures\<close>

fun signature_of :: "variant \<Rightarrow> string" where
  "signature_of (VString _) = ''s''" | "signature_of (VBool _) = ''b''" | "signature_of (VPath _) = ''o''"
| "signature_of (VByte _) = ''y''" | "signature_of (VInt16 _) = ''n''" | "signature_of (VInt64 _) = ''x''"
| "signature_of (VU32 _) = ''u''" | "signature_of (VBytes _) = ''ay''" | "signature_of (VStrings _) = ''as''"
| "signature_of (VPaths _) = ''ao''" | "signature_of (VU32s _) = ''au''" | "signature_of (VByteArrays _) = ''aay''"
| "signature_of (VStruct _) = ''r''" | "signature_of (VDicts _) = ''aa{sv}''" | "signature_of VOther = []"

text \<open>The documented signatures of the settings the backend writes.\<close>

definition nm_type :: "string \<Rightarrow> string \<Rightarrow> string option" where
  "nm_type g k =
     (if g = ''connection'' then map_of [(''id'', ''s''), (''type'', ''s''), (''autoconnect'', ''b'')] k
      else if g = ''802-11-wireless'' then map_of [(''ssid'', ''ay''), (''mode'', ''s''), (''hidden'', ''b'')] k
      else if g = wsec then map_of [(''key-mgmt'', ''s''), (''psk'', ''s'')] k
      else if g = ''ipv4'' then map_of [(''method'', ''s''), (''address-data'', ''aa{sv}''), (''gateway'', ''s''),
        (''dns'', ''au''), (''dns-search'', ''as'')] k
      else if g = ''ipv6'' then map_of [(''method'', ''s''), (''address-data'', ''aa{sv}''), (''gateway'', ''s''),
        (''dns'', ''aay''), (''dns-search'', ''as'')] k
      else None)"

text \<open>The entries of \<open>address-data\<close> have types of their own.\<close>

definition entry_typed :: "dict \<Rightarrow> bool" where
  "entry_typed e = list_all (\<lambda>(k, v). (k = ''address'' \<longrightarrow> signature_of v = ''s'') \<and> (k = ''prefix'' \<longrightarrow> signature_of v = ''u'')) e"

definition has_type :: "variant \<Rightarrow> string \<Rightarrow> bool" where
  "has_type v t \<longleftrightarrow> signature_of v = t \<and> (case v of VDicts es \<Rightarrow> list_all entry_typed es | _ \<Rightarrow> True)"

definition well_typed :: "nmSettings \<Rightarrow> bool" where
  "well_typed x \<longleftrightarrow> (\<forall>g k v t. sGet x g k = Some v \<longrightarrow> nm_type g k = Some t \<longrightarrow> has_type v t)"

lemma well_typedI: "(\<And>g k v t. sGet x g k = Some v \<Longrightarrow> nm_type g k = Some t \<Longrightarrow> has_type v t) \<Longrightarrow> well_typed x"
  unfolding well_typed_def by blast

lemma well_typedD: "well_typed x \<Longrightarrow> sGet x g k = Some v \<Longrightarrow> nm_type g k = Some t \<Longrightarrow> has_type v t"
  unfolding well_typed_def by blast

lemma typed_simps [simp]:
  "has_type (VString s) t \<longleftrightarrow> t = ''s''" "has_type (VBool b) t \<longleftrightarrow> t = ''b''" "has_type (VBytes s) t \<longleftrightarrow> t = ''ay''"
  "has_type (VU32s us) t \<longleftrightarrow> t = ''au''" "has_type (VByteArrays bs) t \<longleftrightarrow> t = ''aay''" "has_type (VStrings ss) t \<longleftrightarrow> t = ''as''"
  "has_type (VDicts es) t \<longleftrightarrow> t = ''aa{sv}'' \<and> list_all entry_typed es"
  by (auto simp: has_type_def)

section \<open>What the backend builds\<close>

lemma nm_type_cases:
  assumes "nm_type g k = Some t"
  shows "g = ''connection'' \<and> (k = ''id'' \<and> t = ''s'' \<or> k = ''type'' \<and> t = ''s'' \<or> k = ''autoconnect'' \<and> t = ''b'') \<or>
    g = ''802-11-wireless'' \<and> (k = ''ssid'' \<and> t = ''ay'' \<or> k = ''mode'' \<and> t = ''s'' \<or> k = ''hidden'' \<and> t = ''b'') \<or>
    g = wsec \<and> (k = ''key-mgmt'' \<and> t = ''s'' \<or> k = ''psk'' \<and> t = ''s'') \<or>
    (g = ''ipv4'' \<or> g = ''ipv6'') \<and> (k = ''method'' \<and> t = ''s'' \<or> k = ''address-data'' \<and> t = ''aa{sv}'' \<or>
       k = ''gateway'' \<and> t = ''s'' \<or> k = ''dns'' \<and> t = (if g = ''ipv6'' then ''aay'' else ''au'') \<or> k = ''dns-search'' \<and> t = ''as'')"
  using assms by (auto simp: nm_type_def split: if_splits)

lemma addr_entries_typed: "list_all entry_typed (concat (map addr_entry cs))"
  by (auto simp: list_all_iff addr_entry_def entry_typed_def split: option.splits)

lemma ipSection_typed:
  assumes "ipSection le g cfg k = Some v" "nm_type g k = Some t" "g = ''ipv4'' \<or> g = ''ipv6''"
  shows "has_type v t"
proof -
  have k: "k = ''method'' \<and> t = ''s'' \<or> k = ''address-data'' \<and> t = ''aa{sv}'' \<or> k = ''gateway'' \<and> t = ''s'' \<or>
      k = ''dns'' \<and> t = (if g = ''ipv6'' then ''aay'' else ''au'') \<or> k = ''dns-search'' \<and> t = ''as''"
    using assms(3)
  proof
    assume g: "g = ''ipv4''"
    have "nm_type ''ipv4'' = map_of [(''method'', ''s''), (''address-data'', ''aa{sv}''), (''gateway'', ''s''), (''dns'', ''au''), (''dns-search'', ''as'')]"
      by (simp add: nm_type_def wsec_def fun_eq_iff)
    with assms(2) g show ?thesis by (simp split: if_splits)
  next
    assume g: "g = ''ipv6''"
    have "nm_type ''ipv6'' = map_of [(''method'', ''s''), (''address-data'', ''aa{sv}''), (''gateway'', ''s''), (''dns'', ''aay''), (''dns-search'', ''as'')]"
      by (simp add: nm_type_def wsec_def fun_eq_iff)
    with assms(2) g show ?thesis by (simp split: if_splits)
  qed
  have plain: "has_type v t" if "method_only m k = Some v" for m
    using that k by (auto simp: method_only_def split: if_splits)
  have dns: "has_type w (if g = ''ipv6'' then ''aay'' else ''au'')" if "dnsVariant le g ds = Some w" for ds w
    using that by (auto simp: dnsVariant_def Let_def split: if_splits)
  show ?thesis
  proof (cases "\<exists>c. cfg = Some c \<and> ip_Method c = IPManual")
    case True
    then obtain c where c: "cfg = Some c" "ip_Method c = IPManual" by blast
    let ?ad = "concat (map addr_entry (ip_Addresses c))"
    have at: "ipSection le g cfg ''method'' = Some (VString ''manual'')"
      "ipSection le g cfg ''address-data'' = (if ?ad \<noteq> [] then Some (VDicts ?ad) else None)"
      "ipSection le g cfg ''gateway'' = (if ip_Gateway c \<noteq> [] then Some (VString (ip_Gateway c)) else None)"
      "ipSection le g cfg ''dns'' = dnsVariant le g (ip_DNS c)"
      "ipSection le g cfg ''dns-search'' = (if ip_DNSSearch c \<noteq> [] then Some (VStrings (ip_DNSSearch c)) else None)"
      by (simp_all add: ipSection_def Let_def c method_only_def)
    from k show ?thesis
    proof (elim disjE conjE)
      assume kt: "k = ''dns''" "t = (if g = ''ipv6'' then ''aay'' else ''au'')"
      from assms(1) have "dnsVariant le g (ip_DNS c) = Some v" unfolding kt(1) at(4) .
      from dns [OF this] show ?thesis unfolding kt(2) .
    qed (use assms(1) at addr_entries_typed in \<open>auto split: if_splits\<close>)
  next
    case False
    then have "\<exists>m. ipSection le g cfg = method_only m"
      by (cases cfg) (auto simp: ipSection_def split: IPMethod.split)
    with assms(1) plain show ?thesis by metis
  qed
qed

lemma buildSettings_typed: "well_typed (buildSettings le spec)"
proof (rule well_typedI)
  fix g k v t
  assume v: "sGet (buildSettings le spec) g k = Some v" and t: "nm_type g k = Some t"
  have ip: "sGet (buildSettings le spec) ''ipv4'' k = ipSection le ''ipv4'' (ps_IPv4 spec) k"
    "sGet (buildSettings le spec) ''ipv6'' k = ipSection le ''ipv6'' (ps_IPv6 spec) k"
    by (simp_all add: buildSettings_def Let_def sGet_def)
  show "has_type v t"
  proof (cases "g = ''ipv4'' \<or> g = ''ipv6''")
    case True
    then show ?thesis
    proof
      assume g: "g = ''ipv4''"
      from v have "ipSection le ''ipv4'' (ps_IPv4 spec) k = Some v" unfolding g ip(1) .
      from ipSection_typed [OF this t [unfolded g]] show ?thesis by simp
    next
      assume g: "g = ''ipv6''"
      from v have "ipSection le ''ipv6'' (ps_IPv6 spec) k = Some v" unfolding g ip(2) .
      from ipSection_typed [OF this t [unfolded g]] show ?thesis by simp
    qed
  next
    case False
    with v nm_type_cases [OF t] show ?thesis
      by (auto simp: buildSettings_def Let_def sGet_def wsec_def split: if_splits)
  qed
qed

text \<open>Changes of a typed dictionary.\<close>

lemma patch_fields_typed:
  assumes "well_typed x"
  shows "well_typed (patch_fields patch x)"
proof (rule well_typedI)
  fix g k v t
  assume v: "sGet (patch_fields patch x) g k = Some v" and t: "nm_type g k = Some t"
  then show "has_type v t"
    using well_typedD [OF assms, of g k v t]
    by (auto simp: sGet_patch_fields nm_type_def wsec_def split: if_splits option.splits)
qed

lemma patch_rest_typed:
  assumes "well_typed x"
  shows "well_typed (patch_rest le patch x)"
proof (rule well_typedI)
  fix g k v t
  assume v: "sGet (patch_rest le patch x) g k = Some v" and t: "nm_type g k = Some t"
  then show "has_type v t"
    using well_typedD [OF assms, of g k v t] ipSection_typed [of le g _ k v t]
    by (auto simp: sGet_patch_rest split: if_splits)
qed

lemma set_wsec_typed:
  assumes "well_typed x" "k = ''psk'' \<or> k = ''key-mgmt''"
  shows "well_typed (set_key wsec k (VString p) x)"
proof (rule well_typedI)
  fix h j v t
  assume v: "sGet (set_key wsec k (VString p) x) h j = Some v" and t: "nm_type h j = Some t"
  show "has_type v t"
  proof (cases "h = wsec \<and> j = k")
    case True
    with v t assms(2) nm_type_cases [OF t] show ?thesis by (auto simp: sGet_set_key wsec_def)
  next
    case False
    with v have "sGet x h j = Some v" by (auto simp: sGet_set_key split: if_splits)
    from well_typedD [OF assms(1) this t] show ?thesis .
  qed
qed

lemma patch_security_typed:
  assumes x: "well_typed x" and p: "patch_security E conn patch x s = (Inr x', s')"
    and secrets: "\<And>sec t. getSecrets E conn wsec s = (Inr sec, t) \<Longrightarrow> well_typed sec"
  shows "well_typed x'"
proof (cases "pp_Security patch")
  case None
  show ?thesis
  proof (cases "x wsec")
    case g: (Some g)
    obtain r t where r: "getSecrets E conn wsec s = (r, t)" by force
    show ?thesis
    proof (cases r)
      case (Inr sec)
      with None g r p have x': "x' = x(wsec \<mapsto> g ++ (case sec wsec of None \<Rightarrow> Map.empty | Some m \<Rightarrow> m))"
        by (simp add: patch_security_def)
      have "well_typed sec" using secrets r Inr by blast
      show ?thesis
      proof (rule well_typedI)
        fix h k v t
        assume "sGet x' h k = Some v" and t: "nm_type h k = Some t"
        then have "sGet x h k = Some v \<or> sGet sec h k = Some v"
          unfolding x' sGet_upd using g by (auto simp: sGet_def map_add_def split: if_splits option.splits)
        then show "has_type v t" using well_typedD [OF x _ t] well_typedD [OF \<open>well_typed sec\<close> _ t] by blast
      qed
    qed (use None g r p x in \<open>simp add: patch_security_def\<close>)
  qed (use None p x in \<open>simp add: patch_security_def\<close>)
next
  case (Some sec)
  have "well_typed (x(wsec := None))"
    using x by (auto intro!: well_typedI dest: well_typedD simp: sGet_drop split: if_splits)
  with Some p set_wsec_typed [OF set_wsec_typed [OF x]] show ?thesis
    by (auto simp: patch_security_def split: SecurityKind.splits)
qed

section \<open>Properties\<close>

text \<open>C14: Every setting the NetworkManager backend sends has the D-Bus type NetworkManager documents for it: the settings of a new profile always, and those of a patched profile whenever the settings and secrets NetworkManager handed out have their documented types, whatever the patch changes.\<close>

theorem nmdbus_sends_well_typed:
  assumes "connByUUID E i s = (Inr conn, s1)" and "getSettings E conn s1 = (Inr x, s2)" "well_typed x"
    and "patch_security E conn patch (patch_fields patch x) s2 = (Inr x', s3)"
    and "\<And>sec t. getSecrets E conn wsec s2 = (Inr sec, t) \<Longrightarrow> well_typed sec"
  shows "(\<exists>z. nmdbus_PatchProfile E i patch s = send_update E conn z s3 \<and> well_typed z) \<and>
    well_typed (buildSettings (nb_le E) spec)"
proof -
  have "well_typed x'" using patch_security_typed [OF patch_fields_typed [OF assms(3)] assms(4)] assms(5) by blast
  then have "well_typed (patch_rest (nb_le E) patch x')" by (rule patch_rest_typed)
  with patch_sends [OF assms(1,2,4)] buildSettings_typed show ?thesis by blast
qed

lemma nmdbus_sends_well_typed_witness:
  "\<exists>z. nmdbus_PatchProfile demo_nm ''u1'' rename_patch ([wsec \<mapsto> [''psk'' \<mapsto> VString ''secret'']], 0)
       = send_update demo_nm ''/c'' z ([wsec \<mapsto> [''psk'' \<mapsto> VString ''secret'']], 0) \<and> well_typed z"
proof -
  let ?x = "[wsec \<mapsto> [''psk'' \<mapsto> VString ''secret'']] :: nmSettings"
  let ?s = "(?x, 0 :: int)"
  have psk: "sString ?x wsec ''psk'' = ''secret''" by (simp add: sString_def sGet_def variantString_def)
  have 1: "connByUUID demo_nm ''u1'' ?s = (Inr ''/c'', ?s)"
    by (simp add: connByUUID_def call_path_def mapErr_def demo_nm_call demo_calls del: fun_upd_apply)
  have 2: "getSettings demo_nm ''/c'' ?s = (Inr (demo_hide ?x), ?s)"
    by (simp add: getSettings_def call_settings_def demo_nm_call demo_calls del: fun_upd_apply)
  have 3: "getSecrets demo_nm ''/c'' wsec ?s = (Inr ?x, ?s)"
    by (simp add: getSecrets_def call_settings_def demo_nm_call demo_calls psk del: fun_upd_apply)
  have hidden: "demo_hide ?x wsec = Some Map.empty" by (simp add: demo_hide_def)
  have none: "pp_Security rename_patch = None" by (simp add: rename_patch_def)
  note 4 = patch_security_keeps [of rename_patch "demo_hide ?x" Map.empty demo_nm "''/c''" ?s ?x ?s, OF none hidden 3]
  have wt: "well_typed ?x" "well_typed (demo_hide ?x)"
    by (auto intro!: well_typedI simp: sGet_def demo_hide_def nm_type_def wsec_def split: if_splits)
  have 5: "well_typed sec" if "getSecrets demo_nm ''/c'' wsec ?s = (Inr sec, t)" for sec t
    using that 3 wt(1) by simp
  from nmdbus_sends_well_typed [OF 1 2 wt(2) 4 5, THEN conjunct1] show ?thesis .
qed

end
