(* ===== verification/Cli.thy ===== *)
theory Cli
  imports Commands_Spec Tui
begin

text \<open>
  The command line as a whole (\<open>cmd/root.go\<close>, the declarations of the commands, \<open>version.go\<close>,
  \<open>tui.go\<close>, \<open>main.go\<close>): the tree of commands with their flags, arguments and handlers, the run of
  a handler, and the exit status.  The library that parses the arguments is a parameter: it
  hands over the path of command names and the values of flags and arguments.
\<close>

section \<open>The tree of commands\<close>

text \<open>What the handlers of the tree run.\<close>

datatype action_kind =
    RunVersion | RunConfig | RunTUI | RunServe
  | RunInterfaceList | RunInterfacePower | RunScan
  | RunProfileList | RunProfileAdd | RunProfileRm
  | RunConnect | RunConnectionList | RunConnectionStatus | RunConnectionWatch | RunConnectionDown

datatype xli_handler = RequireSubcommand | OnRun action_kind

text \<open>Name, aliases, flags, arguments (and whether they are optional), subcommands, handler.\<close>

datatype xli_command =
  Command (xc_Name: string) (xc_Aliases: "string list") (xc_Flags: "string list") (xc_Args: "(string \<times> bool) list")
    (xc_Commands: "xli_command list") (xc_Handler: xli_handler)

definition required :: "string \<Rightarrow> string \<times> bool" where "required a = (a, False)"

definition NewCmdVersion :: xli_command where
  "NewCmdVersion = Command ''version'' [] [] [] [] (OnRun RunVersion)"

definition NewCmdConfig :: xli_command where
  "NewCmdConfig = Command ''config'' [] [] [] [] (OnRun RunConfig)"

definition interface_list_command :: xli_command where
  "interface_list_command = Command ''list'' [''ls''] [] [] [] (OnRun RunInterfaceList)"

definition interface_power_command :: xli_command where
  "interface_power_command = Command ''power'' [] [] [required ''interface'', required ''state''] [] (OnRun RunInterfacePower)"

definition NewCmdInterface :: xli_command where
  "NewCmdInterface = Command ''interface'' [''if''] [] [] [interface_list_command, interface_power_command] RequireSubcommand"

definition NewCmdScan :: xli_command where
  "NewCmdScan = Command ''scan'' [] [] [required ''interface''] [] (OnRun RunScan)"

definition newCmdProfileAdd :: xli_command where
  "newCmdProfileAdd = Command ''add'' []
     [''ssid'', ''psk'', ''name'', ''hidden'', ''no-autoconnect'', ''ip4'', ''ip4-addr'', ''ip4-gw'', ''ip4-dns''] [] []
     (OnRun RunProfileAdd)"

definition profile_list_command :: xli_command where
  "profile_list_command = Command ''list'' [''ls''] [] [] [] (OnRun RunProfileList)"

definition profile_rm_command :: xli_command where
  "profile_rm_command = Command ''rm'' [] [] [required ''uuid''] [] (OnRun RunProfileRm)"

definition NewCmdProfile :: xli_command where
  "NewCmdProfile = Command ''profile'' [''prof''] [] [] [profile_list_command, newCmdProfileAdd, profile_rm_command] RequireSubcommand"

definition NewCmdConnect :: xli_command where
  "NewCmdConnect = Command ''connect'' [] [] [required ''interface'', required ''ssid'', (''psk'', True)] []
     (OnRun RunConnect)"

definition connection_list_command :: xli_command where
  "connection_list_command = Command ''list'' [''ls''] [] [] [] (OnRun RunConnectionList)"

definition connection_status_command :: xli_command where
  "connection_status_command = Command ''status'' [] [] [required ''uuid''] [] (OnRun RunConnectionStatus)"

definition connection_watch_command :: xli_command where
  "connection_watch_command = Command ''watch'' [] [] [required ''uuid''] [] (OnRun RunConnectionWatch)"

definition connection_down_command :: xli_command where
  "connection_down_command = Command ''down'' [] [] [required ''uuid''] [] (OnRun RunConnectionDown)"

definition NewCmdConnection :: xli_command where
  "NewCmdConnection = Command ''connection'' [''conn''] [] []
     [connection_list_command, connection_status_command, connection_watch_command, connection_down_command] RequireSubcommand"

definition NewCmdServe :: xli_command where
  "NewCmdServe = Command ''serve'' [] [''addr'', ''backend'', ''scan-cache'', ''scan-cache-ttl''] [] [] (OnRun RunServe)"

definition NewCmdRoot :: xli_command where
  "NewCmdRoot = Command ''wfm'' [] [''config'', ''server'', ''backend''] []
     [NewCmdVersion, NewCmdConfig, NewCmdInterface, NewCmdScan, NewCmdProfile, NewCmdConnect, NewCmdConnection, NewCmdServe]
     (OnRun RunTUI)"

lemmas command_defs = NewCmdVersion_def NewCmdConfig_def NewCmdInterface_def NewCmdScan_def newCmdProfileAdd_def
  NewCmdProfile_def NewCmdConnect_def NewCmdConnection_def NewCmdServe_def NewCmdRoot_def required_def
  interface_list_command_def interface_power_command_def profile_list_command_def profile_rm_command_def
  connection_list_command_def connection_status_command_def connection_watch_command_def connection_down_command_def

text \<open>A subcommand is called by its name or an alias.\<close>

definition called :: "string \<Rightarrow> xli_command \<Rightarrow> bool" where
  "called n c \<longleftrightarrow> n = xc_Name c \<or> n \<in> set (xc_Aliases c)"

fun follow :: "xli_command \<Rightarrow> string list \<Rightarrow> xli_command option" where
  "follow c [] = Some c"
| "follow c (n # ns) = (case find (called n) (xc_Commands c) of None \<Rightarrow> None | Some d \<Rightarrow> follow d ns)"

section \<open>The run of a handler\<close>

text \<open>A parsed command line: flags of the root, flags and arguments of the command; an absent value is empty.\<close>

record invocation =
  iv_path :: "string list"
  iv_root :: "string \<Rightarrow> string option"
  iv_flag :: "string \<Rightarrow> string"
  iv_switch :: "string \<Rightarrow> bool"
  iv_arg :: "string \<Rightarrow> string"

record ('s, 'l) cli_env =
  ce_os :: cmd_os
  ce_backends :: "'s backends"
  ce_scan :: "'s scan_env"
  ce_transport :: "string \<Rightarrow> cmd_error + 's scan_state wifi_client"
  ce_listen :: "'l listen_os"
  ce_read :: "string \<Rightarrow> read_result"
  ce_unmarshal :: "string \<Rightarrow> ScanCacheMsg option"
  ce_uid :: nat
  ce_now :: int
  ce_duration :: "string \<Rightarrow> string + int"
  ce_encode :: "Config \<Rightarrow> string + string"

datatype 's outcome =
    Finished string "cmd_error option"
  | Serving string "'s Backend" options
  | Interactive "'s scan_state wifi_client"

definition version_text :: "BuildInfo \<Rightarrow> string" where
  "version_text v =
     println (''WFM_VERSION='' @ bi_Version v) @ println (''WFM_GIT_REV='' @ bi_GitRev v) @
     println (''WFM_GIT_DIRTY='' @ show_bool (bi_GitDirty v))"

definition iv_conn :: "('s, 'l) cli_env \<Rightarrow> Config option \<Rightarrow> invocation \<Rightarrow> cmd_error + 's scan_state wifi_client" where
  "iv_conn W c iv =
     connect_client (ce_os W) (ce_backends W) (ce_scan W) (ce_transport W) c
       (dial (ce_os W) (iv_root iv ''server'') (case iv_root iv ''backend'' of None \<Rightarrow> [] | Some b \<Rightarrow> b))"

definition on_client :: "'s scan_state run \<Rightarrow> 's scan_state \<times> 'l \<Rightarrow> 's outcome \<times> 's scan_state \<times> 'l" where
  "on_client r st = (case r (fst st) of ((out, e), s') \<Rightarrow> (Finished out e, s', snd st))"

definition add_flags_of :: "invocation \<Rightarrow> add_flags" where
  "add_flags_of iv = \<lparr>af_ssid = iv_flag iv ''ssid'', af_psk = iv_flag iv ''psk'', af_name = iv_flag iv ''name'',
     af_hidden = iv_switch iv ''hidden'', af_no_autoconnect = iv_switch iv ''no-autoconnect'',
     af_ip4 = iv_flag iv ''ip4'', af_ip4_addr = iv_flag iv ''ip4-addr'', af_ip4_gw = iv_flag iv ''ip4-gw'',
     af_ip4_dns = iv_flag iv ''ip4-dns''\<rparr>"

definition cmd_version :: "'s outcome" where
  "cmd_version = Finished (version_text build_info) None"

text \<open>The configuration as \<open>UseConfigInit\<close> left it, so with the defaults of the telemetry.\<close>

definition cmd_config :: "('s, 'l) cli_env \<Rightarrow> Config option \<Rightarrow> 's outcome" where
  "cmd_config W c =
     (case c of
        None \<Rightarrow> Finished [] (Some (Failed ''panic: no config in the context''))
      | Some c \<Rightarrow> (case ce_encode W c of Inl e \<Rightarrow> Finished [] (Some (Failed e)) | Inr out \<Rightarrow> Finished out None))"

definition runTUI :: "('s, 'l) cli_env \<Rightarrow> Config option \<Rightarrow> invocation \<Rightarrow> 's outcome" where
  "runTUI W c iv = (case iv_conn W c iv of Inl e \<Rightarrow> Finished [] (Some e) | Inr cl \<Rightarrow> Interactive cl)"

definition run_action :: "('s, 'l) cli_env \<Rightarrow> Config option \<Rightarrow> invocation \<Rightarrow> action_kind \<Rightarrow> 's scan_state \<times> 'l \<Rightarrow>
    's outcome \<times> 's scan_state \<times> 'l" where
  "run_action W c iv a st =
     (case a of
        RunVersion \<Rightarrow> (cmd_version, st)
      | RunConfig \<Rightarrow> (cmd_config W c, st)
      | RunTUI \<Rightarrow> (runTUI W c iv, st)
      | RunServe \<Rightarrow>
          (case cmd_serve (ce_os W) (ce_backends W) (ce_listen W) c (ce_read W) (ce_unmarshal W) (ce_uid W) (ce_now W)
                  (iv_flag iv ''addr'') (iv_flag iv ''backend'')
                  (if iv_flag iv ''scan-cache-ttl'' = [] then None else Some (ce_duration W (iv_flag iv ''scan-cache-ttl'')))
                  (iv_flag iv ''scan-cache'') (snd st) of
             (Inl e, l) \<Rightarrow> (Finished [] (Some e), fst st, l)
           | (Inr (lis, B, opts), l) \<Rightarrow> (Serving lis B opts, fst st, l))
      | RunInterfaceList \<Rightarrow> on_client (cmd_interface_list (iv_conn W c iv)) st
      | RunInterfacePower \<Rightarrow>
          on_client (cmd_interface_power (iv_conn W c iv) (iv_arg iv ''interface'') (iv_arg iv ''state'')) st
      | RunScan \<Rightarrow>
          on_client (cmd_scan (iv_conn W c iv) (iv_arg iv ''interface'')) st
      | RunProfileList \<Rightarrow> on_client (cmd_profile_list (ce_os W) (iv_conn W c iv)) st
      | RunProfileAdd \<Rightarrow>
          on_client (cmd_profile_add (ce_os W) (iv_conn W c iv) (add_flags_of iv)) st
      | RunProfileRm \<Rightarrow>
          on_client (cmd_profile_rm (ce_os W) (iv_conn W c iv) (iv_arg iv ''uuid'')) st
      | RunConnect \<Rightarrow>
          on_client (cmd_connect (ce_os W) (iv_conn W c iv) (iv_arg iv ''interface'') (iv_arg iv ''ssid'') (iv_arg iv ''psk'')) st
      | RunConnectionList \<Rightarrow>
          on_client (cmd_connection_list (ce_os W) (iv_conn W c iv)) st
      | RunConnectionStatus \<Rightarrow>
          on_client (cmd_connection_status (ce_os W) (iv_conn W c iv) (iv_arg iv ''uuid'')) st
      | RunConnectionWatch \<Rightarrow>
          on_client (cmd_connection_watch (ce_os W) (iv_conn W c iv) (iv_arg iv ''uuid'')) st
      | RunConnectionDown \<Rightarrow>
          on_client (cmd_connection_down (ce_os W) (iv_conn W c iv) (iv_arg iv ''uuid'')) st)"

text \<open>
  The root handler: the configuration first, but not for \<open>version\<close>; then the handler of the
  command the path leads to.
\<close>

definition wfm_run :: "('s, 'l) cli_env \<Rightarrow> invocation \<Rightarrow> 's scan_state \<times> 'l \<Rightarrow> 's outcome \<times> 's scan_state \<times> 'l" where
  "wfm_run W iv st =
     (case follow NewCmdRoot (iv_path iv) of
        None \<Rightarrow> (Finished [] (Some (Failed ''unknown command'')), st)
      | Some cmd \<Rightarrow>
          (case root_config (ce_os W) (take 1 (iv_path iv) = [''version'']) (iv_root iv ''config'') of
             Inl e \<Rightarrow> (Finished [] (Some e), st)
           | Inr c \<Rightarrow>
               (case xc_Handler cmd of
                  RequireSubcommand \<Rightarrow> (Finished [] (Some (Failed ''subcommand required'')), st)
                | OnRun a \<Rightarrow> run_action W c iv a st)))"

section \<open>main.go\<close>

text \<open>A process that has ended, with its status, output and error output; or one that goes on.\<close>

datatype 's process_state = Ended nat string string | GoesOn "'s outcome"

fun error_text :: "cmd_error \<Rightarrow> string" where
  "error_text (NotExist m) = m"
| "error_text (Failed m) = m"
| "error_text (FailedRpc p e) = (if p = [] then snd e else p @ '': '' @ snd e)"

definition wfm_main :: "('s, 'l) cli_env \<Rightarrow> (string list \<Rightarrow> string + invocation) \<Rightarrow> string list \<Rightarrow> 's scan_state \<times> 'l \<Rightarrow>
    's process_state \<times> 's scan_state \<times> 'l" where
  "wfm_main W parse args st =
     (case parse args of
        Inl e \<Rightarrow> (Ended 1 [] (println (''error: '' @ e)), st)
      | Inr iv \<Rightarrow>
          (case wfm_run W iv st of
             (Finished out None, st') \<Rightarrow> (Ended 0 out [], st')
           | (Finished out (Some e), st') \<Rightarrow> (Ended 1 out (println (''error: '' @ error_text e)), st')
           | (other, st') \<Rightarrow> (GoesOn other, st')))"

section \<open>Lemmas\<close>

fun all_commands :: "xli_command \<Rightarrow> xli_command list" where
  "all_commands (Command n as fs xs cs h) = Command n as fs xs cs h # concat (map all_commands cs)"

lemma self_in_all: "c \<in> set (all_commands c)"
  by (cases c) simp

lemma follow_in: "follow c p = Some d \<Longrightarrow> d \<in> set (all_commands c)"
proof (induction p arbitrary: c)
  case (Cons n p)
  then obtain e where e: "find (called n) (xc_Commands c) = Some e" "follow e p = Some d"
    by (auto split: option.splits)
  from e(1) have "e \<in> set (xc_Commands c)" by (auto simp: find_Some_iff)
  with Cons.IH [OF e(2)] show ?case by (cases c) auto
qed (simp add: self_in_all)

text \<open>The names among which a subcommand is looked up are distinct, so the lookup is unambiguous.\<close>

definition names_distinct :: "xli_command \<Rightarrow> bool" where
  "names_distinct c = distinct (concat (map (\<lambda>d. xc_Name d # xc_Aliases d) (xc_Commands c)))"

lemma cli_names_distinct: "list_all names_distinct (all_commands NewCmdRoot)"
  by code_simp

definition agree :: "xli_command \<Rightarrow> invocation \<Rightarrow> invocation \<Rightarrow> bool" where
  "agree cmd iv iv' \<longleftrightarrow>
     list_all (\<lambda>f. iv_root iv f = iv_root iv' f) (xc_Flags NewCmdRoot) \<and>
     list_all (\<lambda>f. iv_flag iv f = iv_flag iv' f \<and> iv_switch iv f = iv_switch iv' f) (xc_Flags cmd) \<and>
     list_all (\<lambda>x. iv_arg iv (fst x) = iv_arg iv' (fst x)) (xc_Args cmd)"

lemma agree_conn: "agree cmd iv iv' \<Longrightarrow> iv_conn W c iv = iv_conn W c iv'"
  by (simp add: agree_def iv_conn_def NewCmdRoot_def)

text \<open>The flags and arguments a handler reads, checked against the code by \<open>reads_enough\<close>.\<close>

definition reads :: "action_kind \<Rightarrow> string list \<times> string list" where
  "reads a =
     (case a of
        RunServe \<Rightarrow> ([''addr'', ''backend'', ''scan-cache'', ''scan-cache-ttl''], [])
      | RunInterfacePower \<Rightarrow> ([], [''interface'', ''state''])
      | RunScan \<Rightarrow> ([], [''interface''])
      | RunProfileAdd \<Rightarrow> ([''ssid'', ''psk'', ''name'', ''hidden'', ''no-autoconnect'', ''ip4'', ''ip4-addr'', ''ip4-gw'', ''ip4-dns''], [])
      | RunProfileRm \<Rightarrow> ([], [''uuid''])
      | RunConnect \<Rightarrow> ([], [''interface'', ''ssid'', ''psk''])
      | RunConnectionStatus \<Rightarrow> ([], [''uuid''])
      | RunConnectionWatch \<Rightarrow> ([], [''uuid''])
      | RunConnectionDown \<Rightarrow> ([], [''uuid''])
      | _ \<Rightarrow> ([], []))"

lemma reads_enough:
  assumes conn: "iv_conn W c iv = iv_conn W c iv'"
    and flags: "list_all (\<lambda>f. iv_flag iv f = iv_flag iv' f \<and> iv_switch iv f = iv_switch iv' f) (fst (reads a))"
    and args: "list_all (\<lambda>x. iv_arg iv x = iv_arg iv' x) (snd (reads a))"
  shows "run_action W c iv a st = run_action W c iv' a st"
  using flags args
  by (cases a; simp only: reads_def run_action_def runTUI_def action_kind.case conn add_flags_of_def fst_conv snd_conv list.pred_inject)

definition declares_reads :: "xli_command \<Rightarrow> bool" where
  "declares_reads cmd =
     (case xc_Handler cmd of
        RequireSubcommand \<Rightarrow> True
      | OnRun a \<Rightarrow> list_all (\<lambda>f. f \<in> set (xc_Flags cmd)) (fst (reads a)) \<and>
                   list_all (\<lambda>x. x \<in> set (map fst (xc_Args cmd))) (snd (reads a)))"

lemma cli_declares_reads: "list_all declares_reads (all_commands NewCmdRoot)"
  by code_simp

section \<open>Properties\<close>

text \<open>A configuration file that does not decode.\<close>

definition broken_cli :: "(host, unit) cli_env" where
  "broken_cli = \<lparr>ce_os = demo_os\<lparr>co_yaml := (\<lambda>_. YamlError ''line 1'')\<rparr>, ce_backends = demo_backends, ce_scan = quiet_env,
     ce_transport = (\<lambda>_. Inl (Failed ''no server'')),
     ce_listen = \<lparr>lo_mkdir = (\<lambda>_ s. (None, s)), lo_remove = (\<lambda>_ s. (Removed, s)), lo_listen = (\<lambda>_ a s. (Inr a, s))\<rparr>,
     ce_read = (\<lambda>_. NoFile), ce_unmarshal = (\<lambda>_. None), ce_uid = 0, ce_now = 0,
     ce_duration = (\<lambda>_. Inl ''bad''), ce_encode = (\<lambda>_. Inr [])\<rparr>"


text \<open>C33: Every handler of the command line reads only what its command declares: for every path of command names, the run of the handler depends on no flag or argument but the flags of the root, and the flags and arguments declared for that command.\<close>

theorem cli_reads_declared:
  assumes "follow NewCmdRoot p = Some cmd" "xc_Handler cmd = OnRun a" "agree cmd iv iv'"
  shows "run_action W c iv a st = run_action W c iv' a st"
proof -
  have "cmd \<in> set (all_commands NewCmdRoot)" using follow_in [OF assms(1)] .
  then have "declares_reads cmd" using cli_declares_reads unfolding list_all_iff by blast
  with assms(2,3) show ?thesis
    by (intro reads_enough agree_conn [OF assms(3)])
      (auto simp: declares_reads_def agree_def list_all_iff)
qed

lemma cli_reads_declared_witness:
  "run_action broken_cli None \<lparr>iv_path = [''scan''], iv_root = (\<lambda>_. None), iv_flag = (\<lambda>_. ''x''), iv_switch = (\<lambda>_. True),
       iv_arg = (\<lambda>_. ''wlan0'')\<rparr> RunScan (cached_host, ())
   = run_action broken_cli None \<lparr>iv_path = [], iv_root = (\<lambda>_. None), iv_flag = (\<lambda>_. []), iv_switch = (\<lambda>_. False),
       iv_arg = (\<lambda>a. if a = ''interface'' then ''wlan0'' else [])\<rparr> RunScan (cached_host, ())"
proof (rule cli_reads_declared)
  show "follow NewCmdRoot [''scan''] = Some NewCmdScan" by code_simp
qed (simp_all add: NewCmdScan_def agree_def required_def NewCmdRoot_def)


definition serve_line :: invocation where
  "serve_line = \<lparr>iv_path = [''serve''], iv_root = (\<lambda>_. None), iv_flag = (\<lambda>_. []), iv_switch = (\<lambda>_. False), iv_arg = (\<lambda>_. [])\<rparr>"


end
