(* ===== verification/Spec2Isabelle.thy ===== *)
theory Spec2Isabelle
  imports End_To_End Scan_Concurrent Ubus_Concurrent Nmdbus_Types Cli
begin

text \<open>
  \<^bold>\<open>wfm\<close> manages the Wi-Fi of a host or of an OpenWrt node: a gRPC server over one of four
  backends (iwd, NetworkManager through nmcli or through D-Bus, and ubus over HTTP), a
  command line and a terminal UI that are its clients.  This development models the Go code
  under \<open>src/\<close> as functions on explicit states and proves what makes the parts, and their
  composition, correct.

  \<^bold>\<open>How the program is put together.\<close>  A backend implements the interface
  \<open>wnet.Backend\<close>.  \<open>cmd/backend.go\<close> chooses one and wraps it with the exclusion rules of the
  configuration.  \<open>internal/server\<close> serves it as four gRPC services, the scan service with a
  cache kept in a file.  \<open>cmd\<close> dials a server, or starts one in its own process, and runs one
  command; \<open>internal/tui\<close> runs on the same client.

  \<^bold>\<open>How it is modelled.\<close>  An operation that may fail is \<open>'s \<Rightarrow> (error + 'a) \<times> 's\<close>
  (\<open>Wfm_Prelude\<close>), with \<open>bindE\<close>, \<open>mapErr\<close> and the loops over slices in the shape of the Go code.
  The state holds what the program reads and writes: the provisioning files of iwd, the uci
  configuration and the session of a node, the cache, the model of the UI.  What is not under
  \<open>src/\<close> (D-Bus services, \<open>nmcli\<close>, the HTTP transport, clocks, the file system's faults,
  \<open>uuid\<close>, \<open>lipgloss\<close>, YAML) is a record of functions that each definition takes as argument, so
  every theorem holds for every answer the outside may give, unless it names a law.  Structs
  are records, enums and oneofs datatypes, nil pointers options, strings lists of bytes,
  \<open>uint32\<close> words; \<open>int32\<close> conversions and 64-bit products are wrapped where the code can reach
  the bound.  Map iteration follows the order the environment gives.

  \<^bold>\<open>Theories, in the order of their imports.\<close>
  \<^item> \<open>Go_Strings\<close>, \<open>Go_Utf8\<close>, \<open>Go_Net\<close>, \<open>Go_Json\<close>, \<open>Go_Sha1\<close>: what the program uses of Go's
    standard library (strings and bufio, runes and padded verbs, addresses and prefixes,
    decoding of JSON values, SHA-1), with round trips of printing and parsing.
  \<^item> \<open>Wfm_Prelude\<close>: errors, operations, loops, polling loops with their enough-fuel lemma, and
    \<open>returns\<close>, the rules by which an operation never runs out of fuel.
  \<^item> \<open>Interleave\<close>: goroutines that share a state, as an interleaving of their steps with moves of the
    environment; assertions that no other step breaks, and runs that end.
  \<^item> \<open>Wnet\<close> (\<open>wnet/backend.go\<close>, \<open>id.go\<close>, \<open>localdev.go\<close>), \<open>Exclude\<close> (\<open>wnet/exclude.go\<close>): domain types,
    the backend as a record of operations, derived ids; the exclusion rules, their meaning,
    and that the wrapper filters exactly by it and leaves hidden connections alone.
  \<^item> \<open>Proto\<close>, \<open>Scan_Cache\<close> (\<open>server/scan_cache.go\<close>), \<open>Server\<close> (the rest of \<open>internal/server\<close>): messages;
    the cache as a keyed store with a time to live, in memory and in its file, whose
    replacement is atomic; every handler with its guards and status codes.
  \<^item> \<open>Scan_Concurrent\<close>: scan requests that run at the same time, each in the steps between which the
    mutex is free and in the system calls of writing the cache file; what they answer and what
    the file holds.  A request alone does what \<open>Server\<close> does in one step.
  \<^item> \<open>DBus\<close>, \<open>Watch\<close>: bus values; the loop all \<open>Watch\<close> goroutines share and the contract of its
    stream.
  \<^item> \<open>Iwd_Profile\<close>, \<open>Iwd_Backend\<close>, \<open>Iwd_Store\<close> (\<open>wnet/iwd\<close>): provisioning files and their names; all
    operations; the directory as a map of known networks that adding, patching and deleting
    refine, and what reads leave of it.
  \<^item> \<open>Nmcli\<close> (\<open>wnet/nmcli\<close>): the commands run, in their order, the parsers of their output, and all
    operations.
  \<^item> \<open>Nmdbus\<close>, \<open>Nmdbus_Spec\<close>, \<open>Nmdbus_Types\<close> (\<open>wnet/nmdbus\<close>): settings dictionaries in the machine's byte
    order and all operations; added settings read back, and what a patch keeps; every setting
    sent has its documented D-Bus type.
  \<^item> \<open>Ubus\<close>, \<open>Ubus_Frame\<close>, \<open>Ubus_Spec\<close> (\<open>wnet/ubus\<close>): the JSON-RPC client with its session, decoding,
    all operations; which calls change the configuration, as a contract of requests; the
    effect of activation and of a patch on the uci configuration of a node.
  \<^item> \<open>Ubus_Concurrent\<close>: calls of the client that run at the same time, with the mutex around the
    session and the requests outside of it; a session is renewed once, no call is stuck.
  \<^item> \<open>System\<close>: what holds for all backends behind exclusion and the services.
  \<^item> \<open>Client\<close>: the wifi client, and the one that the services over a backend give.
  \<^item> \<open>Tui\<close>, \<open>Tui_Spec\<close>, \<open>Tui_View\<close> (\<open>internal/tui\<close>): state, update function and commands of the UI, the
    runtime as a step relation; its invariant by rule induction, scans in flight, scrolling;
    the layout and the text of the view, which draws exactly the window scrolled to.
  \<^item> \<open>Telemetry\<close> (\<open>cmd/config/otel.go\<close>, \<open>cmd/version\<close>): the defaults added to the telemetry configuration and
    the choice of its providers.
  \<^item> \<open>Cmd\<close>, \<open>Commands\<close>, \<open>Commands_Spec\<close> (\<open>cmd\<close>, \<open>cmd/config\<close>): configuration, choice of backend,
    addresses; the commands; that client and server agree on addresses, that every backend
    is served with the exclusions, and what \<open>connect\<close> leaves behind when it fails.
  \<^item> \<open>Cli\<close> (\<open>cmd/root.go\<close>, \<open>cmd/*.go\<close>, \<open>main.go\<close>): the tree of commands, the run of a command line, and
    the exit status of the process.
  \<^item> \<open>End_To_End\<close>: the UI over the in-process server over a configured backend.

  \<^bold>\<open>Interfaces.\<close>  A locale states what a client of a part relies on, and is interpreted on the
  models of the code: backends whose interface lookup goes by name (\<open>Exclude\<close>: \<open>named_backend\<close>,
  on iwd and ubus), one round of a watch loop (\<open>Watch\<close>: \<open>watch_contract\<close>, on all four), the cache
  as a store that ages (\<open>Scan_Cache\<close>: \<open>aging_store\<close>), the requests that leave a part of the
  node's state alone (\<open>Ubus_Frame\<close>: \<open>ubus_frame\<close>, on the configuration and on the clock), a
  backend that keeps the contract of \<open>Watch\<close> (\<open>System\<close>: \<open>watching_backend\<close>, on all four), a kind of
  command of the UI of which at most one is under way (\<open>Tui_Spec\<close>: \<open>command_kind\<close>, on scans and
  refresh ticks), and a client that lists only interfaces of a kind (\<open>End_To_End\<close>:
  \<open>listing_client\<close>, on the in-process server with exclusions).  For goroutines, \<open>Interleave\<close> has
  \<open>threads\<close>, assertions that survive the steps of all others, and \<open>progressing\<close>, work that every step
  lessens; both are interpreted on the scan requests, and on the calls of the ubus client, where
  \<open>threads\<close> is interpreted twice, on the session and on the mutex alone.

  \<^bold>\<open>Bounds and fuel.\<close>  Polling loops carry fuel; \<open>OutOfFuel\<close> is no error of the program and
  theorems show that it never occurs when the clock advances by each wait.  The fuel is one
  more than the waits that fit before the deadline: \<open>scan_fuel\<close> 28 (8 s in steps of 300 ms,
  iwd), \<open>power_fuel\<close> 15, \<open>waitscan_fuel\<close> 28 and \<open>activate_fuel\<close> 201 (nmdbus), \<open>assoc_fuel\<close> 52
  (ubus); the four scan attempts of the NetworkManager backends are a bound of the code.
  Loops over signals run over the list of signals that arrive.

  \<^bold>\<open>Not modelled, and why.\<close>
  \<^item> Concurrency beyond the scan requests and the calls of the ubus client: there an operation is
    one atomic step on its state; what runs concurrently in the UI and the \<open>Watch\<close> loops is an
    explicit order of steps.  A status that a watcher cannot deliver after its context is done
    counts as the end of the stream.  Inside a step of \<open>Interleave\<close>, a call of the backend is one.
  \<^item> The text of HTTP and JSON, of YAML and of D-Bus messages: the environment gives the values
    decoded.  Error texts are context for a reader; the sentinels \<open>errors.Is\<close> asks for, and the
    status codes, are exact.
  \<^item> \<open>strings.ToLower\<close>, \<open>ToUpper\<close> and \<open>EqualFold\<close> convert ASCII, which covers the addresses, ids and
    keywords they are used on.
  \<^item> The library that parses the command line, hands out its values and prints usage; the one that
    resolves telemetry providers; starting, serving and stopping the gRPC server, and signals.
    They are parameters of \<open>Cli\<close> and \<open>Telemetry\<close>, or outside: a server that runs is the outcome
    \<open>Serving\<close> with its listener, backend and options.  Log lines are not modelled.
  \<^item> The duration syntax of \<open>--scan-cache-ttl\<close> and the quoting of \<open>%q\<close> are arguments: the first
    goes through floating point, the second needs the tables of printable runes.
  \<^item> \<open>internal/wifi\<close>: generated code.
\<close>

end
